(* ===== verification/Graph.thy ===== *)
theory Graph
  imports Main
begin

text \<open>
  \<^verbatim>\<open>shinken/graph.py\<close>: the graph the configuration uses to find circular dependencies
  (\<^verbatim>\<open>loop_check\<close>) and to group the hosts that must stay together (\<^verbatim>\<open>get_accessibility_packs\<close>).

  The dictionary \<^verbatim>\<open>self.nodes\<close> is an association list in insertion order. The attribute
  \<^verbatim>\<open>dfs_loop_status\<close> that the searches write on the nodes is a function from nodes to tags, created at
  the start of a search and dropped at its end. The two searches are recursive on the graph and not on
  a data structure: they carry a fuel, and \<^verbatim>\<open>loop_check_correct\<close> and
  \<^verbatim>\<open>get_accessibility_packs_correct\<close> show that the number of nodes is always enough, so that both
  return.
\<close>

datatype dfs_status = DFS_UNCHECKED | DFS_TEMPORARY_CHECKED | DFS_OK | DFS_NEAR_LOOP
  | DFS_LOOP_INSIDE | DFS_CHECKED

type_synonym 'n graph = "('n \<times> 'n list) list"

definition add_node :: "'n \<Rightarrow> 'n graph \<Rightarrow> 'n graph" where
  "add_node node g =
     (if node \<in> fst ` set g then map (\<lambda>(n, sons). if n = node then (n, []) else (n, sons)) g
      else g @ [(node, [])])"

fun add_nodes :: "'n list \<Rightarrow> 'n graph \<Rightarrow> 'n graph" where
  "add_nodes [] g = g"
| "add_nodes (node # nodes) g = add_nodes nodes (add_node node g)"

definition add_edge :: "'n \<Rightarrow> 'n \<Rightarrow> 'n graph \<Rightarrow> 'n graph" where
  "add_edge from_node to_node g =
     (let g1 = (if to_node \<in> fst ` set g then g else add_node to_node g)
      in if from_node \<in> fst ` set g1
         then map (\<lambda>(n, sons). if n = from_node then (n, sons @ [to_node]) else (n, sons)) g1
         else g1 @ [(from_node, [to_node])])"

definition sons_of :: "'n graph \<Rightarrow> 'n \<Rightarrow> 'n list" where
  "sons_of g n = (case map_of g n of Some sons \<Rightarrow> sons | None \<Rightarrow> [])"

definition child_update :: "'n \<Rightarrow> 'n \<Rightarrow> ('n \<Rightarrow> dfs_status) \<Rightarrow> ('n \<Rightarrow> dfs_status)" where
  "child_update root child st =
     (let child_status = st child;
          st1 = (if child_status = DFS_TEMPORARY_CHECKED
                 then st(child := DFS_LOOP_INSIDE, root := DFS_LOOP_INSIDE) else st)
      in if child_status \<in> {DFS_NEAR_LOOP, DFS_LOOP_INSIDE}
         then (if st1 root \<noteq> DFS_LOOP_INSIDE then st1(root := DFS_NEAR_LOOP) else st1)
                (child := DFS_LOOP_INSIDE)
         else st1)"

fun dfs_loop_search :: "nat \<Rightarrow> 'n graph \<Rightarrow> 'n \<Rightarrow> ('n \<Rightarrow> dfs_status) \<Rightarrow> ('n \<Rightarrow> dfs_status) option"
and dfs_loop_sons :: "nat \<Rightarrow> 'n graph \<Rightarrow> 'n \<Rightarrow> 'n list \<Rightarrow> ('n \<Rightarrow> dfs_status)
     \<Rightarrow> ('n \<Rightarrow> dfs_status) option"
where
  "dfs_loop_search 0 g root st = None"
| "dfs_loop_search (Suc fuel) g root st =
     (case dfs_loop_sons fuel g root (sons_of g root) (st(root := DFS_TEMPORARY_CHECKED)) of
        None \<Rightarrow> None
      | Some st1 \<Rightarrow>
          Some (if st1 root = DFS_TEMPORARY_CHECKED then st1(root := DFS_OK) else st1))"
| "dfs_loop_sons fuel g root [] st = Some st"
| "dfs_loop_sons fuel g root (child # sons) st =
     (case (if st child = DFS_UNCHECKED then dfs_loop_search fuel g child st else Some st) of
        None \<Rightarrow> None
      | Some st1 \<Rightarrow> dfs_loop_sons fuel g root sons (child_update root child st1))"

fun loop_check_nodes :: "nat \<Rightarrow> 'n graph \<Rightarrow> 'n list \<Rightarrow> ('n \<Rightarrow> dfs_status) \<Rightarrow> 'n list option" where
  "loop_check_nodes fuel g [] st = Some []"
| "loop_check_nodes fuel g (node # nodes) st =
     (case (if st node = DFS_UNCHECKED then dfs_loop_search fuel g node st else Some st) of
        None \<Rightarrow> None
      | Some st1 \<Rightarrow>
          (case loop_check_nodes fuel g nodes st1 of
             None \<Rightarrow> None
           | Some in_loop \<Rightarrow>
               Some (if st1 node = DFS_LOOP_INSIDE then node # in_loop else in_loop)))"

definition loop_check :: "nat \<Rightarrow> 'n graph \<Rightarrow> 'n list option" where
  "loop_check fuel g = loop_check_nodes fuel g (map fst g) (\<lambda>_. DFS_UNCHECKED)"


definition edges :: "'n graph \<Rightarrow> ('n \<times> 'n) set" where
  "edges g = {(x, y). y \<in> set (sons_of g x)}"

definition graph_wf :: "'n graph \<Rightarrow> bool" where
  "graph_wf g \<longleftrightarrow> distinct (map fst g) \<and> (\<forall>(n, sons) \<in> set g. set sons \<subseteq> fst ` set g)"

subsection \<open>Building a graph\<close>

lemma sons_of_Nil [simp]: "sons_of [] x = []"
  by (simp add: sons_of_def)

lemma sons_of_Cons [simp]:
  "sons_of ((n, sons) # g) x = (if x = n then sons else sons_of g x)"
  by (simp add: sons_of_def)

lemma sons_of_not_node: "x \<notin> fst ` set g \<Longrightarrow> sons_of g x = []"
  by (induction g) auto

lemma sons_of_snoc:
  "a \<notin> fst ` set g \<Longrightarrow> sons_of (g @ [(a, sons)]) x = (if x = a then sons else sons_of g x)"
  by (induction g) auto

lemma sons_of_add_node:
  "sons_of (add_node node g) x = (if x = node then [] else sons_of g x)"
proof -
  have "sons_of (map (\<lambda>(n, sons). if n = node then (n, []) else (n, sons)) g) x
      = (if x = node then [] else sons_of g x)"
    by (induction g) auto
  then show ?thesis by (auto simp: add_node_def sons_of_snoc)
qed

lemma sons_of_append_son:
  "sons_of (map (\<lambda>(n, sons). if n = a then (n, sons @ [b]) else (n, sons)) g) x
     = (if x = a \<and> a \<in> fst ` set g then sons_of g x @ [b] else sons_of g x)"
  by (induction g) (auto, force)

lemma nodes_add_node [simp]: "fst ` set (add_node node g) = insert node (fst ` set g)"
  by (force simp: add_node_def split: if_splits)

lemma nodes_add_edge [simp]: "fst ` set (add_edge a b g) = insert a (insert b (fst ` set g))"
proof -
  have "fst ` set (map (\<lambda>(n, sons). if n = a then (n, sons @ [b]) else (n, sons)) h) = fst ` set h"
    for h :: "'a graph" by force
  then show ?thesis by (auto simp: add_edge_def Let_def)
qed

lemma distinct_add_node: "distinct (map fst g) \<Longrightarrow> distinct (map fst (add_node node g))"
proof -
  have "map fst (map (\<lambda>(n, sons). if n = node then (n, []) else (n, sons)) g) = map fst g"
    by auto
  then show "distinct (map fst g) \<Longrightarrow> distinct (map fst (add_node node g))"
    by (simp add: add_node_def del: map_map)
qed

lemma graph_wf_iff:
  "graph_wf g \<longleftrightarrow> distinct (map fst g) \<and> (\<forall>x. set (sons_of g x) \<subseteq> fst ` set g)"
proof -
  have "(\<forall>(n, sons) \<in> set g. set sons \<subseteq> N) \<longleftrightarrow> (\<forall>x. set (sons_of g x) \<subseteq> N)" if "distinct (map fst g)" for N
  proof -
    have "sons_of g n = sons" if "(n, sons) \<in> set g" for n sons
      using map_of_is_SomeI[OF \<open>distinct (map fst g)\<close> that] by (simp add: sons_of_def)
    moreover have "(x, sons_of g x) \<in> set g \<or> sons_of g x = []" for x
      by (auto simp: sons_of_def dest: map_of_SomeD split: option.splits)
    ultimately show ?thesis by (force split: prod.splits)
  qed
  then show ?thesis unfolding graph_wf_def by blast
qed

lemma add_node_wf [intro]: "graph_wf g \<Longrightarrow> graph_wf (add_node node g)"
  by (auto simp: graph_wf_iff distinct_add_node sons_of_add_node)

lemma sons_of_add_edge:
  "set (sons_of (add_edge a b g) x) = (if x = a then insert b (set (sons_of g x)) else set (sons_of g x))"
proof -
  let ?g1 = "if b \<in> fst ` set g then g else add_node b g"
  have g1: "sons_of ?g1 y = sons_of g y" for y
    by (auto simp: sons_of_add_node sons_of_not_node)
  show ?thesis
    by (auto simp: add_edge_def Let_def sons_of_append_son sons_of_snoc g1 sons_of_not_node
split: if_splits)
qed

lemma edges_add_edge: "edges (add_edge a b g) = insert (a, b) (edges g)"
  by (auto simp: edges_def sons_of_add_edge split: if_splits)

lemma add_edge_wf [intro]:
  assumes "graph_wf g"
  shows "graph_wf (add_edge a b g)"
proof -
  have "map fst (map (\<lambda>(n, sons). if n = a then (n, sons @ [b]) else (n, sons)) h) = map fst h"
    for h :: "'a graph" by auto
  moreover have "distinct (map fst (if b \<in> fst ` set g then g else add_node b g))"
    using assms distinct_add_node by (auto simp: graph_wf_def)
  ultimately have "distinct (map fst (add_edge a b g))"
    by (auto simp: add_edge_def Let_def image_iff simp del: map_map)
  with assms show ?thesis by (auto simp: graph_wf_iff sons_of_add_edge split: if_splits)
qed

subsection \<open>Circular dependencies\<close>

lemma sons_of_nodes:
  assumes "graph_wf g" and "y \<in> set (sons_of g x)"
  shows "y \<in> fst ` set g"
proof (cases "map_of g x")
  case None
  with assms(2) show ?thesis by (simp add: sons_of_def)
next
  case (Some sons)
  then have "(x, sons) \<in> set g" by (rule map_of_SomeD)
  with assms Some show ?thesis by (auto simp: graph_wf_def sons_of_def)
qed

definition bad :: "dfs_status \<Rightarrow> bool" where
  "bad s \<longleftrightarrow> s \<in> {DFS_NEAR_LOOP, DFS_LOOP_INSIDE}"

text \<open>What one search keeps true of the tags.\<close>

definition dfs_inv :: "'n graph \<Rightarrow> ('n \<Rightarrow> dfs_status) \<Rightarrow> bool" where
  "dfs_inv g st \<longleftrightarrow>
     (\<forall>x. st x \<noteq> DFS_CHECKED) \<and>
     (\<forall>x. st x \<noteq> DFS_UNCHECKED \<longrightarrow> x \<in> fst ` set g) \<and>
     (\<forall>x. st x = DFS_OK \<longrightarrow> (\<forall>y \<in> set (sons_of g x). st y = DFS_OK) \<and> (x, x) \<notin> (edges g)\<^sup>+) \<and>
     ((\<exists>x. bad (st x)) \<longrightarrow> \<not> acyclic (edges g)) \<and>
     ((\<exists>x. bad (st x)) \<longrightarrow> (\<exists>x. st x = DFS_LOOP_INSIDE))"

definition status_le :: "dfs_status \<Rightarrow> dfs_status \<Rightarrow> bool" where
  "status_le s s' \<longleftrightarrow> s = s' \<or> (s = DFS_UNCHECKED \<and> (s' = DFS_OK \<or> bad s')) \<or>
     (s = DFS_TEMPORARY_CHECKED \<and> bad s') \<or> (s = DFS_NEAR_LOOP \<and> s' = DFS_LOOP_INSIDE)"

definition dfs_mono :: "('n \<Rightarrow> dfs_status) \<Rightarrow> ('n \<Rightarrow> dfs_status) \<Rightarrow> bool" where
  "dfs_mono st st' \<longleftrightarrow> (\<forall>x. status_le (st x) (st' x))"

lemma status_le_refl [simp]: "status_le s s"
  by (simp add: status_le_def)

lemma status_le_trans: "status_le a b \<Longrightarrow> status_le b c \<Longrightarrow> status_le a c"
  by (cases a; cases b; cases c) (simp_all add: status_le_def bad_def)

lemma dfs_mono_refl [simp]: "dfs_mono st st"
  by (simp add: dfs_mono_def)

lemma dfs_mono_trans: "dfs_mono st st' \<Longrightarrow> dfs_mono st' st'' \<Longrightarrow> dfs_mono st st''"
  unfolding dfs_mono_def by (blast intro: status_le_trans)

lemma dfs_monoD:
  assumes "dfs_mono st st'"
  shows "st x = DFS_OK \<Longrightarrow> st' x = DFS_OK"
    and "st x = DFS_LOOP_INSIDE \<Longrightarrow> st' x = DFS_LOOP_INSIDE"
    and "st x \<noteq> DFS_UNCHECKED \<Longrightarrow> st' x \<noteq> DFS_UNCHECKED"
    and "st' x = DFS_TEMPORARY_CHECKED \<Longrightarrow> st x = DFS_TEMPORARY_CHECKED"
  using assms [unfolded dfs_mono_def, THEN spec, of x] by (auto simp: status_le_def bad_def)

definition on_path :: "'n graph \<Rightarrow> 'n \<Rightarrow> ('n \<Rightarrow> dfs_status) \<Rightarrow> bool" where
  "on_path g root st \<longleftrightarrow> (\<forall>x. st x = DFS_TEMPORARY_CHECKED \<longrightarrow> (x, root) \<in> (edges g)\<^sup>*)"

definition open_root :: "dfs_status \<Rightarrow> bool" where
  "open_root s \<longleftrightarrow> s = DFS_TEMPORARY_CHECKED \<or> bad s"

lemma status_le_open: "status_le s s' \<Longrightarrow> open_root s \<Longrightarrow> open_root s'"
  by (auto simp: status_le_def open_root_def bad_def)

lemma child_update_mono:
  assumes "open_root (st root)"
  shows "dfs_mono st (child_update root child st)"
  unfolding dfs_mono_def
proof
  fix x
  show "status_le (st x) (child_update root child st x)"
    using assms by (auto simp: child_update_def Let_def status_le_def open_root_def bad_def)
qed

lemma child_update_open: "open_root (st root) \<Longrightarrow> open_root (child_update root child st root)"
  by (auto simp: child_update_def Let_def open_root_def bad_def)

lemma child_update_bad:
  "bad (child_update root child st x) \<Longrightarrow>
     bad (st x) \<or> st child = DFS_TEMPORARY_CHECKED \<or> bad (st child)"
  by (auto simp: child_update_def Let_def bad_def split: if_splits)

lemma child_update_eq:
  "st child = DFS_OK \<Longrightarrow> child_update root child st = st"
  by (simp add: child_update_def)

lemma child_update_inv:
  assumes inv: "dfs_inv g st" and path: "on_path g root st" and edge: "(root, child) \<in> edges g"
    and root: "open_root (st root)" and wf: "graph_wf g"
  shows "dfs_inv g (child_update root child st)"
proof -
  let ?st = "child_update root child st"
  have mono: "dfs_mono st ?st" using root by (rule child_update_mono)
  have nodes: "root \<in> fst ` set g" "child \<in> fst ` set g"
    using inv root edge wf by (auto simp: dfs_inv_def open_root_def bad_def edges_def dest: sons_of_nodes)
  have ok: "?st x = DFS_OK \<Longrightarrow> st x = DFS_OK" for x
    using root by (auto simp: child_update_def Let_def open_root_def bad_def split: if_splits)
  have temp: "st child = DFS_TEMPORARY_CHECKED \<Longrightarrow> \<not> acyclic (edges g)"
    using path edge by (auto simp: on_path_def acyclic_def intro: rtrancl_into_trancl1)
  have loop: "st child = DFS_TEMPORARY_CHECKED \<or> bad (st child) \<Longrightarrow> ?st child = DFS_LOOP_INSIDE"
    by (auto simp: child_update_def Let_def bad_def)
  show ?thesis
    unfolding dfs_inv_def
  proof (intro conjI allI impI)
    fix x
    show "?st x \<noteq> DFS_CHECKED"
      using inv by (auto simp: dfs_inv_def child_update_def Let_def)
    show "?st x \<noteq> DFS_UNCHECKED \<Longrightarrow> x \<in> fst ` set g"
      using inv nodes by (auto simp: dfs_inv_def child_update_def Let_def split: if_splits)
    show "?st x = DFS_OK \<Longrightarrow> \<forall>y\<in>set (sons_of g x). ?st y = DFS_OK"
      using inv ok[of x] dfs_monoD(1)[OF mono] by (auto simp: dfs_inv_def)
    show "?st x = DFS_OK \<Longrightarrow> (x, x) \<notin> (edges g)\<^sup>+"
      using inv ok[of x] by (simp add: dfs_inv_def)
  next
    assume "\<exists>x. bad (?st x)"
    then show "\<not> acyclic (edges g)"
      using inv temp child_update_bad[of root child st] by (auto simp: dfs_inv_def)
  next
    assume "\<exists>x. bad (?st x)"
    then have "(\<exists>x. bad (st x)) \<or> ?st child = DFS_LOOP_INSIDE"
      using loop child_update_bad[of root child st] by blast
    then show "\<exists>x. ?st x = DFS_LOOP_INSIDE"
      using inv dfs_monoD(2)[OF mono] unfolding dfs_inv_def by blast
  qed
qed

lemma dfs_inv_upd:
  assumes inv: "dfs_inv g st" and "root \<in> fst ` set g" and st: "\<not> bad (st root)" "st root \<noteq> DFS_OK"
    and s: "s = DFS_TEMPORARY_CHECKED \<or>
      s = DFS_OK \<and> (\<forall>y \<in> set (sons_of g root). st y = DFS_OK) \<and> (root, root) \<notin> (edges g)\<^sup>+"
  shows "dfs_inv g (st(root := s))"
proof -
  let ?st = "st(root := s)"
  have bad: "bad (?st x) \<longleftrightarrow> bad (st x)" for x using st(1) s by (auto simp: bad_def)
  have loop: "?st x = DFS_LOOP_INSIDE \<longleftrightarrow> st x = DFS_LOOP_INSIDE" for x
    using st(1) s by (auto simp: bad_def)
  show ?thesis
    unfolding dfs_inv_def bad loop using inv assms(2) st(2) s
    by (intro conjI) (auto simp: dfs_inv_def)
qed

lemma on_path_mono: "dfs_mono st st' \<Longrightarrow> on_path g root st \<Longrightarrow> on_path g root st'"
  unfolding on_path_def by (blast dest: dfs_monoD(4))

lemma on_path_child: "on_path g root st \<Longrightarrow> (root, child) \<in> edges g \<Longrightarrow> on_path g child st"
  by (auto simp: on_path_def intro: rtrancl_into_rtrancl)

lemma closed_trancl:
  assumes "(x, z) \<in> r\<^sup>+" and "\<And>y. (x, y) \<in> r \<Longrightarrow> P y" and "\<And>y y'. P y \<Longrightarrow> (y, y') \<in> r \<Longrightarrow> P y'"
  shows "P z"
  using assms(1) by (induction rule: trancl_induct) (use assms(2,3) in blast)+

lemma dfs_invs:
  "dfs_loop_search fuel g root st = Some st' \<Longrightarrow> graph_wf g \<Longrightarrow> dfs_inv g st \<Longrightarrow>
     st root = DFS_UNCHECKED \<Longrightarrow> root \<in> fst ` set g \<Longrightarrow> on_path g root st \<Longrightarrow>
     dfs_inv g st' \<and> dfs_mono st st' \<and> st' root \<noteq> DFS_UNCHECKED"
  "dfs_loop_sons fuel g root sons st = Some st' \<Longrightarrow> graph_wf g \<Longrightarrow> dfs_inv g st \<Longrightarrow>
     open_root (st root) \<Longrightarrow> set sons \<subseteq> set (sons_of g root) \<Longrightarrow> on_path g root st \<Longrightarrow>
     dfs_inv g st' \<and> dfs_mono st st' \<and> open_root (st' root) \<and>
     (st' root = DFS_TEMPORARY_CHECKED \<longrightarrow> (\<forall>y \<in> set sons. st' y = DFS_OK))"
proof (induction fuel g root st and fuel g root sons st arbitrary: st' and st'
    rule: dfs_loop_search_dfs_loop_sons.induct)
  case (1 g root st)
  then show ?case by simp
next
  case (2 fuel g root st)
  let ?st0 = "st(root := DFS_TEMPORARY_CHECKED)"
  obtain st1 where st1: "dfs_loop_sons fuel g root (sons_of g root) ?st0 = Some st1"
    and st': "st' = (if st1 root = DFS_TEMPORARY_CHECKED then st1(root := DFS_OK) else st1)"
    using "2.prems"(1) by (auto split: option.splits)
  have inv0: "dfs_inv g ?st0"
    by (rule dfs_inv_upd) (use "2.prems"(3-5) in \<open>auto simp: bad_def\<close>)
  have path0: "on_path g root ?st0"
    using "2.prems"(6) by (simp add: on_path_def)
  have root0: "open_root (?st0 root)" by (simp add: open_root_def)
  have IH: "dfs_inv g st1 \<and> dfs_mono ?st0 st1 \<and> open_root (st1 root) \<and>
     (st1 root = DFS_TEMPORARY_CHECKED \<longrightarrow> (\<forall>y \<in> set (sons_of g root). st1 y = DFS_OK))"
    using "2.IH" [OF st1 "2.prems"(2) inv0 root0 subset_refl path0] by blast
  have mono: "dfs_mono st st'"
    unfolding dfs_mono_def
  proof
    fix x
    have "status_le (?st0 x) (st1 x)" using IH by (simp add: dfs_mono_def)
    then show "status_le (st x) (st' x)"
      using IH "2.prems"(4) by (cases "x = root") (auto simp: st' status_le_def open_root_def)
  qed
  have "dfs_inv g (st1(root := DFS_OK))" if t: "st1 root = DFS_TEMPORARY_CHECKED"
  proof -
    have sons: "(root, y) \<in> edges g \<Longrightarrow> st1 y = DFS_OK" for y
      using IH t by (simp add: edges_def)
    have closed: "st1 y = DFS_OK \<Longrightarrow> (y, y') \<in> edges g \<Longrightarrow> st1 y' = DFS_OK" for y y'
      using IH unfolding dfs_inv_def edges_def by blast
    have "(root, z) \<in> (edges g)\<^sup>+ \<Longrightarrow> st1 z = DFS_OK" for z
      by (rule closed_trancl [where P = "\<lambda>z. st1 z = DFS_OK"]) (use sons closed in blast)+
    with t have "(root, root) \<notin> (edges g)\<^sup>+" by fastforce
    then show ?thesis
      by (intro dfs_inv_upd) (use IH t "2.prems"(5) sons in \<open>auto simp: bad_def edges_def\<close>)
  qed
  then show ?case
    using IH mono st' by (auto simp: open_root_def bad_def)
next
  case (3 fuel g root st)
  then show ?case by simp
next
  case (4 fuel g root child sons st)
  have edge: "(root, child) \<in> edges g" using "4.prems"(5) by (simp add: edges_def)
  obtain st1 where st1: "(if st child = DFS_UNCHECKED then dfs_loop_search fuel g child st else Some st) = Some st1"
    and rest: "dfs_loop_sons fuel g root sons (child_update root child st1) = Some st'"
    using "4.prems"(1) by (auto split: option.splits)
  have A: "dfs_inv g st1 \<and> dfs_mono st st1 \<and> st1 child \<noteq> DFS_UNCHECKED"
  proof (cases "st child = DFS_UNCHECKED")
    case True
    with st1 have "dfs_loop_search fuel g child st = Some st1" by simp
    moreover have "child \<in> fst ` set g"
      using "4.prems"(2,5) by (auto dest: sons_of_nodes)
    ultimately show ?thesis
      using "4.IH"(1) True "4.prems"(2,3) on_path_child[OF "4.prems"(6) edge] by blast
  next
    case False
    with st1 "4.prems"(3) show ?thesis by simp
  qed
  have root1: "open_root (st1 root)"
    using A "4.prems"(4) status_le_open[of "st root" "st1 root"] by (simp add: dfs_mono_def)
  let ?st2 = "child_update root child st1"
  have path1: "on_path g root st1" using A "4.prems"(6) on_path_mono[of st st1] by simp
  have inv2: "dfs_inv g ?st2"
    using A by (intro child_update_inv[OF _ path1 edge root1 "4.prems"(2)]) simp
  have mono2: "dfs_mono st1 ?st2" using root1 by (rule child_update_mono)
  have root2: "open_root (?st2 root)" using root1 by (rule child_update_open)
  have path2: "on_path g root ?st2" using mono2 path1 by (rule on_path_mono)
  have IH: "dfs_inv g st' \<and> dfs_mono ?st2 st' \<and> open_root (st' root) \<and>
     (st' root = DFS_TEMPORARY_CHECKED \<longrightarrow> (\<forall>y \<in> set sons. st' y = DFS_OK))"
    using "4.IH"(2) [OF st1 rest "4.prems"(2) inv2 root2 _ path2] "4.prems"(5) by simp
  have "st' child = DFS_OK" if "st' root = DFS_TEMPORARY_CHECKED"
  proof -
    have "?st2 root = DFS_TEMPORARY_CHECKED" using IH that dfs_monoD(4)[of ?st2 st'] by blast
    then have "st1 child = DFS_OK"
      using A by (cases "st1 child") (auto simp: child_update_def bad_def dfs_inv_def split: if_splits)
    then show ?thesis using IH mono2 by (blast dest: dfs_monoD(1))
  qed
  with IH A mono2 show ?case
    by (auto intro: dfs_mono_trans)
qed

definition unseen :: "'n graph \<Rightarrow> ('n \<Rightarrow> dfs_status) \<Rightarrow> 'n set" where
  "unseen g st = {x \<in> fst ` set g. st x = DFS_UNCHECKED}"

lemma unseen_finite [simp]: "finite (unseen g st)"
  by (simp add: unseen_def)

lemma unseen_start:
  assumes "st root = DFS_UNCHECKED" and "root \<in> fst ` set g" and "s \<noteq> DFS_UNCHECKED"
  shows "card (unseen g st) = Suc (card (unseen g (st(root := s))))"
proof -
  have "unseen g (st(root := s)) = unseen g st - {root}"
    using assms(3) by (auto simp: unseen_def)
  moreover have "root \<in> unseen g st" using assms(1,2) by (simp add: unseen_def)
  ultimately show ?thesis using card.remove[of "unseen g st" root] by simp
qed

lemma child_update_unseen:
  "x \<noteq> root \<Longrightarrow> child_update root child st x = DFS_UNCHECKED \<Longrightarrow> st x = DFS_UNCHECKED"
  by (auto simp: child_update_def Let_def split: if_splits)

text \<open>Fuel bounds the depth of the search, and a search never goes deeper than the number of
  unseen nodes.\<close>

lemma dfs_checked_only_grows:
  "dfs_loop_search fuel g root st = Some st' \<Longrightarrow> st x \<noteq> DFS_UNCHECKED \<Longrightarrow> st' x \<noteq> DFS_UNCHECKED"
  "dfs_loop_sons fuel g root sons st = Some st' \<Longrightarrow> st x \<noteq> DFS_UNCHECKED \<Longrightarrow> st' x \<noteq> DFS_UNCHECKED"
proof (induction fuel g root st and fuel g root sons st arbitrary: st' and st'
    rule: dfs_loop_search_dfs_loop_sons.induct)
  case (4 fuel g root child sons st)
  then obtain st1 where
    st1: "(if st child = DFS_UNCHECKED then dfs_loop_search fuel g child st else Some st) = Some st1"
    and rest: "dfs_loop_sons fuel g root sons (child_update root child st1) = Some st'"
    by (auto split: option.splits)
  have "st1 x \<noteq> DFS_UNCHECKED"
    using st1 "4.IH"(1) "4.prems"(2) by (cases "st child = DFS_UNCHECKED") auto
  then have "child_update root child st1 x \<noteq> DFS_UNCHECKED"
    by (auto simp: child_update_def Let_def)
  with "4.IH"(2)[OF st1 rest] show ?case by simp
qed (auto split: option.splits if_splits)

lemma dfs_enough_fuel:
  "graph_wf g \<Longrightarrow> st root = DFS_UNCHECKED \<Longrightarrow> root \<in> fst ` set g \<Longrightarrow>
     card (unseen g st) \<le> fuel \<Longrightarrow> \<exists>st'. dfs_loop_search fuel g root st = Some st'"
  "graph_wf g \<Longrightarrow> set sons \<subseteq> fst ` set g \<Longrightarrow>
     card (unseen g st) \<le> fuel \<Longrightarrow> \<exists>st'. dfs_loop_sons fuel g root sons st = Some st'"
proof (induction fuel g root st and fuel g root sons st
    rule: dfs_loop_search_dfs_loop_sons.induct)
  case (1 g root st)
  then have "root \<in> unseen g st" by (simp add: unseen_def)
  with 1 show ?case by auto
next
  case (2 fuel g root st)
  have "card (unseen g (st(root := DFS_TEMPORARY_CHECKED))) \<le> fuel"
    using unseen_start[of st root g DFS_TEMPORARY_CHECKED] "2.prems" by simp
  moreover have "set (sons_of g root) \<subseteq> fst ` set g"
    using "2.prems"(1) sons_of_nodes by fastforce
  ultimately obtain st1 where
    "dfs_loop_sons fuel g root (sons_of g root) (st(root := DFS_TEMPORARY_CHECKED)) = Some st1"
    using "2.IH" "2.prems"(1) by blast
  then show ?case by simp
next
  case (3 fuel g root st)
  then show ?case by simp
next
  case (4 fuel g root child sons st)
  obtain st1 where
    st1: "(if st child = DFS_UNCHECKED then dfs_loop_search fuel g child st else Some st) = Some st1"
    using "4.IH"(1) "4.prems" by (cases "st child = DFS_UNCHECKED") auto
  have "unseen g (child_update root child st1) \<subseteq> unseen g st"
  proof
    fix x assume x: "x \<in> unseen g (child_update root child st1)"
    then have "st1 x = DFS_UNCHECKED"
      by (auto simp: unseen_def child_update_def Let_def split: if_splits)
    then have "st x = DFS_UNCHECKED"
      using st1 dfs_checked_only_grows(1)[of fuel g child st st1 x] by (cases "st child = DFS_UNCHECKED") auto
    with x show "x \<in> unseen g st" by (simp add: unseen_def)
  qed
  then have "card (unseen g (child_update root child st1)) \<le> fuel"
    using card_mono[of "unseen g st" "unseen g (child_update root child st1)"] "4.prems"(3)
    by simp
  with "4.IH"(2)[OF st1] "4.prems" st1 show ?case by auto
qed

lemma loop_check_nodes_returns:
  "graph_wf g \<Longrightarrow> set nodes \<subseteq> fst ` set g \<Longrightarrow> length g \<le> fuel \<Longrightarrow>
     \<exists>r. loop_check_nodes fuel g nodes st = Some r"
proof (induction nodes arbitrary: st)
  case (Cons node nodes)
  have "card (unseen g st) \<le> card (fst ` set g)"
    by (rule card_mono) (auto simp: unseen_def)
  also have "\<dots> \<le> length g" using card_length[of "map fst g"] by simp
  finally have "card (unseen g st) \<le> fuel" using Cons.prems(3) by simp
  then obtain st1 where
    "(if st node = DFS_UNCHECKED then dfs_loop_search fuel g node st else Some st) = Some st1"
    using dfs_enough_fuel(1)[of g st node fuel] Cons.prems by (cases "st node = DFS_UNCHECKED") auto
  moreover obtain r where "loop_check_nodes fuel g nodes st1 = Some r"
    using Cons.IH Cons.prems by auto
  ultimately show ?case by simp
qed simp

definition settled :: "('n \<Rightarrow> dfs_status) \<Rightarrow> bool" where
  "settled st \<longleftrightarrow> (\<forall>x. st x \<noteq> DFS_TEMPORARY_CHECKED)"

lemma search_node:
  assumes "(if st node = DFS_UNCHECKED then dfs_loop_search fuel g node st else Some st) = Some st1"
    and "graph_wf g" and "dfs_inv g st" and "settled st" and "node \<in> fst ` set g"
  shows "dfs_inv g st1 \<and> dfs_mono st st1 \<and> settled st1 \<and> st1 node \<noteq> DFS_UNCHECKED"
proof (cases "st node = DFS_UNCHECKED")
  case True
  moreover have "on_path g node st" using assms(4) by (simp add: on_path_def settled_def)
  ultimately have "dfs_inv g st1 \<and> dfs_mono st st1 \<and> st1 node \<noteq> DFS_UNCHECKED"
    using dfs_invs(1) assms by metis
  moreover from this have "settled st1"
    using assms(4) dfs_monoD(4)[of st st1] unfolding settled_def by blast
  ultimately show ?thesis by blast
qed (use assms in auto)

lemma loop_check_nodes_mem:
  "loop_check_nodes fuel g nodes st = Some r \<Longrightarrow> graph_wf g \<Longrightarrow> dfs_inv g st \<Longrightarrow> settled st \<Longrightarrow>
     set nodes \<subseteq> fst ` set g \<Longrightarrow> x \<in> set nodes \<Longrightarrow> st x = DFS_LOOP_INSIDE \<Longrightarrow> x \<in> set r"
proof (induction nodes arbitrary: st r)
  case (Cons node nodes)
  then obtain st1 in_loop where
    st1: "(if st node = DFS_UNCHECKED then dfs_loop_search fuel g node st else Some st) = Some st1"
    and rest: "loop_check_nodes fuel g nodes st1 = Some in_loop"
    and r: "r = (if st1 node = DFS_LOOP_INSIDE then node # in_loop else in_loop)"
    by (auto split: option.splits)
  have A: "dfs_inv g st1 \<and> dfs_mono st st1 \<and> settled st1"
    using search_node[OF st1] Cons.prems by auto
  then have "st1 x = DFS_LOOP_INSIDE" using Cons.prems(7) dfs_monoD(2)[of st st1] by simp
  with Cons.IH[OF rest] A Cons.prems r show ?case by auto
qed simp

lemma loop_check_nodes_sound:
  "loop_check_nodes fuel g nodes st = Some r \<Longrightarrow> graph_wf g \<Longrightarrow> dfs_inv g st \<Longrightarrow> settled st \<Longrightarrow>
     set nodes \<subseteq> fst ` set g \<Longrightarrow> r \<noteq> [] \<Longrightarrow> \<not> acyclic (edges g)"
proof (induction nodes arbitrary: st r)
  case (Cons node nodes)
  then obtain st1 in_loop where
    st1: "(if st node = DFS_UNCHECKED then dfs_loop_search fuel g node st else Some st) = Some st1"
    and rest: "loop_check_nodes fuel g nodes st1 = Some in_loop"
    and r: "r = (if st1 node = DFS_LOOP_INSIDE then node # in_loop else in_loop)"
    by (auto split: option.splits)
  have A: "dfs_inv g st1 \<and> dfs_mono st st1 \<and> settled st1"
    using search_node[OF st1] Cons.prems by auto
  show ?case
  proof (cases "st1 node = DFS_LOOP_INSIDE")
    case True
    with A show ?thesis unfolding dfs_inv_def bad_def by blast
  next
    case False
    with Cons.IH[OF rest] A Cons.prems r show ?thesis by auto
  qed
qed simp

lemma loop_check_nodes_complete:
  "loop_check_nodes fuel g nodes st = Some [] \<Longrightarrow> graph_wf g \<Longrightarrow> dfs_inv g st \<Longrightarrow> settled st \<Longrightarrow>
     set nodes \<subseteq> fst ` set g \<Longrightarrow> (\<forall>x. \<not> bad (st x)) \<Longrightarrow>
     (\<forall>x \<in> fst ` set g - set nodes. st x = DFS_OK) \<Longrightarrow>
     \<exists>st'. dfs_inv g st' \<and> (\<forall>x \<in> fst ` set g. st' x = DFS_OK)"
proof (induction nodes arbitrary: st)
  case Nil
  then show ?case by auto
next
  case (Cons node nodes)
  obtain st1 where
    st1: "(if st node = DFS_UNCHECKED then dfs_loop_search fuel g node st else Some st) = Some st1"
    and rest: "loop_check_nodes fuel g nodes st1 = Some []"
    and node: "st1 node \<noteq> DFS_LOOP_INSIDE"
    using Cons.prems(1) by (auto split: option.splits if_splits)
  have A: "dfs_inv g st1 \<and> dfs_mono st st1 \<and> settled st1 \<and> st1 node \<noteq> DFS_UNCHECKED"
    using search_node[OF st1] Cons.prems by auto
  have no_loop: "st1 x \<noteq> DFS_LOOP_INSIDE" for x
  proof
    assume x: "st1 x = DFS_LOOP_INSIDE"
    then have "st1 x \<noteq> DFS_UNCHECKED" by simp
    then have "x \<in> fst ` set g" using A unfolding dfs_inv_def by blast
    moreover have "st x \<noteq> DFS_OK" using x A dfs_monoD(1)[of st st1 x] by auto
    ultimately have "x \<in> set nodes" using Cons.prems(7) x node by auto
    with loop_check_nodes_mem[OF rest] x A Cons.prems show False by auto
  qed
  then have not_bad: "\<forall>x. \<not> bad (st1 x)" using A unfolding dfs_inv_def by blast
  have ok: "st1 x = DFS_OK" if "x \<in> fst ` set g - set nodes" for x
  proof (cases "x = node")
    case True
    with A not_bad show ?thesis
      by (cases "st1 node") (auto simp: settled_def bad_def dfs_inv_def)
  next
    case False
    with that Cons.prems(7) A show ?thesis by (auto dest: dfs_monoD(1))
  qed
  then show ?case using Cons.IH[OF rest] A not_bad Cons.prems by auto
qed

text \<open>C7: with as much fuel as the graph has nodes, \<^verbatim>\<open>loop_check\<close> returns, and it returns the empty list
  exactly when the graph has no circular chain.\<close>

theorem loop_check_correct:
  fixes g :: "'n graph"
  assumes "graph_wf g" and "length g \<le> fuel"
  shows "\<exists>r. loop_check fuel g = Some r \<and> (r = [] \<longleftrightarrow> acyclic (edges g))"
proof -
  let ?st = "\<lambda>_ :: 'n. DFS_UNCHECKED"
  have inv: "dfs_inv g ?st" "settled ?st" by (simp_all add: dfs_inv_def settled_def bad_def)
  obtain r where r: "loop_check_nodes fuel g (map fst g) ?st = Some r"
    using loop_check_nodes_returns[OF assms(1) _ assms(2), of "map fst g"] by auto
  have "acyclic (edges g)" if "r = []"
  proof -
    have "\<exists>st'. dfs_inv g st' \<and> (\<forall>x \<in> fst ` set g. st' x = DFS_OK)"
      by (rule loop_check_nodes_complete[of fuel g "map fst g" ?st])
        (use r that assms inv in \<open>auto simp: bad_def\<close>)
    then obtain st' where st': "dfs_inv g st'" "\<forall>x \<in> fst ` set g. st' x = DFS_OK"
      by blast
    have "(x, x) \<notin> (edges g)\<^sup>+" for x
    proof
      assume x: "(x, x) \<in> (edges g)\<^sup>+"
      then obtain y where "(y, x) \<in> edges g" by (blast elim: tranclE)
      then have "x \<in> fst ` set g" using assms(1) by (auto simp: edges_def dest: sons_of_nodes)
      with st' x show False by (auto simp: dfs_inv_def)
    qed
    then show ?thesis by (simp add: acyclic_def)
  qed
  moreover have "\<not> acyclic (edges g)" if "r \<noteq> []"
    using loop_check_nodes_sound[OF r assms(1)] inv that by auto
  ultimately show ?thesis using r by (auto simp: loop_check_def)
qed


fun dfs_get_all_childs :: "nat \<Rightarrow> 'n graph \<Rightarrow> 'n \<Rightarrow> ('n \<Rightarrow> dfs_status)
     \<Rightarrow> ('n set \<times> ('n \<Rightarrow> dfs_status)) option"
and dfs_childs_sons :: "nat \<Rightarrow> 'n graph \<Rightarrow> 'n list \<Rightarrow> ('n \<Rightarrow> dfs_status)
     \<Rightarrow> ('n set \<times> ('n \<Rightarrow> dfs_status)) option"
where
  "dfs_get_all_childs 0 g root st = None"
| "dfs_get_all_childs (Suc fuel) g root st =
     (case dfs_childs_sons fuel g (sons_of g root) (st(root := DFS_CHECKED)) of
        None \<Rightarrow> None
      | Some (ret, st1) \<Rightarrow> Some ({root} \<union> set (sons_of g root) \<union> ret, st1))"
| "dfs_childs_sons fuel g [] st = Some ({}, st)"
| "dfs_childs_sons fuel g (child # sons) st =
     (case (if st child = DFS_UNCHECKED then dfs_get_all_childs fuel g child st
            else Some ({}, st)) of
        None \<Rightarrow> None
      | Some (ret1, st1) \<Rightarrow>
          (case dfs_childs_sons fuel g sons st1 of
             None \<Rightarrow> None
           | Some (ret2, st2) \<Rightarrow> Some (ret1 \<union> ret2, st2)))"

fun accessibility_packs_nodes :: "nat \<Rightarrow> 'n graph \<Rightarrow> 'n list \<Rightarrow> ('n \<Rightarrow> dfs_status) \<Rightarrow> 'n set list option"
where
  "accessibility_packs_nodes fuel g [] st = Some []"
| "accessibility_packs_nodes fuel g (node # nodes) st =
     (if st node = DFS_UNCHECKED
      then (case dfs_get_all_childs fuel g node st of
              None \<Rightarrow> None
            | Some (pack, st1) \<Rightarrow>
                map_option ((#) pack) (accessibility_packs_nodes fuel g nodes st1))
      else accessibility_packs_nodes fuel g nodes st)"

definition get_accessibility_packs :: "nat \<Rightarrow> 'n graph \<Rightarrow> 'n set list option" where
  "get_accessibility_packs fuel g =
     accessibility_packs_nodes fuel g (map fst g) (\<lambda>_. DFS_UNCHECKED)"

definition seen :: "('n \<Rightarrow> dfs_status) \<Rightarrow> 'n set" where
  "seen st = {x. st x \<noteq> DFS_UNCHECKED}"

lemma childs_sound:
  "dfs_get_all_childs fuel g root st = Some (ret, st') \<Longrightarrow> st root = DFS_UNCHECKED \<Longrightarrow>
     seen st \<subseteq> seen st' \<and> root \<in> seen st' - seen st \<and> seen st' - seen st \<subseteq> ret \<and>
     ret \<subseteq> (edges g)\<^sup>* `` {root} \<and>
     (\<forall>x \<in> seen st' - seen st. set (sons_of g x) \<subseteq> seen st')"
  "dfs_childs_sons fuel g sons st = Some (ret, st') \<Longrightarrow>
     seen st \<subseteq> seen st' \<and> set sons \<subseteq> seen st' \<and> seen st' - seen st \<subseteq> ret \<and>
     ret \<subseteq> (edges g)\<^sup>* `` set sons \<and>
     (\<forall>x \<in> seen st' - seen st. set (sons_of g x) \<subseteq> seen st')"
proof (induction fuel g root st and fuel g sons st arbitrary: ret st' and ret st'
    rule: dfs_get_all_childs_dfs_childs_sons.induct)
  case (2 fuel g root st)
  then obtain r where r: "dfs_childs_sons fuel g (sons_of g root) (st(root := DFS_CHECKED)) = Some (r, st')"
    and ret: "ret = {root} \<union> set (sons_of g root) \<union> r"
    by (auto split: option.splits)
  have seen: "seen (st(root := DFS_CHECKED)) = insert root (seen st)" by (auto simp: seen_def)
  have sons: "set (sons_of g root) \<subseteq> (edges g)\<^sup>* `` {root}" by (auto simp: edges_def)
  have "(edges g)\<^sup>* `` set (sons_of g root) \<subseteq> (edges g)\<^sup>* `` {root}"
    by (auto simp: edges_def intro: converse_rtrancl_into_rtrancl)
  moreover have "root \<notin> seen st" using "2.prems"(2) by (simp add: seen_def)
  ultimately show ?case
    using "2.IH"[OF r] sons unfolding seen ret by blast
next
  case (4 fuel g child sons st)
  then obtain r1 st1 r2 where
    r1: "(if st child = DFS_UNCHECKED then dfs_get_all_childs fuel g child st else Some ({}, st)) = Some (r1, st1)"
    and r2: "dfs_childs_sons fuel g sons st1 = Some (r2, st')" and ret: "ret = r1 \<union> r2"
    by (auto split: option.splits)
  have A: "seen st \<subseteq> seen st1 \<and> child \<in> seen st1 \<and> seen st1 - seen st \<subseteq> r1 \<and>
      r1 \<subseteq> (edges g)\<^sup>* `` {child} \<and> (\<forall>x \<in> seen st1 - seen st. set (sons_of g x) \<subseteq> seen st1)"
  proof (cases "st child = DFS_UNCHECKED")
    case True
    with "4.IH"(1)[of r1 st1] r1 show ?thesis by auto
  next
    case False
    with r1 show ?thesis by (auto simp: seen_def)
  qed
  have B: "seen st1 \<subseteq> seen st' \<and> set sons \<subseteq> seen st' \<and> seen st' - seen st1 \<subseteq> r2 \<and>
     r2 \<subseteq> (edges g)\<^sup>* `` set sons \<and>
     (\<forall>x \<in> seen st' - seen st1. set (sons_of g x) \<subseteq> seen st')"
    using "4.IH"(2)[OF r1 refl r2] .
  have "(edges g)\<^sup>* `` set (child # sons) = (edges g)\<^sup>* `` {child} \<union> (edges g)\<^sup>* `` set sons"
    by auto
  moreover have "set (sons_of g x) \<subseteq> seen st'" if "x \<in> seen st' - seen st" for x
    using that A B by (cases "x \<in> seen st1") blast+
  ultimately show ?case using A B unfolding ret by auto
qed (auto split: option.splits)

lemma packs_enough_fuel:
  "graph_wf g \<Longrightarrow> st root = DFS_UNCHECKED \<Longrightarrow> root \<in> fst ` set g \<Longrightarrow>
     card (unseen g st) \<le> fuel \<Longrightarrow> \<exists>r. dfs_get_all_childs fuel g root st = Some r"
  "graph_wf g \<Longrightarrow> set sons \<subseteq> fst ` set g \<Longrightarrow>
     card (unseen g st) \<le> fuel \<Longrightarrow> \<exists>r. dfs_childs_sons fuel g sons st = Some r"
proof (induction fuel g root st and fuel g sons st
    rule: dfs_get_all_childs_dfs_childs_sons.induct)
  case (1 g root st)
  then have "root \<in> unseen g st" by (simp add: unseen_def)
  with 1 show ?case by auto
next
  case (2 fuel g root st)
  have "card (unseen g (st(root := DFS_CHECKED))) \<le> fuel"
    using unseen_start[of st root g DFS_CHECKED] "2.prems" by simp
  moreover have "set (sons_of g root) \<subseteq> fst ` set g"
    using "2.prems"(1) sons_of_nodes by fastforce
  ultimately show ?case
    using "2.IH" "2.prems"(1) by fastforce
next
  case (3 fuel g st)
  then show ?case by simp
next
  case (4 fuel g child sons st)
  obtain r1 st1 where
    r1: "(if st child = DFS_UNCHECKED then dfs_get_all_childs fuel g child st else Some ({}, st)) = Some (r1, st1)"
    using "4.IH"(1) "4.prems" by (cases "st child = DFS_UNCHECKED") auto
  have "seen st \<subseteq> seen st1"
    using childs_sound(1)[of fuel g child st r1 st1] r1 by (cases "st child = DFS_UNCHECKED") auto
  then have "unseen g st1 \<subseteq> unseen g st" by (auto simp: seen_def unseen_def)
  then have "card (unseen g st1) \<le> fuel"
    using card_mono[of "unseen g st" "unseen g st1"] "4.prems"(3) by simp
  with "4.IH"(2)[OF r1 refl] "4.prems" r1 show ?case by fastforce
qed

lemma pack_is_component:
  assumes "dfs_get_all_childs fuel g root st = Some (ret, st')" and "st root = DFS_UNCHECKED"
    and sym: "sym (edges g)" and closed: "edges g `` seen st \<subseteq> seen st"
  shows "ret = (edges g)\<^sup>* `` {root}" and "seen st' = seen st \<union> (edges g)\<^sup>* `` {root}"
proof -
  note S = childs_sound(1)[OF assms(1,2)]
  have new_closed: "(x, y) \<in> edges g \<Longrightarrow> x \<in> seen st' - seen st \<Longrightarrow> y \<in> seen st' - seen st" for x y
    using S sym closed by (auto simp: edges_def sym_def)
  have "y \<in> seen st' - seen st" if "(root, y) \<in> (edges g)\<^sup>*" for y
    using that
  proof (induction rule: rtrancl_induct)
    case base
    show ?case using S by blast
  next
    case (step y z)
    then show ?case using new_closed by blast
  qed
  then have reach: "(edges g)\<^sup>* `` {root} \<subseteq> seen st' - seen st" by blast
  show "ret = (edges g)\<^sup>* `` {root}" using S reach by blast
  show "seen st' = seen st \<union> (edges g)\<^sup>* `` {root}" using S reach by blast
qed

lemma accessibility_packs_nodes_spec:
  "graph_wf g \<Longrightarrow> sym (edges g) \<Longrightarrow> set nodes \<subseteq> fst ` set g \<Longrightarrow> length g \<le> fuel \<Longrightarrow>
     edges g `` seen st \<subseteq> seen st \<Longrightarrow>
     \<exists>packs. accessibility_packs_nodes fuel g nodes st = Some packs \<and>
       set packs = {(edges g)\<^sup>* `` {n} | n. n \<in> set nodes \<and> n \<notin> seen st} \<and>
       pairwise disjnt (set packs) \<and> distinct packs"
proof (induction nodes arbitrary: st)
  case Nil
  then show ?case by simp
next
  case (Cons node nodes)
  let ?c = "\<lambda>n. (edges g)\<^sup>* `` {n}"
  show ?case
  proof (cases "st node = DFS_UNCHECKED")
    case False
    then have "node \<in> seen st" by (simp add: seen_def)
    with Cons.IH[of st] Cons.prems False show ?thesis by auto
  next
    case True
    have "card (unseen g st) \<le> card (fst ` set g)"
      by (rule card_mono) (auto simp: unseen_def)
    also have "\<dots> \<le> length g" using card_length[of "map fst g"] by simp
    finally obtain pack st1 where ps: "dfs_get_all_childs fuel g node st = Some (pack, st1)"
      using packs_enough_fuel(1)[of g st node fuel] Cons.prems True by auto
    note pack = pack_is_component[OF ps True Cons.prems(2,5)]
    have "edges g `` seen st1 \<subseteq> seen st1"
      using Cons.prems(5) unfolding pack(2) by (auto intro: rtrancl_into_rtrancl)
    then obtain packs where packs: "accessibility_packs_nodes fuel g nodes st1 = Some packs"
      "set packs = {?c n | n. n \<in> set nodes \<and> n \<notin> seen st1}" "pairwise disjnt (set packs)" "distinct packs"
      using Cons.IH[of st1] Cons.prems by auto
    have symc: "(x, y) \<in> (edges g)\<^sup>* \<Longrightarrow> (y, x) \<in> (edges g)\<^sup>*" for x y
      using sym_rtrancl[OF Cons.prems(2)] by (auto simp: sym_def)
    have same: "?c n = ?c node" if "n \<in> ?c node" for n
      using that symc by (auto intro: rtrancl_trans)
    have other: "disjnt (?c node) (?c n)" if "n \<notin> ?c node" for n
      using that symc unfolding disjnt_iff by (auto intro: rtrancl_trans)
    have node: "node \<notin> seen st" using True by (simp add: seen_def)
    have set_eq: "set (pack # packs) = {?c n | n. n \<in> set (node # nodes) \<and> n \<notin> seen st}" (is "?l = ?r")
    proof
      show "?l \<subseteq> ?r" using packs(2) node unfolding pack by auto
      show "?r \<subseteq> ?l"
      proof
        fix X assume "X \<in> ?r"
        then obtain n where n: "X = ?c n" "n \<in> set (node # nodes)" "n \<notin> seen st" by blast
        then show "X \<in> ?l"
          using same[of n] packs(2) unfolding pack by (cases "n \<in> ?c node") auto
      qed
    qed
    have far: "disjnt pack X" if "X \<in> set packs" for X
      using that packs(2) other unfolding pack by auto
    have "pairwise disjnt (set (pack # packs))"
      using packs(3) far by (auto simp: pairwise_insert disjnt_sym)
    moreover have "pack \<notin> set packs"
      using far[of pack] unfolding pack(1) by (auto simp: disjnt_iff)
    ultimately show ?thesis
      using True ps packs set_eq by auto
  qed
qed

text \<open>C11: on a graph whose edges go both ways, \<^verbatim>\<open>get_accessibility_packs\<close> returns the connected
  components, each once, and they do not overlap.\<close>

theorem get_accessibility_packs_correct:
  assumes "graph_wf g" and "sym (edges g)" and "length g \<le> fuel"
  shows "\<exists>packs. get_accessibility_packs fuel g = Some packs \<and>
       set packs = {(edges g)\<^sup>* `` {n} | n. n \<in> fst ` set g} \<and>
       pairwise disjnt (set packs) \<and> distinct packs"
proof -
  have "seen (\<lambda>_ :: 'a. DFS_UNCHECKED) = {}" by (simp add: seen_def)
  with accessibility_packs_nodes_spec[of g "map fst g" fuel "\<lambda>_. DFS_UNCHECKED"] assms
  show ?thesis by (simp add: get_accessibility_packs_def)
qed


subsection \<open>Examples\<close>

definition triangle :: "nat graph" where
  "triangle = add_edge 3 1 (add_edge 2 3 (add_edge 1 2 (add_nodes [1, 2, 3] [])))"

definition two_packs :: "nat graph" where
  "two_packs = add_edge 2 1 (add_edge 1 2 (add_nodes [1, 2, 3] []))"

lemma triangle_simp: "triangle = [(1, [2]), (2, [3]), (3, [1])]"
  by (simp add: triangle_def add_edge_def add_node_def)

lemma two_packs_simp: "two_packs = [(1, [2]), (2, [1]), (3, [])]"
  by (simp add: two_packs_def add_edge_def add_node_def)

theorem loop_check_correct_witness:
  "\<exists>in_loop. loop_check 3 triangle = Some in_loop \<and> (in_loop = [] \<longleftrightarrow> acyclic (edges triangle))"
proof (rule loop_check_correct)
  show "graph_wf triangle" by (simp add: triangle_simp graph_wf_def)
  show "length triangle \<le> 3" by (simp add: triangle_simp)
qed

theorem get_accessibility_packs_correct_witness:
  "\<exists>packs. get_accessibility_packs 3 two_packs = Some packs \<and>
     set packs = {(edges two_packs)\<^sup>* `` {n} | n. n \<in> fst ` set two_packs} \<and>
     pairwise disjnt (set packs) \<and> distinct packs"
proof (rule get_accessibility_packs_correct)
  show "graph_wf two_packs" by (simp add: two_packs_simp graph_wf_def)
  show "sym (edges two_packs)" by (auto simp: two_packs_simp sym_def edges_def split: if_splits)
  show "length two_packs \<le> 3" by (simp add: two_packs_simp)
qed

definition chain_to_loop :: "nat graph" where
  "chain_to_loop = add_edge 3 3 (add_edge 2 3 (add_edge 1 2 (add_nodes [1, 2, 3] [])))"

lemma chain_to_loop_simp: "chain_to_loop = [(1, [2]), (2, [3]), (3, [3])]"
  by (simp add: chain_to_loop_def add_edge_def add_node_def)

text \<open>The list that \<^verbatim>\<open>loop_check\<close> returns may hold a node that is on no loop. In the chain
  1, 2, 3 with a self loop on 3, node 2 is returned although no path leads back to it.\<close>

theorem loop_check_overreports:
  "loop_check 3 chain_to_loop = Some [2, 3] \<and> (2, 2) \<notin> (edges chain_to_loop)\<^sup>+"
proof -
  have "y = 3" if "(x, y) \<in> (edges chain_to_loop)\<^sup>+" "x \<in> {2, 3}" for x y
    using that by (induction rule: trancl_induct) (auto simp: chain_to_loop_simp edges_def split: if_splits)
  then have "(2, 2) \<notin> (edges chain_to_loop)\<^sup>+" by fastforce
  moreover have "loop_check 3 chain_to_loop = Some [2, 3]"
    by (simp add: chain_to_loop_simp loop_check_def child_update_def eval_nat_numeral)
  ultimately show ?thesis by blast
qed

end
