(* ===== verification/Prelude.thy ===== *)
theory Prelude
  imports Complex_Main "HOL-Library.Monad_Syntax"
begin

text \<open>
  Shared vocabulary of the Shinken development: the collections of rewrite rules the component
  theories fill, the types that stand for Python values, and the generic facts on lists that
  several components use.

  Python's unbounded integers are \<^typ>\<open>int\<close>. The clock (\<^verbatim>\<open>time.time()\<close>) is a whole number of
  seconds; it is an explicit argument \<^verbatim>\<open>now\<close> of every operation that reads it, and one operation
  reads one instant. Python floats that take part in arithmetic (intervals, percentages) are the
  exact rationals \<^typ>\<open>rat\<close>: rounding of binary floating point is not modelled.
\<close>

named_theorems item_simps \<open>field-wise effect of the operations on one host or service\<close>
named_theorems frame_simps \<open>fields and objects an operation leaves alone\<close>
named_theorems world_inv \<open>preservation of the invariants of the object store\<close>

type_synonym clock = int

text \<open>\<^verbatim>\<open>int(x)\<close> of a Python float truncates towards zero.\<close>

definition py_int :: "rat \<Rightarrow> int" where
  "py_int x = (if 0 \<le> x then \<lfloor>x\<rfloor> else \<lceil>x\<rceil>)"

lemma py_int_of_int [simp]: "py_int (of_int n) = n"
  by (simp add: py_int_def)

lemma py_int_bounds: "0 \<le> x \<Longrightarrow> of_int (py_int x) \<le> x \<and> x < of_int (py_int x) + 1"
  by (simp add: py_int_def) linarith

lemma py_int_nonneg [simp]: "0 \<le> x \<Longrightarrow> 0 \<le> py_int x"
  by (simp add: py_int_def)

text \<open>\<^verbatim>\<open>min\<close> of a non-empty Python list.\<close>

fun list_min :: "'a::linorder list \<Rightarrow> 'a option" where
  "list_min [] = None"
| "list_min (x # xs) = (case list_min xs of None \<Rightarrow> Some x | Some m \<Rightarrow> Some (min x m))"

lemma list_min_None [simp]: "list_min xs = None \<longleftrightarrow> xs = []"
  by (cases xs) (auto split: option.splits)

lemma list_min_Some:
  "list_min xs = Some m \<Longrightarrow> m \<in> set xs \<and> (\<forall>x \<in> set xs. m \<le> x)"
proof (induction xs arbitrary: m)
  case (Cons a xs)
  show ?case
  proof (cases "list_min xs")
    case None
    with Cons.prems show ?thesis by simp
  next
    case (Some k)
    with Cons.prems have "m = min a k" by simp
    with Cons.IH[OF Some] show ?thesis by (auto simp: min_def)
  qed
qed simp

lemma list_min_ex: "xs \<noteq> [] \<Longrightarrow> \<exists>m. list_min xs = Some m"
  by (cases "list_min xs") auto

text \<open>Membership tests and look-ups in the small constant dictionaries of the source are association
  lists. An exception that a function of the source does not catch is the value \<^term>\<open>None\<close> of an
  enclosing \<^verbatim>\<open>option\<close>, and the \<^verbatim>\<open>do\<close> notation passes it on.\<close>

text \<open>\<^verbatim>\<open>str.split\<close> on one character and \<^verbatim>\<open>str.strip\<close>.\<close>

fun split_on :: "char \<Rightarrow> string \<Rightarrow> string list" where
  "split_on c [] = [[]]"
| "split_on c (x # xs) =
     (if x = c then [] # split_on c xs
      else (case split_on c xs of [] \<Rightarrow> [[x]] | w # ws \<Rightarrow> (x # w) # ws))"

definition is_space :: "char \<Rightarrow> bool" where
  "is_space c \<longleftrightarrow> c \<in> {CHR '' '', CHR 0x09, CHR 0x0A, CHR 0x0B, CHR 0x0C, CHR 0x0D}"

definition strip :: "string \<Rightarrow> string" where
  "strip s = rev (dropWhile is_space (rev (dropWhile is_space s)))"

lemma split_on_not_Nil [simp]: "split_on c s \<noteq> []"
  by (induction s) (auto split: list.splits)

lemma split_on_single: "c \<notin> set s \<Longrightarrow> split_on c s = [s]"
  by (induction s) auto

text \<open>\<^verbatim>\<open>sep.join\<close>.\<close>

fun join_with :: "string \<Rightarrow> string list \<Rightarrow> string" where
  "join_with sep [] = []"
| "join_with sep [w] = w"
| "join_with sep (w # v # ws) = w @ sep @ join_with sep (v # ws)"

lemma join_split: "join_with [c] (split_on c s) = s"
proof (induction s)
  case (Cons x xs)
  then show ?case
    by (cases "split_on c xs" rule: list.exhaust; cases "tl (split_on c xs)") auto
qed simp

lemma split_on_append_sep:
  "c \<notin> set w \<Longrightarrow> split_on c (w @ c # s) = w # split_on c s"
  by (induction w) auto

end
