(* ===== verification/Calendar.thy ===== *)
theory Calendar
  imports Prelude
begin

text \<open>
  The calendar that \<^verbatim>\<open>shinken/util.py\<close> and \<^verbatim>\<open>shinken/daterange.py\<close> take from Python's
  \<^verbatim>\<open>time\<close> and \<^verbatim>\<open>calendar\<close> modules, and the time helpers of \<^verbatim>\<open>util.py\<close> built on it.

  Dates are proleptic Gregorian. \<^verbatim>\<open>time.localtime\<close> and \<^verbatim>\<open>time.mktime\<close> are inverse to each other
  for a time zone of constant offset \<^verbatim>\<open>tz\<close> from UTC, which is a parameter; changes of daylight
  saving time are not modelled. \<^verbatim>\<open>civil_roundtrip\<close> shows that the conversion between day numbers and
  dates is exact for every day.
\<close>

definition is_leap :: "int \<Rightarrow> bool" where
  "is_leap y \<longleftrightarrow> y mod 4 = 0 \<and> (y mod 100 \<noteq> 0 \<or> y mod 400 = 0)"

definition month_lengths :: "int \<Rightarrow> int list" where
  "month_lengths y = [31, if is_leap y then 29 else 28, 31, 30, 31, 30, 31, 31, 30, 31, 30, 31]"

definition days_in_month :: "int \<Rightarrow> int \<Rightarrow> int" where
  "days_in_month y m = month_lengths y ! nat (m - 1)"

definition days_before_year :: "int \<Rightarrow> int" where
  "days_before_year y = 365 * (y - 1) + (y - 1) div 4 - (y - 1) div 100 + (y - 1) div 400"

definition days_before_month :: "int \<Rightarrow> int \<Rightarrow> int" where
  "days_before_month y m = sum_list (take (nat (m - 1)) (month_lengths y))"

definition epoch_day :: int where
  "epoch_day = 719162"

definition days_from_civil :: "int \<Rightarrow> int \<Rightarrow> int \<Rightarrow> int" where
  "days_from_civil y m d = days_before_year y + days_before_month y m + d - 1 - epoch_day"

fun split_month :: "int list \<Rightarrow> int \<Rightarrow> int \<Rightarrow> int \<times> int" where
  "split_month [] m n = (m, n + 1)"
| "split_month (l # ls) m n = (if n < l then (m, n + 1) else split_month ls (m + 1) (n - l))"

definition year_and_day :: "int \<Rightarrow> int \<times> int" where
  "year_and_day n =
     (let a = n div 146097; r = n mod 146097;
          b = min 3 (r div 36524); r2 = r - b * 36524;
          c = r2 div 1461; r3 = r2 mod 1461;
          d = min 3 (r3 div 365)
      in (400 * a + 100 * b + 4 * c + d + 1, r3 - d * 365))"

definition civil_from_days :: "int \<Rightarrow> int \<times> int \<times> int" where
  "civil_from_days n =
     (let (y, doy) = year_and_day (n + epoch_day); (m, d) = split_month (month_lengths y) 1 doy
      in (y, m, d))"

lemma capped_div_mod:
  fixes q r :: int
  assumes "0 < q" and "0 \<le> r" and "r \<le> 4 * q"
  defines "b \<equiv> min 3 (r div q)"
  shows "0 \<le> r - b * q" and "r - b * q \<le> q" and "r - b * q = q \<longrightarrow> b = 3"
proof -
  have r: "r = r div q * q + r mod q" by simp
  have m: "0 \<le> r mod q" "r mod q < q" using assms(1) by simp_all
  have "0 \<le> r - b * q \<and> r - b * q \<le> q \<and> (r - b * q = q \<longrightarrow> b = 3)"
  proof (cases "r div q \<le> 3")
    case True
    then have "r - b * q = r mod q" by (simp add: b_def minus_div_mult_eq_mod)
    with m show ?thesis by auto
  next
    case False
    then have b: "b = 3" and "4 * q \<le> r div q * q" using assms(1) by (simp_all add: b_def)
    then have "4 * q \<le> r" using r m(1) by linarith
    with b assms(1,3) show ?thesis by auto
  qed
  then show "0 \<le> r - b * q" and "r - b * q \<le> q" and "r - b * q = q \<longrightarrow> b = 3" by blast+
qed

lemma year_and_day_correct:
  assumes "year_and_day n = (y, doy)"
  shows "days_before_year y + doy = n" and "0 \<le> doy" and "doy < (if is_leap y then 366 else 365)"
proof -
  define a r where "a = n div 146097" and "r = n mod 146097"
  define b where "b = min 3 (r div 36524)"
  define r2 where "r2 = r - b * 36524"
  define c r3 where "c = r2 div 1461" and "r3 = r2 mod 1461"
  define d where "d = min 3 (r3 div 365)"
  have "year_and_day n = (400 * a + 100 * b + 4 * c + d + 1, r3 - d * 365)"
    by (simp only: year_and_day_def Let_def a_def r_def b_def r2_def c_def r3_def d_def)
  with assms have y: "y - 1 = 400 * a + 100 * b + 4 * c + d" and doy: "doy = r3 - d * 365"
    by simp_all
  have r: "0 \<le> r" "r < 146097" by (simp_all add: r_def)
  have b: "0 \<le> b" "b \<le> 3" using r by (simp_all add: b_def pos_imp_zdiv_nonneg_iff)
  have r2: "0 \<le> r2" "r2 \<le> 36524" "r2 = 36524 \<longrightarrow> b = 3"
    using capped_div_mod[of 36524 r] r by (simp_all add: r2_def b_def)
  have c: "0 \<le> c" "c \<le> 24"
    using r2 zdiv_mono1[of r2 36524 1461] by (simp_all add: c_def pos_imp_zdiv_nonneg_iff)
  have r3: "0 \<le> r3" "r3 < 1461" by (simp_all add: r3_def)
  have d: "0 \<le> d" "d \<le> 3" using r3 by (simp_all add: d_def pos_imp_zdiv_nonneg_iff)
  have doy': "0 \<le> doy" "doy \<le> 365" "doy = 365 \<longrightarrow> d = 3"
    using capped_div_mod[of 365 r3] r3 by (simp_all add: doy d_def)
  show "0 \<le> doy" by fact
  have div4: "(y - 1) div 4 = 100 * a + 25 * b + c"
    by (rule int_div_pos_eq [where r = d]) (use y d in simp_all)
  have div100: "(y - 1) div 100 = 4 * a + b"
    by (rule int_div_pos_eq [where r = "4 * c + d"]) (use y c d in simp_all)
  have div400: "(y - 1) div 400 = a"
    by (rule int_div_pos_eq [where r = "100 * b + 4 * c + d"]) (use y b c d in simp_all)
  have n: "n = 146097 * a + 36524 * b + 1461 * c + 365 * d + doy"
    using mult_div_mod_eq[of 146097 n, folded a_def r_def]
      mult_div_mod_eq[of 1461 r2, folded c_def r3_def] r2_def doy by linarith
  show "days_before_year y + doy = n"
    unfolding days_before_year_def div4 div100 div400 n unfolding y by simp
  have "is_leap y" if "doy = 365"
  proof -
    have "d = 3" using doy' that by simp
    moreover have "c \<noteq> 24 \<or> b = 3"
    proof (rule ccontr)
      assume "\<not> (c \<noteq> 24 \<or> b = 3)"
      then have "r2 < 36524" "c = 24" using r2 by auto
      then have "r3 < 1460" using mult_div_mod_eq[of 1461 r2, folded c_def r3_def] by linarith
      with that doy \<open>d = 3\<close> show False by simp
    qed
    moreover have "y mod 100 = 4 * c + 4" if "c \<noteq> 24"
      by (rule int_mod_pos_eq [where q = "4 * a + b"]) (use y c that \<open>d = 3\<close> in simp_all)
    moreover have "y mod 4 = 0"
      by (rule int_mod_pos_eq [where q = "100 * a + 25 * b + c + 1"]) (use y \<open>d = 3\<close> in simp_all)
    moreover have "y mod 400 = 0" if "c = 24" "b = 3"
      by (rule int_mod_pos_eq [where q = "a + 1"]) (use y that \<open>d = 3\<close> in simp_all)
    ultimately show ?thesis using c unfolding is_leap_def by (cases "c = 24") auto
  qed
  with doy' show "doy < (if is_leap y then 366 else 365)" by (cases "doy = 365") auto
qed

lemma split_month_gen:
  "split_month ls m n = (m', d) \<Longrightarrow> 0 \<le> n \<Longrightarrow> n < sum_list ls \<Longrightarrow>
     \<exists>k < length ls. m' = m + int k \<and> 1 \<le> d \<and> d \<le> ls ! k \<and> sum_list (take k ls) + d - 1 = n"
proof (induction ls arbitrary: m n)
  case (Cons l ls)
  show ?case
  proof (cases "n < l")
    case True
    with Cons.prems show ?thesis by (intro exI[of _ 0]) auto
  next
    case False
    with Cons.prems Cons.IH[of "m + 1" "n - l"] obtain k where
      "k < length ls" "m' = m + 1 + int k" "1 \<le> d" "d \<le> ls ! k" "sum_list (take k ls) + d - 1 = n - l"
      by auto
    then show ?thesis by (intro exI[of _ "Suc k"]) auto
  qed
qed simp

lemma split_month_correct:
  assumes "split_month (month_lengths y) 1 doy = (m, d)" and "0 \<le> doy"
    and "doy < (if is_leap y then 366 else 365)"
  shows "1 \<le> m" and "m \<le> 12" and "1 \<le> d" and "d \<le> days_in_month y m"
    and "days_before_month y m + d - 1 = doy"
proof -
  have "sum_list (month_lengths y) = (if is_leap y then 366 else 365)" and len: "length (month_lengths y) = 12"
    by (simp_all add: month_lengths_def)
  with split_month_gen[OF assms(1,2)] assms(3) obtain k where
    k: "k < 12" "m = 1 + int k" "1 \<le> d" "d \<le> month_lengths y ! k"
      "sum_list (take k (month_lengths y)) + d - 1 = doy"
    by auto
  then show "1 \<le> m" "m \<le> 12" "1 \<le> d" "d \<le> days_in_month y m" "days_before_month y m + d - 1 = doy"
    by (simp_all add: days_in_month_def days_before_month_def)
qed

text \<open>The date of a day number is a real date, and its day number is the one it came from.\<close>

theorem civil_roundtrip:
  "case civil_from_days n of (y, m, d) \<Rightarrow>
     days_from_civil y m d = n \<and> 1 \<le> m \<and> m \<le> 12 \<and> 1 \<le> d \<and> d \<le> days_in_month y m"
proof -
  obtain y doy where yd: "year_and_day (n + epoch_day) = (y, doy)" by fastforce
  obtain m d where md: "split_month (month_lengths y) 1 doy = (m, d)" by fastforce
  note Y = year_and_day_correct[OF yd]
  note M = split_month_correct[OF md Y(2,3)]
  show ?thesis
    using M Y(1) by (simp add: civil_from_days_def yd md days_from_civil_def)
qed


lemma days_from_civil_next:
  "days_from_civil y m (d + k) = days_from_civil y m d + k"
  by (simp add: days_from_civil_def)

subsection \<open>The broken-down local time\<close>

record struct_time =
  tm_year :: int
  tm_mon :: int
  tm_mday :: int
  tm_hour :: int
  tm_min :: int
  tm_sec :: int
  tm_wday :: int

definition localtime :: "int \<Rightarrow> clock \<Rightarrow> struct_time" where
  "localtime tz t =
     (let n = (t + tz) div 86400; s = (t + tz) mod 86400; (y, m, d) = civil_from_days n
      in \<lparr>tm_year = y, tm_mon = m, tm_mday = d, tm_hour = s div 3600, tm_min = s mod 3600 div 60,
          tm_sec = s mod 60, tm_wday = (n + 3) mod 7\<rparr>)"

definition mktime :: "int \<Rightarrow> int \<Rightarrow> int \<Rightarrow> int \<Rightarrow> int \<Rightarrow> int \<Rightarrow> int \<Rightarrow> clock" where
  "mktime tz y m d h mi s = days_from_civil y m d * 86400 + h * 3600 + mi * 60 + s - tz"

definition mktime_tm :: "int \<Rightarrow> struct_time \<Rightarrow> clock" where
  "mktime_tm tz lt =
     mktime tz (tm_year lt) (tm_mon lt) (tm_mday lt) (tm_hour lt) (tm_min lt) (tm_sec lt)"

definition monthrange :: "int \<Rightarrow> int \<Rightarrow> int \<times> int" where
  "monthrange y m = ((days_from_civil y m 1 + 3) mod 7, days_in_month y m)"

fun weeks_of :: "nat \<Rightarrow> int list \<Rightarrow> int list list" where
  "weeks_of 0 cells = []"
| "weeks_of (Suc n) cells = take 7 cells # weeks_of n (drop 7 cells)"

definition monthcalendar :: "int \<Rightarrow> int \<Rightarrow> int list list" where
  "monthcalendar y m =
     (let (w, n) = monthrange y m; k = nat ((w + n + 6) div 7);
          cells = replicate (nat w) 0 @ [1..n] @ replicate (7 * k - nat (w + n)) 0
      in weeks_of k cells)"

subsection \<open>util.py: the time helpers\<close>

definition get_end_of_day :: "int \<Rightarrow> int \<Rightarrow> int \<Rightarrow> int \<Rightarrow> clock" where
  "get_end_of_day tz year month_id day = mktime tz year month_id day 23 59 59"

definition get_sec_from_morning :: "int \<Rightarrow> clock \<Rightarrow> int" where
  "get_sec_from_morning tz t =
     (let t_lt = localtime tz t; h = tm_hour t_lt; m = tm_min t_lt; s = tm_sec t_lt
      in h * 3600 + m * 60 + s)"

definition get_day :: "int \<Rightarrow> clock \<Rightarrow> clock" where
  "get_day tz t = t - get_sec_from_morning tz t"

definition get_wday :: "int \<Rightarrow> clock \<Rightarrow> int" where
  "get_wday tz t = tm_wday (localtime tz t)"

definition get_start_of_day :: "int \<Rightarrow> int \<Rightarrow> int \<Rightarrow> int \<Rightarrow> clock" where
  "get_start_of_day tz year month_id day = mktime tz year month_id day 0 0 0"

lemma hms: "(s div 3600) * 3600 + (s mod 3600 div 60) * 60 + s mod 60 = (s::int)"
proof -
  have "s mod 60 = s mod 3600 mod 60" by (simp add: mod_mod_cancel)
  then show ?thesis using div_mult_mod_eq[of "s mod 3600" 60] div_mult_mod_eq[of s 3600] by simp
qed

lemma sec_from_morning_eq: "get_sec_from_morning tz t = (t + tz) mod 86400"
  by (simp add: get_sec_from_morning_def localtime_def Let_def hms split: prod.splits)

lemma get_day_eq: "get_day tz t = (t + tz) div 86400 * 86400 - tz"
  unfolding get_day_def sec_from_morning_eq using div_mult_mod_eq[of "t + tz" 86400] by linarith

lemma get_wday_eq: "get_wday tz t = ((t + tz) div 86400 + 3) mod 7"
  by (simp add: get_wday_def localtime_def Let_def split: prod.splits)

lemma civil_day: "civil_from_days n = (y, m, d) \<Longrightarrow> days_from_civil y m d = n"
  using civil_roundtrip[of n] by simp

lemma mktime_localtime [simp]: "mktime_tm tz (localtime tz t) = t"
proof -
  define n where "n = (t + tz) div 86400"
  define s where "s = (t + tz) mod 86400"
  obtain y m d where c: "civil_from_days n = (y, m, d)" using prod_cases3 by blast
  have "mktime_tm tz (localtime tz t)
      = n * 86400 + (s div 3600) * 3600 + (s mod 3600 div 60) * 60 + s mod 60 - tz"
    unfolding mktime_tm_def mktime_def localtime_def Let_def n_def[symmetric] s_def[symmetric] c
    by (simp add: civil_day[OF c])
  also have "\<dots> = n * 86400 + s - tz"
    using hms[of s] by linarith
  also have "\<dots> = t"
    using div_mult_mod_eq[of "t + tz" 86400] unfolding n_def s_def by linarith
  finally show ?thesis .
qed

lemma start_of_day_localtime:
  "get_start_of_day tz (tm_year (localtime tz t)) (tm_mon (localtime tz t)) (tm_mday (localtime tz t))
     = get_day tz t"
proof -
  obtain y m d where c: "civil_from_days ((t + tz) div 86400) = (y, m, d)" using prod_cases3 by blast
  show ?thesis
    using civil_day[OF c] by (simp add: get_start_of_day_def mktime_def localtime_def Let_def c get_day_eq)
qed

lemma end_of_day_eq: "get_end_of_day tz y m d = get_start_of_day tz y m d + 86399"
  by (simp add: get_end_of_day_def get_start_of_day_def mktime_def)

lemma get_day_props:
  "get_day tz t \<le> t" "t < get_day tz t + 86400"
  "0 \<le> get_sec_from_morning tz t" "get_sec_from_morning tz t < 86400"
  by (simp_all add: get_day_def sec_from_morning_eq)

lemma get_day_idem:
  assumes "0 \<le> s" and "s < 86400"
  shows "get_day tz (get_day tz t + s) = get_day tz t"
    and "get_sec_from_morning tz (get_day tz t + s) = s"
  using assms by (simp_all add: get_day_eq sec_from_morning_eq)

lemma get_day_add_days: "get_day tz (t + k * 86400) = get_day tz t + k * 86400"
proof -
  have "(t + k * 86400 + tz) div 86400 = (t + tz) div 86400 + k"
    using div_mult_self1[of 86400 "t + tz" k] by (simp add: ac_simps)
  then show ?thesis by (simp add: get_day_eq)
qed

end
