(* ===== verification/Daterange.thy ===== *)
theory Daterange
  imports Calendar
begin

text \<open>
  \<^verbatim>\<open>shinken/daterange.py\<close>: the time ranges of a day (\<^verbatim>\<open>Timerange\<close>), the six kinds of date ranges and
  the searches every \<^verbatim>\<open>Daterange\<close> offers for the next valid and the next invalid second.

  The six classes are the constructors of \<^verbatim>\<open>dr_spec\<close>. Four of them overwrite their year fields when
  they are evaluated, so \<^verbatim>\<open>get_start_and_end_time\<close> and everything above it returns the date range it
  leaves behind. A value of \<^verbatim>\<open>None\<close> at the outside stands for an exception of the source (an unknown
  day name, a missing week day, an invalid time range); an inner \<^verbatim>\<open>None\<close> is Python's \<^verbatim>\<open>None\<close>.

  The lemmas at the end show what the search for a valid second promises for the week days, the
  ranges nearly every time period is made of: it returns the least valid second.
\<close>

subsection \<open>Time ranges of a day\<close>

datatype timerange =
    InvalidTimerange
  | Timerange (hstart: int) (mstart: int) (hend: int) (mend: int)

definition digit_val :: "char \<Rightarrow> int option" where
  "digit_val c =
     (let n = int (of_char c) in if 48 \<le> n \<and> n \<le> 57 then Some (n - 48) else None)"

definition two_digits :: "char \<Rightarrow> char \<Rightarrow> int option" where
  "two_digits a b = do { x \<leftarrow> digit_val a; y \<leftarrow> digit_val b; Some (10 * x + y) }"

definition parse_timerange :: "string \<Rightarrow> timerange" where
  "parse_timerange entry =
     (case entry of
        a # b # c # d # e # f # g # h # i # j # k # _ \<Rightarrow>
          (if c = CHR '':'' \<and> f = CHR ''-'' \<and> i = CHR '':''
           then (case (two_digits a b, two_digits d e, two_digits g h, two_digits j k) of
                   (Some hs, Some ms, Some he, Some me) \<Rightarrow> Timerange hs ms he me
                 | _ \<Rightarrow> InvalidTimerange)
           else InvalidTimerange)
      | _ \<Rightarrow> InvalidTimerange)"

definition parse_timeranges :: "string \<Rightarrow> timerange list" where
  "parse_timeranges other = map (\<lambda>timeinterval. parse_timerange (strip timeinterval)) (split_on CHR '','' other)"

fun tr_start :: "timerange \<Rightarrow> int option" where
  "tr_start InvalidTimerange = None"
| "tr_start (Timerange hs ms he me) = Some (hs * 3600 + ms * 60)"

fun tr_end :: "timerange \<Rightarrow> int option" where
  "tr_end InvalidTimerange = None"
| "tr_end (Timerange hs ms he me) = Some (he * 3600 + me * 60)"

fun tr_get_first_sec_out_from_morning :: "timerange \<Rightarrow> int option" where
  "tr_get_first_sec_out_from_morning InvalidTimerange = None"
| "tr_get_first_sec_out_from_morning (Timerange hs ms he me) =
     Some (if hs = 0 \<and> ms = 0 then he * 3600 + me * 60 else 0)"

fun tr_is_time_valid :: "int \<Rightarrow> timerange \<Rightarrow> clock \<Rightarrow> bool" where
  "tr_is_time_valid tz InvalidTimerange t = False"
| "tr_is_time_valid tz (Timerange hs ms he me) t =
     (let sec_from_morning = get_sec_from_morning tz t
      in hs * 3600 + ms * 60 \<le> sec_from_morning \<and> sec_from_morning \<le> he * 3600 + me * 60)"

definition tr_is_correct :: "timerange \<Rightarrow> bool" where
  "tr_is_correct tr \<longleftrightarrow> tr \<noteq> InvalidTimerange"

subsection \<open>Day names\<close>

definition weekdays :: "(string \<times> int) list" where
  "weekdays = [(''monday'', 0), (''tuesday'', 1), (''wednesday'', 2), (''thursday'', 3),
     (''friday'', 4), (''saturday'', 5), (''sunday'', 6)]"

definition months :: "(string \<times> int) list" where
  "months = [(''january'', 1), (''february'', 2), (''march'', 3), (''april'', 4), (''may'', 5),
     (''june'', 6), (''july'', 7), (''august'', 8), (''september'', 9),
     (''october'', 10), (''november'', 11), (''december'', 12)]"

definition get_month_id :: "string \<Rightarrow> int option" where
  "get_month_id month = map_of months month"

definition get_month_by_id :: "int \<Rightarrow> string option" where
  "get_month_by_id month_id = map_of (map (\<lambda>(k, v). (v, k)) months) month_id"

definition get_weekday_id :: "string \<Rightarrow> int option" where
  "get_weekday_id weekday = map_of weekdays weekday"

definition get_weekday_by_id :: "int \<Rightarrow> string option" where
  "get_weekday_by_id weekday_id = map_of (map (\<lambda>(k, v). (v, k)) weekdays) weekday_id"

fun scan_weeks :: "int list list \<Rightarrow> int \<Rightarrow> int \<Rightarrow> nat \<Rightarrow> int \<Rightarrow> int option" where
  "scan_weeks cal weekday_id offset 0 nb_found = None"
| "scan_weeks [] weekday_id offset (Suc n) nb_found = None"
| "scan_weeks (week # cal) weekday_id offset (Suc n) nb_found =
     (let day = week ! nat weekday_id; nb = (if day \<noteq> 0 then nb_found + 1 else nb_found)
      in if nb = offset then Some day else scan_weeks cal weekday_id offset n nb)"

definition find_day_by_weekday_offset ::
  "int \<Rightarrow> string \<Rightarrow> string \<Rightarrow> int \<Rightarrow> int option option" where
  "find_day_by_weekday_offset year month weekday offset = do {
     weekday_id \<leftarrow> get_weekday_id weekday;
     month_id \<leftarrow> get_month_id month;
     let cal = monthcalendar year month_id;
     let (offset, cal) = (if offset < 0 then (\<bar>offset\<bar>, rev cal) else (offset, cal));
     Some (scan_weeks cal weekday_id offset (nat (offset + 1)) 0)
   }"

definition find_day_by_offset :: "int \<Rightarrow> string \<Rightarrow> int \<Rightarrow> int option" where
  "find_day_by_offset year month offset = do {
     month_id \<leftarrow> get_month_id month;
     let days = snd (monthrange year month_id);
     Some (if offset \<ge> 0 then min offset days else max 1 (days + offset + 1))
   }"

subsection \<open>The date ranges\<close>

datatype dr_spec =
    CalendarDaterange int int int int int int
  | StandardDaterange string
  | MonthWeekDayDaterange int string string int int string string int
  | MonthDateDaterange int string int int string int
  | WeekDayDaterange int string int int string int
  | MonthDayDaterange int int int int

definition or_year :: "int \<Rightarrow> struct_time \<Rightarrow> int" where
  "or_year year now = (if year = 0 then tm_year now else year)"

definition weekday_start :: "int \<Rightarrow> int \<Rightarrow> string \<Rightarrow> string \<Rightarrow> int \<Rightarrow> clock option" where
  "weekday_start tz year month wday wday_offset = do {
     month_id \<leftarrow> get_month_id month;
     found \<leftarrow> find_day_by_weekday_offset year month wday wday_offset;
     day \<leftarrow> found;
     Some (get_start_of_day tz year month_id day)
   }"

definition weekday_end :: "int \<Rightarrow> int \<Rightarrow> string \<Rightarrow> string \<Rightarrow> int \<Rightarrow> clock option" where
  "weekday_end tz year month wday wday_offset = do {
     month_id \<leftarrow> get_month_id month;
     found \<leftarrow> find_day_by_weekday_offset year month wday wday_offset;
     day \<leftarrow> found;
     Some (get_end_of_day tz year month_id day)
   }"

definition standard_bounds :: "int \<Rightarrow> string \<Rightarrow> clock \<Rightarrow> (clock \<times> clock) option" where
  "standard_bounds tz day ref = do {
     let now = localtime tz ref;
     day_id \<leftarrow> get_weekday_id day;
     let today_morning = get_start_of_day tz (tm_year now) (tm_mon now) (tm_mday now);
     let tonight = get_end_of_day tz (tm_year now) (tm_mon now) (tm_mday now);
     let day_diff = (day_id - tm_wday now) mod 7;
     Some (today_morning + day_diff * 86400, tonight + day_diff * 86400)
   }"

definition month_week_day_bounds ::
  "int \<Rightarrow> int \<Rightarrow> string \<Rightarrow> string \<Rightarrow> int \<Rightarrow> int \<Rightarrow> string \<Rightarrow> string \<Rightarrow> int \<Rightarrow> clock
     \<Rightarrow> ((clock \<times> clock) \<times> dr_spec) option" where
  "month_week_day_bounds tz sy smon swday swoff ey emon ewday ewoff ref = do {
     let now = localtime tz ref;
     let syear = or_year sy now;
     start_time \<leftarrow> weekday_start tz syear smon swday swoff;
     let eyear = or_year ey now;
     end_time \<leftarrow> weekday_end tz eyear emon ewday ewoff;
     let now_epoch = mktime_tm tz now;
     (start_time, end_time) \<leftarrow>
       (if start_time > end_time
        then (if now_epoch > end_time
              then do { e \<leftarrow> weekday_end tz (eyear + 1) emon ewday ewoff; Some (start_time, e) }
              else do { s \<leftarrow> weekday_start tz (syear - 1) smon swday swoff; Some (s, end_time) })
        else (if now_epoch > end_time
              then do {
                s \<leftarrow> weekday_start tz (syear + 1) smon swday swoff;
                e \<leftarrow> weekday_end tz (eyear + 1) emon ewday ewoff;
                Some (s, e) }
              else Some (start_time, end_time)));
     Some ((start_time, end_time), MonthWeekDayDaterange syear smon swday swoff eyear emon ewday ewoff)
   }"

definition month_date_bounds ::
  "int \<Rightarrow> int \<Rightarrow> string \<Rightarrow> int \<Rightarrow> int \<Rightarrow> string \<Rightarrow> int \<Rightarrow> clock
     \<Rightarrow> ((clock \<times> clock) \<times> dr_spec) option" where
  "month_date_bounds tz sy smon smday ey emon emday ref = do {
     let now = localtime tz ref;
     let syear = or_year sy now;
     month_start_id \<leftarrow> get_month_id smon;
     day_start \<leftarrow> find_day_by_offset syear smon smday;
     let start_time = get_start_of_day tz syear month_start_id day_start;
     let eyear = or_year ey now;
     month_end_id \<leftarrow> get_month_id emon;
     day_end \<leftarrow> find_day_by_offset eyear emon emday;
     let end_time = get_end_of_day tz eyear month_end_id day_end;
     let now_epoch = mktime_tm tz now;
     (start_time, end_time) \<leftarrow>
       (if start_time > end_time
        then (if now_epoch > end_time
              then do {
                day_end \<leftarrow> find_day_by_offset (eyear + 1) emon emday;
                Some (start_time, get_end_of_day tz (eyear + 1) month_end_id day_end) }
              else do {
                day_start \<leftarrow> find_day_by_offset (syear - 1) smon emday;
                Some (get_start_of_day tz (syear - 1) month_start_id day_start, end_time) })
        else (if now_epoch > end_time
              then do {
                day_start \<leftarrow> find_day_by_offset (syear + 1) smon emday;
                day_end \<leftarrow> find_day_by_offset (eyear + 1) emon emday;
                Some (get_start_of_day tz (syear + 1) month_start_id day_start,
                      get_end_of_day tz (eyear + 1) month_end_id day_end) }
              else Some (start_time, end_time)));
     Some ((start_time, end_time), MonthDateDaterange syear smon smday eyear emon emday)
   }"

definition next_month :: "int \<Rightarrow> int \<Rightarrow> int \<times> int" where
  "next_month month_id year = (if month_id + 1 > 12 then (1, year + 1) else (month_id + 1, year))"

definition week_day_bounds ::
  "int \<Rightarrow> int \<Rightarrow> string \<Rightarrow> int \<Rightarrow> int \<Rightarrow> string \<Rightarrow> int \<Rightarrow> clock
     \<Rightarrow> ((clock \<times> clock) \<times> dr_spec) option" where
  "week_day_bounds tz sy swday swoff ey ewday ewoff ref = do {
     let now = localtime tz ref;
     let syear = or_year sy now;
     let month_start_id = tm_mon now;
     month_start \<leftarrow> get_month_by_id month_start_id;
     start_time \<leftarrow> weekday_start tz syear month_start swday swoff;
     let eyear = or_year ey now;
     let month_end_id = tm_mon now;
     month_end \<leftarrow> get_month_by_id month_end_id;
     end_time \<leftarrow> weekday_end tz eyear month_end ewday ewoff;
     (month_end_id, eyear, end_time) \<leftarrow>
       (if start_time > end_time
        then do {
          let (month_end_id, eyear) = next_month month_end_id eyear;
          month_end \<leftarrow> get_month_by_id month_end_id;
          end_time \<leftarrow> weekday_end tz eyear month_end ewday ewoff;
          Some (month_end_id, eyear, end_time) }
        else Some (month_end_id, eyear, end_time));
     let now_epoch = mktime_tm tz now;
     if end_time < now_epoch
     then do {
       let (month_end_id, eyear) = next_month month_end_id eyear;
       let (month_start_id, syear) = next_month month_start_id syear;
       month_start \<leftarrow> get_month_by_id month_start_id;
       start_time \<leftarrow> weekday_start tz syear month_start swday swoff;
       month_end \<leftarrow> get_month_by_id month_end_id;
       end_time \<leftarrow> weekday_end tz eyear month_end ewday ewoff;
       Some ((start_time, end_time), WeekDayDaterange syear swday swoff eyear ewday ewoff) }
     else Some ((start_time, end_time), WeekDayDaterange syear swday swoff eyear ewday ewoff)
   }"

definition month_day_bounds ::
  "int \<Rightarrow> int \<Rightarrow> int \<Rightarrow> int \<Rightarrow> int \<Rightarrow> clock \<Rightarrow> ((clock \<times> clock) \<times> dr_spec) option" where
  "month_day_bounds tz sy smday ey emday ref = do {
     let now = localtime tz ref;
     let syear = or_year sy now;
     let month_start_id = tm_mon now;
     month_start \<leftarrow> get_month_by_id month_start_id;
     day_start \<leftarrow> find_day_by_offset syear month_start smday;
     let start_time = get_start_of_day tz syear month_start_id day_start;
     let eyear = or_year ey now;
     let month_end_id = tm_mon now;
     month_end \<leftarrow> get_month_by_id month_end_id;
     day_end \<leftarrow> find_day_by_offset eyear month_end emday;
     let end_time = get_end_of_day tz eyear month_end_id day_end;
     let now_epoch = mktime_tm tz now;
     (month_end_id, eyear, end_time) \<leftarrow>
       (if start_time > end_time
        then do {
          let (month_end_id, eyear) = next_month month_end_id eyear;
          day_end \<leftarrow> find_day_by_offset eyear month_end emday;
          Some (month_end_id, eyear, get_end_of_day tz eyear month_end_id day_end) }
        else Some (month_end_id, eyear, end_time));
     if end_time < now_epoch
     then do {
       let (month_end_id, eyear) = next_month month_end_id eyear;
       let (month_start_id, syear) = next_month month_start_id syear;
       month_start \<leftarrow> get_month_by_id month_start_id;
       day_start \<leftarrow> find_day_by_offset syear month_start smday;
       let start_time = get_start_of_day tz syear month_start_id day_start;
       month_end \<leftarrow> get_month_by_id month_end_id;
       day_end \<leftarrow> find_day_by_offset eyear month_end emday;
       let end_time = get_end_of_day tz eyear month_end_id day_end;
       Some ((start_time, end_time), MonthDayDaterange syear smday eyear emday) }
     else Some ((start_time, end_time), MonthDayDaterange syear smday eyear emday)
   }"

fun get_start_and_end_time :: "int \<Rightarrow> dr_spec \<Rightarrow> clock \<Rightarrow> ((clock \<times> clock) \<times> dr_spec) option" where
  "get_start_and_end_time tz (CalendarDaterange sy sm sd ey em ed) ref =
     Some ((get_start_of_day tz sy sm sd, get_end_of_day tz ey em ed), CalendarDaterange sy sm sd ey em ed)"
| "get_start_and_end_time tz (StandardDaterange day) ref =
     map_option (\<lambda>b. (b, StandardDaterange day)) (standard_bounds tz day ref)"
| "get_start_and_end_time tz (MonthWeekDayDaterange sy sm sw so ey em ew eo) ref =
     month_week_day_bounds tz sy sm sw so ey em ew eo ref"
| "get_start_and_end_time tz (MonthDateDaterange sy sm sd ey em ed) ref =
     month_date_bounds tz sy sm sd ey em ed ref"
| "get_start_and_end_time tz (WeekDayDaterange sy sw so ey ew eo) ref =
     week_day_bounds tz sy sw so ey ew eo ref"
| "get_start_and_end_time tz (MonthDayDaterange sy sd ey ed) ref =
     month_day_bounds tz sy sd ey ed ref"


record daterange =
  dr_spec :: dr_spec
  timeranges :: "timerange list"

definition dr_bounds :: "int \<Rightarrow> daterange \<Rightarrow> clock \<Rightarrow> ((clock \<times> clock) \<times> daterange) option" where
  "dr_bounds tz dr t = do {
     (b, sp) \<leftarrow> get_start_and_end_time tz (dr_spec dr) t;
     Some (b, dr\<lparr>dr_spec := sp\<rparr>)
   }"

definition dr_is_correct :: "daterange \<Rightarrow> bool" where
  "dr_is_correct dr =
     (case dr_spec dr of
        StandardDaterange day \<Rightarrow> day \<in> fst ` set weekdays \<and> list_all tr_is_correct (timeranges dr)
      | MonthWeekDayDaterange _ _ swday _ _ _ ewday _ \<Rightarrow>
          swday \<in> fst ` set weekdays \<and> ewday \<in> fst ` set weekdays
      | _ \<Rightarrow> list_all tr_is_correct (timeranges dr))"

definition is_time_day_valid :: "int \<Rightarrow> daterange \<Rightarrow> clock \<Rightarrow> (bool \<times> daterange) option" where
  "is_time_day_valid tz dr t = do {
     ((start_time, end_time), dr) \<leftarrow> dr_bounds tz dr t;
     Some (start_time \<le> t \<and> t \<le> end_time, dr)
   }"

definition is_time_day_invalid :: "int \<Rightarrow> daterange \<Rightarrow> clock \<Rightarrow> (bool \<times> daterange) option" where
  "is_time_day_invalid tz dr t = do {
     ((start_time, end_time), dr) \<leftarrow> dr_bounds tz dr t;
     Some (\<not> (start_time \<le> t \<and> t \<le> end_time), dr)
   }"

definition dr_is_time_valid :: "int \<Rightarrow> daterange \<Rightarrow> clock \<Rightarrow> (bool \<times> daterange) option" where
  "dr_is_time_valid tz dr t = do {
     (day_valid, dr) \<leftarrow> is_time_day_valid tz dr t;
     Some (day_valid \<and> list_ex (\<lambda>tr. tr_is_time_valid tz tr t) (timeranges dr), dr)
   }"

definition get_min_sec_from_morning :: "daterange \<Rightarrow> int option" where
  "get_min_sec_from_morning dr = do {
     mins \<leftarrow> those (map tr_start (timeranges dr));
     list_min mins
   }"

definition get_min_sec_out_from_morning :: "daterange \<Rightarrow> int option" where
  "get_min_sec_out_from_morning dr = do {
     mins \<leftarrow> those (map tr_get_first_sec_out_from_morning (timeranges dr));
     list_min mins
   }"

definition dr_get_min_from_t :: "int \<Rightarrow> daterange \<Rightarrow> clock \<Rightarrow> (clock \<times> daterange) option" where
  "dr_get_min_from_t tz dr t = do {
     (valid, dr) \<leftarrow> dr_is_time_valid tz dr t;
     if valid then Some (t, dr)
     else do { tr_mins \<leftarrow> get_min_sec_from_morning dr; Some (get_day tz t + tr_mins, dr) }
   }"

definition get_next_future_timerange_valid :: "int \<Rightarrow> daterange \<Rightarrow> clock \<Rightarrow> int option option" where
  "get_next_future_timerange_valid tz dr t = do {
     let sec_from_morning = get_sec_from_morning tz t;
     tr_starts \<leftarrow> those (map tr_start (timeranges dr));
     Some (list_min (filter (\<lambda>s. s \<ge> sec_from_morning) tr_starts))
   }"

definition get_next_future_timerange_invalid :: "int \<Rightarrow> daterange \<Rightarrow> clock \<Rightarrow> int option option" where
  "get_next_future_timerange_invalid tz dr t = do {
     let sec_from_morning = get_sec_from_morning tz t;
     bounds \<leftarrow> those (map (\<lambda>tr. do { s \<leftarrow> tr_start tr; e \<leftarrow> tr_end tr; Some [s, e] }) (timeranges dr));
     Some (list_min (remove1 86400 (filter (\<lambda>s. s \<ge> sec_from_morning) (concat bounds))))
   }"

definition get_next_valid_day :: "int \<Rightarrow> daterange \<Rightarrow> clock \<Rightarrow> (clock option \<times> daterange) option" where
  "get_next_valid_day tz dr t = do {
     future \<leftarrow> get_next_future_timerange_valid tz dr t;
     ((start_time, end_time), dr) \<leftarrow>
       (if future = None then dr_bounds tz dr (get_day tz t + 86400) else dr_bounds tz dr t);
     if t \<le> start_time then Some (Some (get_day tz start_time), dr)
     else do {
       (valid, dr) \<leftarrow> is_time_day_valid tz dr t;
       Some (if valid then Some (get_day tz t) else None, dr)
     }
   }"

definition dr_get_next_valid_time_from_t ::
  "int \<Rightarrow> daterange \<Rightarrow> clock \<Rightarrow> (clock option \<times> daterange) option" where
  "dr_get_next_valid_time_from_t tz dr t = do {
     (valid, dr) \<leftarrow> dr_is_time_valid tz dr t;
     if valid then Some (Some t, dr)
     else do {
       (t_day, dr) \<leftarrow> get_next_valid_day tz dr t;
       sec_from_morning \<leftarrow>
         (case t_day of
            Some d \<Rightarrow> if d \<noteq> 0 \<and> t < d then get_next_future_timerange_valid tz dr d
                      else get_next_future_timerange_valid tz dr t
          | None \<Rightarrow> get_next_future_timerange_valid tz dr t);
       case (t_day, sec_from_morning) of
         (Some d, Some s) \<Rightarrow> Some (Some (d + s), dr)
       | _ \<Rightarrow> do {
           (t_day2, dr) \<leftarrow> get_next_valid_day tz dr (get_day tz t + 86400);
           case t_day2 of
             None \<Rightarrow> Some (None, dr)
           | Some d2 \<Rightarrow> do {
               s2 \<leftarrow> get_next_future_timerange_valid tz dr d2;
               Some (map_option (\<lambda>s. d2 + s) s2, dr)
             }
         }
     }
   }"

definition get_next_invalid_day :: "int \<Rightarrow> daterange \<Rightarrow> clock \<Rightarrow> (clock option \<times> daterange) option" where
  "get_next_invalid_day tz dr t = do {
     (invalid, dr) \<leftarrow> is_time_day_invalid tz dr t;
     if invalid then Some (Some t, dr)
     else do {
       future \<leftarrow> get_next_future_timerange_invalid tz dr t;
       ((start_time, end_time), dr) \<leftarrow>
         (if future = None then dr_bounds tz dr (get_day tz t) else dr_bounds tz dr t);
       if future \<noteq> None
       then (if start_time \<le> t \<and> t \<le> end_time then Some (Some (get_day tz t), dr)
             else if start_time \<ge> t then Some (Some (get_day tz start_time), dr)
             else Some (None, dr))
       else Some (Some (get_day tz (end_time + 1)), dr)
     }
   }"

definition dr_get_next_invalid_time_from_t ::
  "int \<Rightarrow> daterange \<Rightarrow> clock \<Rightarrow> (clock option \<times> daterange) option" where
  "dr_get_next_invalid_time_from_t tz dr t = do {
     (valid, dr) \<leftarrow> dr_is_time_valid tz dr t;
     if \<not> valid then Some (Some t, dr)
     else do {
       (t_day, dr) \<leftarrow> get_next_invalid_day tz dr t;
       d \<leftarrow> t_day;
       sec_from_morning \<leftarrow>
         (if t < d then get_next_future_timerange_invalid tz dr d
          else get_next_future_timerange_invalid tz dr t);
       case sec_from_morning of
         Some s \<Rightarrow> Some (Some (d + s + 1), dr)
       | None \<Rightarrow> Some (Some d, dr)
     }
   }"

subsection \<open>Days and seconds\<close>

definition day_ix :: "int \<Rightarrow> clock \<Rightarrow> int" where
  "day_ix tz t = (t + tz) div 86400"

lemma clock_split: "t = day_ix tz t * 86400 - tz + get_sec_from_morning tz t"
  unfolding day_ix_def sec_from_morning_eq using div_mult_mod_eq[of "t + tz" 86400] by linarith

lemma get_day_ix: "get_day tz t = day_ix tz t * 86400 - tz"
  by (simp add: get_day_eq day_ix_def)

lemma get_wday_ix: "get_wday tz t = (day_ix tz t + 3) mod 7"
  by (simp add: get_wday_eq day_ix_def)

lemma day_ix_at:
  assumes "0 \<le> s" and "s < 86400"
  shows "day_ix tz (d * 86400 - tz + s) = d" and "get_sec_from_morning tz (d * 86400 - tz + s) = s"
  using assms by (simp_all add: day_ix_def sec_from_morning_eq)

lemma clock_less_iff:
  "t < u \<longleftrightarrow> day_ix tz t < day_ix tz u \<or>
     day_ix tz t = day_ix tz u \<and> get_sec_from_morning tz t < get_sec_from_morning tz u"
proof -
  define d1 s1 d2 s2 where defs: "d1 = day_ix tz t" "s1 = get_sec_from_morning tz t"
    "d2 = day_ix tz u" "s2 = get_sec_from_morning tz u"
  have "t = d1 * 86400 - tz + s1" "u = d2 * 86400 - tz + s2"
    using clock_split[of t tz] clock_split[of u tz] by (simp_all add: defs)
  moreover have "0 \<le> s1" "s1 < 86400" "0 \<le> s2" "s2 < 86400"
    by (simp_all add: defs get_day_props)
  ultimately have "t < u \<longleftrightarrow> d1 < d2 \<or> d1 = d2 \<and> s1 < s2"
    by (cases d1 d2 rule: linorder_cases) linarith+
  then show ?thesis by (simp add: defs)
qed

lemma clock_le_iff:
  "t \<le> u \<longleftrightarrow> day_ix tz t < day_ix tz u \<or>
     day_ix tz t = day_ix tz u \<and> get_sec_from_morning tz t \<le> get_sec_from_morning tz u"
  using clock_less_iff[of u t tz] by (simp add: not_less[symmetric]) linarith

definition next_wday :: "int \<Rightarrow> int \<Rightarrow> int" where
  "next_wday w d = d + (w - (d + 3)) mod 7"

lemma next_wday_least:
  assumes "0 \<le> w" and "w < 7"
  shows "d \<le> next_wday w d" and "(next_wday w d + 3) mod 7 = w"
    and "d \<le> k \<Longrightarrow> k < next_wday w d \<Longrightarrow> (k + 3) mod 7 \<noteq> w"
proof -
  show "d \<le> next_wday w d" by (simp add: next_wday_def)
  have "(next_wday w d + 3) mod 7 = ((d + 3) + (w - (d + 3)) mod 7) mod 7"
    by (simp add: next_wday_def ac_simps)
  also have "\<dots> = w mod 7" by (simp add: mod_add_right_eq)
  finally show "(next_wday w d + 3) mod 7 = w" using assms by simp
  show "(k + 3) mod 7 \<noteq> w" if "d \<le> k" and "k < next_wday w d"
  proof
    assume "(k + 3) mod 7 = w"
    then have "(w - (d + 3)) mod 7 = ((k + 3) mod 7 - (d + 3)) mod 7" by simp
    also have "\<dots> = (k - d) mod 7" by (simp add: mod_diff_left_eq)
    also have "\<dots> \<le> k - d" using that(1) by (simp add: zmod_le_nonneg_dividend)
    finally show False using that(2) by (simp add: next_wday_def)
  qed
qed


subsection \<open>A week day: when it is valid, and the next valid second\<close>

definition tr_wf :: "timerange \<Rightarrow> bool" where
  "tr_wf tr = (case tr of InvalidTimerange \<Rightarrow> False
     | Timerange hs ms he me \<Rightarrow> 0 \<le> hs * 3600 + ms * 60 \<and> hs * 3600 + ms * 60 < 86400 \<and>
         hs * 3600 + ms * 60 \<le> he * 3600 + me * 60)"

definition std_wf :: "daterange \<Rightarrow> bool" where
  "std_wf dr \<longleftrightarrow> (\<exists>day. dr_spec dr = StandardDaterange day \<and> day \<in> fst ` set weekdays) \<and>
     timeranges dr \<noteq> [] \<and> (\<forall>tr \<in> set (timeranges dr). tr_wf tr)"

definition std_wday :: "daterange \<Rightarrow> int" where
  "std_wday dr = (case dr_spec dr of StandardDaterange day \<Rightarrow> the (get_weekday_id day) | _ \<Rightarrow> 0)"

definition in_ranges :: "timerange list \<Rightarrow> int \<Rightarrow> bool" where
  "in_ranges trs s \<longleftrightarrow>
     (\<exists>tr \<in> set trs. the (tr_start tr) \<le> s \<and> s \<le> the (tr_end tr) \<and> tr \<noteq> InvalidTimerange)"

lemma weekday_id_range:
  "day \<in> fst ` set weekdays \<Longrightarrow> \<exists>w. get_weekday_id day = Some w \<and> 0 \<le> w \<and> w < 7"
  by (auto simp: weekdays_def get_weekday_id_def)

lemma tr_valid_range:
  "list_ex (\<lambda>tr. tr_is_time_valid tz tr t) trs = in_ranges trs (get_sec_from_morning tz t)"
proof -
  have "tr_is_time_valid tz tr t \<longleftrightarrow> the (tr_start tr) \<le> get_sec_from_morning tz t \<and>
      get_sec_from_morning tz t \<le> the (tr_end tr) \<and> tr \<noteq> InvalidTimerange" for tr
    by (cases tr) (auto simp: Let_def)
  then show ?thesis by (auto simp: list_ex_iff in_ranges_def)
qed

lemma std_wday_range:
  assumes "std_wf dr"
  shows "0 \<le> std_wday dr" and "std_wday dr < 7"
  using assms weekday_id_range by (fastforce simp: std_wf_def std_wday_def)+

lemma std_bounds:
  assumes "std_wf dr"
  shows "dr_bounds tz dr t = Some ((next_wday (std_wday dr) (day_ix tz t) * 86400 - tz,
     next_wday (std_wday dr) (day_ix tz t) * 86400 - tz + 86399), dr)"
proof -
  obtain day where "dr_spec dr = StandardDaterange day" "day \<in> fst ` set weekdays"
    using assms by (auto simp: std_wf_def)
  then obtain w where day: "dr_spec dr = StandardDaterange day" "get_weekday_id day = Some w"
    using weekday_id_range by blast
  have w: "std_wday dr = w" by (simp add: std_wday_def day)
  have "standard_bounds tz day t
      = Some (get_day tz t + (w - get_wday tz t) mod 7 * 86400,
              get_day tz t + 86399 + (w - get_wday tz t) mod 7 * 86400)"
    by (simp add: standard_bounds_def day Let_def start_of_day_localtime end_of_day_eq get_wday_def)
  moreover have "(w - get_wday tz t) mod 7 = (w - (day_ix tz t + 3)) mod 7"
    by (simp add: get_wday_ix mod_diff_right_eq)
  ultimately show ?thesis
    by (simp add: dr_bounds_def day w next_wday_def get_day_ix algebra_simps)
qed

lemma std_day_valid:
  assumes "std_wf dr"
  shows "is_time_day_valid tz dr t = Some ((day_ix tz t + 3) mod 7 = std_wday dr, dr)"
proof -
  let ?w = "std_wday dr" and ?d = "day_ix tz t" and ?s = "get_sec_from_morning tz t"
  let ?n = "next_wday ?w ?d"
  note least = next_wday_least[OF std_wday_range[OF assms], of ?d]
  have s: "0 \<le> ?s" "?s < 86400" by (simp_all add: get_day_props)
  have t: "t = ?d * 86400 - tz + ?s" by (rule clock_split)
  have "(?n * 86400 - tz \<le> t \<and> t \<le> ?n * 86400 - tz + 86399) \<longleftrightarrow> ?n = ?d"
    using least(1) s t by auto
  moreover have "?n = ?d \<longleftrightarrow> (?d + 3) mod 7 = ?w"
    using least by (metis order_less_le order_refl)
  ultimately show ?thesis by (simp add: is_time_day_valid_def std_bounds[OF assms])
qed

lemma std_valid:
  assumes "std_wf dr"
  shows "dr_is_time_valid tz dr t = Some ((day_ix tz t + 3) mod 7 = std_wday dr \<and>
     in_ranges (timeranges dr) (get_sec_from_morning tz t), dr)"
  by (simp add: dr_is_time_valid_def std_day_valid[OF assms] tr_valid_range)

lemma std_starts:
  assumes "std_wf dr"
  shows "those (map tr_start (timeranges dr)) = Some (map (the \<circ> tr_start) (timeranges dr))"
proof -
  have "\<forall>tr \<in> set trs. tr_wf tr \<Longrightarrow> those (map tr_start trs) = Some (map (the \<circ> tr_start) trs)" for trs
  proof (induction trs)
    case (Cons tr trs)
    then show ?case by (cases tr) (auto simp: tr_wf_def)
  qed simp
  with assms show ?thesis by (simp add: std_wf_def)
qed

definition future_starts :: "timerange list \<Rightarrow> int \<Rightarrow> int list" where
  "future_starts trs s = filter (\<lambda>x. x \<ge> s) (map (the \<circ> tr_start) trs)"

lemma std_future:
  assumes "std_wf dr"
  shows "get_next_future_timerange_valid tz dr t
     = Some (list_min (future_starts (timeranges dr) (get_sec_from_morning tz t)))"
  by (simp add: get_next_future_timerange_valid_def std_starts[OF assms] future_starts_def)

lemma future_start_in_range:
  assumes "std_wf dr" and "list_min (future_starts (timeranges dr) s) = Some m"
  shows "s \<le> m" and "0 \<le> m" and "m < 86400" and "in_ranges (timeranges dr) m"
    and "s \<le> k \<Longrightarrow> k < m \<Longrightarrow> in_ranges (timeranges dr) k \<Longrightarrow> in_ranges (timeranges dr) s"
proof -
  have "m \<in> set (future_starts (timeranges dr) s)" using list_min_Some[OF assms(2)] by blast
  then obtain tr where tr: "tr \<in> set (timeranges dr)" "m = the (tr_start tr)" "s \<le> m"
    by (auto simp: future_starts_def)
  then have wf: "tr_wf tr" using assms(1) by (simp add: std_wf_def)
  show "s \<le> m" by fact
  show "0 \<le> m" "m < 86400" using tr wf by (auto simp: tr_wf_def split: timerange.splits)
  show "in_ranges (timeranges dr) m"
    using tr wf unfolding in_ranges_def by (intro bexI[of _ tr]) (auto simp: tr_wf_def split: timerange.splits)
  assume k: "s \<le> k" "k < m" "in_ranges (timeranges dr) k"
  then obtain tr' where tr': "tr' \<in> set (timeranges dr)" "the (tr_start tr') \<le> k" "k \<le> the (tr_end tr')"
    "tr' \<noteq> InvalidTimerange" by (auto simp: in_ranges_def)
  have "\<not> s \<le> the (tr_start tr')"
  proof
    assume "s \<le> the (tr_start tr')"
    then have "m \<le> the (tr_start tr')"
      using list_min_Some[OF assms(2)] tr'(1) by (auto simp: future_starts_def)
    with tr'(2) k(2) show False by simp
  qed
  then show "in_ranges (timeranges dr) s"
    unfolding in_ranges_def using tr' k(1) by (intro bexI[of _ tr']) auto
qed

lemma no_future_start:
  assumes "list_min (future_starts trs s) = None" and "s \<le> k" and "in_ranges trs k"
  shows "in_ranges trs s"
proof -
  obtain tr where tr: "tr \<in> set trs" "the (tr_start tr) \<le> k" "k \<le> the (tr_end tr)"
    "tr \<noteq> InvalidTimerange" using assms(3) by (auto simp: in_ranges_def)
  moreover have "the (tr_start tr) < s" using assms(1) tr(1) by (force simp: future_starts_def filter_empty_conv)
  ultimately show ?thesis unfolding in_ranges_def using assms(2) by (intro bexI[of _ tr]) auto
qed

text \<open>What the search promises: the least second, from \<^verbatim>\<open>t\<close> on, at which the range is valid.\<close>

definition least_from :: "(clock \<Rightarrow> bool) \<Rightarrow> clock \<Rightarrow> clock \<Rightarrow> bool" where
  "least_from P t r \<longleftrightarrow> t \<le> r \<and> P r \<and> (\<forall>u. t \<le> u \<and> u < r \<longrightarrow> \<not> P u)"

definition std_valid_at :: "int \<Rightarrow> daterange \<Rightarrow> clock \<Rightarrow> bool" where
  "std_valid_at tz dr t \<longleftrightarrow> (day_ix tz t + 3) mod 7 = std_wday dr \<and>
     in_ranges (timeranges dr) (get_sec_from_morning tz t)"

lemma range_at_zero:
  assumes "std_wf dr" and "in_ranges (timeranges dr) 0"
    and "list_min (future_starts (timeranges dr) 0) = Some m"
  shows "m \<le> 0"
proof -
  obtain tr where tr: "tr \<in> set (timeranges dr)" "the (tr_start tr) \<le> 0"
    using assms(2) by (auto simp: in_ranges_def)
  then have "tr_wf tr" using assms(1) by (simp add: std_wf_def)
  with tr(2) have "the (tr_start tr) = 0" by (auto simp: tr_wf_def split: timerange.splits)
  with tr(1) have "0 \<in> set (future_starts (timeranges dr) 0)"
    by (force simp: future_starts_def)
  then show ?thesis using list_min_Some[OF assms(3)] by blast
qed

lemma least_on_later_day:
  assumes wf: "std_wf dr" and start: "list_min (future_starts (timeranges dr) 0) = Some m"
    and d: "day_ix tz t < d" and wday: "(d + 3) mod 7 = std_wday dr"
    and between: "\<And>k. day_ix tz t < k \<Longrightarrow> k < d \<Longrightarrow> (k + 3) mod 7 \<noteq> std_wday dr"
    and today: "\<And>u. t \<le> u \<Longrightarrow> day_ix tz u = day_ix tz t \<Longrightarrow> \<not> std_valid_at tz dr u"
  shows "least_from (std_valid_at tz dr) t (d * 86400 - tz + m)"
proof -
  let ?r = "d * 86400 - tz + m"
  note m = future_start_in_range[OF wf start]
  note r = day_ix_at[OF m(2,3), of tz d]
  have "t \<le> ?r" using d r by (simp add: clock_le_iff[of t ?r tz])
  moreover have "std_valid_at tz dr ?r" using r wday m(4) by (simp add: std_valid_at_def)
  moreover have "\<not> std_valid_at tz dr u" if u: "t \<le> u" "u < ?r" for u
  proof
    assume v: "std_valid_at tz dr u"
    have "day_ix tz t \<le> day_ix tz u" "day_ix tz u \<le> d"
      using u r by (auto simp: clock_le_iff[of t u tz] clock_less_iff[of u ?r tz])
    then consider "day_ix tz u = day_ix tz t" | "day_ix tz t < day_ix tz u" "day_ix tz u < d"
      | "day_ix tz u = d" by linarith
    then show False
    proof cases
      case 1
      with today u v show False by blast
    next
      case 2
      with between v show False by (simp add: std_valid_at_def)
    next
      case 3
      then have "get_sec_from_morning tz u < m"
        using u(2) r by (simp add: clock_less_iff[of u ?r tz])
      moreover have "0 \<le> get_sec_from_morning tz u" by (simp add: get_day_props)
      ultimately have "in_ranges (timeranges dr) 0" "0 < m"
        using m(5) v by (auto simp: std_valid_at_def)
      then show False using range_at_zero[OF wf] start by simp
    qed
  qed
  ultimately show ?thesis by (simp add: least_from_def)
qed

lemma least_on_same_day:
  assumes wf: "std_wf dr" and f: "list_min (future_starts (timeranges dr) (get_sec_from_morning tz t)) = Some f"
    and wday: "(day_ix tz t + 3) mod 7 = std_wday dr" and invalid: "\<not> std_valid_at tz dr t"
  shows "least_from (std_valid_at tz dr) t (day_ix tz t * 86400 - tz + f)"
  unfolding least_from_def
proof (intro conjI allI impI)
  let ?d = "day_ix tz t" and ?s = "get_sec_from_morning tz t"
  note F = future_start_in_range[OF wf f]
  note r = day_ix_at[OF F(2,3), of tz ?d]
  show "t \<le> ?d * 86400 - tz + f" using clock_split[of t tz] F(1) by linarith
  show "std_valid_at tz dr (?d * 86400 - tz + f)" using r wday F(4) by (simp add: std_valid_at_def)
  fix u assume u: "t \<le> u \<and> u < ?d * 86400 - tz + f"
  then have "day_ix tz u = ?d \<and> ?s \<le> get_sec_from_morning tz u \<and> get_sec_from_morning tz u < f"
    using r clock_le_iff[of t u tz] clock_less_iff[of u "?d * 86400 - tz + f" tz] by auto
  then show "\<not> std_valid_at tz dr u"
    using F(5) invalid wday by (auto simp: std_valid_at_def)
qed

lemma std_next_day_Some:
  assumes wf: "std_wf dr"
  shows "\<exists>m. list_min (future_starts (timeranges dr) 0) = Some m"
proof (rule list_min_ex)
  obtain tr where tr: "tr \<in> set (timeranges dr)" "tr_wf tr"
    using wf by (cases "timeranges dr") (auto simp: std_wf_def)
  then have "the (tr_start tr) \<in> set (future_starts (timeranges dr) 0)"
    by (auto simp: future_starts_def tr_wf_def split: timerange.splits)
  then show "future_starts (timeranges dr) 0 \<noteq> []" by auto
qed


lemma std_next_valid_day:
  assumes wf: "std_wf dr"
  shows "get_next_valid_day tz dr t =
     Some (Some (next_wday (std_wday dr)
       (if list_min (future_starts (timeranges dr) (get_sec_from_morning tz t)) = None
        then day_ix tz t + 1 else day_ix tz t) * 86400 - tz), dr)"
proof -
  let ?w = "std_wday dr" and ?d = "day_ix tz t" and ?s = "get_sec_from_morning tz t"
  have t: "t = ?d * 86400 - tz + ?s" "0 \<le> ?s" "?s < 86400"
    by (rule clock_split) (simp_all add: get_day_props)
  have gd: "get_day tz (k * 86400 - tz) = k * 86400 - tz" for k
    using day_ix_at(1)[of 0 tz k] by (simp add: get_day_ix)
  have ix: "day_ix tz (get_day tz t + 86400) = ?d + 1"
    using day_ix_at(1)[of 0 tz "?d + 1"] by (simp add: get_day_ix algebra_simps)
  note least = next_wday_least[OF std_wday_range[OF wf]]
  show ?thesis
  proof (cases "list_min (future_starts (timeranges dr) ?s) = None")
    case True
    have "t \<le> next_wday ?w (?d + 1) * 86400 - tz"
      using least(1)[of "?d + 1"] t by linarith
    then show ?thesis
      using True by (simp add: get_next_valid_day_def std_future[OF wf] std_bounds[OF wf] ix gd)
  next
    case False
    show ?thesis
    proof (cases "t \<le> next_wday ?w ?d * 86400 - tz")
      case True
      with False show ?thesis
        by (simp add: get_next_valid_day_def std_future[OF wf] std_bounds[OF wf] gd)
    next
      case t_after: False
      then have "next_wday ?w ?d = ?d" using least(1)[of ?d] t by linarith
      moreover from this have "(?d + 3) mod 7 = ?w" using least(2)[of ?d] by simp
      ultimately show ?thesis
        using False t_after
        by (simp add: get_next_valid_day_def std_future[OF wf] std_bounds[OF wf]
            std_day_valid[OF wf] get_day_ix)
    qed
  qed
qed

lemma next_wday_bound: "next_wday w d \<le> d + 6"
  using pos_mod_bound[of 7 "w - (d + 3)"] by (simp add: next_wday_def)

text \<open>The search of an invalid time reduces to the day it finds and the first start on that day.\<close>

lemma std_next_eq:
  fixes dr tz t
  defines "d \<equiv> day_ix tz t"
  defines "f \<equiv> list_min (future_starts (timeranges dr) (get_sec_from_morning tz t))"
  defines "n \<equiv> next_wday (std_wday dr) (if f = None then d + 1 else d)"
  assumes wf: "std_wf dr" and "0 \<le> t" and invalid: "\<not> std_valid_at tz dr t"
    and m: "list_min (future_starts (timeranges dr) 0) = Some m" and "d < n \<or> f \<noteq> None"
  shows "dr_get_next_valid_time_from_t tz dr t =
     (case (if t < n * 86400 - tz then Some m else f) of
        Some s \<Rightarrow> Some (Some (n * 86400 - tz + s), dr) | None \<Rightarrow> None)"
proof -
  let ?day = "n * 86400 - tz"
  have t: "t = d * 86400 - tz + get_sec_from_morning tz t" "0 \<le> get_sec_from_morning tz t"
    "get_sec_from_morning tz t < 86400"
    unfolding d_def by (rule clock_split) (simp_all add: get_day_props)
  have day: "get_sec_from_morning tz ?day = 0" using day_ix_at[of 0 tz n] by simp
  have "d \<le> n"
    using next_wday_least(1)[OF std_wday_range[OF wf], of d]
      next_wday_least(1)[OF std_wday_range[OF wf], of "d + 1"] by (cases "f = None") (auto simp: n_def)
  then have "t < ?day \<longleftrightarrow> d < n" using t by (cases "d = n") auto
  moreover have "\<not> (?day = 0 \<and> t < ?day)" using \<open>0 \<le> t\<close> by auto
  moreover have "get_next_valid_day tz dr t = Some (Some ?day, dr)"
    unfolding std_next_valid_day[OF wf] n_def f_def d_def by simp
  ultimately show ?thesis
    using assms(6-8) day
    by (auto simp: dr_get_next_valid_time_from_t_def std_valid[OF wf] std_valid_at_def
        std_future[OF wf] f_def split: option.splits)
qed

lemma std_next_valid:
  assumes wf: "std_wf dr" and t0: "0 \<le> t"
  shows "\<exists>r. dr_get_next_valid_time_from_t tz dr t = Some (Some r, dr) \<and>
     least_from (std_valid_at tz dr) t r \<and> r \<le> t + 8 * 86400"
proof (cases "std_valid_at tz dr t")
  case True
  then show ?thesis
    by (auto simp: dr_get_next_valid_time_from_t_def std_valid[OF wf] std_valid_at_def least_from_def)
next
  case invalid: False
  let ?w = "std_wday dr" and ?d = "day_ix tz t" and ?s = "get_sec_from_morning tz t"
  let ?f = "list_min (future_starts (timeranges dr) ?s)"
  let ?n = "next_wday ?w (if ?f = None then ?d + 1 else ?d)"
  note least = next_wday_least[OF std_wday_range[OF wf]]
  obtain m where m: "list_min (future_starts (timeranges dr) 0) = Some m"
    using std_next_day_Some[OF wf] by blast
  note eq = std_next_eq[OF wf t0 invalid m]
  have t: "t = ?d * 86400 - tz + ?s" "0 \<le> ?s" "?s < 86400"
    by (rule clock_split) (simp_all add: get_day_props)
  have n: "?d \<le> ?n" "?n \<le> ?d + 7"
    using least(1)[of "?d + 1"] least(1)[of ?d] next_wday_bound[of ?w ?d]
      next_wday_bound[of ?w "?d + 1"] by (auto split: if_splits)
  show ?thesis
  proof (cases "?d < ?n")
    case True
    then have "t < ?n * 86400 - tz" using t by linarith
    with eq True have "dr_get_next_valid_time_from_t tz dr t = Some (Some (?n * 86400 - tz + m), dr)"
      by simp
    moreover have "?n * 86400 - tz + m \<le> t + 8 * 86400"
      using n t future_start_in_range(3)[OF wf m] by linarith
    moreover have "least_from (std_valid_at tz dr) t (?n * 86400 - tz + m)"
    proof (rule least_on_later_day[OF wf m True])
      show "(?n + 3) mod 7 = ?w" by (rule least(2))
      show "(k + 3) mod 7 \<noteq> ?w" if "?d < k" "k < ?n" for k
        using that least(3)[of "if ?f = None then ?d + 1 else ?d" k] by (auto split: if_splits)
      show "\<not> std_valid_at tz dr u" if u: "t \<le> u" "day_ix tz u = ?d" for u
        using no_future_start[of "timeranges dr" ?s] least(3)[of ?d ?d] True invalid u
        by (cases "?f = None") (auto simp: std_valid_at_def clock_le_iff[of t u tz])
    qed
    ultimately show ?thesis by blast
  next
    case False
    with n least(1)[of "?d + 1"] obtain f where nd: "?n = ?d" and f: "?f = Some f"
      by (cases ?f) auto
    then have "dr_get_next_valid_time_from_t tz dr t = Some (Some (?d * 86400 - tz + f), dr)"
      using eq t by simp
    moreover have "(?d + 3) mod 7 = ?w" using least(2)[of ?d] nd f by simp
    ultimately show ?thesis
      using least_on_same_day[OF wf f _ invalid] future_start_in_range(3)[OF wf f] t by fastforce
  qed
qed

end
