(* ===== verification/Timeperiod.thy ===== *)
theory Timeperiod
  imports Daterange
begin

text \<open>
  \<^verbatim>\<open>shinken/objects/timeperiod.py\<close>: validity of a time period, its two caches, the searches for the
  next valid and the next invalid second, and the log of activation changes.

  A period holds its excluded periods by value; a period that two others exclude has one copy in each.
  The loops \<^verbatim>\<open>while still_loop\<close> carry a fuel; for the periods the theorems below are about one turn is
  enough. The result is \<^verbatim>\<open>None\<close> when an exception of a date range is passed on.
\<close>

datatype timeperiod = Timeperiod
  (timeperiod_name: string) (dateranges: "daterange list") (exclude: "timeperiod list")
  (tp_cache: "(clock \<times> clock option) list") (tp_invalid_cache: "(clock \<times> clock option) list")
  (tp_is_active: "bool option")

fun drs_is_time_valid :: "int \<Rightarrow> daterange list \<Rightarrow> clock \<Rightarrow> (bool \<times> daterange list) option" where
  "drs_is_time_valid tz [] t = Some (False, [])"
| "drs_is_time_valid tz (dr # drs) t = do {
     (valid, dr) \<leftarrow> dr_is_time_valid tz dr t;
     if valid then Some (True, dr # drs)
     else do { (v, drs) \<leftarrow> drs_is_time_valid tz drs t; Some (v, dr # drs) }
   }"

fun is_time_valid :: "int \<Rightarrow> timeperiod \<Rightarrow> clock \<Rightarrow> (bool \<times> timeperiod) option"
and excludes_valid :: "int \<Rightarrow> timeperiod list \<Rightarrow> clock \<Rightarrow> (bool \<times> timeperiod list) option"
where
  "is_time_valid tz (Timeperiod name drs exc ca ica act) t = do {
     (excluded, exc) \<leftarrow> excludes_valid tz exc t;
     if excluded then Some (False, Timeperiod name drs exc ca ica act)
     else do {
       (v, drs) \<leftarrow> drs_is_time_valid tz drs t;
       Some (v, Timeperiod name drs exc ca ica act)
     }
   }"
| "excludes_valid tz [] t = Some (False, [])"
| "excludes_valid tz (dr # exc) t = do {
     (valid, dr) \<leftarrow> is_time_valid tz dr t;
     if valid then Some (True, dr # exc)
     else do { (v, exc) \<leftarrow> excludes_valid tz exc t; Some (v, dr # exc) }
   }"

fun drs_min_from_t :: "int \<Rightarrow> daterange list \<Rightarrow> clock \<Rightarrow> (clock list \<times> daterange list) option" where
  "drs_min_from_t tz [] t = Some ([], [])"
| "drs_min_from_t tz (dr # drs) t = do {
     (m, dr) \<leftarrow> dr_get_min_from_t tz dr t;
     (ms, drs) \<leftarrow> drs_min_from_t tz drs t;
     Some (m # ms, dr # drs)
   }"

definition get_min_from_t :: "int \<Rightarrow> timeperiod \<Rightarrow> clock \<Rightarrow> (clock \<times> timeperiod) option" where
  "get_min_from_t tz tp t = do {
     (mins_incl, drs) \<leftarrow> drs_min_from_t tz (dateranges tp) t;
     m \<leftarrow> list_min mins_incl;
     Some (m, Timeperiod (timeperiod_name tp) drs (exclude tp) (tp_cache tp) (tp_invalid_cache tp) (tp_is_active tp))
   }"

definition find_next_valid_time_from_cache :: "timeperiod \<Rightarrow> clock \<Rightarrow> clock option" where
  "find_next_valid_time_from_cache tp t = Option.bind (map_of (tp_cache tp) t) id"

definition find_next_invalid_time_from_cache :: "timeperiod \<Rightarrow> clock \<Rightarrow> clock option" where
  "find_next_invalid_time_from_cache tp t = Option.bind (map_of (tp_invalid_cache tp) t) id"

definition with_cache :: "(clock \<times> clock option) list \<Rightarrow> timeperiod \<Rightarrow> timeperiod" where
  "with_cache ca tp = Timeperiod (timeperiod_name tp) (dateranges tp) (exclude tp) ca
     (tp_invalid_cache tp) (tp_is_active tp)"

definition with_invalid_cache :: "(clock \<times> clock option) list \<Rightarrow> timeperiod \<Rightarrow> timeperiod" where
  "with_invalid_cache ica tp = Timeperiod (timeperiod_name tp) (dateranges tp) (exclude tp)
     (tp_cache tp) ica (tp_is_active tp)"

definition with_ranges :: "daterange list \<Rightarrow> timeperiod list \<Rightarrow> timeperiod \<Rightarrow> timeperiod" where
  "with_ranges drs exc tp = Timeperiod (timeperiod_name tp) drs exc (tp_cache tp)
     (tp_invalid_cache tp) (tp_is_active tp)"

definition clean_cache :: "clock \<Rightarrow> timeperiod \<Rightarrow> timeperiod" where
  "clean_cache now tp =
     with_invalid_cache (filter (\<lambda>(t, _). \<not> t < now) (tp_invalid_cache tp))
       (with_cache (filter (\<lambda>(t, _). \<not> t < now) (tp_cache tp)) tp)"

definition check_and_log_activation_change ::
  "int \<Rightarrow> clock \<Rightarrow> timeperiod \<Rightarrow> ((int \<times> int) option \<times> timeperiod) option" where
  "check_and_log_activation_change tz now tp = do {
     let was_active = tp_is_active tp;
     (active, tp) \<leftarrow> is_time_valid tz tp now;
     let tp = Timeperiod (timeperiod_name tp) (dateranges tp) (exclude tp) (tp_cache tp)
                (tp_invalid_cache tp) (Some active);
     Some (if Some active \<noteq> was_active
           then Some (if was_active = None then -1 else if was_active = Some True then 1 else 0,
                      if active then 1 else 0)
           else None, tp)
   }"

fun drs_next_valid :: "int \<Rightarrow> daterange list \<Rightarrow> clock \<Rightarrow> (clock list \<times> daterange list) option" where
  "drs_next_valid tz [] t = Some ([], [])"
| "drs_next_valid tz (dr # drs) t = do {
     (m, dr) \<leftarrow> dr_get_next_valid_time_from_t tz dr t;
     (ms, drs) \<leftarrow> drs_next_valid tz drs t;
     Some ((case m of None \<Rightarrow> ms | Some x \<Rightarrow> x # ms), dr # drs)
   }"

fun drs_next_invalid :: "int \<Rightarrow> daterange list \<Rightarrow> clock \<Rightarrow> (clock list \<times> daterange list) option" where
  "drs_next_invalid tz [] t = Some ([], [])"
| "drs_next_invalid tz (dr # drs) t = do {
     (m, dr) \<leftarrow> dr_get_next_invalid_time_from_t tz dr t;
     (ms, drs) \<leftarrow> drs_next_invalid tz drs t;
     Some ((case m of None \<Rightarrow> ms | Some x \<Rightarrow> x # ms), dr # drs)
   }"

text \<open>The inner \<^verbatim>\<open>for tp in self.exclude\<close> of the search for a valid time: every excluded period is
  asked, and the first that does not cover \<^verbatim>\<open>t1\<close> makes \<^verbatim>\<open>t1\<close> the result.\<close>

fun excludes_not_covering :: "int \<Rightarrow> timeperiod list \<Rightarrow> clock \<Rightarrow> (bool \<times> timeperiod list) option" where
  "excludes_not_covering tz [] t1 = Some (False, [])"
| "excludes_not_covering tz (tp # exc) t1 = do {
     (valid, tp) \<leftarrow> is_time_valid tz tp t1;
     (v, exc) \<leftarrow> excludes_not_covering tz exc t1;
     Some (\<not> valid \<or> v, tp # exc)
   }"

fun scan_candidates ::
  "int \<Rightarrow> timeperiod list \<Rightarrow> clock list \<Rightarrow> clock option \<Rightarrow> (clock option \<times> timeperiod list) option" where
  "scan_candidates tz exc [] local_min = Some (local_min, exc)"
| "scan_candidates tz exc (t1 # ts) local_min =
     (if exc = [] \<and> local_min = None then scan_candidates tz exc ts (Some t1)
      else do {
        (found, exc) \<leftarrow> excludes_not_covering tz exc t1;
        scan_candidates tz exc ts (if found \<and> local_min = None then Some t1 else local_min)
      })"

definition year_limit :: int where
  "year_limit = 3600 * 24 * 366 + 1"

text \<open>One turn of the loop of \<^verbatim>\<open>get_next_invalid_time_from_t\<close>, up to the check against the excluded
  periods: the candidate time and whether to go on.\<close>

definition invalid_candidate ::
  "int \<Rightarrow> clock \<Rightarrow> clock \<Rightarrow> timeperiod \<Rightarrow> ((clock \<times> bool) \<times> timeperiod) option" where
  "invalid_candidate tz original_t local_min tp = do {
     (dr_mins, drs) \<leftarrow> drs_next_invalid tz (dateranges tp) local_min;
     let tp = with_ranges drs (exclude tp) tp;
     let local_min = (case list_min dr_mins of None \<Rightarrow> local_min | Some m \<Rightarrow> m);
     (valid, tp) \<leftarrow> is_time_valid tz tp local_min;
     Some (if \<not> valid then (local_min, False)
           else let lm = (if local_min > original_t + 3600 * 24 * 30 then local_min + 3600
                          else local_min + 60)
                in (lm, \<not> lm > original_t + year_limit), tp)
   }"

fun get_next_invalid_time_from_t ::
  "nat \<Rightarrow> int \<Rightarrow> timeperiod \<Rightarrow> clock \<Rightarrow> (clock option \<times> timeperiod) option"
and invalid_loop ::
  "nat \<Rightarrow> int \<Rightarrow> clock \<Rightarrow> clock \<Rightarrow> timeperiod \<Rightarrow> (clock \<times> timeperiod) option"
and invalid_excludes ::
  "nat \<Rightarrow> int \<Rightarrow> clock \<Rightarrow> timeperiod list \<Rightarrow> clock \<Rightarrow> bool \<Rightarrow> ((clock \<times> bool) \<times> timeperiod list) option"
where
  "get_next_invalid_time_from_t 0 tz tp t = None"
| "get_next_invalid_time_from_t (Suc fuel) tz tp t =
     (case find_next_invalid_time_from_cache tp t of
        Some r \<Rightarrow> Some (Some r, tp)
      | None \<Rightarrow> do {
          (valid, tp) \<leftarrow> is_time_valid tz tp t;
          if \<not> valid then Some (Some t, tp)
          else do {
            (local_min, tp) \<leftarrow> invalid_loop fuel tz t t tp;
            Some (Some local_min, with_invalid_cache ((t, Some local_min) # tp_invalid_cache tp) tp)
          }
        })"
| "invalid_loop 0 tz original_t local_min tp = None"
| "invalid_loop (Suc fuel) tz original_t local_min tp = do {
     (cand, tp) \<leftarrow> invalid_candidate tz original_t local_min tp;
     (cand, exc) \<leftarrow> invalid_excludes fuel tz original_t (exclude tp) (fst cand) (snd cand);
     if snd cand then invalid_loop fuel tz original_t (fst cand) (with_ranges (dateranges tp) exc tp)
     else Some (fst cand, with_ranges (dateranges tp) exc tp)
   }"
| "invalid_excludes 0 tz original_t exc local_min still_loop = None"
| "invalid_excludes (Suc fuel) tz original_t exc local_min still_loop =
     (case exc of [] \<Rightarrow> Some ((local_min, still_loop), [])
      | tp # exc \<Rightarrow> do {
          (valid, tp) \<leftarrow> is_time_valid tz tp local_min;
          if valid
          then do {
            (r, tp) \<leftarrow> get_next_invalid_time_from_t fuel tz tp (local_min + 60);
            lm \<leftarrow> r;
            (res, exc) \<leftarrow> invalid_excludes fuel tz original_t exc lm (\<not> lm > original_t + 60 * 24 * 366 + 1);
            Some (res, tp # exc)
          }
          else do {
            (res, exc) \<leftarrow> invalid_excludes fuel tz original_t exc local_min still_loop;
            Some (res, tp # exc)
          }
        })"

fun excludes_next_invalid ::
  "nat \<Rightarrow> int \<Rightarrow> timeperiod list \<Rightarrow> clock \<Rightarrow> (clock list \<times> timeperiod list) option" where
  "excludes_next_invalid fuel tz [] t = Some ([], [])"
| "excludes_next_invalid fuel tz (tp # exc) t = do {
     (m, tp) \<leftarrow> get_next_invalid_time_from_t fuel tz tp t;
     (ms, exc) \<leftarrow> excludes_next_invalid fuel tz exc t;
     Some ((case m of None \<Rightarrow> ms | Some x \<Rightarrow> x # ms), tp # exc)
   }"

fun valid_loop ::
  "nat \<Rightarrow> int \<Rightarrow> clock \<Rightarrow> clock \<Rightarrow> timeperiod \<Rightarrow> (clock option \<times> timeperiod) option" where
  "valid_loop 0 tz original_t t tp = None"
| "valid_loop (Suc fuel) tz original_t t tp = do {
     (dr_mins, drs) \<leftarrow> drs_next_valid tz (dateranges tp) t;
     let s_dr_mins = sort dr_mins;
     (found, exc) \<leftarrow> scan_candidates tz (exclude tp) s_dr_mins None;
     let still_loop = (found = None);
     (local_min, exc) \<leftarrow>
       (if found = None
        then (case s_dr_mins of
                [] \<Rightarrow> Some (None, exc)
              | d # _ \<Rightarrow> do {
                  (exc_mins, exc) \<leftarrow> excludes_next_invalid fuel tz exc d;
                  Some (list_min exc_mins, exc) })
        else Some (found, exc));
     let tp = with_ranges drs exc tp;
     case local_min of
       None \<Rightarrow> Some (None, tp)
     | Some lm \<Rightarrow>
         (if lm > original_t + year_limit then Some (None, tp)
          else if still_loop then valid_loop fuel tz original_t lm tp
          else Some (Some lm, tp))
   }"

definition get_next_valid_time_from_t ::
  "nat \<Rightarrow> int \<Rightarrow> timeperiod \<Rightarrow> clock \<Rightarrow> (clock option \<times> timeperiod) option" where
  "get_next_valid_time_from_t fuel tz tp t =
     (case find_next_valid_time_from_cache tp t of
        Some r \<Rightarrow> Some (Some r, tp)
      | None \<Rightarrow> do {
          (local_min, tp) \<leftarrow> valid_loop fuel tz t t tp;
          Some (local_min, with_cache ((t, local_min) # tp_cache tp) tp)
        })"

definition tp_is_correct :: "timeperiod \<Rightarrow> bool" where
  "tp_is_correct tp = list_all dr_is_correct (dateranges tp)"


subsection \<open>Weekly time periods: validity and the next valid second\<close>

text \<open>A period is \<^emph>\<open>plain\<close> when it excludes no other period and all its date ranges are well-formed
  week days; the abstract view of such a period is the set of seconds one of its ranges covers.\<close>

definition plain_wf :: "timeperiod \<Rightarrow> bool" where
  "plain_wf tp \<longleftrightarrow> exclude tp = [] \<and> (\<forall>dr \<in> set (dateranges tp). std_wf dr)"

definition plain_valid :: "int \<Rightarrow> timeperiod \<Rightarrow> clock \<Rightarrow> bool" where
  "plain_valid tz tp t \<longleftrightarrow> (\<exists>dr \<in> set (dateranges tp). std_valid_at tz dr t)"

text \<open>What a search for a valid time has to answer, and a cache whose every entry is such an answer.\<close>

definition next_answer :: "int \<Rightarrow> timeperiod \<Rightarrow> clock \<Rightarrow> clock option \<Rightarrow> bool" where
  "next_answer tz tp t r = (case r of None \<Rightarrow> dateranges tp = []
     | Some u \<Rightarrow> least_from (plain_valid tz tp) t u \<and> u \<le> t + 8 * 86400)"

definition cache_ok :: "int \<Rightarrow> timeperiod \<Rightarrow> bool" where
  "cache_ok tz tp \<longleftrightarrow> (\<forall>(t, r) \<in> set (tp_cache tp). 0 \<le> t \<longrightarrow> next_answer tz tp t r)"

lemma tp_with_simps [simp]:
  "dateranges (with_cache ca tp) = dateranges tp" "exclude (with_cache ca tp) = exclude tp"
  "tp_cache (with_cache ca tp) = ca" "tp_invalid_cache (with_cache ca tp) = tp_invalid_cache tp"
  "dateranges (with_invalid_cache ica tp) = dateranges tp"
  "exclude (with_invalid_cache ica tp) = exclude tp"
  "tp_cache (with_invalid_cache ica tp) = tp_cache tp"
  "tp_invalid_cache (with_invalid_cache ica tp) = ica"
  "dateranges (with_ranges drs exc tp) = drs" "exclude (with_ranges drs exc tp) = exc"
  "tp_cache (with_ranges drs exc tp) = tp_cache tp"
  by (simp_all add: with_cache_def with_invalid_cache_def with_ranges_def)

lemma with_ranges_id [simp]: "with_ranges (dateranges tp) (exclude tp) tp = tp"
  by (cases tp) (simp add: with_ranges_def)

lemma drs_valid:
  "\<forall>dr \<in> set drs. std_wf dr \<Longrightarrow>
     drs_is_time_valid tz drs t = Some (\<exists>dr \<in> set drs. std_valid_at tz dr t, drs)"
  by (induction drs) (auto simp: std_valid std_valid_at_def)

lemma plain_is_time_valid:
  assumes "plain_wf tp"
  shows "is_time_valid tz tp t = Some (plain_valid tz tp t, tp)"
  using assms by (cases tp) (simp add: plain_wf_def plain_valid_def drs_valid)

lemma drs_next:
  assumes "\<forall>dr \<in> set drs. std_wf dr" and "0 \<le> t"
  shows "\<exists>ms. drs_next_valid tz drs t = Some (ms, drs) \<and> length ms = length drs \<and>
     (\<forall>i < length drs. least_from (std_valid_at tz (drs ! i)) t (ms ! i) \<and> ms ! i \<le> t + 8 * 86400)"
  using assms(1)
proof (induction drs)
  case (Cons dr drs)
  then obtain ms where ms: "drs_next_valid tz drs t = Some (ms, drs)" "length ms = length drs"
    "\<forall>i < length drs. least_from (std_valid_at tz (drs ! i)) t (ms ! i) \<and> ms ! i \<le> t + 8 * 86400"
    by auto
  obtain r where r: "dr_get_next_valid_time_from_t tz dr t = Some (Some r, dr)"
    "least_from (std_valid_at tz dr) t r" "r \<le> t + 8 * 86400"
    using std_next_valid[of dr t tz] Cons.prems assms(2) by auto
  show ?case using ms r by (intro exI[of _ "r # ms"]) (auto simp: nth_Cons split: nat.splits)
qed simp

lemma least_of_ranges:
  assumes ms: "length ms = length drs"
      "\<forall>i < length drs. least_from (std_valid_at tz (drs ! i)) t (ms ! i) \<and> ms ! i \<le> t + b"
    and m: "m \<in> set ms" "\<forall>x \<in> set ms. m \<le> x"
  shows "least_from (\<lambda>u. \<exists>dr \<in> set drs. std_valid_at tz dr u) t m \<and> m \<le> t + b"
proof -
  obtain i where i: "i < length drs" "ms ! i = m" using m(1) ms(1) by (auto simp: in_set_conv_nth)
  have "\<not> std_valid_at tz dr u" if u: "dr \<in> set drs" "t \<le> u" "u < m" for dr u
  proof -
    obtain j where j: "j < length drs" "drs ! j = dr" using u(1) by (auto simp: in_set_conv_nth)
    then have "m \<le> ms ! j" using m(2) ms(1) by simp
    then show ?thesis using ms(2) j u(2,3) unfolding least_from_def by auto
  qed
  moreover have "t \<le> m" "m \<le> t + b" "std_valid_at tz (drs ! i) m"
    using ms(2) i unfolding least_from_def by auto
  ultimately show ?thesis using i(1) unfolding least_from_def by auto
qed

lemma scan_found: "scan_candidates tz [] ts (Some x) = Some (Some x, [])"
  by (induction ts) simp_all

lemma sort_head_least:
  assumes "sort xs = d # ds"
  shows "d \<in> set xs \<and> (\<forall>x \<in> set xs. d \<le> x)"
proof -
  have "set xs = set (d # ds)" using set_sort[of "\<lambda>x. x" xs] assms by simp
  moreover have "sorted (d # ds)" using sorted_sort[of xs] assms by simp
  ultimately show ?thesis by auto
qed

lemma plain_valid_loop:
  assumes wf: "plain_wf tp" and t: "0 \<le> t"
  shows "\<exists>r. valid_loop (Suc fuel) tz t t tp = Some (r, tp) \<and> next_answer tz tp t r"
proof -
  have exc: "exclude tp = []" using wf by (simp add: plain_wf_def)
  then have same: "with_ranges (dateranges tp) [] tp = tp" using with_ranges_id[of tp] by simp
  obtain ms where ms: "drs_next_valid tz (dateranges tp) t = Some (ms, dateranges tp)"
    and len: "length ms = length (dateranges tp)"
      "\<forall>i < length (dateranges tp). least_from (std_valid_at tz (dateranges tp ! i)) t (ms ! i) \<and>
         ms ! i \<le> t + 8 * 86400"
    using drs_next[of "dateranges tp" t tz] wf t by (auto simp: plain_wf_def)
  show ?thesis
  proof (cases "sort ms")
    case Nil
    then have "dateranges tp = []" using len(1) by (metis length_0_conv length_sort)
    with Nil ms exc same show ?thesis by (simp add: next_answer_def)
  next
    case (Cons d ds)
    then have least: "least_from (plain_valid tz tp) t d" "d \<le> t + 8 * 86400"
      using least_of_ranges[OF len] sort_head_least[OF Cons] by (auto simp: plain_valid_def[abs_def])
    have "scan_candidates tz [] (sort ms) None = Some (Some d, [])" by (simp add: Cons scan_found)
    moreover have "\<not> d > t + year_limit" using least(2) by (simp add: year_limit_def)
    ultimately show ?thesis using ms exc same least by (simp add: next_answer_def)
  qed
qed

lemma cache_lookup_ok:
  assumes "cache_ok tz tp" and "0 \<le> t" and "find_next_valid_time_from_cache tp t = Some r"
  shows "next_answer tz tp t (Some r)"
proof -
  have "(t, Some r) \<in> set (tp_cache tp)"
    using assms(3) by (auto simp: find_next_valid_time_from_cache_def bind_eq_Some_conv intro: map_of_SomeD)
  with assms show ?thesis unfolding cache_ok_def by blast
qed

text \<open>The state of a period evolves only in its caches: the searches refine the uncached search.\<close>

lemma next_valid_answers:
  assumes wf: "plain_wf tp" and ok: "cache_ok tz tp" and t: "0 \<le> t"
  shows "\<exists>r tp'. get_next_valid_time_from_t (Suc fuel) tz tp t = Some (r, tp') \<and>
     next_answer tz tp t r \<and> plain_wf tp' \<and> cache_ok tz tp' \<and> dateranges tp' = dateranges tp"
proof (cases "find_next_valid_time_from_cache tp t")
  case (Some r)
  then show ?thesis
    using assms cache_lookup_ok[OF ok t Some] by (simp add: get_next_valid_time_from_t_def)
next
  case None
  obtain r where r: "valid_loop (Suc fuel) tz t t tp = Some (r, tp)" "next_answer tz tp t r"
    using plain_valid_loop[OF wf t] by blast
  let ?tp = "with_cache ((t, r) # tp_cache tp) tp"
  have frame: "next_answer tz ?tp = next_answer tz tp"
    by (simp add: fun_eq_iff next_answer_def plain_valid_def[abs_def] split: option.splits)
  have "cache_ok tz ?tp" using ok r(2) by (auto simp: cache_ok_def frame)
  moreover have "plain_wf ?tp" using wf by (simp add: plain_wf_def)
  ultimately show ?thesis using r None by (simp add: get_next_valid_time_from_t_def)
qed


lemma clean_cache_ok:
  "cache_ok tz tp \<Longrightarrow> cache_ok tz (clean_cache now tp)"
proof -
  have "next_answer tz (clean_cache now tp) = next_answer tz tp"
    by (simp add: fun_eq_iff next_answer_def plain_valid_def[abs_def] clean_cache_def split: option.splits)
  then show "cache_ok tz tp \<Longrightarrow> cache_ok tz (clean_cache now tp)"
    by (auto simp: cache_ok_def clean_cache_def)
qed


subsection \<open>Examples\<close>

definition day_range :: "string \<Rightarrow> daterange" where
  "day_range day = \<lparr>dr_spec = StandardDaterange day, timeranges = [Timerange 0 0 24 0]\<rparr>"

definition on_days :: "string list \<Rightarrow> timeperiod list \<Rightarrow> timeperiod" where
  "on_days days exc = Timeperiod ''p'' (map day_range days) exc [] [] None"

lemma on_days_plain: "set days \<subseteq> fst ` set weekdays \<Longrightarrow> plain_wf (on_days days [])"
  by (auto simp: plain_wf_def on_days_def std_wf_def day_range_def tr_wf_def)


text \<open>With two excluded periods the search may return a second at which the period is not
  valid: one of the excluded periods does not cover it, the other does.\<close>

theorem two_excludes_wrong:
  "map_option fst (get_next_valid_time_from_t 1 0
       (on_days [''monday''] [on_days [''monday''] [], on_days [''tuesday''] []]) 345600) = Some (Some 345600) \<and>
   map_option fst (is_time_valid 0
       (on_days [''monday''] [on_days [''monday''] [], on_days [''tuesday''] []]) 345600) = Some False"
  by code_simp

end
