(* ===== verification/World.thy ===== *)
theory World
  imports Timeperiod
begin

text \<open>
  The data model of the scheduler: commands, checks, notifications, event handlers, comments,
  downtimes, acknowledgements, contacts, hosts and services, and the object store that holds them.

  Hosts and services (\<^verbatim>\<open>shinken/objects/host.py\<close>, \<^verbatim>\<open>shinken/objects/service.py\<close>) share the
  attributes of \<^verbatim>\<open>SchedulingItem\<close> and are one record, told apart by \<^verbatim>\<open>my_type\<close>. Python objects are
  shared and mutated in place, so every object has an address and the store (\<^verbatim>\<open>world\<close>) maps addresses
  to the current attributes; an operation of the code is a function from stores to stores. The
  attributes of the classes \<^verbatim>\<open>Host\<close> and \<^verbatim>\<open>Service\<close>, set once from the configuration, are the record
  \<^verbatim>\<open>sclass\<close>.

  A time period is seen through the three methods the items and the scheduler call (\<^verbatim>\<open>period\<close>). Strings that the code uses
  as tags (states, state types, statuses of an action, notification types) are datatypes; option
  lists such as \<^verbatim>\<open>notification_options\<close> stay lists of strings. The result of
  \<^verbatim>\<open>MacroResolver.resolve_command\<close> is kept symbolic: the command together with the objects whose macros
  it expands.
\<close>

type_synonym iid = nat
type_synonym cid = nat
type_synonym nid = nat
type_synonym ctid = nat

record period =
  p_is_time_valid :: "clock \<Rightarrow> bool"
  p_next_valid_time :: "clock \<Rightarrow> clock option"
  p_next_invalid_time :: "clock \<Rightarrow> clock option"

datatype item_kind = Host | Service

datatype istate = UP | DOWN | UNREACHABLE | OK | WARNING | CRITICAL | UNKNOWN | PENDING

datatype state_type = HARD | SOFT

datatype status = Scheduled | InPoller | Timeout | WaitConsume | WaitDep | HaveToResolveDep | Zombie

datatype notif_type = PROBLEM | RECOVERY | ACKNOWLEDGEMENT | CUSTOM
  | FLAPPINGSTART | FLAPPINGSTOP | FLAPPINGDISABLED
  | DOWNTIMESTART | DOWNTIMEEND | DOWNTIMECANCELLED

datatype dep_type = Logic_dep | Network_dep | Business_dep

datatype check_variant = State_variant | Maintenance_variant

definition ok_up :: "item_kind \<Rightarrow> istate" where
  "ok_up k = (case k of Host \<Rightarrow> UP | Service \<Rightarrow> OK)"

fun state_name :: "istate \<Rightarrow> string" where
  "state_name UP = ''UP''" | "state_name DOWN = ''DOWN''"
| "state_name UNREACHABLE = ''UNREACHABLE''" | "state_name OK = ''OK''"
| "state_name WARNING = ''WARNING''" | "state_name CRITICAL = ''CRITICAL''"
| "state_name UNKNOWN = ''UNKNOWN''" | "state_name PENDING = ''PENDING''"

record command_call =
  cmd_call :: string
  cmd_line :: string
  cmd_timeout :: int
  cmd_poller_tag :: string
  cmd_reactionner_tag :: string
  cmd_module_type :: string
  cmd_environment_macros :: bool
  cmd_priority :: int

text \<open>A resolved command line: the command and the data its macros were expanded with.\<close>

datatype macro_data = DItem iid | DContact ctid | DNotification nid

datatype resolved = Resolved (res_call: command_call) (res_data: "macro_data list") | Void

subsection \<open>Modulations and escalations\<close>

record resultmodulation =
  exit_codes_match :: "int list"
  exit_code_modulation :: "int option"
  rm_modulation_period :: "period option"

record businessimpactmodulation =
  cm_business_impact :: int
  cm_modulation_period :: "period option"

record checkmodulation =
  cw_check_command :: command_call
  cw_check_period :: "period option"

record escalation =
  escalation_name :: string
  es_time_based :: bool
  es_first_notification :: int
  es_last_notification :: int
  es_first_notification_time :: int
  es_last_notification_time :: int
  es_notification_interval :: int
  es_escalation_period :: "period option"
  es_escalation_options :: "string list"
  es_contacts :: "ctid list"

subsection \<open>Actions\<close>

record check =
  c_status :: status
  c_exit_status :: int
  c_command :: resolved
  c_output :: string
  c_long_output :: string
  c_ref :: iid
  c_t_to_go :: clock
  c_depend_on :: "cid list"
  c_depend_on_me :: "cid list"
  c_check_time :: clock
  c_execution_time :: rat
  c_u_time :: rat
  c_s_time :: rat
  c_perf_data :: string
  c_check_type :: int
  c_in_timeout :: bool
  c_timeout :: int
  c_poller_tag :: string
  c_module_type :: string
  c_env :: bool
  c_internal :: bool
  c_from_trigger :: bool
  c_dependency_check :: bool
  c_check_variant :: check_variant
  c_priority :: int
  c_worker :: string

record notification =
  n_type :: notif_type
  n_status :: status
  n_command :: resolved
  n_command_call :: "command_call option"
  n_ref :: iid
  n_contact :: "ctid option"
  n_t_to_go :: "clock option"
  n_notif_nb :: int
  n_escalated :: bool
  n_timeout :: int
  n_creation_time :: clock
  n_already_start_escalations :: "string list"
  n_reactionner_tag :: string
  n_module_type :: string
  n_environment_macros :: bool
  n_env :: bool
  n_worker :: string
  n_exit_status :: int
  n_execution_time :: rat
  n_priority :: int

record event_handler =
  e_command :: resolved
  e_status :: status
  e_ref :: "iid option"
  e_timeout :: int
  e_t_to_go :: clock
  e_reactionner_tag :: string
  e_is_snapshot :: bool
  e_module_type :: string
  e_worker :: string
  e_exit_status :: int
  e_output :: string
  e_long_output :: string
  e_check_time :: clock
  e_execution_time :: rat
  e_perf_data :: string
  e_priority :: int

datatype action_ref = ACheck cid | ANotification nid | AEventHandler nat | AResultList

subsection \<open>Comments, downtimes, acknowledgements, contacts\<close>

record comment =
  co_id :: nat
  co_ref :: iid
  co_entry_time :: clock
  co_persistent :: bool
  co_author :: string
  co_comment :: string
  co_comment_type :: int
  co_entry_type :: int
  co_source :: int
  co_expires :: bool
  co_expire_time :: clock
  co_can_be_deleted :: bool

record downtime =
  dt_id :: int
  dt_ref :: iid
  dt_activate_me :: "nat list"
  dt_entry_time :: clock
  dt_fixed :: bool
  dt_start_time :: clock
  dt_duration :: int
  dt_trigger_id :: int
  dt_end_time :: clock
  dt_real_end_time :: clock
  dt_author :: string
  dt_comment :: string
  dt_is_in_effect :: bool
  dt_has_been_triggered :: bool
  dt_can_be_deleted :: bool
  dt_extra_comment :: "nat option"

record acknowledge =
  ack_id :: nat
  ack_sticky :: bool
  ack_notify :: bool
  ack_end_time :: clock
  ack_author :: string
  ack_comment :: string

record contact_downtime =
  cdt_ref :: ctid
  cdt_start_time :: clock
  cdt_end_time :: clock
  cdt_author :: string
  cdt_comment :: string
  cdt_is_in_effect :: bool
  cdt_can_be_deleted :: bool

record notificationway =
  nw_service_notifications_enabled :: bool
  nw_host_notifications_enabled :: bool
  nw_service_notification_period :: period
  nw_host_notification_period :: period
  nw_service_notification_options :: "string list"
  nw_host_notification_options :: "string list"
  nw_service_notification_commands :: "command_call list"
  nw_host_notification_commands :: "command_call list"
  nw_min_business_impact :: int

record contact =
  contact_name :: string
  ct_host_notifications_enabled :: bool
  ct_service_notifications_enabled :: bool
  ct_downtimes :: "nat list"
  ct_notificationways :: "notificationway list"
  ct_host_notification_period :: "period option"
  ct_service_notification_period :: "period option"
  ct_modified_attributes :: int
  ct_modified_host_attributes :: int
  ct_modified_service_attributes :: int
  ct_customs :: "(string \<times> string) list"

subsection \<open>Hosts and services\<close>

record trigger =
  trigger_name :: string
  trigger_broker_raise_enabled :: bool

record dependency =
  dep_item :: iid
  dep_status :: "string list"
  dep_kind :: dep_type
  dep_period :: "period option"
  dep_inherits_parent :: bool

record item_conf =
  my_type :: item_kind
  my_name :: string
  host :: iid
  max_check_attempts :: int
  check_interval :: rat
  retry_interval :: rat
  check_period :: "period option"
  active_checks_enabled :: bool
  passive_checks_enabled :: bool
  check_freshness :: bool
  freshness_threshold :: int
  check_command :: command_call
  checkmodulations :: "checkmodulation list"
  resultmodulations :: "resultmodulation list"
  business_impact_modulations :: "businessimpactmodulation list"
  event_handler_enabled :: bool
  event_handler :: "command_call option"
  snapshot_enabled :: bool
  snapshot_command :: "command_call option"
  snapshot_period :: "period option"
  snapshot_criteria :: "string list"
  snapshot_interval :: int
  flap_detection_enabled :: bool
  low_flap_threshold :: rat
  high_flap_threshold :: rat
  flap_detection_options :: "string list"
  process_perf_data :: bool
  obsess_over_me :: bool
  is_volatile :: bool
  stalking_options :: "string list"
  notifications_enabled :: bool
  notification_options :: "string list"
  notification_interval :: int
  first_notification_delay :: int
  notification_period :: "period option"
  contacts :: "ctid list"
  escalations :: "escalation list"
  time_to_orphanage :: int
  maintenance_checks_enabled :: bool
  maintenance_check_interval :: rat
  maintenance_retry_interval :: rat
  maintenance_check_period :: "period option"
  maintenance_check_command :: command_call
  maintenance_period :: "period option"
  item_poller_tag :: string
  got_business_rule :: bool
  business_rule_smart_notifications :: bool
  business_rule_downtime_as_ack :: bool
  triggers :: "trigger list"

record item_links = item_conf +
  parents :: "iid list"
  childs :: "iid list"
  services :: "iid list"
  parent_dependencies :: "iid list"
  child_dependencies :: "iid list"
  act_depend_of :: "dependency list"
  act_depend_of_me :: "dependency list"
  chk_depend_of :: "dependency list"
  chk_depend_of_me :: "dependency list"

record item_state = item_links +
  state :: istate
  state_id :: int
  last_state :: istate
  state_type :: state_type
  last_state_type :: state_type
  state_type_id :: int
  last_hard_state :: istate
  last_hard_state_id :: int
  last_hard_state_change :: clock
  attempt :: int
  last_state_change :: clock
  last_state_update_time :: clock
  duration_sec :: int
  last_time_up :: clock
  last_time_down :: clock
  last_time_unreachable :: clock
  last_time_ok :: clock
  last_time_warning :: clock
  last_time_critical :: clock
  last_time_unknown :: clock
  has_been_checked :: bool
  latency :: int
  execution_time :: rat
  u_time :: rat
  s_time :: rat
  last_chk :: clock
  next_chk :: "clock option"
  plugin_output :: string
  long_output :: string
  perf_data :: string
  last_perf_data :: string
  check_type :: int
  return_code :: int
  flapping_changes :: "bool list"
  percent_state_change :: rat
  is_flapping :: bool
  in_hard_unknown_reach_phase :: bool
  was_in_hard_unknown_reach_phase :: bool
  state_before_hard_unknown_reach_phase :: istate

record item = item_state +
  in_scheduled_downtime :: bool
  in_scheduled_downtime_during_last_check :: bool
  scheduled_downtime_depth :: int
  problem_has_been_acknowledged :: bool
  acknowledgement :: "acknowledge option"
  comments :: "nat list"
  downtimes :: "nat list"
  is_problem :: bool
  is_impact :: bool
  source_problems :: "iid list"
  impacts :: "iid list"
  my_own_business_impact :: int
  business_impact :: int
  state_before_impact :: istate
  state_id_before_impact :: int
  state_changed_since_impact :: bool
  current_notification_number :: int
  last_notification :: clock
  notifications_in_progress :: "nid list"
  notified_contacts :: "ctid list"
  checks_in_progress :: "cid list"
  actions :: "action_ref list"
  broks :: nat
  last_event_id :: int
  current_event_id :: int
  last_problem_id :: int
  current_problem_id :: int
  last_snapshot :: clock
  last_check_command :: resolved
  maintenance_last_check_command :: resolved
  next_maintenance_chk :: "clock option"
  last_maintenance_chk :: clock
  maintenance_check_output :: string
  maintenance_in_production :: bool
  maintenance_state_id :: int
  last_maintenance_state_id :: int
  last_maintenance_state_change :: clock
  in_maintenance :: "int option"
  modified_attributes :: int
  customs :: "(string \<times> string) list"
  topology_change :: bool
  own_process_performance_data :: "bool option"

text \<open>The broks an item has emitted are counted, not stored: their content is a copy of the
  attributes of the item at that moment.\<close>

record sclass =
  enable_flap_detection :: bool
  flap_history :: nat
  global_low_flap_threshold :: rat
  global_high_flap_threshold :: rat
  global_check_freshness :: bool
  additional_freshness_latency :: int
  cached_check_horizon :: int
  interval_length :: int
  execute_checks :: bool
  max_check_spread :: int
  check_timeout :: int
  enable_environment_macros :: bool
  enable_event_handlers :: bool
  no_event_handlers_during_downtimes :: bool
  global_event_handler :: "command_call option"
  event_handler_timeout :: int
  enable_problem_impacts_states_change :: bool
  enable_problem_impacts_states_reprocessing :: bool
  process_performance_data :: bool
  perfdata_command :: "command_call option"
  perfdata_timeout :: int
  obsess_over :: bool
  ocp_command :: command_call
  ocp_timeout :: int
  use_aggressive_host_checking :: bool
  enable_notifications :: bool
  notification_timeout :: int
  check_for_orphaned :: bool
  log_notifications :: bool
  log_event_handlers :: bool
  log_initial_states :: bool
  accept_passive_checks :: bool
  max_plugins_output_length :: int

datatype log_entry =
    HOST_ALERT iid istate state_type int string
  | SERVICE_ALERT iid iid istate state_type int string
  | HOST_MAINTENANCE_ALERT iid bool string
  | SERVICE_MAINTENANCE_ALERT iid iid bool string
  | CURRENT_HOST_STATE iid istate state_type int string
  | CURRENT_SERVICE_STATE iid iid istate state_type int string
  | HOST_STALE iid int int
  | SERVICE_STALE iid iid int int
  | HOST_NOTIFICATION "ctid option" iid "notif_type option" istate "command_call option" string
  | SERVICE_NOTIFICATION "ctid option" iid iid "notif_type option" istate "command_call option" string
  | HOST_EVENT_HANDLER iid istate state_type int command_call
  | SERVICE_EVENT_HANDLER iid iid istate state_type int command_call
  | HOST_SNAPSHOT iid istate state_type int command_call
  | SERVICE_SNAPSHOT iid iid istate state_type int command_call
  | HOST_FLAPPING_STARTED iid rat rat
  | SERVICE_FLAPPING_STARTED iid iid rat rat
  | HOST_FLAPPING_STOPPED iid rat rat
  | SERVICE_FLAPPING_STOPPED iid iid rat rat
  | HOST_DOWNTIME_STARTED iid
  | SERVICE_DOWNTIME_STARTED iid iid
  | HOST_DOWNTIME_STOPPED iid
  | SERVICE_DOWNTIME_STOPPED iid iid
  | HOST_DOWNTIME_CANCELLED iid
  | SERVICE_DOWNTIME_CANCELLED iid iid
  | CONTACT_DOWNTIME_STARTED ctid
  | CONTACT_DOWNTIME_STOPPED ctid
  | CONTACT_DOWNTIME_CANCELLED ctid
  | STALKING iid string
  | PASSIVE_HOST_CHECK iid int string
  | PASSIVE_SERVICE_CHECK iid iid int string
  | EXTERNAL_COMMAND string
  | INFO string

subsection \<open>The store\<close>

record world =
  items :: "iid \<Rightarrow> item"
  checks :: "cid \<Rightarrow> check"
  notifs :: "nid \<Rightarrow> notification"
  handlers :: "nat \<Rightarrow> event_handler"
  comment_store :: "nat \<Rightarrow> comment"
  downtime_store :: "nat \<Rightarrow> downtime"
  contact_store :: "ctid \<Rightarrow> contact"
  contact_downtime_store :: "nat \<Rightarrow> contact_downtime"
  host_class :: sclass
  service_class :: sclass
  next_action_id :: nat
  next_comment_id :: nat
  next_downtime :: nat
  next_ack_id :: nat
  next_contact_downtime_id :: nat
  global_event_id :: int
  global_problem_id :: int
  logs :: "log_entry list"

definition cls_of :: "world \<Rightarrow> item_kind \<Rightarrow> sclass" where
  "cls_of w k = (case k of Host \<Rightarrow> host_class w | Service \<Rightarrow> service_class w)"

abbreviation cls :: "world \<Rightarrow> iid \<Rightarrow> sclass" where
  "cls w i \<equiv> cls_of w (my_type (items w i))"

definition upd :: "iid \<Rightarrow> (item \<Rightarrow> item) \<Rightarrow> world \<Rightarrow> world" where
  "upd i f w = w\<lparr>items := (items w)(i := f (items w i))\<rparr>"

definition upd_check :: "cid \<Rightarrow> (check \<Rightarrow> check) \<Rightarrow> world \<Rightarrow> world" where
  "upd_check c f w = w\<lparr>checks := (checks w)(c := f (checks w c))\<rparr>"

definition upd_notif :: "nid \<Rightarrow> (notification \<Rightarrow> notification) \<Rightarrow> world \<Rightarrow> world" where
  "upd_notif n f w = w\<lparr>notifs := (notifs w)(n := f (notifs w n))\<rparr>"

definition upd_comment :: "nat \<Rightarrow> (comment \<Rightarrow> comment) \<Rightarrow> world \<Rightarrow> world" where
  "upd_comment c f w = w\<lparr>comment_store := (comment_store w)(c := f (comment_store w c))\<rparr>"

definition upd_downtime :: "nat \<Rightarrow> (downtime \<Rightarrow> downtime) \<Rightarrow> world \<Rightarrow> world" where
  "upd_downtime d f w = w\<lparr>downtime_store := (downtime_store w)(d := f (downtime_store w d))\<rparr>"

definition naglog_result :: "log_entry \<Rightarrow> world \<Rightarrow> world" where
  "naglog_result e w = w\<lparr>logs := logs w @ [e]\<rparr>"

definition emit_brok :: "iid \<Rightarrow> world \<Rightarrow> world" where
  "emit_brok i = upd i (\<lambda>it. it\<lparr>broks := Suc (broks it)\<rparr>)"

definition add_action :: "iid \<Rightarrow> action_ref \<Rightarrow> world \<Rightarrow> world" where
  "add_action i a = upd i (\<lambda>it. it\<lparr>actions := actions it @ [a]\<rparr>)"

lemma upd_simps [simp]:
  "items (upd i f w) = (items w)(i := f (items w i))"
  "checks (upd i f w) = checks w" "notifs (upd i f w) = notifs w" "handlers (upd i f w) = handlers w"
  "comment_store (upd i f w) = comment_store w" "downtime_store (upd i f w) = downtime_store w"
  "contact_store (upd i f w) = contact_store w"
  "contact_downtime_store (upd i f w) = contact_downtime_store w"
  "host_class (upd i f w) = host_class w" "service_class (upd i f w) = service_class w"
  "next_action_id (upd i f w) = next_action_id w" "next_comment_id (upd i f w) = next_comment_id w"
  "next_downtime (upd i f w) = next_downtime w" "next_ack_id (upd i f w) = next_ack_id w"
  "global_event_id (upd i f w) = global_event_id w"
  "global_problem_id (upd i f w) = global_problem_id w" "logs (upd i f w) = logs w"
  by (simp_all add: upd_def)

lemma upd_check_simps [simp]:
  "checks (upd_check c f w) = (checks w)(c := f (checks w c))" "items (upd_check c f w) = items w"
  "notifs (upd_check c f w) = notifs w" "host_class (upd_check c f w) = host_class w"
  "service_class (upd_check c f w) = service_class w" "logs (upd_check c f w) = logs w"
  "comment_store (upd_check c f w) = comment_store w"
  "downtime_store (upd_check c f w) = downtime_store w"
  "contact_store (upd_check c f w) = contact_store w"
  "next_action_id (upd_check c f w) = next_action_id w"
  by (simp_all add: upd_check_def)

lemma upd_notif_simps [simp]:
  "notifs (upd_notif n f w) = (notifs w)(n := f (notifs w n))" "items (upd_notif n f w) = items w"
  "checks (upd_notif n f w) = checks w" "host_class (upd_notif n f w) = host_class w"
  "service_class (upd_notif n f w) = service_class w" "logs (upd_notif n f w) = logs w"
  "comment_store (upd_notif n f w) = comment_store w"
  "downtime_store (upd_notif n f w) = downtime_store w"
  "contact_store (upd_notif n f w) = contact_store w"
  "next_action_id (upd_notif n f w) = next_action_id w"
  by (simp_all add: upd_notif_def)

lemma upd_comment_simps [simp]:
  "comment_store (upd_comment c f w) = (comment_store w)(c := f (comment_store w c))"
  "items (upd_comment c f w) = items w" "checks (upd_comment c f w) = checks w"
  "notifs (upd_comment c f w) = notifs w" "downtime_store (upd_comment c f w) = downtime_store w"
  "contact_store (upd_comment c f w) = contact_store w"
  "host_class (upd_comment c f w) = host_class w" "service_class (upd_comment c f w) = service_class w"
  "next_comment_id (upd_comment c f w) = next_comment_id w" "logs (upd_comment c f w) = logs w"
  by (simp_all add: upd_comment_def)

lemma upd_downtime_simps [simp]:
  "downtime_store (upd_downtime d f w) = (downtime_store w)(d := f (downtime_store w d))"
  "items (upd_downtime d f w) = items w" "checks (upd_downtime d f w) = checks w"
  "notifs (upd_downtime d f w) = notifs w" "comment_store (upd_downtime d f w) = comment_store w"
  "contact_store (upd_downtime d f w) = contact_store w"
  "host_class (upd_downtime d f w) = host_class w" "service_class (upd_downtime d f w) = service_class w"
  "next_downtime (upd_downtime d f w) = next_downtime w" "logs (upd_downtime d f w) = logs w"
  by (simp_all add: upd_downtime_def)

lemma naglog_result_simps [simp]:
  "items (naglog_result e w) = items w" "checks (naglog_result e w) = checks w"
  "notifs (naglog_result e w) = notifs w" "comment_store (naglog_result e w) = comment_store w"
  "downtime_store (naglog_result e w) = downtime_store w"
  "contact_store (naglog_result e w) = contact_store w"
  "host_class (naglog_result e w) = host_class w" "service_class (naglog_result e w) = service_class w"
  "next_action_id (naglog_result e w) = next_action_id w" "logs (naglog_result e w) = logs w @ [e]"
  "global_event_id (naglog_result e w) = global_event_id w"
  "global_problem_id (naglog_result e w) = global_problem_id w"
  by (simp_all add: naglog_result_def)

text \<open>Set-valued attributes are lists without duplicates.\<close>

definition set_add :: "'a \<Rightarrow> 'a list \<Rightarrow> 'a list" where
  "set_add x xs = (if x \<in> set xs then xs else xs @ [x])"

lemma set_set_add [simp]: "set (set_add x xs) = insert x (set xs)"
  by (auto simp: set_add_def)

lemma distinct_set_add [simp]: "distinct (set_add x xs) = distinct xs"
  by (simp add: set_add_def)

end
