(* ===== verification/Logs.thy ===== *)
theory Logs
  imports World
begin

text \<open>
  The log entries of hosts and services: the methods \<^verbatim>\<open>raise_*_log_entry\<close> of
  \<^verbatim>\<open>shinken/objects/host.py\<close> and \<^verbatim>\<open>shinken/objects/service.py\<close>, each with its method of dispatch.
  An entry keeps the values the format string prints.
\<close>

definition host_raise_alert_log_entry :: "check_variant option \<Rightarrow> iid \<Rightarrow> world \<Rightarrow> world" where
  "host_raise_alert_log_entry check_variant i w =
     (let it = items w i in
      case check_variant of
        Some Maintenance_variant \<Rightarrow>
          naglog_result (HOST_MAINTENANCE_ALERT i (maintenance_in_production it)
            (maintenance_check_output it)) w
      | _ \<Rightarrow> naglog_result (HOST_ALERT i (state it) (state_type it) (attempt it) (plugin_output it)) w)"

definition service_raise_alert_log_entry :: "check_variant option \<Rightarrow> iid \<Rightarrow> world \<Rightarrow> world" where
  "service_raise_alert_log_entry check_variant i w =
     (let it = items w i in
      case check_variant of
        None \<Rightarrow> naglog_result (SERVICE_ALERT (host it) i (state it) (state_type it) (attempt it)
                  (plugin_output it)) w
      | Some Maintenance_variant \<Rightarrow>
          naglog_result (SERVICE_MAINTENANCE_ALERT (host it) i (maintenance_in_production it)
            (maintenance_check_output it)) w
      | Some State_variant \<Rightarrow> w)"

definition raise_alert_log_entry :: "check_variant option \<Rightarrow> iid \<Rightarrow> world \<Rightarrow> world" where
  "raise_alert_log_entry v i w =
     (case my_type (items w i) of Host \<Rightarrow> host_raise_alert_log_entry v i w
      | Service \<Rightarrow> service_raise_alert_log_entry v i w)"

definition host_raise_initial_state :: "iid \<Rightarrow> world \<Rightarrow> world" where
  "host_raise_initial_state i w =
     (let it = items w i in
      if log_initial_states (cls w i)
      then naglog_result (CURRENT_HOST_STATE i (state it) (state_type it) (attempt it)
             (plugin_output it)) w
      else w)"

definition service_raise_initial_state :: "iid \<Rightarrow> world \<Rightarrow> world" where
  "service_raise_initial_state i w =
     (let it = items w i in
      if log_initial_states (cls w i)
      then naglog_result (CURRENT_SERVICE_STATE (host it) i (state it) (state_type it) (attempt it)
             (plugin_output it)) w
      else w)"

definition raise_initial_state :: "iid \<Rightarrow> world \<Rightarrow> world" where
  "raise_initial_state i w =
     (case my_type (items w i) of Host \<Rightarrow> host_raise_initial_state i w
      | Service \<Rightarrow> service_raise_initial_state i w)"

definition host_raise_freshness_log_entry :: "int \<Rightarrow> int \<Rightarrow> iid \<Rightarrow> world \<Rightarrow> world" where
  "host_raise_freshness_log_entry t_stale_by t_threshold i w =
     naglog_result (HOST_STALE i t_stale_by t_threshold) w"

definition service_raise_freshness_log_entry :: "int \<Rightarrow> int \<Rightarrow> iid \<Rightarrow> world \<Rightarrow> world" where
  "service_raise_freshness_log_entry t_stale_by t_threshold i w =
     naglog_result (SERVICE_STALE (host (items w i)) i t_stale_by t_threshold) w"

definition raise_freshness_log_entry :: "int \<Rightarrow> int \<Rightarrow> iid \<Rightarrow> world \<Rightarrow> world" where
  "raise_freshness_log_entry s t i w =
     (case my_type (items w i) of Host \<Rightarrow> host_raise_freshness_log_entry s t i w
      | Service \<Rightarrow> service_raise_freshness_log_entry s t i w)"

definition host_raise_notification_log_entry :: "nid \<Rightarrow> iid \<Rightarrow> world \<Rightarrow> world" where
  "host_raise_notification_log_entry n i w =
     (let nf = notifs w n; it = items w i;
          shown = (if n_type nf \<in> {DOWNTIMESTART, DOWNTIMEEND, CUSTOM, ACKNOWLEDGEMENT, FLAPPINGSTART,
                                   FLAPPINGSTOP, FLAPPINGDISABLED}
                   then Some (n_type nf) else None)
      in if log_notifications (cls w i)
         then naglog_result (HOST_NOTIFICATION (n_contact nf) i shown (state it)
                (n_command_call nf) (plugin_output it)) w
         else w)"

definition service_raise_notification_log_entry :: "nid \<Rightarrow> iid \<Rightarrow> world \<Rightarrow> world" where
  "service_raise_notification_log_entry n i w =
     (let nf = notifs w n; it = items w i;
          shown = (if n_type nf \<in> {DOWNTIMESTART, DOWNTIMEEND, DOWNTIMECANCELLED, CUSTOM,
                                   ACKNOWLEDGEMENT, FLAPPINGSTART, FLAPPINGSTOP, FLAPPINGDISABLED}
                   then Some (n_type nf) else None)
      in if log_notifications (cls w i)
         then naglog_result (SERVICE_NOTIFICATION (n_contact nf) (host it) i shown (state it)
                (n_command_call nf) (plugin_output it)) w
         else w)"

definition raise_notification_log_entry :: "nid \<Rightarrow> iid \<Rightarrow> world \<Rightarrow> world" where
  "raise_notification_log_entry n i w =
     (case my_type (items w i) of Host \<Rightarrow> host_raise_notification_log_entry n i w
      | Service \<Rightarrow> service_raise_notification_log_entry n i w)"

definition host_raise_event_handler_log_entry :: "command_call \<Rightarrow> iid \<Rightarrow> world \<Rightarrow> world" where
  "host_raise_event_handler_log_entry command i w =
     (let it = items w i in
      if log_event_handlers (cls w i)
      then naglog_result (HOST_EVENT_HANDLER i (state it) (state_type it) (attempt it) command) w
      else w)"

definition service_raise_event_handler_log_entry :: "command_call \<Rightarrow> iid \<Rightarrow> world \<Rightarrow> world" where
  "service_raise_event_handler_log_entry command i w =
     (let it = items w i in
      if log_event_handlers (cls w i)
      then naglog_result (SERVICE_EVENT_HANDLER (host it) i (state it) (state_type it) (attempt it)
             command) w
      else w)"

definition raise_event_handler_log_entry :: "command_call \<Rightarrow> iid \<Rightarrow> world \<Rightarrow> world" where
  "raise_event_handler_log_entry command i w =
     (case my_type (items w i) of Host \<Rightarrow> host_raise_event_handler_log_entry command i w
      | Service \<Rightarrow> service_raise_event_handler_log_entry command i w)"

definition host_raise_snapshot_log_entry :: "command_call \<Rightarrow> iid \<Rightarrow> world \<Rightarrow> world" where
  "host_raise_snapshot_log_entry command i w =
     (let it = items w i in
      if log_event_handlers (cls w i)
      then naglog_result (HOST_SNAPSHOT i (state it) (state_type it) (attempt it) command) w
      else w)"

definition service_raise_snapshot_log_entry :: "command_call \<Rightarrow> iid \<Rightarrow> world \<Rightarrow> world" where
  "service_raise_snapshot_log_entry command i w =
     (let it = items w i in
      if log_event_handlers (cls w i)
      then naglog_result (SERVICE_SNAPSHOT (host it) i (state it) (state_type it) (attempt it)
             command) w
      else w)"

definition raise_snapshot_log_entry :: "command_call \<Rightarrow> iid \<Rightarrow> world \<Rightarrow> world" where
  "raise_snapshot_log_entry command i w =
     (case my_type (items w i) of Host \<Rightarrow> host_raise_snapshot_log_entry command i w
      | Service \<Rightarrow> service_raise_snapshot_log_entry command i w)"

definition host_raise_flapping_start_log_entry :: "rat \<Rightarrow> rat \<Rightarrow> iid \<Rightarrow> world \<Rightarrow> world" where
  "host_raise_flapping_start_log_entry change_ratio threshold i w =
     naglog_result (HOST_FLAPPING_STARTED i change_ratio threshold) w"

definition service_raise_flapping_start_log_entry :: "rat \<Rightarrow> rat \<Rightarrow> iid \<Rightarrow> world \<Rightarrow> world" where
  "service_raise_flapping_start_log_entry change_ratio threshold i w =
     naglog_result (SERVICE_FLAPPING_STARTED (host (items w i)) i change_ratio threshold) w"

definition raise_flapping_start_log_entry :: "rat \<Rightarrow> rat \<Rightarrow> iid \<Rightarrow> world \<Rightarrow> world" where
  "raise_flapping_start_log_entry r t i w =
     (case my_type (items w i) of Host \<Rightarrow> host_raise_flapping_start_log_entry r t i w
      | Service \<Rightarrow> service_raise_flapping_start_log_entry r t i w)"

definition host_raise_flapping_stop_log_entry :: "rat \<Rightarrow> rat \<Rightarrow> iid \<Rightarrow> world \<Rightarrow> world" where
  "host_raise_flapping_stop_log_entry change_ratio threshold i w =
     naglog_result (HOST_FLAPPING_STOPPED i change_ratio threshold) w"

definition service_raise_flapping_stop_log_entry :: "rat \<Rightarrow> rat \<Rightarrow> iid \<Rightarrow> world \<Rightarrow> world" where
  "service_raise_flapping_stop_log_entry change_ratio threshold i w =
     naglog_result (SERVICE_FLAPPING_STOPPED (host (items w i)) i change_ratio threshold) w"

definition raise_flapping_stop_log_entry :: "rat \<Rightarrow> rat \<Rightarrow> iid \<Rightarrow> world \<Rightarrow> world" where
  "raise_flapping_stop_log_entry r t i w =
     (case my_type (items w i) of Host \<Rightarrow> host_raise_flapping_stop_log_entry r t i w
      | Service \<Rightarrow> service_raise_flapping_stop_log_entry r t i w)"

definition host_raise_enter_downtime_log_entry :: "iid \<Rightarrow> world \<Rightarrow> world" where
  "host_raise_enter_downtime_log_entry i w = naglog_result (HOST_DOWNTIME_STARTED i) w"

definition service_raise_enter_downtime_log_entry :: "iid \<Rightarrow> world \<Rightarrow> world" where
  "service_raise_enter_downtime_log_entry i w =
     naglog_result (SERVICE_DOWNTIME_STARTED (host (items w i)) i) w"

definition raise_enter_downtime_log_entry :: "iid \<Rightarrow> world \<Rightarrow> world" where
  "raise_enter_downtime_log_entry i w =
     (case my_type (items w i) of Host \<Rightarrow> host_raise_enter_downtime_log_entry i w
      | Service \<Rightarrow> service_raise_enter_downtime_log_entry i w)"

definition host_raise_exit_downtime_log_entry :: "iid \<Rightarrow> world \<Rightarrow> world" where
  "host_raise_exit_downtime_log_entry i w = naglog_result (HOST_DOWNTIME_STOPPED i) w"

definition service_raise_exit_downtime_log_entry :: "iid \<Rightarrow> world \<Rightarrow> world" where
  "service_raise_exit_downtime_log_entry i w =
     naglog_result (SERVICE_DOWNTIME_STOPPED (host (items w i)) i) w"

definition raise_exit_downtime_log_entry :: "iid \<Rightarrow> world \<Rightarrow> world" where
  "raise_exit_downtime_log_entry i w =
     (case my_type (items w i) of Host \<Rightarrow> host_raise_exit_downtime_log_entry i w
      | Service \<Rightarrow> service_raise_exit_downtime_log_entry i w)"

definition host_raise_cancel_downtime_log_entry :: "iid \<Rightarrow> world \<Rightarrow> world" where
  "host_raise_cancel_downtime_log_entry i w = naglog_result (HOST_DOWNTIME_CANCELLED i) w"

definition service_raise_cancel_downtime_log_entry :: "iid \<Rightarrow> world \<Rightarrow> world" where
  "service_raise_cancel_downtime_log_entry i w =
     naglog_result (SERVICE_DOWNTIME_CANCELLED (host (items w i)) i) w"

definition raise_cancel_downtime_log_entry :: "iid \<Rightarrow> world \<Rightarrow> world" where
  "raise_cancel_downtime_log_entry i w =
     (case my_type (items w i) of Host \<Rightarrow> host_raise_cancel_downtime_log_entry i w
      | Service \<Rightarrow> service_raise_cancel_downtime_log_entry i w)"

text \<open>Stalking: the host logs the output it had and only when the output did not change; the service
  logs the new output and only when it did change.\<close>

definition host_manage_stalking :: "cid \<Rightarrow> iid \<Rightarrow> world \<Rightarrow> world" where
  "host_manage_stalking c i w =
     (let ck = checks w c; it = items w i; opts = set (stalking_options it);
          wanted = (if c_exit_status ck = 0 \<and> ''o'' \<in> opts then True
                    else if c_exit_status ck = 1 \<and> ''d'' \<in> opts then True
                    else if c_exit_status ck = 2 \<and> ''d'' \<in> opts then True
                    else c_exit_status ck = 3 \<and> ''u'' \<in> opts);
          need_stalk = (c_status ck = WaitConsume \<and> wanted \<and> \<not> c_output ck \<noteq> plugin_output it)
      in if need_stalk then naglog_result (STALKING i (plugin_output it)) w else w)"

definition service_manage_stalking :: "cid \<Rightarrow> iid \<Rightarrow> world \<Rightarrow> world" where
  "service_manage_stalking c i w =
     (let ck = checks w c; it = items w i; opts = set (stalking_options it);
          wanted = (if c_exit_status ck = 0 \<and> ''o'' \<in> opts then True
                    else if c_exit_status ck = 1 \<and> ''w'' \<in> opts then True
                    else if c_exit_status ck = 2 \<and> ''c'' \<in> opts then True
                    else c_exit_status ck = 3 \<and> ''u'' \<in> opts);
          need_stalk = (c_status ck = WaitConsume \<and> wanted \<and> \<not> c_output ck = plugin_output it)
      in if need_stalk then naglog_result (STALKING i (c_output ck)) w else w)"

definition manage_stalking :: "cid \<Rightarrow> iid \<Rightarrow> world \<Rightarrow> world" where
  "manage_stalking c i w =
     (case my_type (items w i) of Host \<Rightarrow> host_manage_stalking c i w
      | Service \<Rightarrow> service_manage_stalking c i w)"

subsection \<open>A log entry changes nothing but the log\<close>

lemmas log_defs =
  raise_alert_log_entry_def host_raise_alert_log_entry_def service_raise_alert_log_entry_def
  raise_initial_state_def host_raise_initial_state_def service_raise_initial_state_def
  raise_freshness_log_entry_def host_raise_freshness_log_entry_def service_raise_freshness_log_entry_def
  raise_notification_log_entry_def host_raise_notification_log_entry_def
  service_raise_notification_log_entry_def
  raise_event_handler_log_entry_def host_raise_event_handler_log_entry_def
  service_raise_event_handler_log_entry_def
  raise_snapshot_log_entry_def host_raise_snapshot_log_entry_def service_raise_snapshot_log_entry_def
  raise_flapping_start_log_entry_def host_raise_flapping_start_log_entry_def
  service_raise_flapping_start_log_entry_def
  raise_flapping_stop_log_entry_def host_raise_flapping_stop_log_entry_def
  service_raise_flapping_stop_log_entry_def
  raise_enter_downtime_log_entry_def host_raise_enter_downtime_log_entry_def
  service_raise_enter_downtime_log_entry_def
  raise_exit_downtime_log_entry_def host_raise_exit_downtime_log_entry_def
  service_raise_exit_downtime_log_entry_def
  raise_cancel_downtime_log_entry_def host_raise_cancel_downtime_log_entry_def
  service_raise_cancel_downtime_log_entry_def
  manage_stalking_def host_manage_stalking_def service_manage_stalking_def

definition log_only :: "world \<Rightarrow> world \<Rightarrow> bool" where
  "log_only w w' \<longleftrightarrow> (\<exists>es. w' = w\<lparr>logs := logs w @ es\<rparr>)"

lemma log_only_refl [simp, intro]: "log_only w w"
  unfolding log_only_def by (rule exI[of _ "[]"]) simp

lemma log_only_naglog [simp, intro]: "log_only w (naglog_result e w)"
  unfolding log_only_def naglog_result_def by blast

lemma log_only_entries [simp, intro]:
  "log_only w (raise_alert_log_entry v i w)"
  "log_only w (raise_initial_state i w)"
  "log_only w (raise_freshness_log_entry s t i w)"
  "log_only w (raise_notification_log_entry n i w)"
  "log_only w (raise_event_handler_log_entry cmd i w)"
  "log_only w (raise_snapshot_log_entry cmd i w)"
  "log_only w (raise_flapping_start_log_entry a b i w)"
  "log_only w (raise_flapping_stop_log_entry a b i w)"
  "log_only w (raise_enter_downtime_log_entry i w)"
  "log_only w (raise_exit_downtime_log_entry i w)"
  "log_only w (raise_cancel_downtime_log_entry i w)"
  "log_only w (manage_stalking c i w)"
  by (auto simp: log_defs Let_def split: item_kind.splits option.splits check_variant.splits)

lemma log_onlyD:
  assumes "log_only w w'"
  shows "items w' = items w" and "checks w' = checks w" and "notifs w' = notifs w"
    and "comment_store w' = comment_store w" and "downtime_store w' = downtime_store w"
    and "contact_store w' = contact_store w" and "host_class w' = host_class w"
    and "service_class w' = service_class w" and "next_action_id w' = next_action_id w"
    and "global_event_id w' = global_event_id w" and "global_problem_id w' = global_problem_id w"
  using assms by (auto simp: log_only_def)

lemmas log_items [simp, frame_simps] = log_only_entries[THEN log_onlyD(1)]
lemmas log_checks [simp, frame_simps] = log_only_entries[THEN log_onlyD(2)]
lemmas log_notifs [simp, frame_simps] = log_only_entries[THEN log_onlyD(3)]
lemmas log_comments [simp, frame_simps] = log_only_entries[THEN log_onlyD(4)]
lemmas log_downtimes [simp, frame_simps] = log_only_entries[THEN log_onlyD(5)]
lemmas log_contacts [simp, frame_simps] = log_only_entries[THEN log_onlyD(6)]
lemmas log_host_class [simp, frame_simps] = log_only_entries[THEN log_onlyD(7)]
lemmas log_service_class [simp, frame_simps] = log_only_entries[THEN log_onlyD(8)]
lemmas log_action_id [simp, frame_simps] = log_only_entries[THEN log_onlyD(9)]
lemmas log_event_id [simp, frame_simps] = log_only_entries[THEN log_onlyD(10)]
lemmas log_problem_id [simp, frame_simps] = log_only_entries[THEN log_onlyD(11)]

end
