(* ===== verification/Contacts.thy ===== *)
theory Contacts
  imports Logs
begin

text \<open>
  Who is notified: the notification ways (\<^verbatim>\<open>shinken/objects/notificationway.py\<close>), the contacts
  (\<^verbatim>\<open>shinken/objects/contact.py\<close>) with their downtimes (\<^verbatim>\<open>shinken/contactdowntime.py\<close>), and the
  escalations (\<^verbatim>\<open>shinken/objects/escalation.py\<close>).
\<close>

abbreviation flapping_types :: "notif_type set" where
  "flapping_types \<equiv> {FLAPPINGSTART, FLAPPINGSTOP, FLAPPINGDISABLED}"

abbreviation downtime_types :: "notif_type set" where
  "downtime_types \<equiv> {DOWNTIMESTART, DOWNTIMEEND, DOWNTIMECANCELLED}"

subsection \<open>Notification ways\<close>

definition nw_want_service_notification ::
  "notificationway \<Rightarrow> clock \<Rightarrow> istate \<Rightarrow> notif_type \<Rightarrow> int \<Rightarrow> command_call option \<Rightarrow> bool" where
  "nw_want_service_notification nw t st type bi cmd =
     (if \<not> nw_service_notifications_enabled nw then False
      else if (case cmd of None \<Rightarrow> False | Some c \<Rightarrow> c \<notin> set (nw_service_notification_commands nw)) then False
      else if bi < nw_min_business_impact nw then False
      else let b = p_is_time_valid (nw_service_notification_period nw) t;
               opts = set (nw_service_notification_options nw)
           in if ''n'' \<in> opts then False
              else if type = PROBLEM
              then (case st of WARNING \<Rightarrow> b \<and> ''w'' \<in> opts | UNKNOWN \<Rightarrow> b \<and> ''u'' \<in> opts
                    | CRITICAL \<Rightarrow> b \<and> ''c'' \<in> opts | _ \<Rightarrow> False)
              else if type = RECOVERY then b \<and> ''r'' \<in> opts
              else if type = ACKNOWLEDGEMENT then b
              else if type \<in> flapping_types then b \<and> ''f'' \<in> opts
              else if type \<in> downtime_types then b \<and> ''s'' \<in> set (nw_host_notification_options nw)
              else False)"

definition nw_want_host_notification ::
  "notificationway \<Rightarrow> clock \<Rightarrow> istate \<Rightarrow> notif_type \<Rightarrow> int \<Rightarrow> command_call option \<Rightarrow> bool" where
  "nw_want_host_notification nw t st type bi cmd =
     (if \<not> nw_host_notifications_enabled nw then False
      else if bi < nw_min_business_impact nw then False
      else if (case cmd of None \<Rightarrow> False | Some c \<Rightarrow> c \<notin> set (nw_host_notification_commands nw)) then False
      else let b = p_is_time_valid (nw_host_notification_period nw) t;
               opts = set (nw_host_notification_options nw)
           in if ''n'' \<in> opts then False
              else if type = PROBLEM
              then (case st of DOWN \<Rightarrow> b \<and> ''d'' \<in> opts | UNREACHABLE \<Rightarrow> b \<and> ''u'' \<in> opts | _ \<Rightarrow> False)
              else if type = RECOVERY then b \<and> ''r'' \<in> opts
              else if type = ACKNOWLEDGEMENT then b
              else if type \<in> flapping_types then b \<and> ''f'' \<in> opts
              else if type \<in> downtime_types then b \<and> ''s'' \<in> opts
              else False)"

definition nw_get_notification_commands :: "item_kind \<Rightarrow> notificationway \<Rightarrow> command_call list" where
  "nw_get_notification_commands k nw =
     (case k of Host \<Rightarrow> nw_host_notification_commands nw
      | Service \<Rightarrow> nw_service_notification_commands nw)"

subsection \<open>Contacts\<close>

definition contact_in_downtime :: "world \<Rightarrow> contact \<Rightarrow> bool" where
  "contact_in_downtime w ct = list_ex (\<lambda>d. cdt_is_in_effect (contact_downtime_store w d)) (ct_downtimes ct)"

definition want_service_notification ::
  "world \<Rightarrow> contact \<Rightarrow> clock \<Rightarrow> istate \<Rightarrow> notif_type \<Rightarrow> int \<Rightarrow> command_call option \<Rightarrow> bool" where
  "want_service_notification w ct t st type bi cmd =
     (if \<not> ct_service_notifications_enabled ct then False
      else if contact_in_downtime w ct then False
      else list_ex (\<lambda>nw. nw_want_service_notification nw t st type bi cmd)
             (ct_notificationways ct))"

definition want_host_notification ::
  "world \<Rightarrow> contact \<Rightarrow> clock \<Rightarrow> istate \<Rightarrow> notif_type \<Rightarrow> int \<Rightarrow> command_call option \<Rightarrow> bool" where
  "want_host_notification w ct t st type bi cmd =
     (if \<not> ct_host_notifications_enabled ct then False
      else if contact_in_downtime w ct then False
      else list_ex (\<lambda>nw. nw_want_host_notification nw t st type bi cmd)
             (ct_notificationways ct))"

definition get_notification_commands :: "item_kind \<Rightarrow> contact \<Rightarrow> command_call list" where
  "get_notification_commands k ct = concat (map (nw_get_notification_commands k) (ct_notificationways ct))"

subsection \<open>Downtimes of contacts\<close>

definition upd_contact_downtime :: "nat \<Rightarrow> (contact_downtime \<Rightarrow> contact_downtime) \<Rightarrow> world \<Rightarrow> world" where
  "upd_contact_downtime d f w =
     w\<lparr>contact_downtime_store := (contact_downtime_store w)(d := f (contact_downtime_store w d))\<rparr>"

lemma upd_contact_downtime_simps [simp]:
  "contact_downtime_store (upd_contact_downtime d f w)
     = (contact_downtime_store w)(d := f (contact_downtime_store w d))"
  "contact_store (upd_contact_downtime d f w) = contact_store w"
  "items (upd_contact_downtime d f w) = items w" "logs (upd_contact_downtime d f w) = logs w"
  by (simp_all add: upd_contact_downtime_def)

lemma naglog_contact_downtimes [simp]:
  "contact_downtime_store (naglog_result e w) = contact_downtime_store w"
  by (simp add: naglog_result_def)

definition contact_raise_enter_downtime_log_entry :: "ctid \<Rightarrow> world \<Rightarrow> world" where
  "contact_raise_enter_downtime_log_entry ct = naglog_result (CONTACT_DOWNTIME_STARTED ct)"

definition contact_raise_exit_downtime_log_entry :: "ctid \<Rightarrow> world \<Rightarrow> world" where
  "contact_raise_exit_downtime_log_entry ct = naglog_result (CONTACT_DOWNTIME_STOPPED ct)"

definition contact_raise_cancel_downtime_log_entry :: "ctid \<Rightarrow> world \<Rightarrow> world" where
  "contact_raise_cancel_downtime_log_entry ct = naglog_result (CONTACT_DOWNTIME_CANCELLED ct)"

definition new_contact_downtime ::
  "ctid \<Rightarrow> clock \<Rightarrow> clock \<Rightarrow> string \<Rightarrow> string \<Rightarrow> contact_downtime" where
  "new_contact_downtime ref start_time end_time author comment =
     \<lparr>cdt_ref = ref, cdt_start_time = start_time, cdt_end_time = end_time, cdt_author = author,
      cdt_comment = comment, cdt_is_in_effect = False, cdt_can_be_deleted = False\<rparr>"

definition cdt_enter :: "nat \<Rightarrow> world \<Rightarrow> world" where
  "cdt_enter d w = contact_raise_enter_downtime_log_entry (cdt_ref (contact_downtime_store w d)) w"

definition cdt_exit :: "nat \<Rightarrow> world \<Rightarrow> world" where
  "cdt_exit d w =
     upd_contact_downtime d (\<lambda>dt. dt\<lparr>cdt_can_be_deleted := True\<rparr>)
       (contact_raise_exit_downtime_log_entry (cdt_ref (contact_downtime_store w d)) w)"

definition cdt_cancel :: "nat \<Rightarrow> world \<Rightarrow> world" where
  "cdt_cancel d w =
     upd_contact_downtime d (\<lambda>dt. dt\<lparr>cdt_can_be_deleted := True\<rparr>)
       (contact_raise_cancel_downtime_log_entry (cdt_ref (contact_downtime_store w d))
         (upd_contact_downtime d (\<lambda>dt. dt\<lparr>cdt_is_in_effect := False\<rparr>) w))"

definition check_activation :: "clock \<Rightarrow> nat \<Rightarrow> world \<Rightarrow> world" where
  "check_activation now d w =
     (let dt = contact_downtime_store w d;
          was_is_in_effect = cdt_is_in_effect dt;
          active = (cdt_start_time dt \<le> now \<and> now \<le> cdt_end_time dt);
          w = upd_contact_downtime d (\<lambda>dt. dt\<lparr>cdt_is_in_effect := active\<rparr>) w;
          w = (if \<not> was_is_in_effect \<and> active then cdt_enter d w else w)
      in if was_is_in_effect \<and> \<not> active then cdt_exit d w else w)"

subsection \<open>Escalations\<close>

definition small_state :: "istate \<Rightarrow> string option" where
  "small_state st = (case st of WARNING \<Rightarrow> Some ''w'' | UNKNOWN \<Rightarrow> Some ''u'' | CRITICAL \<Rightarrow> Some ''c''
     | DOWN \<Rightarrow> Some ''d'' | UNREACHABLE \<Rightarrow> Some ''u'' | OK \<Rightarrow> Some ''o'' | UP \<Rightarrow> Some ''o''
     | PENDING \<Rightarrow> None)"

definition bad_escalation_status :: "escalation \<Rightarrow> istate \<Rightarrow> bool" where
  "bad_escalation_status es st =
     (case small_state st of None \<Rightarrow> False | Some s \<Rightarrow> s \<notin> set (es_escalation_options es))"

definition is_eligible :: "escalation \<Rightarrow> clock \<Rightarrow> istate \<Rightarrow> int \<Rightarrow> int \<Rightarrow> int \<Rightarrow> bool" where
  "is_eligible es t st notif_number in_notif_time interval =
     (if \<not> es_time_based es \<and> notif_number < es_first_notification es then False
      else if \<not> es_time_based es \<and> es_last_notification es \<noteq> 0 \<and> notif_number > es_last_notification es
      then False
      else if es_time_based es \<and> in_notif_time < es_first_notification_time es * interval then False
      else if es_time_based es \<and> es_last_notification_time es \<noteq> 0 \<and>
              in_notif_time > es_last_notification_time es * interval then False
      else if bad_escalation_status es st then False
      else if (case es_escalation_period es of None \<Rightarrow> False | Some p \<Rightarrow> \<not> p_is_time_valid p t)
      then False
      else True)"

definition get_next_notif_time :: "escalation \<Rightarrow> clock \<Rightarrow> istate \<Rightarrow> clock \<Rightarrow> int \<Rightarrow> clock option" where
  "get_next_notif_time es t_wished st creation_time interval =
     (if \<not> es_time_based es then None
      else if bad_escalation_status es st then None
      else let start = es_first_notification_time es * interval + creation_time
           in if start > t_wished then None
              else if (case es_escalation_period es of None \<Rightarrow> False | Some p \<Rightarrow> \<not> p_is_time_valid p start)
              then None
              else Some start)"

text \<open>An escalation of an untimed kind is eligible exactly on the notification numbers of its interval,
  where a last number of 0 leaves the interval open.\<close>

lemma is_eligible_numbers:
  "\<not> es_time_based es \<Longrightarrow> is_eligible es t st nb d interval \<longleftrightarrow>
     es_first_notification es \<le> nb \<and> (es_last_notification es = 0 \<or> nb \<le> es_last_notification es) \<and>
     \<not> bad_escalation_status es st \<and>
     (\<forall>p. es_escalation_period es = Some p \<longrightarrow> p_is_time_valid p t)"
  by (auto simp: is_eligible_def split: option.splits if_splits)

lemma get_next_notif_time_Some:
  "get_next_notif_time es t_wished st creation interval = Some s \<Longrightarrow>
     es_time_based es \<and> s = es_first_notification_time es * interval + creation \<and> s \<le> t_wished \<and>
     (\<forall>p. es_escalation_period es = Some p \<longrightarrow> p_is_time_valid p s)"
  by (auto simp: get_next_notif_time_def Let_def split: if_splits option.splits)

end
