(* ===== verification/Notifications.thy ===== *)
theory Notifications
  imports Contacts
begin

text \<open>
  Notifications of a host or service: when the item blocks them (\<^verbatim>\<open>notification_is_blocked_by_item\<close> of
  \<^verbatim>\<open>host.py\<close> and \<^verbatim>\<open>service.py\<close>), their creation, the search of the next notification time and the
  split into one notification per contact and command (\<^verbatim>\<open>schedulingitem.py\<close>, \<^verbatim>\<open>notification.py\<close>).

  The main results: a problem is never notified from a SOFT state, in a downtime, once acknowledged or
  while flapping; a notification that is created carries the right number and is due at a time the
  notification period allows; every contact that receives a notification wants it.
\<close>

subsection \<open>The state of an item, as the dependencies name it\<close>

definition host_is_state :: "item \<Rightarrow> string \<Rightarrow> bool" where
  "host_is_state it status =
     (if status = state_name (state it) then True
      else if status = ''o'' \<and> state it = UP then True
      else if status = ''d'' \<and> state it = DOWN then True
      else if status = ''u'' \<and> state it = UNREACHABLE then True
      else False)"

definition service_is_state :: "item \<Rightarrow> string \<Rightarrow> bool" where
  "service_is_state it status =
     (if status = state_name (state it) then True
      else if status = ''o'' \<and> state it = OK then True
      else if status = ''c'' \<and> state it = CRITICAL then True
      else if status = ''w'' \<and> state it = WARNING then True
      else if status = ''u'' \<and> state it = UNKNOWN then True
      else False)"

definition is_state :: "item \<Rightarrow> string \<Rightarrow> bool" where
  "is_state it status = (case my_type it of Host \<Rightarrow> host_is_state it status
     | Service \<Rightarrow> service_is_state it status)"

definition host_last_time_non_ok_or_up :: "item \<Rightarrow> clock" where
  "host_last_time_non_ok_or_up it =
     (if last_time_down it > last_time_up it then last_time_down it else 0)"

definition service_last_time_non_ok_or_up :: "item \<Rightarrow> clock" where
  "service_last_time_non_ok_or_up it =
     (case list_min (filter (\<lambda>x. x > last_time_ok it)
             [last_time_warning it, last_time_critical it, last_time_unknown it]) of
        None \<Rightarrow> 0 | Some m \<Rightarrow> m)"

definition last_time_non_ok_or_up :: "item \<Rightarrow> clock" where
  "last_time_non_ok_or_up it = (case my_type it of Host \<Rightarrow> host_last_time_non_ok_or_up it
     | Service \<Rightarrow> service_last_time_non_ok_or_up it)"

subsection \<open>When an item blocks a notification\<close>

definition problem_counts_as_acknowledged :: "world \<Rightarrow> item \<Rightarrow> iid \<Rightarrow> bool" where
  "problem_counts_as_acknowledged w it s =
     (let sp = items w s in
      if last_hard_state_id sp \<noteq> 0
      then (if problem_has_been_acknowledged sp then True
            else if business_rule_downtime_as_ack it
            then scheduled_downtime_depth sp > 0 \<or>
                 (my_type sp = Service \<and> scheduled_downtime_depth (items w (host sp)) > 0)
            else False)
      else False)"

definition business_rule_notification_is_blocked :: "world \<Rightarrow> item \<Rightarrow> bool" where
  "business_rule_notification_is_blocked w it =
     (length (filter (problem_counts_as_acknowledged w it) (source_problems it))
      = length (source_problems it))"

definition host_notification_is_blocked_by_item ::
  "clock \<Rightarrow> world \<Rightarrow> iid \<Rightarrow> notif_type \<Rightarrow> clock option \<Rightarrow> bool" where
  "host_notification_is_blocked_by_item now w i type t_wished =
     (let it = items w i; t = (case t_wished of None \<Rightarrow> now | Some t \<Rightarrow> t);
          opts = set (notification_options it)
      in if \<not> enable_notifications (cls w i) then True
         else if (case notification_period it of None \<Rightarrow> False | Some p \<Rightarrow> \<not> p_is_time_valid p t) then True
         else if \<not> notifications_enabled it then True
         else if ''n'' \<in> opts then True
         else if type \<in> {PROBLEM, RECOVERY} \<and> state it = DOWN \<and> ''d'' \<notin> opts then True
         else if type \<in> {PROBLEM, RECOVERY} \<and> state it = UP \<and> ''r'' \<notin> opts then True
         else if type \<in> {PROBLEM, RECOVERY} \<and> state it = UNREACHABLE \<and> ''u'' \<notin> opts then True
         else if type \<in> flapping_types \<and> ''f'' \<notin> opts then True
         else if type \<in> downtime_types \<and> ''s'' \<notin> opts then True
         else if type = ACKNOWLEDGEMENT \<and> state it = ok_up (my_type it) then True
         else if type \<in> flapping_types \<and> scheduled_downtime_depth it > 0 then True
         else if scheduled_downtime_depth it > 1 \<and> type \<notin> {DOWNTIMEEND, DOWNTIMECANCELLED} then True
         else if scheduled_downtime_depth it > 0 \<and> type \<in> {PROBLEM, RECOVERY} then True
         else if state_type it = SOFT \<and> type = PROBLEM then True
         else if problem_has_been_acknowledged it \<and> type \<noteq> ACKNOWLEDGEMENT then True
         else if is_flapping it \<and> type \<notin> flapping_types then True
         else if got_business_rule it \<and> business_rule_smart_notifications it \<and>
                 business_rule_notification_is_blocked w it \<and> type = PROBLEM then True
         else False)"

definition service_notification_is_blocked_by_item ::
  "clock \<Rightarrow> world \<Rightarrow> iid \<Rightarrow> notif_type \<Rightarrow> clock option \<Rightarrow> bool" where
  "service_notification_is_blocked_by_item now w i type t_wished =
     (let it = items w i; h = items w (host it); t = (case t_wished of None \<Rightarrow> now | Some t \<Rightarrow> t);
          opts = set (notification_options it)
      in if \<not> enable_notifications (cls w i) then True
         else if (case notification_period it of None \<Rightarrow> False | Some p \<Rightarrow> \<not> p_is_time_valid p t) then True
         else if \<not> notifications_enabled it then True
         else if ''n'' \<in> opts then True
         else if type \<in> {PROBLEM, RECOVERY} \<and> state it = UNKNOWN \<and> ''u'' \<notin> opts then True
         else if type \<in> {PROBLEM, RECOVERY} \<and> state it = WARNING \<and> ''w'' \<notin> opts then True
         else if type \<in> {PROBLEM, RECOVERY} \<and> state it = CRITICAL \<and> ''c'' \<notin> opts then True
         else if type \<in> {PROBLEM, RECOVERY} \<and> state it = OK \<and> ''r'' \<notin> opts then True
         else if type \<in> flapping_types \<and> ''f'' \<notin> opts then True
         else if type \<in> downtime_types \<and> ''s'' \<notin> opts then True
         else if type = ACKNOWLEDGEMENT \<and> state it = ok_up (my_type it) then True
         else if scheduled_downtime_depth it > 1 \<and> type \<notin> {DOWNTIMEEND, DOWNTIMECANCELLED} then True
         else if scheduled_downtime_depth h > 0 then True
         else if scheduled_downtime_depth it > 0 \<and> type \<in> {PROBLEM, RECOVERY} \<union> flapping_types then True
         else if state_type it = SOFT \<and> type = PROBLEM then True
         else if problem_has_been_acknowledged it \<and> type \<noteq> ACKNOWLEDGEMENT then True
         else if is_flapping it \<and> type \<notin> flapping_types then True
         else if state h \<noteq> ok_up (my_type h) then True
         else if got_business_rule it \<and> business_rule_smart_notifications it \<and>
                 business_rule_notification_is_blocked w it \<and> type = PROBLEM then True
         else False)"

definition notification_is_blocked_by_item ::
  "clock \<Rightarrow> world \<Rightarrow> iid \<Rightarrow> notif_type \<Rightarrow> clock option \<Rightarrow> bool" where
  "notification_is_blocked_by_item now w i type t_wished =
     (case my_type (items w i) of Host \<Rightarrow> host_notification_is_blocked_by_item now w i type t_wished
      | Service \<Rightarrow> service_notification_is_blocked_by_item now w i type t_wished)"

definition host_notification_is_blocked_by_contact :: "world \<Rightarrow> iid \<Rightarrow> nid \<Rightarrow> ctid \<Rightarrow> bool" where
  "host_notification_is_blocked_by_contact w i n ct =
     (let it = items w i; nf = notifs w n
      in \<not> want_host_notification w (contact_store w ct) (last_chk it) (state it) (n_type nf)
             (business_impact it) (n_command_call nf))"

definition service_notification_is_blocked_by_contact :: "world \<Rightarrow> iid \<Rightarrow> nid \<Rightarrow> ctid \<Rightarrow> bool" where
  "service_notification_is_blocked_by_contact w i n ct =
     (let it = items w i; nf = notifs w n
      in \<not> want_service_notification w (contact_store w ct) (last_chk it) (state it) (n_type nf)
             (business_impact it) (n_command_call nf))"

definition notification_is_blocked_by_contact :: "world \<Rightarrow> iid \<Rightarrow> nid \<Rightarrow> ctid \<Rightarrow> bool" where
  "notification_is_blocked_by_contact w i n ct =
     (case my_type (items w i) of Host \<Rightarrow> host_notification_is_blocked_by_contact w i n ct
      | Service \<Rightarrow> service_notification_is_blocked_by_contact w i n ct)"

subsection \<open>Notifications in progress\<close>

definition new_notification ::
  "notif_type \<Rightarrow> command_call option \<Rightarrow> iid \<Rightarrow> ctid option \<Rightarrow> clock option \<Rightarrow> bool \<Rightarrow> int \<Rightarrow> int
     \<Rightarrow> string \<Rightarrow> string \<Rightarrow> bool \<Rightarrow> clock \<Rightarrow> notification" where
  "new_notification type command_call ref contact t_to_go escalated timeout notif_nb
       reactionner_tag module_type env_macros now =
     \<lparr>n_type = type, n_status = Scheduled, n_command = Void, n_command_call = command_call,
      n_ref = ref, n_contact = contact, n_t_to_go = t_to_go, n_notif_nb = notif_nb,
      n_escalated = escalated, n_timeout = timeout, n_creation_time = now,
      n_already_start_escalations = [], n_reactionner_tag = reactionner_tag,
      n_module_type = module_type, n_environment_macros = env_macros, n_env = False,
      n_worker = ''none'', n_exit_status = 3, n_execution_time = 0, n_priority = 100\<rparr>"

definition alloc_notification :: "notification \<Rightarrow> world \<Rightarrow> nid \<times> world" where
  "alloc_notification nf w =
     (next_action_id w, w\<lparr>notifs := (notifs w)(next_action_id w := nf),
        next_action_id := Suc (next_action_id w)\<rparr>)"

definition n_is_launchable :: "notification \<Rightarrow> clock \<Rightarrow> bool option" where
  "n_is_launchable nf t = map_option (\<lambda>t_to_go. t \<ge> t_to_go) (n_t_to_go nf)"

definition is_administrative :: "notification \<Rightarrow> bool" where
  "is_administrative nf \<longleftrightarrow> n_type nf \<notin> {PROBLEM, RECOVERY}"

definition remove_in_progress_notification :: "nid \<Rightarrow> iid \<Rightarrow> world \<Rightarrow> world" where
  "remove_in_progress_notification n i w =
     (if n \<in> set (notifications_in_progress (items w i))
      then upd i (\<lambda>it. it\<lparr>notifications_in_progress := removeAll n (notifications_in_progress it)\<rparr>)
             (upd_notif n (\<lambda>nf. nf\<lparr>n_status := Zombie\<rparr>) w)
      else w)"

definition remove_in_progress_notifications :: "iid \<Rightarrow> world \<Rightarrow> world" where
  "remove_in_progress_notifications i w =
     fold (\<lambda>n w. remove_in_progress_notification n i w) (notifications_in_progress (items w i)) w"

subsection \<open>Creating a notification\<close>

definition first_wished_time :: "clock \<Rightarrow> world \<Rightarrow> iid \<Rightarrow> notif_type \<Rightarrow> clock" where
  "first_wished_time now w i type =
     (let it = items w i; delay = first_notification_delay it * interval_length (cls w i)
      in if current_notification_number it = 0 \<and> type = PROBLEM
         then (if last_time_non_ok_or_up it = 0 then now + delay
               else last_time_non_ok_or_up it + delay)
         else now)"

definition create_notifications ::
  "clock \<Rightarrow> notif_type \<Rightarrow> clock option \<Rightarrow> iid \<Rightarrow> world \<Rightarrow> world" where
  "create_notifications now type t_wished i w =
     (let it = items w i;
          (t_wished, t) = (case t_wished of
             None \<Rightarrow> (let tw = first_wished_time now w i type
                      in (tw, case notification_period it of None \<Rightarrow> Some now
                              | Some p \<Rightarrow> p_next_valid_time p tw))
           | Some tw \<Rightarrow> (tw, Some tw))
      in if notification_is_blocked_by_item now w i type (Some t_wished) \<and>
            first_notification_delay it = 0 \<and> notification_interval it = 0
         then w
         else let w = (if type = RECOVERY then upd i (\<lambda>it. it\<lparr>current_notification_number := 0\<rparr>) w else w);
                  next_notif_nb = (if type = PROBLEM then current_notification_number (items w i) + 1
                                   else current_notification_number (items w i));
                  (n, w) = alloc_notification (new_notification type None i None t False
                     (notification_timeout (cls w i)) next_notif_nb ''None'' ''fork'' False now) w;
                  w = upd i (\<lambda>it. it\<lparr>notifications_in_progress := set_add n (notifications_in_progress it)\<rparr>) w
              in add_action i (ANotification n) w)"

subsection \<open>Escalation of a notification\<close>

fun any_eligible :: "world \<Rightarrow> item \<Rightarrow> notification \<Rightarrow> int \<Rightarrow> int \<Rightarrow> escalation list \<Rightarrow> bool option" where
  "any_eligible w it nf in_notif_time interval [] = Some False"
| "any_eligible w it nf in_notif_time interval (es # ess) = do {
     t \<leftarrow> n_t_to_go nf;
     if is_eligible es t (state it) (n_notif_nb nf) in_notif_time interval then Some True
     else any_eligible w it nf in_notif_time interval ess
   }"

definition is_escalable :: "clock \<Rightarrow> world \<Rightarrow> iid \<Rightarrow> nid \<Rightarrow> bool option" where
  "is_escalable now w i n =
     any_eligible w (items w i) (notifs w n) (now - n_creation_time (notifs w n))
       (interval_length (cls w i)) (escalations (items w i))"

definition get_next_notification_time :: "clock \<Rightarrow> world \<Rightarrow> iid \<Rightarrow> nid \<Rightarrow> clock option" where
  "get_next_notification_time now w i n = do {
     let it = items w i; let nf = notifs w n; let len = interval_length (cls w i);
     t_to_go \<leftarrow> n_t_to_go nf;
     let in_notif_time = now - n_creation_time nf;
     let ni = fold (\<lambda>es ni. if is_eligible es t_to_go (state it) (n_notif_nb nf) in_notif_time len \<and>
                   es_notification_interval es \<noteq> -1 \<and> es_notification_interval es < ni
                 then es_notification_interval es else ni)
               (escalations it) (notification_interval it);
     let std_time = t_to_go + ni * len;
     let std_time = (if std_time < now then now + ni * len else std_time);
     Some (fold (\<lambda>es res.
              if escalation_name es \<notin> set (n_already_start_escalations nf)
              then (case get_next_notif_time es std_time (state it) (n_creation_time nf) len of
                      None \<Rightarrow> res
                    | Some r \<Rightarrow> if now < r \<and> r < res then r else res)
              else res)
            (escalations it) std_time)
   }"

fun escalable_contacts_loop ::
  "item \<Rightarrow> notification \<Rightarrow> int \<Rightarrow> int \<Rightarrow> escalation list \<Rightarrow> ctid list \<Rightarrow> string list
     \<Rightarrow> (ctid list \<times> string list) option" where
  "escalable_contacts_loop it nf in_notif_time interval [] cts started = Some (cts, started)"
| "escalable_contacts_loop it nf in_notif_time interval (es # ess) cts started = do {
     t \<leftarrow> n_t_to_go nf;
     if is_eligible es t (state it) (n_notif_nb nf) in_notif_time interval
     then escalable_contacts_loop it nf in_notif_time interval ess
            (fold set_add (es_contacts es) cts) (set_add (escalation_name es) started)
     else escalable_contacts_loop it nf in_notif_time interval ess cts started
   }"

definition get_escalable_contacts :: "clock \<Rightarrow> iid \<Rightarrow> nid \<Rightarrow> world \<Rightarrow> (ctid list \<times> world) option" where
  "get_escalable_contacts now i n w = do {
     (cts, started) \<leftarrow> escalable_contacts_loop (items w i) (notifs w n)
        (now - n_creation_time (notifs w n)) (interval_length (cls w i)) (escalations (items w i)) []
        (n_already_start_escalations (notifs w n));
     Some (cts, upd_notif n (\<lambda>nf. nf\<lparr>n_already_start_escalations := started\<rparr>) w)
   }"

subsection \<open>One notification per contact and command\<close>

definition get_data_for_checks :: "world \<Rightarrow> iid \<Rightarrow> macro_data list" where
  "get_data_for_checks w i =
     (case my_type (items w i) of Host \<Rightarrow> [DItem i] | Service \<Rightarrow> [DItem (host (items w i)), DItem i])"

definition get_data_for_event_handler :: "world \<Rightarrow> iid \<Rightarrow> macro_data list" where
  "get_data_for_event_handler w i =
     (case my_type (items w i) of Host \<Rightarrow> [DItem i] | Service \<Rightarrow> [DItem (host (items w i)), DItem i])"

definition get_data_for_notifications :: "world \<Rightarrow> iid \<Rightarrow> ctid option \<Rightarrow> nid \<Rightarrow> macro_data list" where
  "get_data_for_notifications w i ct n =
     (case my_type (items w i) of Host \<Rightarrow> [DItem i] | Service \<Rightarrow> [DItem (host (items w i)), DItem i])
     @ (case ct of None \<Rightarrow> [] | Some c \<Rightarrow> [DContact c]) @ [DNotification n]"

definition update_notification_command :: "nid \<Rightarrow> iid \<Rightarrow> world \<Rightarrow> world" where
  "update_notification_command n i w =
     (let nf = notifs w n; data = get_data_for_notifications w i (n_contact nf) n
      in upd_notif n (\<lambda>nf. nf\<lparr>n_command := (case n_command_call nf of None \<Rightarrow> Void | Some c \<Rightarrow> Resolved c data),
           n_env := (if enable_environment_macros (cls w i) \<or> n_environment_macros nf then True else n_env nf)\<rparr>) w)"

definition prepare_notification_for_sending :: "nid \<Rightarrow> iid \<Rightarrow> world \<Rightarrow> world" where
  "prepare_notification_for_sending n i w =
     (if n_status (notifs w n) = InPoller
      then let w = update_notification_command n i w;
               w = upd i (\<lambda>it. it\<lparr>notified_contacts :=
                     (case n_contact (notifs w n) of None \<Rightarrow> notified_contacts it
                      | Some c \<Rightarrow> set_add c (notified_contacts it))\<rparr>) w
           in raise_notification_log_entry n i w
      else w)"

definition scatter_command ::
  "clock \<Rightarrow> nid \<Rightarrow> bool \<Rightarrow> iid \<Rightarrow> ctid \<Rightarrow> command_call \<Rightarrow> nid list \<times> world \<Rightarrow> nid list \<times> world" where
  "scatter_command now n escalated i ct cmd acc =
     (let (childs, w) = acc; nf = notifs w n;
          (child, w) = alloc_notification (new_notification (n_type nf) (Some cmd) i (Some ct) (n_t_to_go nf)
             escalated (notification_timeout (cls w i)) (n_notif_nb nf) (cmd_reactionner_tag cmd)
             (cmd_module_type cmd) (cmd_environment_macros cmd) now) w
      in if notification_is_blocked_by_contact w i child ct then (childs, w)
         else let w = update_notification_command child i w;
                  w = raise_notification_log_entry child i w;
                  w = upd i (\<lambda>it. it\<lparr>notifications_in_progress :=
                        set_add child (notifications_in_progress it)\<rparr>) w;
                  w = (if n_type nf = PROBLEM
                       then upd i (\<lambda>it. it\<lparr>notified_contacts := set_add ct (notified_contacts it)\<rparr>) w else w)
              in (childs @ [child], w))"

definition scatter_contact ::
  "clock \<Rightarrow> nid \<Rightarrow> bool \<Rightarrow> iid \<Rightarrow> ctid \<Rightarrow> nid list \<times> world \<Rightarrow> nid list \<times> world" where
  "scatter_contact now n escalated i ct acc =
     (let (childs, w) = acc; it = items w i in
      if n_type (notifs w n) = PROBLEM \<and> notification_interval it = 0 \<and> ct \<in> set (notified_contacts it)
      then acc
      else fold (scatter_command now n escalated i ct)
             (get_notification_commands (my_type it) (contact_store w ct)) acc)"

definition scatter_notification :: "clock \<Rightarrow> nid \<Rightarrow> iid \<Rightarrow> world \<Rightarrow> (nid list \<times> world) option" where
  "scatter_notification now n i w =
     (let it = items w i; nf = notifs w n in
      if n_contact nf \<noteq> None then Some ([], w)
      else if n_type nf = RECOVERY
      then let cts = (if first_notification_delay it \<noteq> 0 \<and> notified_contacts it = [] then []
                      else notified_contacts it);
               w = upd i (\<lambda>it. it\<lparr>notified_contacts := []\<rparr>) w
           in Some (fold (scatter_contact now n False i) cts ([], w))
      else do {
        escalated \<leftarrow> is_escalable now w i n;
        (cts, w) \<leftarrow> (if escalated then get_escalable_contacts now i n w else Some (contacts it, w));
        Some (fold (scatter_contact now n escalated i) cts ([], w))
      })"

end
