(* ===== verification/Downtimes.thy ===== *)
theory Downtimes
  imports Notifications
begin

text \<open>
  Comments (\<^verbatim>\<open>shinken/comment.py\<close>), scheduled downtimes (\<^verbatim>\<open>shinken/downtime.py\<close>), acknowledgements
  (\<^verbatim>\<open>shinken/acknowledge.py\<close>) and the methods of \<^verbatim>\<open>shinken/objects/item.py\<close> and
  \<^verbatim>\<open>shinken/objects/schedulingitem.py\<close> that manage them on a host or service.

  A downtime may activate others when it starts (\<^verbatim>\<open>activate_me\<close>); \<^verbatim>\<open>enter\<close> and \<^verbatim>\<open>cancel\<close> follow that
  list recursively and carry a fuel. The text of the automatic comment of a downtime is not modelled.
\<close>

subsection \<open>Comments\<close>

definition new_comment ::
  "clock \<Rightarrow> iid \<Rightarrow> bool \<Rightarrow> string \<Rightarrow> string \<Rightarrow> int \<Rightarrow> int \<Rightarrow> int \<Rightarrow> bool \<Rightarrow> clock \<Rightarrow> world \<Rightarrow> nat \<times> world" where
  "new_comment now ref persistent author text comment_type entry_type source expires expire_time w =
     (next_comment_id w,
      w\<lparr>comment_store := (comment_store w)(next_comment_id w :=
          \<lparr>co_id = next_comment_id w, co_ref = ref, co_entry_time = now, co_persistent = persistent,
           co_author = author, co_comment = text, co_comment_type = comment_type,
           co_entry_type = entry_type, co_source = source, co_expires = expires,
           co_expire_time = expire_time, co_can_be_deleted = False\<rparr>),
        next_comment_id := Suc (next_comment_id w)\<rparr>)"

definition add_comment :: "nat \<Rightarrow> iid \<Rightarrow> world \<Rightarrow> world" where
  "add_comment c i = upd i (\<lambda>it. it\<lparr>comments := comments it @ [c]\<rparr>)"

text \<open>Both deletions mark every object that carries the identifier and remove the last of them.\<close>

fun last_matching :: "('a \<Rightarrow> bool) \<Rightarrow> 'a list \<Rightarrow> 'a option" where
  "last_matching P [] = None"
| "last_matching P (x # xs) =
     (case last_matching P xs of Some y \<Rightarrow> Some y | None \<Rightarrow> if P x then Some x else None)"

definition del_comment :: "nat \<Rightarrow> iid \<Rightarrow> world \<Rightarrow> world" where
  "del_comment comment_id i w =
     (let cs = comments (items w i);
          c_to_del = last_matching (\<lambda>c. co_id (comment_store w c) = comment_id) cs;
          w = fold (\<lambda>c w. if co_id (comment_store w c) = comment_id
                          then upd_comment c (\<lambda>co. co\<lparr>co_can_be_deleted := True\<rparr>) w else w) cs w
      in case c_to_del of None \<Rightarrow> w
         | Some c \<Rightarrow> upd i (\<lambda>it. it\<lparr>comments := remove1 c (comments it)\<rparr>) w)"

subsection \<open>Acknowledgements\<close>

definition new_acknowledge ::
  "bool \<Rightarrow> bool \<Rightarrow> string \<Rightarrow> string \<Rightarrow> clock \<Rightarrow> world \<Rightarrow> acknowledge \<times> world" where
  "new_acknowledge sticky notify author text end_time w =
     (\<lparr>ack_id = next_ack_id w, ack_sticky = sticky, ack_notify = notify, ack_end_time = end_time,
       ack_author = author, ack_comment = text\<rparr>,
      w\<lparr>next_ack_id := Suc (next_ack_id w)\<rparr>)"

definition acknowledge_problem ::
  "clock \<Rightarrow> int \<Rightarrow> bool \<Rightarrow> bool \<Rightarrow> string \<Rightarrow> string \<Rightarrow> clock \<Rightarrow> iid \<Rightarrow> world \<Rightarrow> world" where
  "acknowledge_problem now sticky notify persistent author text end_time i w =
     (if state (items w i) \<noteq> ok_up (my_type (items w i))
      then let w = (if notify then create_notifications now ACKNOWLEDGEMENT None i w else w);
               w = upd i (\<lambda>it. it\<lparr>problem_has_been_acknowledged := True\<rparr>) w;
               (a, w) = new_acknowledge (sticky = 2) notify author text end_time w;
               w = upd i (\<lambda>it. it\<lparr>acknowledgement := Some a\<rparr>) w;
               comment_type = (case my_type (items w i) of Host \<Rightarrow> 1 | Service \<Rightarrow> 2);
               (c, w) = new_comment now i persistent author text comment_type 4 0 False 0 w;
               w = add_comment c i w
           in emit_brok i w
      else w)"

text \<open>\<^verbatim>\<open>for c in self.comments: ... self.del_comment(c.id)\<close>: the loop walks over the list it is removing
  from, so the element after a removed one is skipped.\<close>

lemma del_comment_length:
  "length (comments (items (del_comment k i w) i)) \<le> length (comments (items w i))"
proof -
  have "comments (items (fold (\<lambda>c w. if co_id (comment_store w c) = k
            then upd_comment c (\<lambda>co. co\<lparr>co_can_be_deleted := True\<rparr>) w else w) cs w) i) = comments (items w i)"
    for cs w by (induction cs arbitrary: w) auto
  then show ?thesis
    by (auto simp: del_comment_def Let_def length_remove1 split: option.splits)
qed

function ack_comments_loop :: "nat \<Rightarrow> iid \<Rightarrow> world \<Rightarrow> world" where
  "ack_comments_loop k i w =
     (if k < length (comments (items w i))
      then let c = comment_store w (comments (items w i) ! k)
           in ack_comments_loop (Suc k) i
                (if co_entry_type c = 4 \<and> \<not> co_persistent c then del_comment (co_id c) i w else w)
      else w)"
  by pat_completeness auto
termination
proof (relation "measure (\<lambda>(k, i, w). length (comments (items w i)) - k)", goal_cases)
  case (2 k i w x)
  then show ?case using del_comment_length[of "co_id x" i w] by auto
qed simp

declare ack_comments_loop.simps [simp del]

definition unacknowledge_problem :: "iid \<Rightarrow> world \<Rightarrow> world" where
  "unacknowledge_problem i w =
     (if problem_has_been_acknowledged (items w i)
      then emit_brok i (ack_comments_loop 0 i
             (upd i (\<lambda>it. it\<lparr>problem_has_been_acknowledged := False, acknowledgement := None\<rparr>) w))
      else w)"

definition check_for_expire_acknowledge :: "clock \<Rightarrow> iid \<Rightarrow> world \<Rightarrow> world" where
  "check_for_expire_acknowledge now i w =
     (case acknowledgement (items w i) of
        None \<Rightarrow> w
      | Some a \<Rightarrow> if ack_end_time a \<noteq> 0 \<and> ack_end_time a < now then unacknowledge_problem i w else w)"

definition unacknowledge_problem_if_not_sticky :: "iid \<Rightarrow> world \<Rightarrow> world" where
  "unacknowledge_problem_if_not_sticky i w =
     (case acknowledgement (items w i) of
        None \<Rightarrow> w
      | Some a \<Rightarrow> if \<not> ack_sticky a then unacknowledge_problem i w else w)"

subsection \<open>Downtimes\<close>

definition add_downtime :: "nat \<Rightarrow> iid \<Rightarrow> world \<Rightarrow> world" where
  "add_downtime d i = upd i (\<lambda>it. it\<lparr>downtimes := downtimes it @ [d]\<rparr>)"

definition del_downtime :: "int \<Rightarrow> iid \<Rightarrow> world \<Rightarrow> world" where
  "del_downtime downtime_id i w =
     (let ds = downtimes (items w i);
          d_to_del = last_matching (\<lambda>d. dt_id (downtime_store w d) = downtime_id) ds;
          w = fold (\<lambda>d w. if dt_id (downtime_store w d) = downtime_id
                          then upd_downtime d (\<lambda>dt. dt\<lparr>dt_can_be_deleted := True\<rparr>) w else w) ds w
      in case d_to_del of None \<Rightarrow> w
         | Some d \<Rightarrow> upd i (\<lambda>it. it\<lparr>downtimes := remove1 d (downtimes it)\<rparr>) w)"

definition add_automatic_comment :: "clock \<Rightarrow> nat \<Rightarrow> world \<Rightarrow> world" where
  "add_automatic_comment now d w =
     (let i = dt_ref (downtime_store w d);
          comment_type = (case my_type (items w i) of Host \<Rightarrow> 1 | Service \<Rightarrow> 2);
          (c, w) = new_comment now i False ''(Nagios Process)'' [] comment_type 2 0 False 0 w;
          w = upd_downtime d (\<lambda>dt. dt\<lparr>dt_extra_comment := Some c\<rparr>) w
      in add_comment c i w)"

definition del_automatic_comment :: "nat \<Rightarrow> world \<Rightarrow> world" where
  "del_automatic_comment d w =
     (case dt_extra_comment (downtime_store w d) of None \<Rightarrow> w
      | Some c \<Rightarrow> upd_comment c (\<lambda>co. co\<lparr>co_can_be_deleted := True\<rparr>) w)"

text \<open>\<^verbatim>\<open>Downtime(ref, ...)\<close>: the identifier is taken from the clock in microseconds and is an argument.\<close>

definition new_downtime ::
  "clock \<Rightarrow> int \<Rightarrow> iid \<Rightarrow> clock \<Rightarrow> clock \<Rightarrow> bool \<Rightarrow> int \<Rightarrow> int \<Rightarrow> string \<Rightarrow> string \<Rightarrow> world \<Rightarrow> nat \<times> world" where
  "new_downtime now ident ref start_time end_time fixed trigger_id duration author text w =
     (let d = next_downtime w;
          w = w\<lparr>downtime_store := (downtime_store w)(d :=
                \<lparr>dt_id = ident, dt_ref = ref, dt_activate_me = [], dt_entry_time = now,
                 dt_fixed = (if trigger_id \<noteq> 0 then False else fixed), dt_start_time = start_time,
                 dt_duration = (if fixed then end_time - start_time else duration),
                 dt_trigger_id = trigger_id, dt_end_time = end_time, dt_real_end_time = end_time,
                 dt_author = author, dt_comment = text, dt_is_in_effect = False,
                 dt_has_been_triggered = False, dt_can_be_deleted = False, dt_extra_comment = None\<rparr>),
                next_downtime := Suc d\<rparr>
      in (d, add_automatic_comment now d w))"

definition trigger_me :: "nat \<Rightarrow> nat \<Rightarrow> world \<Rightarrow> world" where
  "trigger_me d other = upd_downtime d (\<lambda>dt. dt\<lparr>dt_activate_me := dt_activate_me dt @ [other]\<rparr>)"

definition dt_in_scheduled_downtime :: "downtime \<Rightarrow> bool" where
  "dt_in_scheduled_downtime dt = dt_is_in_effect dt"

text \<open>What \<^verbatim>\<open>enter\<close> does before it activates the triggered downtimes.\<close>

definition enter_one :: "clock \<Rightarrow> nat \<Rightarrow> world \<Rightarrow> world" where
  "enter_one now d w =
     (let w = upd_downtime d (\<lambda>dt. dt\<lparr>dt_is_in_effect := True,
                dt_real_end_time := (if \<not> dt_fixed dt then now + dt_duration dt else dt_real_end_time dt)\<rparr>) w;
          i = dt_ref (downtime_store w d);
          w = (if scheduled_downtime_depth (items w i) = 0
               then create_notifications now DOWNTIMESTART None i (raise_enter_downtime_log_entry i w)
               else w)
      in upd i (\<lambda>it. it\<lparr>scheduled_downtime_depth := scheduled_downtime_depth it + 1,
                        in_scheduled_downtime := True\<rparr>) w)"

fun dt_enter :: "nat \<Rightarrow> clock \<Rightarrow> nat \<Rightarrow> world \<Rightarrow> world option"
and dt_enter_all :: "nat \<Rightarrow> clock \<Rightarrow> nat list \<Rightarrow> world \<Rightarrow> world option"
where
  "dt_enter 0 now d w = None"
| "dt_enter (Suc fuel) now d w =
     (let w = enter_one now d w in dt_enter_all fuel now (dt_activate_me (downtime_store w d)) w)"
| "dt_enter_all fuel now [] w = Some w"
| "dt_enter_all fuel now (d # ds) w = do { w \<leftarrow> dt_enter fuel now d w; dt_enter_all fuel now ds w }"

definition dt_exit :: "clock \<Rightarrow> nat \<Rightarrow> world \<Rightarrow> world" where
  "dt_exit now d w =
     (let i = dt_ref (downtime_store w d);
          w = (if dt_is_in_effect (downtime_store w d)
               then let w = upd_downtime d (\<lambda>dt. dt\<lparr>dt_is_in_effect := False\<rparr>) w;
                        w = upd i (\<lambda>it. it\<lparr>scheduled_downtime_depth := scheduled_downtime_depth it - 1\<rparr>) w
                    in if scheduled_downtime_depth (items w i) \<le> 0
                       then upd i (\<lambda>it. it\<lparr>in_scheduled_downtime := False\<rparr>)
                              (create_notifications now DOWNTIMEEND None i (raise_exit_downtime_log_entry i w))
                       else w
               else w);
          w = del_automatic_comment d w;
          w = upd_downtime d (\<lambda>dt. dt\<lparr>dt_can_be_deleted := True\<rparr>) w
      in upd i (\<lambda>it. it\<lparr>in_scheduled_downtime_during_last_check := True\<rparr>) w)"

definition cancel_one :: "clock \<Rightarrow> nat \<Rightarrow> world \<Rightarrow> world" where
  "cancel_one now d w =
     (let i = dt_ref (downtime_store w d);
          w = upd_downtime d (\<lambda>dt. dt\<lparr>dt_is_in_effect := False\<rparr>) w;
          w = upd i (\<lambda>it. it\<lparr>scheduled_downtime_depth := scheduled_downtime_depth it - 1\<rparr>) w;
          w = (if scheduled_downtime_depth (items w i) = 0
               then upd i (\<lambda>it. it\<lparr>in_scheduled_downtime := False\<rparr>) (raise_cancel_downtime_log_entry i w)
               else w);
          w = del_automatic_comment d w;
          w = upd_downtime d (\<lambda>dt. dt\<lparr>dt_can_be_deleted := True\<rparr>) w;
          w = upd i (\<lambda>it. it\<lparr>in_scheduled_downtime_during_last_check := True\<rparr>) w
      in create_notifications now DOWNTIMECANCELLED None i w)"

fun dt_cancel :: "nat \<Rightarrow> clock \<Rightarrow> nat \<Rightarrow> world \<Rightarrow> world option"
and dt_cancel_all :: "nat \<Rightarrow> clock \<Rightarrow> nat list \<Rightarrow> world \<Rightarrow> world option"
where
  "dt_cancel 0 now d w = None"
| "dt_cancel (Suc fuel) now d w =
     (let w = cancel_one now d w in dt_cancel_all fuel now (dt_activate_me (downtime_store w d)) w)"
| "dt_cancel_all fuel now [] w = Some w"
| "dt_cancel_all fuel now (d # ds) w = do { w \<leftarrow> dt_cancel fuel now d w; dt_cancel_all fuel now ds w }"

subsection \<open>Downtimes and the state of the item\<close>

definition reprocess_ack_and_downtimes_state :: "iid \<Rightarrow> world \<Rightarrow> world" where
  "reprocess_ack_and_downtimes_state i w =
     (let depth = int (length (filter (\<lambda>d. dt_in_scheduled_downtime (downtime_store w d)) (downtimes (items w i))))
      in upd i (\<lambda>it. it\<lparr>scheduled_downtime_depth := depth, in_scheduled_downtime := (depth > 0),
                        problem_has_been_acknowledged := (acknowledgement it \<noteq> None)\<rparr>) w)"

text \<open>\<^verbatim>\<open>enter\<close> returns a list, never \<^verbatim>\<open>None\<close>, and that list is what is put in the action queue.\<close>

fun flexible_downtimes :: "nat \<Rightarrow> clock \<Rightarrow> iid \<Rightarrow> nat list \<Rightarrow> bool \<Rightarrow> world \<Rightarrow> (bool \<times> world) option" where
  "flexible_downtimes fuel now i [] updated w = Some (updated, w)"
| "flexible_downtimes fuel now i (d # ds) updated w =
     (let dt = downtime_store w d in
      if \<not> dt_fixed dt \<and> \<not> dt_is_in_effect dt \<and> dt_start_time dt \<le> last_chk (items w i) \<and>
         state_id (items w i) \<noteq> 0 \<and> dt_trigger_id dt = 0
      then do {
        w \<leftarrow> dt_enter fuel now d w;
        flexible_downtimes fuel now i ds True (add_action i AResultList w)
      }
      else flexible_downtimes fuel now i ds updated w)"

definition check_for_flexible_downtime :: "nat \<Rightarrow> clock \<Rightarrow> iid \<Rightarrow> world \<Rightarrow> world option" where
  "check_for_flexible_downtime fuel now i w = do {
     (status_updated, w) \<leftarrow> flexible_downtimes fuel now i (downtimes (items w i)) False w;
     Some (if status_updated then emit_brok i w else w)
   }"

end
