(* ===== verification/Problems.thy ===== *)
theory Problems
  imports Downtimes
begin

text \<open>
  The problem and impact correlation of \<^verbatim>\<open>shinken/objects/schedulingitem.py\<close>: an item in a HARD problem
  registers itself as a source problem of every item that depends on it, recursively, and takes the
  registration back when it recovers; the states of the impacts follow
  (\<^verbatim>\<open>set_impact_state\<close> and \<^verbatim>\<open>unset_impact_state\<close> of \<^verbatim>\<open>host.py\<close> and \<^verbatim>\<open>service.py\<close>). Also the
  decisions on dependencies: \<^verbatim>\<open>is_no_action_dependent\<close>, \<^verbatim>\<open>check_and_set_unreachability\<close>,
  \<^verbatim>\<open>do_i_raise_dependency\<close> and \<^verbatim>\<open>is_no_check_dependent\<close>.

  \<^verbatim>\<open>register_a_problem\<close> and \<^verbatim>\<open>do_i_raise_dependency\<close> follow dependencies and carry a fuel.
  \<^verbatim>\<open>list.remove\<close> raises when the element is absent: \<^verbatim>\<open>deregister_a_problem\<close> is then \<^verbatim>\<open>None\<close>.
\<close>

definition dep_time_ok :: "clock \<Rightarrow> dependency \<Rightarrow> bool" where
  "dep_time_ok now d = (case dep_period d of None \<Rightarrow> True | Some p \<Rightarrow> p_is_time_valid p now)"

subsection \<open>The state of an impact\<close>

definition host_set_unreachable :: "clock \<Rightarrow> iid \<Rightarrow> world \<Rightarrow> world" where
  "host_set_unreachable now i =
     upd i (\<lambda>it. it\<lparr>state_id := 2, state := UNREACHABLE, last_time_unreachable := now\<rparr>)"

definition service_set_unreachable :: "clock \<Rightarrow> iid \<Rightarrow> world \<Rightarrow> world" where
  "service_set_unreachable now i w = w"

definition set_unreachable :: "clock \<Rightarrow> iid \<Rightarrow> world \<Rightarrow> world" where
  "set_unreachable now i w = (case my_type (items w i) of Host \<Rightarrow> host_set_unreachable now i w
     | Service \<Rightarrow> service_set_unreachable now i w)"

definition host_set_impact_state :: "iid \<Rightarrow> world \<Rightarrow> world" where
  "host_set_impact_state i w =
     (if enable_problem_impacts_states_change (cls w i)
      then upd i (\<lambda>it. it\<lparr>state_before_impact := state it, state_id_before_impact := state_id it,
             state_changed_since_impact := False, state := UNREACHABLE, state_id := 2\<rparr>) w
      else w)"

definition service_set_impact_state :: "iid \<Rightarrow> world \<Rightarrow> world" where
  "service_set_impact_state i w =
     (if enable_problem_impacts_states_change (cls w i)
      then upd i (\<lambda>it. it\<lparr>state_before_impact := state it, state_id_before_impact := state_id it,
             state_changed_since_impact := False, state := UNKNOWN, state_id := 3\<rparr>) w
      else w)"

definition set_impact_state :: "iid \<Rightarrow> world \<Rightarrow> world" where
  "set_impact_state i w = (case my_type (items w i) of Host \<Rightarrow> host_set_impact_state i w
     | Service \<Rightarrow> service_set_impact_state i w)"

definition host_unset_impact_state :: "iid \<Rightarrow> world \<Rightarrow> world" where
  "host_unset_impact_state i w =
     (if enable_problem_impacts_states_change (cls w i) \<and> \<not> state_changed_since_impact (items w i)
      then upd i (\<lambda>it. it\<lparr>state := state_before_impact it, state_id := state_id_before_impact it\<rparr>) w
      else w)"

definition service_unset_impact_state :: "iid \<Rightarrow> world \<Rightarrow> world" where
  "service_unset_impact_state i w =
     (if enable_problem_impacts_states_change (cls w i) \<and> \<not> state_changed_since_impact (items w i)
      then upd i (\<lambda>it. it\<lparr>state := state_before_impact it, state_id := state_id_before_impact it\<rparr>) w
      else w)"

definition unset_impact_state :: "iid \<Rightarrow> world \<Rightarrow> world" where
  "unset_impact_state i w = (case my_type (items w i) of Host \<Rightarrow> host_unset_impact_state i w
     | Service \<Rightarrow> service_unset_impact_state i w)"

subsection \<open>Problems and impacts\<close>

fun first_modulation :: "clock \<Rightarrow> businessimpactmodulation list \<Rightarrow> int option" where
  "first_modulation now [] = None"
| "first_modulation now (cm # cms) =
     (if (case cm_modulation_period cm of None \<Rightarrow> True | Some p \<Rightarrow> p_is_time_valid p now)
      then Some (cm_business_impact cm) else first_modulation now cms)"

definition update_business_impact_value :: "clock \<Rightarrow> iid \<Rightarrow> world \<Rightarrow> world" where
  "update_business_impact_value now i w =
     (let w = (if my_own_business_impact (items w i) = -1
               then upd i (\<lambda>it. it\<lparr>my_own_business_impact := business_impact it\<rparr>) w else w);
          modulation = first_modulation now (business_impact_modulations (items w i));
          w = (case modulation of None \<Rightarrow> w | Some b \<Rightarrow> upd i (\<lambda>it. it\<lparr>business_impact := b\<rparr>) w);
          it = items w i
      in if impacts it \<noteq> []
         then upd i (\<lambda>it. it\<lparr>business_impact := max (business_impact it)
                (Max (set (map (\<lambda>e. business_impact (items w e)) (impacts it))))\<rparr>) w
         else if my_own_business_impact it \<noteq> -1 \<and> modulation = None
         then upd i (\<lambda>it. it\<lparr>business_impact := my_own_business_impact it\<rparr>) w
         else w)"

definition deregister_a_problem :: "iid \<Rightarrow> iid \<Rightarrow> world \<Rightarrow> world option" where
  "deregister_a_problem pb i w =
     (if pb \<in> set (source_problems (items w i))
      then let w = upd i (\<lambda>it. it\<lparr>source_problems := remove1 pb (source_problems it)\<rparr>) w;
               w = (if source_problems (items w i) = []
                    then unset_impact_state i (upd i (\<lambda>it. it\<lparr>is_impact := False\<rparr>) w) else w)
           in Some (emit_brok i w)
      else None)"

fun deregister_all :: "iid \<Rightarrow> iid list \<Rightarrow> world \<Rightarrow> world option" where
  "deregister_all pb [] w = Some w"
| "deregister_all pb (i # is) w = do { w \<leftarrow> deregister_a_problem pb i w; deregister_all pb is w }"

definition no_more_a_problem :: "clock \<Rightarrow> bool \<Rightarrow> iid \<Rightarrow> world \<Rightarrow> world option" where
  "no_more_a_problem now send_brok i w = do {
     let was_pb = is_problem (items w i);
     w \<leftarrow> (if was_pb
           then do {
             let w = upd i (\<lambda>it. it\<lparr>is_problem := False\<rparr>) w;
             w \<leftarrow> deregister_all i (impacts (items w i)) w;
             Some (upd i (\<lambda>it. it\<lparr>impacts := []\<rparr>) w)
           }
           else Some w);
     let w = update_business_impact_value now i w;
     Some (if send_brok \<and> was_pb then emit_brok i w else w)
   }"

text \<open>What \<^verbatim>\<open>register_a_problem\<close> does to the item itself, before it goes on to the items that depend
  on it.\<close>

definition become_impact :: "clock \<Rightarrow> iid \<Rightarrow> iid \<Rightarrow> world \<Rightarrow> world option" where
  "become_impact now pb i w = do {
     let was_an_impact = is_impact (items w i);
     let w = upd i (\<lambda>it. it\<lparr>is_impact := True\<rparr>) w;
     w \<leftarrow> (if is_problem (items w i) then no_more_a_problem now True i w else Some w);
     let w = (if \<not> was_an_impact then set_impact_state i w else w);
     Some (if pb \<notin> set (source_problems (items w i))
           then upd i (\<lambda>it. it\<lparr>source_problems := source_problems it @ [pb]\<rparr>) w else w)
   }"

fun register_a_problem ::
  "nat \<Rightarrow> clock \<Rightarrow> iid \<Rightarrow> bool \<Rightarrow> iid \<Rightarrow> world \<Rightarrow> (iid list \<times> world) option"
and register_deps ::
  "nat \<Rightarrow> clock \<Rightarrow> iid \<Rightarrow> bool \<Rightarrow> iid \<Rightarrow> (dependency \<times> string) list \<Rightarrow> iid list \<Rightarrow> world
     \<Rightarrow> (iid list \<times> world) option"
where
  "register_a_problem 0 now pb send_brok i w = None"
| "register_a_problem (Suc fuel) now pb send_brok i w =
     (if pb \<in> set (source_problems (items w i)) then Some ([], w)
      else do {
        w \<leftarrow> become_impact now pb i w;
        (imps, w) \<leftarrow> register_deps fuel now pb True i
           [(d, s). d \<leftarrow> act_depend_of_me (items w i), s \<leftarrow> dep_status d] [i] w;
        Some (imps, if send_brok then emit_brok i w else w)
      })"
| "register_deps fuel now pb send_brok i [] imps w = Some (imps, w)"
| "register_deps fuel now pb send_brok i (ds # rest) imps w =
     (if is_state (items w i) (snd ds) \<and> dep_time_ok now (fst ds)
      then do {
        (new_impacts, w) \<leftarrow> register_a_problem fuel now pb send_brok (dep_item (fst ds)) w;
        register_deps fuel now pb send_brok i rest (imps @ new_impacts) w
      }
      else register_deps fuel now pb send_brok i rest imps w)"

definition set_myself_as_problem :: "nat \<Rightarrow> clock \<Rightarrow> bool \<Rightarrow> iid \<Rightarrow> world \<Rightarrow> world option" where
  "set_myself_as_problem fuel now send_brok i w = do {
     let was_problem = is_problem (items w i);
     let w = (if \<not> was_problem then upd i (\<lambda>it. it\<lparr>is_problem := True\<rparr>) w else w);
     (imps, w) \<leftarrow> register_deps fuel now i send_brok i
        [(d, s). d \<leftarrow> act_depend_of_me (items w i), s \<leftarrow> dep_status d] (impacts (items w i)) w;
     let changed = (set imps \<noteq> set (impacts (items w i)));
     let w = (if changed
              then update_business_impact_value now i (upd i (\<lambda>it. it\<lparr>impacts := remdups imps\<rparr>) w) else w);
     Some (if send_brok \<and> (\<not> was_problem \<or> changed) then emit_brok i w else w)
   }"

subsection \<open>Decisions on the dependencies\<close>

definition dep_raised :: "world \<Rightarrow> dependency \<Rightarrow> bool" where
  "dep_raised w d = list_ex (is_state (items w (dep_item d))) (dep_status d)"

fun no_action_scan :: "world \<Rightarrow> dependency list \<Rightarrow> bool list \<Rightarrow> bool list option" where
  "no_action_scan w [] parent_is_down = Some parent_is_down"
| "no_action_scan w (d # ds) parent_is_down =
     (if dep_kind d = Logic_dep
      then (if dep_raised w d then None else no_action_scan w ds parent_is_down)
      else no_action_scan w ds (parent_is_down @ [dep_raised w d]))"

definition is_no_action_dependent :: "world \<Rightarrow> iid \<Rightarrow> bool" where
  "is_no_action_dependent w i =
     (case no_action_scan w (act_depend_of (items w i)) [] of
        None \<Rightarrow> True
      | Some parent_is_down \<Rightarrow>
          if False \<in> set parent_is_down then False
          else \<not> ''u'' \<in> set (notification_options (items w i)))"

definition check_and_set_unreachability :: "clock \<Rightarrow> iid \<Rightarrow> world \<Rightarrow> world" where
  "check_and_set_unreachability now i w =
     (let parent_is_down = map (dep_raised w)
            (filter (\<lambda>d. dep_kind d = Network_dep) (act_depend_of (items w i)))
      in if length parent_is_down = 0 \<or> False \<in> set parent_is_down then w else set_unreachable now i w)"

fun do_i_raise_dependency :: "nat \<Rightarrow> clock \<Rightarrow> world \<Rightarrow> iid \<Rightarrow> string list \<Rightarrow> bool \<Rightarrow> bool option"
and raise_deps :: "nat \<Rightarrow> clock \<Rightarrow> world \<Rightarrow> dependency list \<Rightarrow> bool option"
where
  "do_i_raise_dependency 0 now w i status inherit_parents = None"
| "do_i_raise_dependency (Suc fuel) now w i status inherit_parents =
     (if list_ex (is_state (items w i)) status then Some True
      else if \<not> inherit_parents then Some False
      else raise_deps fuel now w (chk_depend_of (items w i)))"
| "raise_deps fuel now w [] = Some False"
| "raise_deps fuel now w (d # ds) = do {
     raised \<leftarrow> do_i_raise_dependency fuel now w (dep_item d) (dep_status d) (dep_inherits_parent d);
     if raised \<and> dep_time_ok now d then Some True else raise_deps fuel now w ds
   }"

fun no_check_scan :: "nat \<Rightarrow> clock \<Rightarrow> world \<Rightarrow> dependency list \<Rightarrow> bool option" where
  "no_check_scan fuel now w [] = Some False"
| "no_check_scan fuel now w (d # ds) =
     (if dep_time_ok now d
      then do {
        raised \<leftarrow> do_i_raise_dependency fuel now w (dep_item d) (dep_status d) (dep_inherits_parent d);
        if raised then Some True else no_check_scan fuel now w ds
      }
      else no_check_scan fuel now w ds)"

definition is_no_check_dependent :: "nat \<Rightarrow> clock \<Rightarrow> world \<Rightarrow> iid \<Rightarrow> bool option" where
  "is_no_check_dependent fuel now w i = no_check_scan fuel now w (chk_depend_of (items w i))"

definition reprocess_problem_impact_state :: "nat \<Rightarrow> clock \<Rightarrow> iid \<Rightarrow> world \<Rightarrow> world option" where
  "reprocess_problem_impact_state fuel now i w = do {
     let no_action = is_no_action_dependent w i;
     w \<leftarrow> (if \<not> no_action \<and> state_id (items w i) \<noteq> 0 \<and> state_type (items w i) = HARD
           then set_myself_as_problem fuel now False i w else Some w);
     Some (check_and_set_unreachability now i w)
   }"

definition reprocess_state :: "nat \<Rightarrow> clock \<Rightarrow> iid \<Rightarrow> world \<Rightarrow> world option" where
  "reprocess_state fuel now i w =
     (let w = reprocess_ack_and_downtimes_state i w
      in if enable_problem_impacts_states_change (cls w i) \<and>
            enable_problem_impacts_states_reprocessing (cls w i)
         then reprocess_problem_impact_state fuel now i w
         else Some w)"

end
