(* ===== verification/Checks.thy ===== *)
theory Checks
  imports Problems
begin

text \<open>
  Checks and their scheduling: \<^verbatim>\<open>shinken/check.py\<close>, and the methods of
  \<^verbatim>\<open>shinken/objects/schedulingitem.py\<close> that decide when the next check runs
  (\<^verbatim>\<open>get_next_check_time\<close>), create it (\<^verbatim>\<open>launch_check\<close>), keep track of the checks in progress and
  start event handlers, snapshots, performance data and obsessive commands.

  \<^verbatim>\<open>random.uniform(0.0, 1.0)\<close> is an argument \<^verbatim>\<open>u\<close>, one value per call. Python's \<^verbatim>\<open>TypeError\<close> on a
  comparison with \<^verbatim>\<open>None\<close> and a division by zero are the outer value \<^verbatim>\<open>None\<close>.
\<close>

subsection \<open>Checks\<close>

definition starts_with :: "string \<Rightarrow> string \<Rightarrow> bool" where
  "starts_with s pre = (take (length pre) s = pre)"

definition resolved_starts_with :: "resolved \<Rightarrow> string \<Rightarrow> bool" where
  "resolved_starts_with r pre = (case r of Void \<Rightarrow> False | Resolved c data \<Rightarrow> starts_with (cmd_line c) pre)"

definition new_check ::
  "resolved \<Rightarrow> bool \<Rightarrow> iid \<Rightarrow> clock \<Rightarrow> cid option \<Rightarrow> int \<Rightarrow> string \<Rightarrow> bool \<Rightarrow> string \<Rightarrow> bool \<Rightarrow> check_variant \<Rightarrow> int \<Rightarrow> check"
where
  "new_check command ref_got_business_rule ref t_to_go dep_check timeout poller_tag env module_type
      dependency_check check_variant priority =
     \<lparr>c_status = Scheduled, c_exit_status = 3, c_command = command, c_output = [], c_long_output = [],
      c_ref = ref, c_t_to_go = t_to_go, c_depend_on = [],
      c_depend_on_me = (case dep_check of None \<Rightarrow> [] | Some c \<Rightarrow> [c]),
      c_check_time = 0, c_execution_time = 0, c_u_time = 0, c_s_time = 0, c_perf_data = [],
      c_check_type = 0, c_in_timeout = False, c_timeout = timeout, c_poller_tag = poller_tag,
      c_module_type = module_type, c_env = env,
      c_internal = (ref_got_business_rule \<or> resolved_starts_with command ''_internal''),
      c_from_trigger = False, c_dependency_check = dependency_check, c_check_variant = check_variant,
      c_priority = priority, c_worker = ''none''\<rparr>"

definition alloc_check :: "check \<Rightarrow> world \<Rightarrow> cid \<times> world" where
  "alloc_check ck w =
     (next_action_id w, w\<lparr>checks := (checks w)(next_action_id w := ck),
        next_action_id := Suc (next_action_id w)\<rparr>)"

definition c_get_return_from :: "check \<Rightarrow> check \<Rightarrow> check" where
  "c_get_return_from c self =
     self\<lparr>c_exit_status := c_exit_status c, c_output := c_output c, c_long_output := c_long_output c,
       c_check_time := c_check_time c, c_execution_time := c_execution_time c,
       c_perf_data := c_perf_data c, c_u_time := c_u_time c, c_s_time := c_s_time c,
       c_in_timeout := (c_status c = Timeout)\<rparr>"

definition c_is_launchable :: "check \<Rightarrow> clock \<Rightarrow> bool" where
  "c_is_launchable ck t \<longleftrightarrow> t > c_t_to_go ck"

definition c_set_type_active :: "check \<Rightarrow> check" where
  "c_set_type_active ck = ck\<lparr>c_check_type := 0\<rparr>"

definition c_set_type_passive :: "check \<Rightarrow> check" where
  "c_set_type_passive ck = ck\<lparr>c_check_type := 1\<rparr>"

subsection \<open>Checks in progress\<close>

definition remove_in_progress_check :: "cid \<Rightarrow> iid \<Rightarrow> world \<Rightarrow> world" where
  "remove_in_progress_check c i w =
     (if c \<in> set (checks_in_progress (items w i))
      then upd i (\<lambda>it. it\<lparr>checks_in_progress := remove1 c (checks_in_progress it)\<rparr>) w else w)"

definition get_checks_in_progress :: "world \<Rightarrow> iid \<Rightarrow> check_variant \<Rightarrow> cid list" where
  "get_checks_in_progress w i v =
     filter (\<lambda>c. c_check_variant (checks w c) = v) (checks_in_progress (items w i))"

definition is_in_checking :: "world \<Rightarrow> iid \<Rightarrow> check_variant \<Rightarrow> bool" where
  "is_in_checking w i v = (length (get_checks_in_progress w i v) \<noteq> 0)"

definition disable_active_checks :: "clock \<Rightarrow> iid \<Rightarrow> world \<Rightarrow> world" where
  "disable_active_checks now i w =
     (let w = upd i (\<lambda>it. it\<lparr>active_checks_enabled := False\<rparr>) w; it = items w i
      in fold (\<lambda>c w. upd_check c (\<lambda>ck. ck\<lparr>c_status := WaitConsume, c_exit_status := state_id it,
                 c_output := plugin_output it, c_check_time := now, c_execution_time := 0,
                 c_perf_data := perf_data it\<rparr>) w) (checks_in_progress it) w)"

definition compensate_system_time_change :: "int \<Rightarrow> iid \<Rightarrow> world \<Rightarrow> world" where
  "compensate_system_time_change difference i =
     upd i (\<lambda>it. it\<lparr>last_notification := max 0 (last_notification it + difference),
        last_state_change := max 0 (last_state_change it + difference),
        last_hard_state_change := max 0 (last_hard_state_change it + difference),
        last_maintenance_state_change := max 0 (last_maintenance_state_change it + difference)\<rparr>)"

definition get_time_to_orphanage :: "world \<Rightarrow> iid \<Rightarrow> int" where
  "get_time_to_orphanage w i =
     (if \<not> check_for_orphaned (cls w i) then 0
      else if time_to_orphanage (items w i) \<le> 0 then 0
      else time_to_orphanage (items w i))"

subsection \<open>Launching a check\<close>

definition get_check_command :: "checkmodulation \<Rightarrow> clock \<Rightarrow> command_call option" where
  "get_check_command cw t_to_go =
     (if (case cw_check_period cw of None \<Rightarrow> True | Some p \<Rightarrow> p_is_time_valid p t_to_go)
      then Some (cw_check_command cw) else None)"

fun modulated_command :: "checkmodulation list \<Rightarrow> clock \<Rightarrow> command_call \<Rightarrow> command_call" where
  "modulated_command [] t default_command = default_command"
| "modulated_command (cw # cws) t default_command =
     (case get_check_command cw t of Some c \<Rightarrow> c | None \<Rightarrow> modulated_command cws t default_command)"

text \<open>A dependency check while a check is in progress: a copy of the running check that is launched
  once and is not recorded in \<^verbatim>\<open>checks_in_progress\<close>.\<close>

definition launch_dependency_copy ::
  "clock \<Rightarrow> cid \<Rightarrow> check_variant \<Rightarrow> iid \<Rightarrow> world \<Rightarrow> cid \<times> world" where
  "launch_dependency_copy t ref_check v i w =
     (let cp = checks w (hd (get_checks_in_progress w i v));
          (c, w) = alloc_check (new_check (c_command cp) (got_business_rule (items w i)) i t (Some ref_check)
             (c_timeout cp) (c_poller_tag cp) (c_env cp) (c_module_type cp) True (c_check_variant cp)
             (c_priority cp)) w
      in (c, add_action i (ACheck c) w))"

text \<open>The check proper: command, environment, timeout, and the record in \<^verbatim>\<open>checks_in_progress\<close>.\<close>

definition launch_new_check ::
  "clock \<Rightarrow> cid option \<Rightarrow> check_variant \<Rightarrow> iid \<Rightarrow> world \<Rightarrow> cid \<times> world" where
  "launch_new_check t ref_check v i w =
     (let it = items w i;
          cmd = (case v of State_variant \<Rightarrow> modulated_command (checkmodulations it) t (check_command it)
                 | Maintenance_variant \<Rightarrow> maintenance_check_command it);
          command_line = Resolved cmd (get_data_for_checks w i);
          w = upd i (\<lambda>it. case v of State_variant \<Rightarrow> it\<lparr>last_check_command := command_line\<rparr>
                          | Maintenance_variant \<Rightarrow> it\<lparr>maintenance_last_check_command := command_line\<rparr>) w;
          env = (enable_environment_macros (cls w i) \<or> cmd_environment_macros cmd);
          timeout = (if cmd_timeout cmd \<noteq> -1 then cmd_timeout cmd else check_timeout (cls w i));
          (c, w) = alloc_check (new_check command_line (got_business_rule it) i t ref_check timeout
             (cmd_poller_tag cmd) env (cmd_module_type cmd) False v (cmd_priority cmd)) w;
          w = upd i (\<lambda>it. it\<lparr>checks_in_progress := checks_in_progress it @ [c]\<rparr>) w
      in (c, add_action i (ACheck c) w))"

definition launch_check ::
  "nat \<Rightarrow> clock \<Rightarrow> clock \<Rightarrow> cid option \<Rightarrow> bool \<Rightarrow> bool \<Rightarrow> check_variant \<Rightarrow> iid \<Rightarrow> world
     \<Rightarrow> (cid option \<times> world) option" where
  "launch_check fuel now t ref_check force is_dep v i w =
     (let in_checking = is_in_checking w i v in
      if force \<and> in_checking
      then let c = hd (get_checks_in_progress w i v)
           in Some (Some c, upd_check c (\<lambda>ck. ck\<lparr>c_t_to_go := now\<rparr>) w)
      else if \<not> force \<and> in_checking \<and> ref_check \<noteq> None
      then let (c, w) = launch_dependency_copy t (the ref_check) v i w in Some (Some c, w)
      else do {
        wanted \<leftarrow> (if force \<or> v \<noteq> State_variant then Some True
                  else map_option Not (is_no_check_dependent fuel now w i));
        if wanted
        then (if is_dep \<and> my_type (items w i) = Host \<and> passive_checks_enabled (items w i) \<and>
                 \<not> active_checks_enabled (items w i)
              then Some (None, w)
              else let (c, w) = launch_new_check t ref_check v i w in Some (Some c, w))
        else Some (None, w)
      })"

fun launch_deps :: "nat \<Rightarrow> clock \<Rightarrow> cid \<Rightarrow> int \<Rightarrow> dependency list \<Rightarrow> cid list \<Rightarrow> world \<Rightarrow> (cid list \<times> world) option" where
  "launch_deps fuel now ref_check horizon [] cs w = Some (cs, w)"
| "launch_deps fuel now ref_check horizon (d # ds) cs w =
     (if dep_time_ok now d \<and> last_state_update_time (items w (dep_item d)) < now - horizon
      then do {
        (c, w) \<leftarrow> launch_check fuel now now (Some ref_check) False True State_variant (dep_item d) w;
        launch_deps fuel now ref_check horizon ds (case c of None \<Rightarrow> cs | Some c \<Rightarrow> cs @ [c]) w
      }
      else launch_deps fuel now ref_check horizon ds cs w)"

definition raise_dependencies_check :: "nat \<Rightarrow> clock \<Rightarrow> cid \<Rightarrow> iid \<Rightarrow> world \<Rightarrow> (cid list \<times> world) option" where
  "raise_dependencies_check fuel now ref_check i w =
     launch_deps fuel now ref_check (cached_check_horizon (cls w i)) (act_depend_of (items w i)) [] w"

definition do_check_freshness :: "nat \<Rightarrow> clock \<Rightarrow> iid \<Rightarrow> world \<Rightarrow> (cid option \<times> world) option" where
  "do_check_freshness fuel now i w =
     (let it = items w i; k = cls w i in
      if \<not> is_in_checking w i State_variant \<and> global_check_freshness k \<and> check_freshness it \<and>
         freshness_threshold it \<noteq> 0 \<and>
         last_state_update_time it < now - (freshness_threshold it + additional_freshness_latency k) \<and>
         passive_checks_enabled it \<and> \<not> active_checks_enabled it \<and>
         (case check_period it of None \<Rightarrow> True | Some p \<Rightarrow> p_is_time_valid p now)
      then launch_check fuel now now None False False State_variant i
             (raise_freshness_log_entry (now - last_state_update_time it) (now - freshness_threshold it) i w)
      else Some (None, w))"

subsection \<open>When the next check runs\<close>

definition next_time :: "period option \<Rightarrow> rat \<Rightarrow> clock option" where
  "next_time chk_period t = (case chk_period of Some p \<Rightarrow> p_next_valid_time p (py_int t) | None \<Rightarrow> Some (py_int t))"

definition get_next_check_time ::
  "clock \<Rightarrow> rat \<Rightarrow> rat \<Rightarrow> sclass \<Rightarrow> rat \<Rightarrow> clock option \<Rightarrow> period option \<Rightarrow> clock option \<Rightarrow> clock option option" where
  "get_next_check_time now u1 u2 k interval old_chk chk_period force_time =
     (let spread = of_int (max_check_spread k * interval_length k);
          (interval, time_add) = (if old_chk = Some 0 then (min interval spread, min interval spread * u1)
                                  else (interval, interval))
      in case force_time of
           Some t \<Rightarrow> Some (Some t)
         | None \<Rightarrow>
             let nc = (case old_chk of None \<Rightarrow> now | Some n \<Rightarrow> if n = 0 then now else n);
                 nc = (if nc \<le> now then next_time chk_period (of_int nc + time_add) else Some nc)
             in case nc of
                  None \<Rightarrow> None
                | Some nc \<Rightarrow>
                    if nc < now then Some (next_time chk_period (of_int now + min interval spread * u2))
                    else Some (Some nc))"

definition forced :: "bool \<Rightarrow> clock option \<Rightarrow> bool" where
  "forced force force_time = (force \<or> (force_time \<noteq> None \<and> force_time \<noteq> Some 0))"

definition schedule_state_check ::
  "nat \<Rightarrow> clock \<Rightarrow> rat \<Rightarrow> rat \<Rightarrow> bool \<Rightarrow> clock option \<Rightarrow> iid \<Rightarrow> world \<Rightarrow> world option" where
  "schedule_state_check fuel now u1 u2 force force_time i w =
     (let it = items w i; k = cls w i;
          interval = (if state_type it = HARD \<or> retry_interval it = 0 then check_interval it
                      else retry_interval it) * of_int (interval_length k)
      in if is_in_checking w i State_variant \<and> \<not> forced force force_time then Some w
         else if \<not> (active_checks_enabled it \<and> execute_checks k \<or> force) then Some w
         else if interval = 0 \<and> \<not> force \<and> my_type it = Service then Some w
         else if interval = 0 \<and> \<not> force \<and> interval_length k = 0 then None
         else do {
           let w = (if interval = 0 \<and> \<not> force
                    then upd i (\<lambda>it. it\<lparr>check_interval := 300 / of_int (interval_length k)\<rparr>) w else w);
           nc \<leftarrow> get_next_check_time now u1 u2 k interval (next_chk it) (check_period it) force_time;
           let w = upd i (\<lambda>it. it\<lparr>next_chk := nc\<rparr>) w;
           case nc of
             None \<Rightarrow> Some w
           | Some t \<Rightarrow> map_option snd (launch_check fuel now t None force False State_variant i w)
         })"

definition schedule_standard_check ::
  "nat \<Rightarrow> clock \<Rightarrow> rat \<Rightarrow> rat \<Rightarrow> bool \<Rightarrow> clock option \<Rightarrow> iid \<Rightarrow> world \<Rightarrow> world option" where
  "schedule_standard_check fuel now u1 u2 force force_time i w =
     (let it = items w i; k = cls w i;
          interval = (if maintenance_state_id it = 0 \<or> maintenance_retry_interval it = 0
                      then maintenance_check_interval it
                      else maintenance_retry_interval it) * of_int (interval_length k)
      in if \<not> maintenance_checks_enabled it then Some w
         else if \<not> (active_checks_enabled it \<and> execute_checks k \<or> force) then Some w
         else if is_in_checking w i Maintenance_variant \<and> \<not> forced force force_time then Some w
         else do {
           nc \<leftarrow> get_next_check_time now u1 u2 k interval (next_maintenance_chk it)
                  (maintenance_check_period it) force_time;
           let w = upd i (\<lambda>it. it\<lparr>next_maintenance_chk := nc\<rparr>) w;
           case nc of
             None \<Rightarrow> Some w
           | Some t \<Rightarrow> map_option snd (launch_check fuel now t None force False Maintenance_variant i w)
         })"

definition schedule ::
  "nat \<Rightarrow> clock \<Rightarrow> (nat \<Rightarrow> rat) \<Rightarrow> bool \<Rightarrow> clock option \<Rightarrow> iid \<Rightarrow> world \<Rightarrow> world option" where
  "schedule fuel now u force force_time i w = do {
     w \<leftarrow> schedule_state_check fuel now (u 0) (u 1) force force_time i w;
     schedule_standard_check fuel now (u 2) (u 3) force force_time i w
   }"

subsection \<open>Event handlers, snapshots, performance data\<close>

definition new_event_handler ::
  "clock \<Rightarrow> resolved \<Rightarrow> iid option \<Rightarrow> int \<Rightarrow> string \<Rightarrow> bool \<Rightarrow> event_handler" where
  "new_event_handler now command ref timeout reactionner_tag is_snapshot =
     \<lparr>e_command = command, e_status = Scheduled, e_ref = ref, e_timeout = timeout, e_t_to_go = now,
      e_reactionner_tag = reactionner_tag, e_is_snapshot = is_snapshot, e_module_type = ''fork'',
      e_worker = ''none'', e_exit_status = 3, e_output = [], e_long_output = [], e_check_time = 0,
      e_execution_time = 0, e_perf_data = [], e_priority = 100\<rparr>"

definition alloc_handler :: "event_handler \<Rightarrow> world \<Rightarrow> nat \<times> world" where
  "alloc_handler e w =
     (next_action_id w, w\<lparr>handlers := (handlers w)(next_action_id w := e),
        next_action_id := Suc (next_action_id w)\<rparr>)"

definition get_event_handlers :: "clock \<Rightarrow> bool \<Rightarrow> iid \<Rightarrow> world \<Rightarrow> world" where
  "get_event_handlers now externalcmd i w =
     (let it = items w i; k = cls w i in
      if (\<not> event_handler_enabled it \<or> \<not> enable_event_handlers k) \<and> \<not> externalcmd then w
      else if no_event_handlers_during_downtimes k \<and> \<not> externalcmd \<and> in_scheduled_downtime it then w
      else case (case event_handler it of Some c \<Rightarrow> Some c | None \<Rightarrow> global_event_handler k) of
             None \<Rightarrow> w
           | Some c \<Rightarrow>
               let (e, w) = alloc_handler (new_event_handler now (Resolved c (get_data_for_event_handler w i))
                     (Some i) (event_handler_timeout k) (cmd_reactionner_tag c) False) w;
                   w = raise_event_handler_log_entry c i w
               in add_action i (AEventHandler e) w)"

definition get_snapshot :: "clock \<Rightarrow> iid \<Rightarrow> world \<Rightarrow> world" where
  "get_snapshot now i w =
     (let it = items w i; k = cls w i in
      case snapshot_command it of
        None \<Rightarrow> w
      | Some c \<Rightarrow>
          if \<not> snapshot_enabled it then w
          else if \<not> list_ex (is_state it) (snapshot_criteria it) then w
          else if last_snapshot it > now - snapshot_interval it * interval_length k then w
          else if (case snapshot_period it of None \<Rightarrow> False | Some p \<Rightarrow> \<not> p_is_time_valid p now) then w
          else let (e, w) = alloc_handler (new_event_handler now (Resolved c (get_data_for_event_handler w i))
                     (Some i) (event_handler_timeout k) (cmd_reactionner_tag c) True) w;
                   w = raise_snapshot_log_entry c i w;
                   w = upd i (\<lambda>it. it\<lparr>last_snapshot := now\<rparr>) w
               in add_action i (AEventHandler e) w)"

definition get_perfdata_command :: "clock \<Rightarrow> iid \<Rightarrow> world \<Rightarrow> world" where
  "get_perfdata_command now i w =
     (let k = cls w i in
      if \<not> process_performance_data k \<or> \<not> process_perf_data (items w i) then w
      else case perfdata_command k of
             None \<Rightarrow> w
           | Some c \<Rightarrow>
               let (e, w) = alloc_handler (new_event_handler now (Resolved c (get_data_for_event_handler w i))
                     (Some i) (perfdata_timeout k) (cmd_reactionner_tag c) False) w
               in add_action i (AEventHandler e) w)"

definition host_get_ocp_command :: "clock \<Rightarrow> iid \<Rightarrow> world \<Rightarrow> world" where
  "host_get_ocp_command now i w =
     (let k = cls w i in
      if \<not> obsess_over k \<or> \<not> obsess_over_me (items w i) then w
      else let (e, w) = alloc_handler (new_event_handler now
                 (Resolved (ocp_command k) (get_data_for_event_handler w i)) None (ocp_timeout k) ''None'' False) w
           in add_action i (AEventHandler e) w)"

definition service_get_ocp_command :: "clock \<Rightarrow> iid \<Rightarrow> world \<Rightarrow> world" where
  "service_get_ocp_command now i w =
     (let k = cls w i in
      if \<not> obsess_over k \<or> \<not> obsess_over_me (items w i) then w
      else let (e, w) = alloc_handler (new_event_handler now
                 (Resolved (ocp_command k) (get_data_for_event_handler w i)) None (ocp_timeout k) ''None'' False) w
           in add_action i (AEventHandler e) w)"

definition get_obsessive_compulsive_processor_command :: "clock \<Rightarrow> iid \<Rightarrow> world \<Rightarrow> world" where
  "get_obsessive_compulsive_processor_command now i w =
     (case my_type (items w i) of Host \<Rightarrow> host_get_ocp_command now i w
      | Service \<Rightarrow> service_get_ocp_command now i w)"

end
