(* ===== verification/Consume.thy ===== *)
theory Consume
  imports Checks
begin

text \<open>
  How a check result changes a host or service: flapping detection, the new state
  (\<^verbatim>\<open>set_state_from_exit_status\<close> of \<^verbatim>\<open>host.py\<close> and \<^verbatim>\<open>service.py\<close>), result modulation
  (\<^verbatim>\<open>resultmodulation.py\<close>), the SOFT/HARD state machine of \<^verbatim>\<open>consume_state_result\<close> with its five cases,
  maintenance results, and the event and problem counters (\<^verbatim>\<open>schedulingitem.py\<close>).

  \<^verbatim>\<open>consume_state_result\<close> is cut at its own comments: \<^verbatim>\<open>receive_result\<close>, \<^verbatim>\<open>apply_result\<close>, one
  definition per case, \<^verbatim>\<open>finish_result\<close>. Triggers run user code: the effect of one trigger is the argument \<^verbatim>\<open>run\<close>.
  The flapping percentage is exact, and \<^verbatim>\<open>flap_history\<close> is positive as the configuration requires.
\<close>

subsection \<open>Flapping\<close>

fun flap_sum :: "nat \<Rightarrow> nat \<Rightarrow> bool list \<Rightarrow> rat" where
  "flap_sum history k [] = 0"
| "flap_sum history k (b # bs) =
     (if b then of_nat (Suc k) * (2 / 5) / of_nat history + 4 / 5 else 0) + flap_sum history (Suc k) bs"

definition flap_ratio :: "nat \<Rightarrow> bool list \<Rightarrow> rat" where
  "flap_ratio history changes = flap_sum history 0 changes / of_nat history * 100"

definition low_threshold :: "sclass \<Rightarrow> item \<Rightarrow> rat" where
  "low_threshold k it = (if low_flap_threshold it = -1 then global_low_flap_threshold k else low_flap_threshold it)"

definition high_threshold :: "sclass \<Rightarrow> item \<Rightarrow> rat" where
  "high_threshold k it = (if high_flap_threshold it = -1 then global_high_flap_threshold k else high_flap_threshold it)"

definition update_flapping :: "clock \<Rightarrow> iid \<Rightarrow> world \<Rightarrow> world" where
  "update_flapping now i w =
     (let k = cls w i; it = items w i;
          r = flap_ratio (flap_history k) (flapping_changes it);
          w = upd i (\<lambda>it. it\<lparr>percent_state_change := r\<rparr>) w;
          is_full = (length (flapping_changes it) \<ge> flap_history k);
          w = (if is_flapping (items w i) \<and> r < low_threshold k it \<and> is_full
               then let w = upd i (\<lambda>it. it\<lparr>is_flapping := False\<rparr>) w;
                        w = raise_flapping_stop_log_entry r (low_threshold k it) i w;
                        w = remove_in_progress_notifications i w;
                        w = create_notifications now FLAPPINGSTOP None i w
                    in emit_brok i w
               else w)
      in if \<not> is_flapping (items w i) \<and> r \<ge> high_threshold k it \<and> is_full
         then let w = upd i (\<lambda>it. it\<lparr>is_flapping := True\<rparr>) w;
                  w = raise_flapping_start_log_entry r (high_threshold k it) i w;
                  w = remove_in_progress_notifications i w;
                  w = create_notifications now FLAPPINGSTART None i w
              in emit_brok i w
         else w)"

definition push_change :: "nat \<Rightarrow> bool \<Rightarrow> bool list \<Rightarrow> bool list" where
  "push_change history b changes =
     (let cs = changes @ [b] in if length cs > history then tl cs else cs)"

definition add_flapping_change :: "clock \<Rightarrow> bool \<Rightarrow> iid \<Rightarrow> world \<Rightarrow> world" where
  "add_flapping_change now b i w =
     (if \<not> flap_detection_enabled (items w i) \<or> \<not> enable_flap_detection (cls w i) then w
      else update_flapping now i
             (upd i (\<lambda>it. it\<lparr>flapping_changes := push_change (flap_history (cls w i)) b (flapping_changes it)\<rparr>) w))"

subsection \<open>Attempts\<close>

definition add_attempt :: "iid \<Rightarrow> world \<Rightarrow> world" where
  "add_attempt i = upd i (\<lambda>it. it\<lparr>attempt := min (attempt it + 1) (max_check_attempts it)\<rparr>)"

definition is_max_attempts :: "item \<Rightarrow> bool" where
  "is_max_attempts it \<longleftrightarrow> attempt it \<ge> max_check_attempts it"

subsection \<open>The state from the exit status\<close>

definition true_last_state :: "sclass \<Rightarrow> item \<Rightarrow> istate" where
  "true_last_state k it =
     (if enable_problem_impacts_states_change k \<and> is_impact it \<and> \<not> state_changed_since_impact it
      then state_before_impact it else state it)"

definition host_set_state_from_exit_status :: "clock \<Rightarrow> int \<Rightarrow> iid \<Rightarrow> world \<Rightarrow> world" where
  "host_set_state_from_exit_status now status i w =
     (let k = cls w i;
          w = upd i (\<lambda>it. it\<lparr>last_state_update_time := now, last_state := true_last_state k it\<rparr>) w;
          (w, state_code) =
            (if status = 0
             then (upd i (\<lambda>it. it\<lparr>state := UP, state_id := 0, last_time_up := now\<rparr>) w, ''u'')
             else (upd i (\<lambda>it. it\<lparr>state := DOWN, state_id := 1, last_time_down := now\<rparr>) w, ''d''));
          it = items w i;
          w = (if state_code \<in> set (flap_detection_options it)
               then add_flapping_change now (state it \<noteq> last_state it) i w else w)
      in upd i (\<lambda>it. let lsc = (if state it \<noteq> last_state it \<and> \<not> (state it = DOWN \<and> last_state it = UNREACHABLE)
                                then now else last_state_change it)
                     in it\<lparr>last_state_change := lsc, duration_sec := now - lsc\<rparr>) w)"

definition service_set_state_from_exit_status :: "clock \<Rightarrow> int \<Rightarrow> iid \<Rightarrow> world \<Rightarrow> world" where
  "service_set_state_from_exit_status now status i w =
     (let k = cls w i;
          w = upd i (\<lambda>it. it\<lparr>last_state_update_time := now, last_state := true_last_state k it\<rparr>) w;
          (w, state_code) =
            (if status = 0
             then (upd i (\<lambda>it. it\<lparr>state := OK, state_id := 0, last_time_ok := now\<rparr>) w, ''o'')
             else if status = 1
             then (upd i (\<lambda>it. it\<lparr>state := WARNING, state_id := 1, last_time_warning := now\<rparr>) w, ''w'')
             else if status = 2
             then (upd i (\<lambda>it. it\<lparr>state := CRITICAL, state_id := 2, last_time_critical := now\<rparr>) w, ''c'')
             else if status = 3
             then (upd i (\<lambda>it. it\<lparr>state := UNKNOWN, state_id := 3, last_time_unknown := now\<rparr>) w, ''u'')
             else (upd i (\<lambda>it. it\<lparr>state := CRITICAL, state_id := 2, last_time_critical := now\<rparr>) w, ''c''));
          it = items w i;
          w = (if state_code \<in> set (flap_detection_options it)
               then add_flapping_change now (state it \<noteq> last_state it) i w else w)
      in upd i (\<lambda>it. let lsc = (if state it \<noteq> last_state it then now else last_state_change it)
                     in it\<lparr>last_state_change := lsc, duration_sec := now - lsc\<rparr>) w)"

definition set_state_from_exit_status :: "clock \<Rightarrow> int \<Rightarrow> iid \<Rightarrow> world \<Rightarrow> world" where
  "set_state_from_exit_status now status i w =
     (case my_type (items w i) of Host \<Rightarrow> host_set_state_from_exit_status now status i w
      | Service \<Rightarrow> service_set_state_from_exit_status now status i w)"

definition update_hard_unknown_phase_state :: "item \<Rightarrow> item" where
  "update_hard_unknown_phase_state it =
     (let it = it\<lparr>was_in_hard_unknown_reach_phase := in_hard_unknown_reach_phase it\<rparr>;
          it = (if state_type it \<noteq> HARD \<or> last_state_type it \<noteq> HARD
                then it\<lparr>in_hard_unknown_reach_phase := False\<rparr> else it)
      in if \<not> in_hard_unknown_reach_phase it \<and>
            (state it = UNKNOWN \<and> last_state it \<noteq> UNKNOWN \<or>
             state it = UNREACHABLE \<and> last_state it \<noteq> UNREACHABLE)
         then it\<lparr>in_hard_unknown_reach_phase := True, state_before_hard_unknown_reach_phase := last_state it\<rparr>
         else let it = (if in_hard_unknown_reach_phase it \<and> state it \<noteq> UNKNOWN \<and> state it \<noteq> UNREACHABLE
                        then it\<lparr>in_hard_unknown_reach_phase := False\<rparr> else it)
              in if \<not> in_hard_unknown_reach_phase it \<and> was_in_hard_unknown_reach_phase it \<and>
                    state it \<noteq> state_before_hard_unknown_reach_phase it
                 then it\<lparr>was_in_hard_unknown_reach_phase := False\<rparr> else it)"

definition update_event_and_problem_id :: "iid \<Rightarrow> world \<Rightarrow> world" where
  "update_event_and_problem_id i w =
     (let it = items w i; good = ok_up (my_type it) in
      if state it \<noteq> last_state it \<and> last_state it \<noteq> PENDING \<or> state it \<noteq> good \<and> last_state it = PENDING
      then let w = w\<lparr>global_event_id := global_event_id w + 1\<rparr>;
               w = upd i (\<lambda>it. it\<lparr>last_event_id := current_event_id it, current_event_id := global_event_id w\<rparr>) w
           in if state it \<noteq> good \<and> last_state it = PENDING
              then let w = w\<lparr>global_problem_id := global_problem_id w + 1\<rparr>
                   in upd i (\<lambda>it. it\<lparr>last_problem_id := current_problem_id it,
                                     current_problem_id := global_problem_id w\<rparr>) w
              else if state it \<noteq> good \<and> last_state it \<noteq> good then w
              else if state it = good
              then upd i (\<lambda>it. it\<lparr>last_problem_id := current_problem_id it, current_problem_id := 0\<rparr>) w
              else let w = w\<lparr>global_problem_id := global_problem_id w + 1\<rparr>
                   in upd i (\<lambda>it. it\<lparr>last_problem_id := current_problem_id it,
                                     current_problem_id := global_problem_id w\<rparr>) w
      else w)"

subsection \<open>Consuming the result of a state check\<close>

definition module_return :: "clock \<Rightarrow> resultmodulation \<Rightarrow> int \<Rightarrow> int" where
  "module_return now rm rc =
     (if (case rm_modulation_period rm of None \<Rightarrow> True | Some p \<Rightarrow> p_is_time_valid p now)
      then (case exit_code_modulation rm of
              None \<Rightarrow> rc
            | Some m \<Rightarrow> if rc \<in> set (exit_codes_match rm) then m else rc)
      else rc)"

definition modulated_exit_status :: "clock \<Rightarrow> sclass \<Rightarrow> item \<Rightarrow> int \<Rightarrow> int" where
  "modulated_exit_status now k it status =
     (let s = fold (module_return now) (resultmodulations it) status
      in if s = 1 \<and> my_type it = Host then (if use_aggressive_host_checking k then 2 else 0) else s)"

definition receive_result :: "nat \<Rightarrow> clock \<Rightarrow> cid \<Rightarrow> iid \<Rightarrow> world \<Rightarrow> world option" where
  "receive_result fuel now c i w = do {
     let w = manage_stalking c i w;
     let ck = checks w c; let k = cls w i;
     let w = upd i (\<lambda>it. it\<lparr>latency := max 0 (c_check_time ck - c_t_to_go ck), has_been_checked := True,
                execution_time := c_execution_time ck, u_time := c_u_time ck, s_time := c_s_time ck,
                last_chk := c_check_time ck, plugin_output := c_output ck, long_output := c_long_output ck,
                check_type := c_check_type ck\<rparr>) w;
     let w = (if process_performance_data k \<and> process_perf_data (items w i)
              then upd i (\<lambda>it. it\<lparr>last_perf_data := perf_data it, perf_data := c_perf_data ck\<rparr>) w else w);
     let w = upd_check c (\<lambda>ck. ck\<lparr>c_exit_status := modulated_exit_status now k (items w i) (c_exit_status ck)\<rparr>) w;
     if c_exit_status (checks w c) \<noteq> 0 \<and> c_status (checks w c) = WaitConsume \<and>
        length (act_depend_of (items w i)) \<noteq> 0
     then do {
       let w = upd_check c (\<lambda>ck. ck\<lparr>c_status := WaitDep\<rparr>) w;
       (checks_id, w) \<leftarrow> raise_dependencies_check fuel now c i w;
       Some (upd_check c (\<lambda>ck. ck\<lparr>c_depend_on := c_depend_on ck @ checks_id\<rparr>) w)
     }
     else Some w
   }"

definition apply_result :: "clock \<Rightarrow> cid \<Rightarrow> iid \<Rightarrow> world \<Rightarrow> bool \<times> world" where
  "apply_result now c i w =
     (let w = upd i (\<lambda>it. it\<lparr>last_state_type := state_type it\<rparr>) w;
          status = c_exit_status (checks w c);
          w = set_state_from_exit_status now status i w;
          w = upd i (\<lambda>it. it\<lparr>return_code := status, state_changed_since_impact := True\<rparr>) w;
          w = remove_in_progress_check c i w;
          ck = checks w c
      in if c_status ck = WaitConsume
         then (False, upd_check c (\<lambda>ck. ck\<lparr>c_status :=
                 (if c_depend_on_me ck \<noteq> [] then HaveToResolveDep else Zombie)\<rparr>) w)
         else if c_status ck = WaitDep
         then let w = upd_check c (\<lambda>ck. ck\<lparr>c_status :=
                     (if c_depend_on_me ck \<noteq> [] then HaveToResolveDep else Zombie)\<rparr>) w;
                  no_action = is_no_action_dependent w i
              in (no_action, check_and_set_unreachability now i w)
         else (False, w))"

text \<open>Case 1: OK follows OK (or the first result is OK).\<close>

definition case_ok_after_ok :: "iid \<Rightarrow> world \<Rightarrow> world" where
  "case_ok_after_ok i w =
     (let w = unacknowledge_problem i w; it = items w i in
      if state_type it = SOFT \<and> last_state it \<noteq> PENDING
      then upd i (\<lambda>it. it\<lparr>state_type := (if is_max_attempts it then HARD else SOFT)\<rparr>) w
      else upd i (\<lambda>it. it\<lparr>attempt := 1, state_type := HARD\<rparr>) w)"

text \<open>Case 2: OK follows a problem.\<close>

definition case_recovery :: "clock \<Rightarrow> cid \<Rightarrow> bool \<Rightarrow> iid \<Rightarrow> world \<Rightarrow> world option" where
  "case_recovery now c no_action i w =
     (let w = unacknowledge_problem i w in
      if state_type (items w i) = SOFT
      then let w = (if \<not> c_dependency_check (checks w c) then add_attempt i w else w);
               w = raise_alert_log_entry None i w;
               w = get_event_handlers now False i w
           in Some (upd i (\<lambda>it. it\<lparr>state_type := HARD, attempt := 1\<rparr>) w)
      else let w = raise_alert_log_entry None i w;
               w = remove_in_progress_notifications i w;
               w = (if \<not> no_action then create_notifications now RECOVERY None i w else w);
               w = get_event_handlers now False i w;
               w = upd i (\<lambda>it. it\<lparr>state_type := HARD, attempt := 1\<rparr>) w
           in no_more_a_problem now True i w)"

definition raise_problem :: "nat \<Rightarrow> clock \<Rightarrow> bool \<Rightarrow> iid \<Rightarrow> world \<Rightarrow> world option" where
  "raise_problem fuel now no_action i w =
     (let w = (if \<not> no_action then create_notifications now PROBLEM None i w else w);
          w = get_event_handlers now False i w
      in if \<not> no_action then set_myself_as_problem fuel now True i w else Some w)"

text \<open>Case 3: a volatile service, every problem is HARD at once.\<close>

definition case_volatile :: "nat \<Rightarrow> clock \<Rightarrow> bool \<Rightarrow> iid \<Rightarrow> world \<Rightarrow> world option" where
  "case_volatile fuel now no_action i w = do {
     let w = upd i (\<lambda>it. it\<lparr>attempt := 1, state_type := HARD\<rparr>) w;
     let w = raise_alert_log_entry None i w;
     w \<leftarrow> check_for_flexible_downtime fuel now i w;
     let w = remove_in_progress_notifications i w;
     raise_problem fuel now no_action i w
   }"

text \<open>Going HARD, in cases 4 and 5.\<close>

definition go_hard :: "nat \<Rightarrow> clock \<Rightarrow> bool \<Rightarrow> iid \<Rightarrow> world \<Rightarrow> world option" where
  "go_hard fuel now no_action i w = do {
     let w = upd i (\<lambda>it. it\<lparr>state_type := HARD\<rparr>) w;
     let w = raise_alert_log_entry None i w;
     let w = remove_in_progress_notifications i w;
     w \<leftarrow> check_for_flexible_downtime fuel now i w;
     raise_problem fuel now no_action i w
   }"

text \<open>Case 4: a problem follows OK.\<close>

definition case_problem_after_ok :: "nat \<Rightarrow> clock \<Rightarrow> bool \<Rightarrow> iid \<Rightarrow> world \<Rightarrow> world option" where
  "case_problem_after_ok fuel now no_action i w =
     (if is_max_attempts (items w i) then go_hard fuel now no_action i w
      else let w = upd i (\<lambda>it. it\<lparr>attempt := 1, state_type := SOFT\<rparr>) w;
               w = raise_alert_log_entry None i w
           in Some (get_event_handlers now False i w))"

text \<open>Case 5: a problem follows a problem.\<close>

definition renotify_hard :: "clock \<Rightarrow> bool \<Rightarrow> iid \<Rightarrow> world \<Rightarrow> world" where
  "renotify_hard now no_action i w =
     (if state (items w i) \<noteq> last_state (items w i)
      then let w = upd i update_hard_unknown_phase_state w; it = items w i
           in if \<not> in_hard_unknown_reach_phase it \<and> \<not> was_in_hard_unknown_reach_phase it
              then let w = unacknowledge_problem_if_not_sticky i w;
                       w = raise_alert_log_entry None i w;
                       w = remove_in_progress_notifications i w
                   in if \<not> no_action then create_notifications now PROBLEM None i w else w
              else w
      else if in_scheduled_downtime_during_last_check (items w i)
      then let w = remove_in_progress_notifications i w
           in if \<not> no_action then create_notifications now PROBLEM None i w else w
      else w)"

definition case_problem_after_problem :: "nat \<Rightarrow> clock \<Rightarrow> cid \<Rightarrow> bool \<Rightarrow> iid \<Rightarrow> world \<Rightarrow> world option" where
  "case_problem_after_problem fuel now c no_action i w =
     (if state_type (items w i) = SOFT
      then let w = (if \<not> c_dependency_check (checks w c) then add_attempt i w else w)
           in if is_max_attempts (items w i) then go_hard fuel now no_action i w
              else Some (get_event_handlers now False i (raise_alert_log_entry None i w))
      else let w = renotify_hard now no_action i w
           in if \<not> no_action then set_myself_as_problem fuel now True i w else Some w)"

definition react_to_result :: "nat \<Rightarrow> clock \<Rightarrow> cid \<Rightarrow> bool \<Rightarrow> iid \<Rightarrow> world \<Rightarrow> world option" where
  "react_to_result fuel now c no_action i w =
     (let it = items w i; status = c_exit_status (checks w c); good = ok_up (my_type it) in
      if status = 0 \<and> last_state it \<in> {good, PENDING} then Some (case_ok_after_ok i w)
      else if status = 0 \<and> last_state it \<notin> {good, PENDING} then case_recovery now c no_action i w
      else if status \<noteq> 0 \<and> is_volatile it then case_volatile fuel now no_action i w
      else if status \<noteq> 0 \<and> last_state it \<in> {good, PENDING} then case_problem_after_ok fuel now no_action i w
      else if status \<noteq> 0 \<and> last_state it \<noteq> good then case_problem_after_problem fuel now c no_action i w
      else Some w)"

definition eval_triggers :: "(trigger \<Rightarrow> iid \<Rightarrow> world \<Rightarrow> world) \<Rightarrow> iid \<Rightarrow> world \<Rightarrow> world" where
  "eval_triggers run i w = fold (\<lambda>t w. run t i w) (triggers (items w i)) w"

definition finish_result ::
  "clock \<Rightarrow> (trigger \<Rightarrow> iid \<Rightarrow> world \<Rightarrow> world) \<Rightarrow> cid \<Rightarrow> iid \<Rightarrow> world \<Rightarrow> world" where
  "finish_result now run c i w =
     (let w = upd i update_hard_unknown_phase_state w;
          w = upd i (\<lambda>it. it\<lparr>in_scheduled_downtime_during_last_check := False\<rparr>) w;
          w = upd i (\<lambda>it. if state_type it = HARD
                then it\<lparr>state_type_id := 1, last_hard_state := state it, last_hard_state_id := state_id it\<rparr>
                else it\<lparr>state_type_id := 0\<rparr>) w;
          w = upd i (\<lambda>it. if state_type it = HARD \<and> (last_state_type it = SOFT \<or> last_state it \<noteq> state it)
                then it\<lparr>last_hard_state_change := now\<rparr> else it) w;
          w = update_event_and_problem_id i w;
          w = (if \<not> c_from_trigger (checks w c) then eval_triggers run i w else w);
          w = (if c_from_trigger (checks w c) \<or>
                  \<not> list_ex trigger_broker_raise_enabled (triggers (items w i)) then emit_brok i w else w);
          w = get_obsessive_compulsive_processor_command now i w;
          w = get_perfdata_command now i w
      in get_snapshot now i w)"

definition consume_state_result ::
  "nat \<Rightarrow> clock \<Rightarrow> (trigger \<Rightarrow> iid \<Rightarrow> world \<Rightarrow> world) \<Rightarrow> cid \<Rightarrow> iid \<Rightarrow> world \<Rightarrow> world option" where
  "consume_state_result fuel now run c i w = do {
     w \<leftarrow> receive_result fuel now c i w;
     let (no_action, w) = apply_result now c i w;
     w \<leftarrow> react_to_result fuel now c no_action i w;
     Some (finish_result now run c i w)
   }"

subsection \<open>Maintenance checks\<close>

definition consume_maintenance_result :: "clock \<Rightarrow> cid \<Rightarrow> iid \<Rightarrow> world \<Rightarrow> world" where
  "consume_maintenance_result now c i w =
     (let w = remove_in_progress_check c i w; ck = checks w c;
          w = upd i (\<lambda>it. it\<lparr>last_maintenance_chk := c_check_time ck, maintenance_check_output := c_output ck\<rparr>) w;
          w = (if c_in_timeout ck then w
               else if c_exit_status ck = 0
               then upd i (\<lambda>it. it\<lparr>maintenance_in_production := True, maintenance_state_id := 0\<rparr>) w
               else if c_exit_status ck = 2
               then upd i (\<lambda>it. it\<lparr>maintenance_in_production := False, maintenance_state_id := 1\<rparr>) w
               else upd i (\<lambda>it. it\<lparr>maintenance_in_production := True, maintenance_state_id := 0\<rparr>) w);
          w = (if maintenance_state_id (items w i) \<noteq> last_maintenance_state_id (items w i)
               then raise_alert_log_entry (Some Maintenance_variant) i
                      (upd i (\<lambda>it. it\<lparr>last_maintenance_state_change := now\<rparr>) w)
               else w);
          w = upd i (\<lambda>it. it\<lparr>last_maintenance_state_id := maintenance_state_id it\<rparr>) w
      in if c_status ck = WaitConsume then upd_check c (\<lambda>ck. ck\<lparr>c_status := Zombie\<rparr>) w else w)"

definition consume_result ::
  "nat \<Rightarrow> clock \<Rightarrow> (trigger \<Rightarrow> iid \<Rightarrow> world \<Rightarrow> world) \<Rightarrow> cid \<Rightarrow> iid \<Rightarrow> world \<Rightarrow> world option" where
  "consume_result fuel now run c i w =
     (case c_check_variant (checks w c) of
        State_variant \<Rightarrow> consume_state_result fuel now run c i w
      | Maintenance_variant \<Rightarrow> Some (consume_maintenance_result now c i w))"

end
