(* ===== verification/Frames.thy ===== *)
theory Frames
  imports Consume
begin

text \<open>
  What the operations on hosts and services leave alone. The store is large and an operation writes a
  few attributes of it; the lemmas of this theory say which attributes of which items an operation can
  change, so that the properties of the components need not unfold the operations they are not about.

  A \<^emph>\<open>view\<close> of an item forgets the attributes a group of operations may write: \<^verbatim>\<open>erase\<close> for queues and
  notification counters, \<^verbatim>\<open>mcore\<close> for downtimes, acknowledgements and the problem correlation,
  \<^verbatim>\<open>rcore\<close> for the launch of checks, \<^verbatim>\<open>fcore\<close> and \<^verbatim>\<open>score\<close> for flapping and the new state.
  \<^verbatim>\<open>keeps P\<close> relates two stores that agree on the view \<^verbatim>\<open>P\<close>.
\<close>

lemma cls_of_frame [simp]:
  "cls_of (upd i f w) k = cls_of w k" "cls_of (upd_check c g w) k = cls_of w k"
  "cls_of (upd_notif n h w) k = cls_of w k" "cls_of (upd_comment m p w) k = cls_of w k"
  "cls_of (upd_downtime d q w) k = cls_of w k" "cls_of (naglog_result e w) k = cls_of w k"
  by (cases k; simp add: cls_of_def)+

lemma cls_of_cong: "host_class w' = host_class w \<Longrightarrow> service_class w' = service_class w \<Longrightarrow> cls_of w' k = cls_of w k"
  by (cases k) (simp_all add: cls_of_def)

lemma log_only_cls: "log_only w w' \<Longrightarrow> cls_of w' k = cls_of w k"
  by (rule cls_of_cong) (auto simp: log_only_def)

lemmas log_cls [simp, frame_simps] = log_only_entries[THEN log_only_cls]

subsection \<open>What the bookkeeping of notifications leaves alone\<close>

text \<open>Queues and counters an item writes when it reacts; everything else of it is its erased form.\<close>

definition erase :: "item \<Rightarrow> item" where
  "erase it = it\<lparr>current_notification_number := 0, notifications_in_progress := [],
     notified_contacts := [], actions := [], broks := 0\<rparr>"

definition quiet :: "world \<Rightarrow> world \<Rightarrow> bool" where
  "quiet w w' \<longleftrightarrow> (\<forall>j. erase (items w' j) = erase (items w j)) \<and> checks w' = checks w \<and>
     comment_store w' = comment_store w \<and> downtime_store w' = downtime_store w \<and>
     contact_store w' = contact_store w \<and> host_class w' = host_class w \<and>
     service_class w' = service_class w \<and> global_event_id w' = global_event_id w \<and>
     global_problem_id w' = global_problem_id w \<and> next_downtime w' = next_downtime w \<and>
     next_comment_id w' = next_comment_id w \<and> next_action_id w \<le> next_action_id w'"

lemma quiet_refl [simp, intro]: "quiet w w"
  by (simp add: quiet_def)

lemma quiet_trans [trans]: "quiet w w' \<Longrightarrow> quiet w' w'' \<Longrightarrow> quiet w w''"
  by (auto simp: quiet_def intro: order_trans)

lemma quiet_log: "log_only w w' \<Longrightarrow> quiet w w'"
  by (auto simp: quiet_def log_only_def)

lemma erase_cong:
  assumes "erase x = erase y" and "\<And>z. f (erase z) = f z"
  shows "f x = f y"
  using assms by metis

lemma erase_fields:
  assumes "erase x = erase y"
  shows "state x = state y" "state_id x = state_id y" "state_type x = state_type y"
    "last_state x = last_state y" "last_state_type x = last_state_type y" "attempt x = attempt y"
    "max_check_attempts x = max_check_attempts y" "my_type x = my_type y" "host x = host y"
    "is_volatile x = is_volatile y" "is_problem x = is_problem y" "is_impact x = is_impact y"
    "source_problems x = source_problems y" "impacts x = impacts y"
    "act_depend_of_me x = act_depend_of_me y" "act_depend_of x = act_depend_of y"
    "chk_depend_of x = chk_depend_of y" "scheduled_downtime_depth x = scheduled_downtime_depth y"
    "in_scheduled_downtime x = in_scheduled_downtime y" "downtimes x = downtimes y"
    "comments x = comments y" "acknowledgement x = acknowledgement y"
    "problem_has_been_acknowledged x = problem_has_been_acknowledged y"
    "is_flapping x = is_flapping y" "flapping_changes x = flapping_changes y"
    "percent_state_change x = percent_state_change y"
    "state_changed_since_impact x = state_changed_since_impact y"
    "state_before_impact x = state_before_impact y" "last_chk x = last_chk y"
    "checks_in_progress x = checks_in_progress y" "triggers x = triggers y"
    "current_event_id x = current_event_id y" "current_problem_id x = current_problem_id y"
    "last_event_id x = last_event_id y" "last_problem_id x = last_problem_id y"
    "last_hard_state x = last_hard_state y" "plugin_output x = plugin_output y"
    "business_impact x = business_impact y" "notification_options x = notification_options y"
    "notification_period x = notification_period y" "notification_interval x = notification_interval y"
    "first_notification_delay x = first_notification_delay y" "resultmodulations x = resultmodulations y"
    "in_scheduled_downtime_during_last_check x = in_scheduled_downtime_during_last_check y"
    "in_hard_unknown_reach_phase x = in_hard_unknown_reach_phase y"
    "was_in_hard_unknown_reach_phase x = was_in_hard_unknown_reach_phase y"
    "last_state_change x = last_state_change y" "last_state_update_time x = last_state_update_time y"
    "last_time_ok x = last_time_ok y" "last_time_up x = last_time_up y" "last_time_down x = last_time_down y"
    "flap_detection_options x = flap_detection_options y" "flap_detection_enabled x = flap_detection_enabled y"
    "low_flap_threshold x = low_flap_threshold y" "high_flap_threshold x = high_flap_threshold y"
    "state_id_before_impact x = state_id_before_impact y"
    "my_own_business_impact x = my_own_business_impact y"
    "return_code x = return_code y"
  by (rule erase_cong[OF assms], simp add: erase_def)+


lemma quiet_fields:
  assumes "quiet w w'"
  shows "checks w' = checks w" "comment_store w' = comment_store w" "downtime_store w' = downtime_store w"
    "contact_store w' = contact_store w" "host_class w' = host_class w" "service_class w' = service_class w"
    "global_event_id w' = global_event_id w" "global_problem_id w' = global_problem_id w"
    "next_downtime w' = next_downtime w" "next_comment_id w' = next_comment_id w"
    "cls_of w' k = cls_of w k"
  using assms cls_of_cong[of w' w k] by (simp_all add: quiet_def)

lemma quiet_erase: "quiet w w' \<Longrightarrow> erase (items w' j) = erase (items w j)"
  by (simp add: quiet_def)

lemmas quiet_item_fields = erase_fields[OF quiet_erase]

lemma quiet_upd:
  "(\<And>it. erase (f it) = erase it) \<Longrightarrow> quiet w (upd i f w)"
  by (simp add: quiet_def)

lemma quiet_emit_brok [simp, intro]: "quiet w (emit_brok i w)"
  unfolding emit_brok_def by (rule quiet_upd) (simp add: erase_def)

lemma quiet_add_action [simp, intro]: "quiet w (add_action i a w)"
  unfolding add_action_def by (rule quiet_upd) (simp add: erase_def)

lemma quiet_remove_notification [simp, intro]: "quiet w (remove_in_progress_notification n i w)"
  by (simp add: remove_in_progress_notification_def quiet_def erase_def upd_notif_def)

lemma quiet_fold:
  "(\<And>x w. quiet w (f x w)) \<Longrightarrow> quiet w (fold f xs w)"
  by (induction xs arbitrary: w) (auto intro: quiet_trans)

lemma quiet_remove_notifications [simp, intro]: "quiet w (remove_in_progress_notifications i w)"
  unfolding remove_in_progress_notifications_def by (rule quiet_fold) simp

lemma quiet_alloc_notification [simp, intro]: "quiet w (snd (alloc_notification nf w))"
  by (simp add: alloc_notification_def quiet_def)

text \<open>The effect of \<^verbatim>\<open>create_notifications\<close> in one equation: either nothing, or a fresh notification that
  is in progress and queued.\<close>

definition due_time :: "clock \<Rightarrow> world \<Rightarrow> iid \<Rightarrow> notif_type \<Rightarrow> clock option \<Rightarrow> clock option" where
  "due_time now w i type t_wished =
     (case t_wished of
        Some tw \<Rightarrow> Some tw
      | None \<Rightarrow> (case notification_period (items w i) of None \<Rightarrow> Some now
                 | Some p \<Rightarrow> p_next_valid_time p (first_wished_time now w i type)))"

definition wished_time :: "clock \<Rightarrow> world \<Rightarrow> iid \<Rightarrow> notif_type \<Rightarrow> clock option \<Rightarrow> clock" where
  "wished_time now w i type t_wished =
     (case t_wished of Some tw \<Rightarrow> tw | None \<Rightarrow> first_wished_time now w i type)"

definition dropped :: "clock \<Rightarrow> world \<Rightarrow> iid \<Rightarrow> notif_type \<Rightarrow> clock option \<Rightarrow> bool" where
  "dropped now w i type t_wished \<longleftrightarrow>
     notification_is_blocked_by_item now w i type (Some (wished_time now w i type t_wished)) \<and>
     first_notification_delay (items w i) = 0 \<and> notification_interval (items w i) = 0"

definition next_number :: "item \<Rightarrow> notif_type \<Rightarrow> int" where
  "next_number it type = (if type = RECOVERY then 0
     else if type = PROBLEM then current_notification_number it + 1 else current_notification_number it)"

lemma create_notifications_eq:
  "create_notifications now type t_wished i w =
     (if dropped now w i type t_wished then w
      else let n = next_action_id w;
               nf = new_notification type None i None (due_time now w i type t_wished) False
                 (notification_timeout (cls w i)) (next_number (items w i) type) ''None'' ''fork'' False now
           in w\<lparr>notifs := (notifs w)(n := nf), next_action_id := Suc n,
               items := (items w)(i := (items w i)
                 \<lparr>current_notification_number := (if type = RECOVERY then 0 else current_notification_number (items w i)),
                  notifications_in_progress := set_add n (notifications_in_progress (items w i)),
                  actions := actions (items w i) @ [ANotification n]\<rparr>)\<rparr>)"
  by (cases t_wished; cases "type = RECOVERY")
    (simp_all add: create_notifications_def dropped_def wished_time_def due_time_def Let_def cls_of_def
       alloc_notification_def add_action_def next_number_def upd_def cong: item_kind.case_cong)

lemma quiet_create_notifications [simp, intro]: "quiet w (create_notifications now type t_wished i w)"
  by (simp add: create_notifications_eq Let_def quiet_def erase_def)

lemma quiet_event_handlers [simp, intro]: "quiet w (get_event_handlers now e i w)"
proof -
  have "quiet w (add_action i (AEventHandler h) (raise_event_handler_log_entry c i w'))"
    if "quiet w w'" for h c w'
    using quiet_trans[OF that quiet_trans[OF quiet_log[OF log_only_entries(5)] quiet_add_action]] .
  moreover have "quiet w (snd (alloc_handler h w))" for h by (simp add: alloc_handler_def quiet_def)
  ultimately show ?thesis
    by (simp add: get_event_handlers_def Let_def case_prod_beta split: option.splits)
qed

lemmas create_notifications_frame [simp, frame_simps] =
  quiet_fields[OF quiet_create_notifications] quiet_item_fields[OF quiet_create_notifications]
lemmas remove_notifications_frame [simp, frame_simps] =
  quiet_fields[OF quiet_remove_notifications] quiet_item_fields[OF quiet_remove_notifications]
lemmas emit_brok_frame [simp, frame_simps] =
  quiet_fields[OF quiet_emit_brok] quiet_item_fields[OF quiet_emit_brok]
lemmas add_action_frame [simp, frame_simps] =
  quiet_fields[OF quiet_add_action] quiet_item_fields[OF quiet_add_action]
lemmas event_handlers_frame [simp, frame_simps] =
  quiet_fields[OF quiet_event_handlers] quiet_item_fields[OF quiet_event_handlers]

subsection \<open>What downtimes, acknowledgements and the problem correlation leave alone\<close>

definition mcore :: "item \<Rightarrow> item" where
  "mcore it = (erase it)\<lparr>scheduled_downtime_depth := 0, in_scheduled_downtime := False,
     in_scheduled_downtime_during_last_check := False, problem_has_been_acknowledged := False,
     acknowledgement := None, comments := [], is_problem := False, is_impact := False,
     source_problems := [], impacts := [], my_own_business_impact := 0, business_impact := 0,
     state_before_impact := UP, state_id_before_impact := 0, state_changed_since_impact := False,
     state := UP, state_id := 0, last_time_unreachable := 0,
     in_hard_unknown_reach_phase := False, was_in_hard_unknown_reach_phase := False,
     state_before_hard_unknown_reach_phase := UP, state_type_id := 0, last_hard_state := UP,
     last_hard_state_id := 0, last_hard_state_change := 0, last_snapshot := 0\<rparr>"

text \<open>\<^verbatim>\<open>keeps P w w'\<close>: the items agree on the view \<^verbatim>\<open>P\<close>, the checks that exist, the classes and the global
  counters are the same; new actions may have been allocated.\<close>

definition keeps :: "(item \<Rightarrow> 'a) \<Rightarrow> world \<Rightarrow> world \<Rightarrow> bool" where
  "keeps P w w' \<longleftrightarrow> (\<forall>j. P (items w' j) = P (items w j)) \<and>
     (\<forall>c < next_action_id w. checks w' c = checks w c) \<and>
     host_class w' = host_class w \<and> service_class w' = service_class w \<and>
     global_event_id w' = global_event_id w \<and> global_problem_id w' = global_problem_id w \<and>
     next_action_id w \<le> next_action_id w'"

abbreviation steady :: "world \<Rightarrow> world \<Rightarrow> bool" where
  "steady \<equiv> keeps mcore"

lemma keeps_refl [simp, intro]: "keeps P w w"
  by (simp add: keeps_def)

lemma keeps_trans [trans]: "keeps P w w' \<Longrightarrow> keeps P w' w'' \<Longrightarrow> keeps P w w''"
  by (auto simp: keeps_def)

lemma keeps_view: "keeps P w w' \<Longrightarrow> P (items w' j) = P (items w j)"
  by (simp add: keeps_def)

lemma keeps_fields:
  assumes "keeps P w w'"
  shows "c < next_action_id w \<Longrightarrow> checks w' c = checks w c" "host_class w' = host_class w"
    "service_class w' = service_class w" "global_event_id w' = global_event_id w"
    "global_problem_id w' = global_problem_id w" "next_action_id w \<le> next_action_id w'"
    "cls_of w' k = cls_of w k"
proof -
  show "cls_of w' k = cls_of w k" by (rule cls_of_cong) (use assms in \<open>unfold keeps_def, blast+\<close>)
qed (use assms in \<open>unfold keeps_def, blast+\<close>)

lemma keeps_upd: "(\<And>it. P (f it) = P it) \<Longrightarrow> keeps P w (upd i f w)"
  by (simp add: keeps_def)

lemma keeps_store [simp, intro]:
  "keeps P w (upd_downtime d f w)" "keeps P w (upd_comment c g w)" "keeps P w (upd_notif n h w)"
  by (simp_all add: keeps_def upd_downtime_def upd_comment_def upd_notif_def)

lemma keeps_if: "(b \<Longrightarrow> keeps P w x) \<Longrightarrow> (\<not> b \<Longrightarrow> keeps P w y) \<Longrightarrow> keeps P w (if b then x else y)"
  by simp

lemma quiet_keeps:
  assumes "quiet w w'" and "\<And>x y. erase x = erase y \<Longrightarrow> P x = P y"
  shows "keeps P w w'"
  unfolding keeps_def using assms(1) assms(2)[OF quiet_erase[OF assms(1)]] by (simp add: quiet_def)

lemma view_cong:
  assumes "P x = P y" and "\<And>z. f (P z) = f z"
  shows "f x = f y"
  using assms by metis

lemma mcore_erase: "erase x = erase y \<Longrightarrow> mcore x = mcore y"
  by (simp add: mcore_def)

lemmas quiet_steady = quiet_keeps[where P = mcore, OF _ mcore_erase]

lemma mcore_fields:
  assumes "mcore x = mcore y"
  shows "state_type x = state_type y" "attempt x = attempt y" "last_state x = last_state y"
    "last_state_type x = last_state_type y" "max_check_attempts x = max_check_attempts y"
    "my_type x = my_type y" "host x = host y" "is_volatile x = is_volatile y" "triggers x = triggers y"
    "act_depend_of x = act_depend_of y" "act_depend_of_me x = act_depend_of_me y"
    "chk_depend_of x = chk_depend_of y" "downtimes x = downtimes y" "last_chk x = last_chk y"
    "is_flapping x = is_flapping y" "flapping_changes x = flapping_changes y"
    "checks_in_progress x = checks_in_progress y" "current_event_id x = current_event_id y"
    "current_problem_id x = current_problem_id y" "last_event_id x = last_event_id y"
    "last_problem_id x = last_problem_id y"
  by (rule view_cong[where P = mcore, OF assms], simp add: mcore_def erase_def)+

lemmas steady_item_fields = mcore_fields[OF keeps_view[where P = mcore]]

lemmas steady_quiets [simp, intro] =
  quiet_create_notifications[THEN quiet_steady] quiet_remove_notifications[THEN quiet_steady]
  quiet_emit_brok[THEN quiet_steady] quiet_add_action[THEN quiet_steady]
  quiet_event_handlers[THEN quiet_steady] log_only_entries[THEN quiet_log, THEN quiet_steady]

lemma keeps_coarser:
  assumes "keeps P w w'" and "\<And>x y. P x = P y \<Longrightarrow> Q x = Q y"
  shows "keeps Q w w'"
  unfolding keeps_def using keeps_fields[OF assms(1)] assms(2)[OF keeps_view[OF assms(1)]] by blast

text \<open>What these operations leave alone is a view of the item. A view may keep the state of the item when
  no class lets problems change the states of their impacts (\<^verbatim>\<open>frozen\<close>, the default); the contract of a
  view lists the attributes it does not see.\<close>

definition frozen :: "world \<Rightarrow> bool" where
  "frozen w \<longleftrightarrow> \<not> enable_problem_impacts_states_change (host_class w) \<and>
     \<not> enable_problem_impacts_states_change (service_class w)"

lemma frozen_cong: "keeps P w w' \<Longrightarrow> frozen w' = frozen w"
  by (simp add: frozen_def keeps_def)

locale item_view =
  fixes P :: "bool \<Rightarrow> item \<Rightarrow> 'v"
  assumes view_erase: "erase x = erase y \<Longrightarrow> P b x = P b y"
    and view_upd [simp]:
      "P b (it\<lparr>scheduled_downtime_depth := n1\<rparr>) = P b it" "P b (it\<lparr>in_scheduled_downtime := b1\<rparr>) = P b it"
      "P b (it\<lparr>in_scheduled_downtime_during_last_check := b1\<rparr>) = P b it"
      "P b (it\<lparr>problem_has_been_acknowledged := b1\<rparr>) = P b it" "P b (it\<lparr>acknowledgement := ak\<rparr>) = P b it"
      "P b (it\<lparr>comments := l1\<rparr>) = P b it" "P b (it\<lparr>is_problem := b1\<rparr>) = P b it"
      "P b (it\<lparr>is_impact := b1\<rparr>) = P b it" "P b (it\<lparr>source_problems := l1\<rparr>) = P b it"
      "P b (it\<lparr>impacts := l1\<rparr>) = P b it" "P b (it\<lparr>my_own_business_impact := n1\<rparr>) = P b it"
      "P b (it\<lparr>business_impact := n1\<rparr>) = P b it"
      "P b (it\<lparr>in_hard_unknown_reach_phase := b1\<rparr>) = P b it"
      "P b (it\<lparr>was_in_hard_unknown_reach_phase := b1\<rparr>) = P b it"
      "P b (it\<lparr>state_before_hard_unknown_reach_phase := s1\<rparr>) = P b it"
    and impact_state [simp]:
      "keeps (P (frozen w)) w (set_impact_state i w)" "keeps (P (frozen w)) w (unset_impact_state i w)"
    and view_mcore: "P b x = P b y \<Longrightarrow> mcore x = mcore y"
    and view_machine:
      "P b x = P b y \<Longrightarrow> P b (x\<lparr>state_type := st, attempt := att\<rparr>) = P b (y\<lparr>state_type := st, attempt := att\<rparr>)"
begin

abbreviation tracks :: "world \<Rightarrow> world \<Rightarrow> bool" where
  "tracks w w' \<equiv> keeps (P (frozen w)) w w'"

lemma tracks_refl [simp, intro]: "tracks w w"
  by (rule keeps_refl)

lemma tracks_trans [trans]: "tracks w w' \<Longrightarrow> tracks w' w'' \<Longrightarrow> tracks w w''"
  using frozen_cong[of "P (frozen w)" w w'] keeps_trans[of "P (frozen w)" w w' w''] by simp

lemma tracks_upd: "(\<And>it. P (frozen w) (f it) = P (frozen w) it) \<Longrightarrow> tracks w (upd i f w)"
  by (rule keeps_upd)

lemma tracks_store [simp, intro]:
  "tracks w (upd_downtime d f w)" "tracks w (upd_comment c g w)" "tracks w (upd_notif n h w)"
  by (rule keeps_store)+

lemma tracks_if: "(b \<Longrightarrow> tracks w x) \<Longrightarrow> (\<not> b \<Longrightarrow> tracks w y) \<Longrightarrow> tracks w (if b then x else y)"
  by simp

lemma tracks_steady: "tracks w w' \<Longrightarrow> steady w w'"
  by (rule keeps_coarser[OF _ view_mcore])

lemma quiet_tracks: "quiet w w' \<Longrightarrow> tracks w w'"
  by (rule quiet_keeps[OF _ view_erase])

lemmas tracks_quiets [simp, intro] =
  quiet_create_notifications[THEN quiet_tracks] quiet_remove_notifications[THEN quiet_tracks]
  quiet_emit_brok[THEN quiet_tracks] quiet_add_action[THEN quiet_tracks]
  quiet_event_handlers[THEN quiet_tracks] log_only_entries[THEN quiet_log, THEN quiet_tracks]

lemmas impact_state_tracks [simp, intro] = impact_state

lemma tracks_enter_one [simp, intro]: "tracks w (enter_one now d w)"
proof -
  let ?w1 = "upd_downtime d (\<lambda>dt. dt\<lparr>dt_is_in_effect := True,
       dt_real_end_time := (if \<not> dt_fixed dt then now + dt_duration dt else dt_real_end_time dt)\<rparr>) w"
  let ?i = "dt_ref (downtime_store ?w1 d)"
  let ?w2 = "if scheduled_downtime_depth (items ?w1 ?i) = 0
     then create_notifications now DOWNTIMESTART None ?i (raise_enter_downtime_log_entry ?i ?w1) else ?w1"
  have "tracks w ?w1" by simp
  also have "tracks ?w1 ?w2"
    using tracks_trans[of ?w1 "raise_enter_downtime_log_entry ?i ?w1"] by (intro tracks_if) auto
  also have "tracks ?w2 (enter_one now d w)"
    unfolding enter_one_def Let_def by (rule tracks_upd) (simp)
  finally show ?thesis .
qed

lemma tracks_dt_enter:
  "dt_enter fuel now d w = Some w' \<Longrightarrow> tracks w w'"
  "dt_enter_all fuel now ds w = Some w' \<Longrightarrow> tracks w w'"
proof (induction fuel now d w and fuel now ds w arbitrary: w' and w' rule: dt_enter_dt_enter_all.induct)
  case (2 fuel now d w)
  then show ?case using tracks_trans[OF tracks_enter_one] by (fastforce simp: Let_def)
next
  case (4 fuel now d ds w)
  then show ?case by (auto simp: bind_eq_Some_conv intro: tracks_trans)
qed auto

lemma tracks_flexible:
  "flexible_downtimes fuel now i ds b w = Some (b', w') \<Longrightarrow> tracks w w'"
proof (induction fuel now i ds b w arbitrary: b' w' rule: flexible_downtimes.induct)
  case (2 fuel now i d ds b w)
  show ?case
  proof (cases "\<not> dt_fixed (downtime_store w d) \<and> \<not> dt_is_in_effect (downtime_store w d) \<and>
      dt_start_time (downtime_store w d) \<le> last_chk (items w i) \<and> state_id (items w i) \<noteq> 0 \<and>
      dt_trigger_id (downtime_store w d) = 0")
    case True
    then obtain v where v: "dt_enter fuel now d w = Some v"
      "flexible_downtimes fuel now i ds True (add_action i AResultList v) = Some (b', w')"
      using "2.prems" by (auto simp: Let_def bind_eq_Some_conv)
    have "tracks w v" by (rule tracks_dt_enter(1)[OF v(1)])
    also have "tracks v (add_action i AResultList v)" by simp
    also have "tracks (add_action i AResultList v) w'" using "2.IH"(1)[OF refl] True v by simp
    finally show ?thesis .
  next
    case False
    then show ?thesis using "2.IH"(2)[OF refl] "2.prems" by (simp add: Let_def split: if_splits)
  qed
qed auto

lemma tracks_check_for_flexible_downtime:
  "check_for_flexible_downtime fuel now i w = Some w' \<Longrightarrow> tracks w w'"
  by (auto simp: check_for_flexible_downtime_def bind_eq_Some_conv dest!: tracks_flexible
      intro: tracks_trans split: if_splits)

lemma tracks_del_comment [simp, intro]: "tracks w (del_comment k i w)"
proof -
  let ?f = "\<lambda>c w. if co_id (comment_store w c) = k then upd_comment c (\<lambda>co. co\<lparr>co_can_be_deleted := True\<rparr>) w else w"
  have fold: "tracks w (fold ?f cs w)" for cs
    by (induction cs arbitrary: w) (auto intro: tracks_trans[OF tracks_store(2)])
  have "tracks v (upd i (\<lambda>it. it\<lparr>comments := remove1 c (comments it)\<rparr>) v)" for c v
    by (rule tracks_upd) (simp)
  with fold show ?thesis
    by (auto simp: del_comment_def Let_def split: option.splits intro: tracks_trans)
qed

lemma tracks_ack_loop [simp, intro]: "tracks w (ack_comments_loop k i w)"
proof (induction k i w rule: ack_comments_loop.induct)
  case (1 k i w)
  let ?c = "comment_store w (comments (items w i) ! k)"
  let ?v = "if co_entry_type ?c = 4 \<and> \<not> co_persistent ?c then del_comment (co_id ?c) i w else w"
  have "tracks w (ack_comments_loop (Suc k) i ?v)" if "k < length (comments (items w i))"
    using tracks_trans[OF _ 1[OF that refl], of w] by simp
  then show ?case by (subst ack_comments_loop.simps) (simp add: Let_def)
qed

lemma tracks_unacknowledge [simp, intro]: "tracks w (unacknowledge_problem i w)"
proof -
  have "tracks w (upd i (\<lambda>it. it\<lparr>problem_has_been_acknowledged := False, acknowledgement := None\<rparr>) w)" (is "tracks w ?v")
    by (rule tracks_upd) (simp)
  then have "tracks w (emit_brok i (ack_comments_loop 0 i ?v))"
    by (rule tracks_trans) (rule tracks_trans[OF tracks_ack_loop tracks_quiets(3)])
  then show ?thesis by (simp add: unacknowledge_problem_def)
qed

lemma tracks_unacknowledge_if [simp, intro]: "tracks w (unacknowledge_problem_if_not_sticky i w)"
  by (simp add: unacknowledge_problem_if_not_sticky_def split: option.splits)

lemma tracks_business_impact [simp, intro]: "tracks w (update_business_impact_value now i w)"
proof -
  let ?w1 = "if my_own_business_impact (items w i) = -1
     then upd i (\<lambda>it. it\<lparr>my_own_business_impact := business_impact it\<rparr>) w else w"
  let ?m = "first_modulation now (business_impact_modulations (items ?w1 i))"
  let ?w2 = "case ?m of None \<Rightarrow> ?w1 | Some b \<Rightarrow> upd i (\<lambda>it. it\<lparr>business_impact := b\<rparr>) ?w1"
  have "tracks w ?w1" by (intro tracks_if tracks_upd tracks_refl) (simp)
  also have "tracks ?w1 ?w2"
    by (auto split: option.splits intro!: tracks_upd )
  also have "tracks ?w2 (update_business_impact_value now i w)"
    unfolding update_business_impact_value_def Let_def
    by (intro tracks_if tracks_refl tracks_upd) (simp_all)
  finally show ?thesis .
qed

lemma tracks_deregister: "deregister_a_problem pb i w = Some w' \<Longrightarrow> tracks w w'"
proof -
  assume d: "deregister_a_problem pb i w = Some w'"
  let ?w1 = "upd i (\<lambda>it. it\<lparr>source_problems := remove1 pb (source_problems it)\<rparr>) w"
  let ?w2 = "upd i (\<lambda>it. it\<lparr>is_impact := False\<rparr>) ?w1"
  have 1: "tracks w ?w1" and 2: "tracks ?w1 ?w2"
    by (rule tracks_upd, simp)+
  from d have "w' = emit_brok i (if source_problems (items ?w1 i) = [] then unset_impact_state i ?w2 else ?w1)"
    by (auto simp: deregister_a_problem_def Let_def split: if_splits)
  moreover have "tracks w (unset_impact_state i ?w2)"
    using tracks_trans[OF 1 tracks_trans[OF 2 impact_state(2)]] .
  ultimately show "tracks w w'" using 1 by (auto intro: tracks_trans)
qed

lemma tracks_deregister_all: "deregister_all pb is w = Some w' \<Longrightarrow> tracks w w'"
  by (induction "is" arbitrary: w) (auto simp: bind_eq_Some_conv dest!: tracks_deregister intro: tracks_trans)

lemma tracks_no_more_a_problem:
  assumes "no_more_a_problem now b i w = Some w'"
  shows "tracks w w'"
proof -
  let ?w1 = "upd i (\<lambda>it. it\<lparr>is_problem := False\<rparr>) w"
  obtain v where v: "w' = (if b \<and> is_problem (items w i) then emit_brok i (update_business_impact_value now i v)
        else update_business_impact_value now i v)"
    and v': "(if is_problem (items w i)
        then Option.bind (deregister_all i (impacts (items ?w1 i)) ?w1) (\<lambda>u. Some (upd i (\<lambda>it. it\<lparr>impacts := []\<rparr>) u))
        else Some w) = Some v"
    using assms unfolding no_more_a_problem_def Let_def Option.bind_eq_Some_conv by auto
  have cases: "v = w \<or> (\<exists>u. deregister_all i (impacts (items ?w1 i)) ?w1 = Some u \<and> v = upd i (\<lambda>it. it\<lparr>impacts := []\<rparr>) u)"
    using v' by (auto simp: bind_eq_Some_conv split: if_splits)
  have "tracks w v"
    using cases
  proof
    assume "\<exists>u. deregister_all i (impacts (items ?w1 i)) ?w1 = Some u \<and> v = upd i (\<lambda>it. it\<lparr>impacts := []\<rparr>) u"
    then obtain u where u: "deregister_all i (impacts (items ?w1 i)) ?w1 = Some u"
      "v = upd i (\<lambda>it. it\<lparr>impacts := []\<rparr>) u" by blast
    have "tracks w ?w1" by (rule tracks_upd) (simp)
    also have "tracks ?w1 u" by (rule tracks_deregister_all[OF u(1)])
    also have "tracks u v" unfolding u(2) by (rule tracks_upd) (simp)
    finally show ?thesis .
  qed simp
  then have "tracks w (update_business_impact_value now i v)" (is "tracks w ?u")
    by (rule tracks_trans) simp
  moreover from this have "tracks w (emit_brok i ?u)" by (rule tracks_trans) simp
  ultimately show ?thesis using v by simp
qed

lemma tracks_become_impact:
  assumes "become_impact now pb i w = Some w'"
  shows "tracks w w'"
proof -
  let ?w1 = "upd i (\<lambda>it. it\<lparr>is_impact := True\<rparr>) w"
  have w1: "tracks w ?w1" by (rule tracks_upd) (simp)
  obtain v where v: "(if is_problem (items ?w1 i) then no_more_a_problem now True i ?w1 else Some ?w1) = Some v"
    and w': "w' = (let u = (if \<not> is_impact (items w i) then set_impact_state i v else v)
        in if pb \<notin> set (source_problems (items u i))
           then upd i (\<lambda>it. it\<lparr>source_problems := source_problems it @ [pb]\<rparr>) u else u)"
    using assms unfolding become_impact_def Let_def Option.bind_eq_Some_conv by auto
  have "tracks ?w1 v" using v tracks_no_more_a_problem by (auto split: if_splits)
  also have "tracks v (if \<not> is_impact (items w i) then set_impact_state i v else v)" (is "tracks v ?u") by simp
  also have "tracks ?u w'"
    unfolding w' Let_def by (intro tracks_if tracks_refl tracks_upd) (simp)
  finally show ?thesis by (rule tracks_trans[OF w1])
qed

lemma tracks_register:
  "register_a_problem fuel now pb b i w = Some (imps, w') \<Longrightarrow> tracks w w'"
  "register_deps fuel now pb b i ds acc w = Some (imps, w') \<Longrightarrow> tracks w w'"
proof (induction fuel now pb b i w and fuel now pb b i ds acc w arbitrary: imps w' and imps w'
    rule: register_a_problem_register_deps.induct)
  case (2 fuel now pb b i w)
  show ?case
  proof (cases "pb \<in> set (source_problems (items w i))")
    case False
    then obtain v u where v: "become_impact now pb i w = Some v"
      and u: "register_deps fuel now pb True i
         [(d, s). d \<leftarrow> act_depend_of_me (items v i), s \<leftarrow> dep_status d] [i] v = Some (imps, u)"
      and w': "w' = (if b then emit_brok i u else u)"
      using "2.prems" by (auto simp: bind_eq_Some_conv)
    have "tracks w v" by (rule tracks_become_impact[OF v])
    also have "tracks v u" by (rule "2.IH"[OF False v u])
    also have "tracks u w'" unfolding w' by simp
    finally show ?thesis .
  qed (use "2.prems" in auto)
next
  case (4 fuel now pb b i ds rest acc w)
  then show ?case
    by (fastforce simp: bind_eq_Some_conv split: if_splits intro: tracks_trans)
qed auto

lemma tracks_set_myself_as_problem:
  assumes "set_myself_as_problem fuel now b i w = Some w'"
  shows "tracks w w'"
proof -
  let ?w1 = "if \<not> is_problem (items w i) then upd i (\<lambda>it. it\<lparr>is_problem := True\<rparr>) w else w"
  obtain imps v where v: "register_deps fuel now i b i
        [(d, s). d \<leftarrow> act_depend_of_me (items ?w1 i), s \<leftarrow> dep_status d] (impacts (items ?w1 i)) ?w1 = Some (imps, v)"
    and w': "w' = (let changed = (set imps \<noteq> set (impacts (items v i)));
        u = (if changed then update_business_impact_value now i (upd i (\<lambda>it. it\<lparr>impacts := remdups imps\<rparr>) v) else v)
      in if b \<and> (\<not> is_problem (items w i) \<or> changed) then emit_brok i u else u)"
    using assms by (auto simp: set_myself_as_problem_def Let_def bind_eq_Some_conv)
  have "tracks w ?w1" by (intro tracks_if tracks_upd tracks_refl) (simp)
  also have "tracks ?w1 v" by (rule tracks_register(2)[OF v])
  also have "tracks v (upd i (\<lambda>it. it\<lparr>impacts := remdups imps\<rparr>) v)" (is "tracks v ?x")
    by (rule tracks_upd) (simp)
  then have "tracks v (update_business_impact_value now i ?x)" by (rule tracks_trans) simp
  then have "tracks v w'" unfolding w' Let_def by (auto intro: tracks_trans)
  finally show ?thesis .
qed

end

text \<open>Two views: the machine view, which does not see the state, and the one that keeps the state of an
  item while the states are frozen.\<close>

definition state_view :: "bool \<Rightarrow> item \<Rightarrow> item \<times> istate" where
  "state_view b it = (mcore it, if b then state it else PENDING)"

lemma mcore_impact_state: "keeps mcore w (set_impact_state i w)" "keeps mcore w (unset_impact_state i w)"
  by (auto simp: set_impact_state_def unset_impact_state_def
      host_set_impact_state_def service_set_impact_state_def host_unset_impact_state_def
      service_unset_impact_state_def mcore_def erase_def split: item_kind.splits intro!: keeps_upd)

lemma state_view_impact_state:
  "keeps (state_view (frozen w)) w (set_impact_state i w)" "keeps (state_view (frozen w)) w (unset_impact_state i w)"
proof -
  have "frozen w \<Longrightarrow> \<not> enable_problem_impacts_states_change (cls_of w k)" for k
    by (cases k) (simp_all add: frozen_def cls_of_def)
  then have "frozen w \<Longrightarrow> set_impact_state i w = w" "frozen w \<Longrightarrow> unset_impact_state i w = w"
    by (auto simp: set_impact_state_def unset_impact_state_def host_set_impact_state_def
        service_set_impact_state_def host_unset_impact_state_def service_unset_impact_state_def split: item_kind.splits)
  then show "keeps (state_view (frozen w)) w (set_impact_state i w)" "keeps (state_view (frozen w)) w (unset_impact_state i w)"
    using mcore_impact_state[of w i] by (cases "frozen w"; simp add: keeps_def state_view_def)+
qed

lemma mcore_machine: "mcore (x\<lparr>state_type := st, attempt := att\<rparr>) = (mcore x)\<lparr>state_type := st, attempt := att\<rparr>"
  by (simp add: mcore_def erase_def)

lemma mcore_upd [simp]:
  "mcore (it\<lparr>scheduled_downtime_depth := n1\<rparr>) = mcore it" "mcore (it\<lparr>in_scheduled_downtime := b1\<rparr>) = mcore it"
  "mcore (it\<lparr>in_scheduled_downtime_during_last_check := b1\<rparr>) = mcore it"
  "mcore (it\<lparr>problem_has_been_acknowledged := b1\<rparr>) = mcore it" "mcore (it\<lparr>acknowledgement := ak\<rparr>) = mcore it"
  "mcore (it\<lparr>comments := l1\<rparr>) = mcore it" "mcore (it\<lparr>is_problem := b1\<rparr>) = mcore it"
  "mcore (it\<lparr>is_impact := b1\<rparr>) = mcore it" "mcore (it\<lparr>source_problems := l1\<rparr>) = mcore it"
  "mcore (it\<lparr>impacts := l1\<rparr>) = mcore it" "mcore (it\<lparr>my_own_business_impact := n1\<rparr>) = mcore it"
  "mcore (it\<lparr>business_impact := n1\<rparr>) = mcore it" "mcore (it\<lparr>in_hard_unknown_reach_phase := b1\<rparr>) = mcore it"
  "mcore (it\<lparr>was_in_hard_unknown_reach_phase := b1\<rparr>) = mcore it"
  "mcore (it\<lparr>state_before_hard_unknown_reach_phase := s1\<rparr>) = mcore it"
  by (simp_all add: mcore_def erase_def)

lemma state_view_erase: "erase x = erase y \<Longrightarrow> state_view b x = state_view b y"
  using mcore_erase[of x y] erase_fields(1)[of x y] by (simp add: state_view_def)

interpretation mv: item_view "\<lambda>_. mcore"
proof unfold_locales
  show "mcore x = mcore y" if "erase x = erase y" for x y by (rule mcore_erase[OF that])
qed (simp_all add: mcore_impact_state mcore_machine)

interpretation sv: item_view state_view
proof unfold_locales
  show "state_view b x = state_view b y" if "erase x = erase y" for x y b by (rule state_view_erase[OF that])
  show "keeps (state_view (frozen w)) w (set_impact_state i w)"
    "keeps (state_view (frozen w)) w (unset_impact_state i w)" for w i by (rule state_view_impact_state)+
  show "mcore x = mcore y" if "state_view b x = state_view b y" for b x y using that by (simp add: state_view_def)
qed (auto simp: state_view_def mcore_machine split: if_splits)

lemma steady_unreachable [simp, intro]: "steady w (set_unreachable now i w)"
  by (auto simp: set_unreachable_def host_set_unreachable_def service_set_unreachable_def mcore_def erase_def
      split: item_kind.splits intro!: keeps_upd)

lemma steady_check_and_set_unreachability [simp, intro]: "steady w (check_and_set_unreachability now i w)"
  by (simp add: check_and_set_unreachability_def Let_def)

subsection \<open>What launching a check leaves alone\<close>

definition rcore :: "item \<Rightarrow> item" where
  "rcore it = (erase it)\<lparr>checks_in_progress := [], last_check_command := Void,
     maintenance_last_check_command := Void\<rparr>"

lemma rcore_erase: "erase x = erase y \<Longrightarrow> rcore x = rcore y"
  by (simp add: rcore_def)

lemma rcore_fields:
  assumes "rcore x = rcore y"
  shows "state x = state y" "state_id x = state_id y" "state_type x = state_type y"
    "last_state x = last_state y" "last_state_type x = last_state_type y" "attempt x = attempt y"
    "max_check_attempts x = max_check_attempts y" "my_type x = my_type y" "host x = host y"
    "is_volatile x = is_volatile y" "is_impact x = is_impact y"
    "state_changed_since_impact x = state_changed_since_impact y"
    "state_before_impact x = state_before_impact y" "triggers x = triggers y"
    "act_depend_of x = act_depend_of y" "resultmodulations x = resultmodulations y"
    "current_event_id x = current_event_id y" "current_problem_id x = current_problem_id y"
  by (rule view_cong[where P = rcore, OF assms], simp add: rcore_def erase_def)+

abbreviation launched :: "world \<Rightarrow> world \<Rightarrow> bool" where
  "launched \<equiv> keeps rcore"

lemmas launched_item_fields = rcore_fields[OF keeps_view[where P = rcore]]

lemmas launched_quiets [simp, intro] =
  quiet_keeps[OF quiet_add_action rcore_erase] quiet_keeps[OF quiet_emit_brok rcore_erase]
  quiet_keeps[OF quiet_log[OF log_only_entries(12)] rcore_erase]

lemma launched_alloc [simp, intro]: "launched w (snd (alloc_check ck w))"
  by (simp add: alloc_check_def keeps_def)

lemma launched_dependency_copy: "launched w (snd (launch_dependency_copy t r v i w))"
proof -
  have "launched u (add_action i a (snd (alloc_check ck u)))" for ck u a
    by (rule keeps_trans[OF launched_alloc launched_quiets(1)])
  then show ?thesis by (simp add: launch_dependency_copy_def Let_def case_prod_beta)
qed

lemma launched_new_check: "launched w (snd (launch_new_check t r v i w))"
proof -
  have a: "launched u (upd i (\<lambda>it. case v of State_variant \<Rightarrow> it\<lparr>last_check_command := cl\<rparr>
       | Maintenance_variant \<Rightarrow> it\<lparr>maintenance_last_check_command := cl\<rparr>) u)" for u cl
    by (rule keeps_upd) (simp add: rcore_def erase_def split: check_variant.splits)
  have b: "launched u (upd i (\<lambda>it. it\<lparr>checks_in_progress := checks_in_progress it @ [c]\<rparr>) u)" for u c
    by (rule keeps_upd) (simp add: rcore_def erase_def)
  show ?thesis
    unfolding launch_new_check_def Let_def case_prod_beta snd_conv
    by (rule keeps_trans[OF a keeps_trans[OF launched_alloc keeps_trans[OF b launched_quiets(1)]]])
qed

lemma launched_launch_check:
  assumes "launch_check fuel now t r False dep v i w = Some (c, w')"
  shows "launched w w'"
  using assms launched_dependency_copy[of w t "the r" v i] launched_new_check[of w t r v i]
  by (auto simp: launch_check_def Let_def case_prod_beta bind_eq_Some_conv split: if_splits)

lemma launched_launch_deps:
  "launch_deps fuel now r h ds cs w = Some (cs', w') \<Longrightarrow> launched w w'"
proof (induction fuel now r h ds cs w arbitrary: cs' w' rule: launch_deps.induct)
  case (2 fuel now r h d ds cs w)
  show ?case
  proof (cases "dep_time_ok now d \<and> last_state_update_time (items w (dep_item d)) < now - h")
    case True
    then obtain c v where v: "launch_check fuel now now (Some r) False True State_variant (dep_item d) w = Some (c, v)"
      "launch_deps fuel now r h ds (case c of None \<Rightarrow> cs | Some c \<Rightarrow> cs @ [c]) v = Some (cs', w')"
      using "2.prems" by (auto simp: bind_eq_Some_conv)
    show ?thesis
      using keeps_trans[OF launched_launch_check[OF v(1)] "2.IH"(1)[OF True v(1) refl v(2)]] .
  next
    case False
    then have "launch_deps fuel now r h ds cs w = Some (cs', w')" using "2.prems" by (simp split: if_splits)
    then show ?thesis by (rule "2.IH"(2)[OF False])
  qed
qed auto

subsection \<open>The state from the exit status\<close>

definition fcore :: "item \<Rightarrow> item" where
  "fcore it = (erase it)\<lparr>is_flapping := False, percent_state_change := 0, flapping_changes := []\<rparr>"

lemma fcore_erase: "erase x = erase y \<Longrightarrow> fcore x = fcore y"
  by (simp add: fcore_def)

lemmas flap_quiets [simp, intro] =
  quiet_keeps[OF quiet_create_notifications fcore_erase] quiet_keeps[OF quiet_emit_brok fcore_erase]
  quiet_keeps[OF quiet_remove_notifications fcore_erase]
  quiet_keeps[OF quiet_log[OF log_only_entries(7)] fcore_erase]
  quiet_keeps[OF quiet_log[OF log_only_entries(8)] fcore_erase]

lemma keeps_flap_upd:
  "keeps fcore w (upd i (\<lambda>it. it\<lparr>is_flapping := b\<rparr>) w)"
  "keeps fcore w (upd i (\<lambda>it. it\<lparr>percent_state_change := r\<rparr>) w)"
  "keeps fcore w (upd i (\<lambda>it. it\<lparr>flapping_changes := push_change h c (flapping_changes it)\<rparr>) w)"
  by (rule keeps_upd, simp add: fcore_def erase_def)+

lemma keeps_flap_signal:
  assumes "log_only (upd i (\<lambda>it. it\<lparr>is_flapping := b\<rparr>) w) v"
  shows "keeps fcore w (emit_brok i (create_notifications now ty None i (remove_in_progress_notifications i v)))"
  by (rule keeps_trans[OF keeps_flap_upd(1) keeps_trans[OF quiet_keeps[OF quiet_log[OF assms] fcore_erase]
        keeps_trans[OF flap_quiets(3) keeps_trans[OF flap_quiets(1) flap_quiets(2)]]]])

lemma keeps_update_flapping: "keeps fcore w (update_flapping now i w)"
proof -
  let ?k = "cls w i" and ?it = "items w i"
  let ?r = "flap_ratio (flap_history ?k) (flapping_changes ?it)"
  let ?w1 = "upd i (\<lambda>it. it\<lparr>percent_state_change := ?r\<rparr>) w"
  let ?full = "length (flapping_changes ?it) \<ge> flap_history ?k"
  let ?w2 = "if is_flapping (items ?w1 i) \<and> ?r < low_threshold ?k ?it \<and> ?full
     then emit_brok i (create_notifications now FLAPPINGSTOP None i (remove_in_progress_notifications i
            (raise_flapping_stop_log_entry ?r (low_threshold ?k ?it) i (upd i (\<lambda>it. it\<lparr>is_flapping := False\<rparr>) ?w1))))
     else ?w1"
  have "keeps fcore w ?w1" by (rule keeps_flap_upd)
  also have "keeps fcore ?w1 ?w2" by (rule keeps_if[OF keeps_flap_signal[OF log_only_entries(8)] keeps_refl])
  also have "keeps fcore ?w2 (update_flapping now i w)"
    unfolding update_flapping_def Let_def
    by (rule keeps_if[OF keeps_flap_signal[OF log_only_entries(7)] keeps_refl])
  finally show ?thesis .
qed

lemma keeps_add_flapping_change [simp, intro]: "keeps fcore w (add_flapping_change now b i w)"
  unfolding add_flapping_change_def
  by (intro keeps_if keeps_refl keeps_trans[OF keeps_flap_upd(3) keeps_update_flapping])

definition new_state :: "item_kind \<Rightarrow> int \<Rightarrow> istate" where
  "new_state k status = (case k of
     Host \<Rightarrow> if status = 0 then UP else DOWN
   | Service \<Rightarrow> if status = 0 then OK else if status = 1 then WARNING else if status = 2 then CRITICAL
               else if status = 3 then UNKNOWN else CRITICAL)"

definition scored :: "clock \<Rightarrow> world \<Rightarrow> int \<Rightarrow> iid \<Rightarrow> world" where
  "scored now w status i =
     upd i (\<lambda>it. it\<lparr>state := new_state (my_type it) status, last_state := true_last_state (cls w i) it\<rparr>) w"

definition score :: "item \<Rightarrow> item" where
  "score it = (fcore it)\<lparr>state_id := 0, last_state_update_time := 0, last_time_up := 0, last_time_down := 0,
     last_time_ok := 0, last_time_warning := 0, last_time_critical := 0, last_time_unknown := 0,
     last_state_change := 0, duration_sec := 0\<rparr>"

lemma score_fcore: "fcore x = fcore y \<Longrightarrow> score x = score y"
  by (simp add: score_def)

lemma keeps_set_state: "keeps score (scored now w status i) (set_state_from_exit_status now status i w)"
proof -
  have step: "keeps score u (upd i g (if b then add_flapping_change now c i v else v))"
    if v: "keeps score u v" and g: "\<And>it. score (g it) = score it" for u v g b c
    by (rule keeps_trans[OF v keeps_trans[OF keeps_if keeps_upd[where P = score, OF g]]])
       (rule keeps_coarser[OF keeps_add_flapping_change score_fcore], assumption, simp)
  show ?thesis
  proof (cases "my_type (items w i)")
    case Host
    show ?thesis
      unfolding set_state_from_exit_status_def Host item_kind.case host_set_state_from_exit_status_def Let_def
      by (cases "status = 0"; simp only: if_True if_False prod.case simp_thms; rule step)
         (auto simp: keeps_def scored_def score_def fcore_def erase_def new_state_def Host Let_def)
  next
    case Service
    show ?thesis
      unfolding set_state_from_exit_status_def Service item_kind.case service_set_state_from_exit_status_def Let_def
      by (cases "status = 0"; cases "status = 1"; cases "status = 2"; cases "status = 3";
          simp only: if_True if_False prod.case simp_thms; rule step)
         (auto simp: keeps_def scored_def score_def fcore_def erase_def new_state_def Service Let_def)
  qed
qed

end
