(* ===== verification/Results.thy ===== *)
theory Results
  imports Frames
begin

text \<open>
  What each part of \<^verbatim>\<open>consume_state_result\<close> does to the SOFT/HARD machine of the item: receiving the result,
  applying it to the state, reacting to it by the five cases of the code, and the bookkeeping at the end.
\<close>

subsection \<open>The state machine, abstractly\<close>

text \<open>One result seen from the SOFT/HARD machine: \<^verbatim>\<open>ok\<close> tells that the exit status is 0, \<^verbatim>\<open>fine\<close> that
  the last state was good or pending, \<^verbatim>\<open>pending\<close> that it was pending, and \<^verbatim>\<open>dep\<close> that the check was a
  dependency check, which does not count as an attempt.\<close>

definition hs_step ::
  "int \<Rightarrow> bool \<Rightarrow> bool \<Rightarrow> bool \<Rightarrow> bool \<Rightarrow> bool \<Rightarrow> state_type \<times> int \<Rightarrow> state_type \<times> int" where
  "hs_step max_attempts volatile dep ok fine pending s =
     (let (st, att) = s; att' = (if dep then att else min (att + 1) max_attempts) in
      if ok
      then (if fine \<and> st = SOFT \<and> \<not> pending then (if att \<ge> max_attempts then HARD else SOFT, att)
            else (HARD, 1))
      else if volatile then (HARD, 1)
      else if fine then (if att \<ge> max_attempts then (HARD, att) else (SOFT, 1))
      else if st = SOFT then (if att' \<ge> max_attempts then HARD else SOFT, att')
      else (HARD, att))"

definition machine :: "item \<Rightarrow> state_type \<times> int" where
  "machine it = (state_type it, attempt it)"

lemma steady_machine: "steady w w' \<Longrightarrow> machine (items w' j) = machine (items w j)"
  using steady_item_fields(1,2)[of w w' j] by (simp add: machine_def)



subsection \<open>Receiving and applying a result\<close>

definition pcore :: "item \<Rightarrow> item" where
  "pcore it = (rcore it)\<lparr>latency := 0, has_been_checked := False, execution_time := 0, u_time := 0,
     s_time := 0, last_chk := 0, plugin_output := [], long_output := [], check_type := 0,
     last_perf_data := [], perf_data := []\<rparr>"

lemma pcore_rcore: "rcore x = rcore y \<Longrightarrow> pcore x = pcore y"
  by (simp add: pcore_def)

lemma launched_pcore: "launched w w' \<Longrightarrow> keeps pcore w w'"
  by (rule keeps_coarser[where P = rcore, OF _ pcore_rcore])

lemma pcore_fields:
  assumes "pcore x = pcore y"
  shows "state x = state y" "state_id x = state_id y" "state_type x = state_type y"
    "last_state x = last_state y" "attempt x = attempt y"
    "max_check_attempts x = max_check_attempts y" "my_type x = my_type y"
    "is_volatile x = is_volatile y" "is_impact x = is_impact y"
    "state_changed_since_impact x = state_changed_since_impact y"
    "state_before_impact x = state_before_impact y" "triggers x = triggers y"
    "act_depend_of x = act_depend_of y" "resultmodulations x = resultmodulations y"
    "current_event_id x = current_event_id y" "current_problem_id x = current_problem_id y"
  by (rule view_cong[where P = pcore, OF assms], simp add: pcore_def rcore_def erase_def)+

definition waits_for_deps :: "clock \<Rightarrow> world \<Rightarrow> cid \<Rightarrow> iid \<Rightarrow> bool" where
  "waits_for_deps now w c i \<longleftrightarrow>
     modulated_exit_status now (cls w i) (items w i) (c_exit_status (checks w c)) \<noteq> 0 \<and>
     c_status (checks w c) = WaitConsume \<and> act_depend_of (items w i) \<noteq> []"

lemma modulated_cong:
  "resultmodulations x = resultmodulations y \<Longrightarrow> my_type x = my_type y \<Longrightarrow>
     modulated_exit_status now k x s = modulated_exit_status now k y s"
  by (simp add: modulated_exit_status_def)

lemma receive_result_effect:
  assumes r: "receive_result fuel now c i w = Some w'" and c: "c < next_action_id w"
  shows "pcore (items w' j) = pcore (items w j)"
    and "c_exit_status (checks w' c) = modulated_exit_status now (cls w i) (items w i) (c_exit_status (checks w c))"
    and "c_status (checks w' c) = (if waits_for_deps now w c i then WaitDep else c_status (checks w c))"
    and "c_dependency_check (checks w' c) = c_dependency_check (checks w c)"
    and "c_depend_on_me (checks w' c) = c_depend_on_me (checks w c)"
    and "c_from_trigger (checks w' c) = c_from_trigger (checks w c)"
    and "cls_of w' k = cls_of w k" and "next_action_id w \<le> next_action_id w'"
    and "global_event_id w' = global_event_id w" and "global_problem_id w' = global_problem_id w"
proof -
  let ?w1 = "manage_stalking c i w"
  define ck where "ck = checks w c"
  define w2 where "w2 = upd i (\<lambda>it. it\<lparr>latency := max 0 (c_check_time ck - c_t_to_go ck), has_been_checked := True,
      execution_time := c_execution_time ck, u_time := c_u_time ck, s_time := c_s_time ck,
      last_chk := c_check_time ck, plugin_output := c_output ck, long_output := c_long_output ck,
      check_type := c_check_type ck\<rparr>) ?w1"
  define w3 where "w3 = (if process_performance_data (cls ?w1 i) \<and> process_perf_data (items w2 i)
      then upd i (\<lambda>it. it\<lparr>last_perf_data := perf_data it, perf_data := c_perf_data ck\<rparr>) w2 else w2)"
  define w4 where "w4 = upd_check c (\<lambda>ck. ck\<lparr>c_exit_status :=
      modulated_exit_status now (cls ?w1 i) (items w3 i) (c_exit_status ck)\<rparr>) w3"
  have k1: "keeps pcore w ?w1" by (rule launched_pcore[OF launched_quiets(3)])
  have k2: "keeps pcore ?w1 w2"
    unfolding w2_def by (rule keeps_upd) (simp add: pcore_def rcore_def erase_def)
  have k3: "keeps pcore w2 w3"
    unfolding w3_def by (intro keeps_if keeps_refl keeps_upd) (simp add: pcore_def rcore_def erase_def)
  note k = keeps_trans[OF k1 keeps_trans[OF k2 k3]]
  have it3: "pcore (items w3 j) = pcore (items w j)" for j by (rule keeps_view[OF k])
  have ck3: "checks w3 c = ck" using keeps_fields(1)[OF k c] by (simp add: ck_def)
  have cls1: "cls ?w1 i = cls w i" by simp
  have es: "modulated_exit_status now (cls w i) (items w3 i) s = modulated_exit_status now (cls w i) (items w i) s" for s
    by (rule modulated_cong[OF pcore_fields(14)[OF it3] pcore_fields(7)[OF it3]])
  have ck4: "checks w4 c = ck\<lparr>c_exit_status := modulated_exit_status now (cls w i) (items w i) (c_exit_status ck)\<rparr>"
    unfolding w4_def cls1 es by (simp add: ck3)
  have rest4: "items w4 = items w3" "next_action_id w4 = next_action_id w3" "host_class w4 = host_class w3"
    "service_class w4 = service_class w3" "global_event_id w4 = global_event_id w3"
    "global_problem_id w4 = global_problem_id w3" by (simp_all add: w4_def upd_check_def)
  have id3: "next_action_id w \<le> next_action_id w3" by (rule keeps_fields(6)[OF k])
  have waits: "(c_exit_status (checks w4 c) \<noteq> 0 \<and> c_status (checks w4 c) = WaitConsume \<and>
      length (act_depend_of (items w4 i)) \<noteq> 0) \<longleftrightarrow> waits_for_deps now w c i"
    using pcore_fields(13)[OF it3, of i] by (simp add: ck4 rest4 waits_for_deps_def ck_def)
  let ?w5 = "upd_check c (\<lambda>ck. ck\<lparr>c_status := WaitDep\<rparr>) w4"
  have r': "(if waits_for_deps now w c i
      then Option.bind (raise_dependencies_check fuel now c i ?w5)
        (\<lambda>(ids, u). Some (upd_check c (\<lambda>ck. ck\<lparr>c_depend_on := c_depend_on ck @ ids\<rparr>) u))
      else Some w4) = Some w'"
    using r unfolding receive_result_def Let_def ck_def[symmetric] log_checks(12) w2_def[symmetric] w3_def[symmetric] w4_def[symmetric] waits .
  have "\<exists>u ids. launched ?w5 u \<and> w' = upd_check c (\<lambda>ck. ck\<lparr>c_depend_on := c_depend_on ck @ ids\<rparr>) u"
    if "waits_for_deps now w c i"
    using r' that launched_launch_deps by (fastforce simp: bind_eq_Some_conv raise_dependencies_check_def)
  moreover have "w' = w4" if "\<not> waits_for_deps now w c i" using r' that by simp
  ultimately have "(\<forall>j. pcore (items w' j) = pcore (items w j)) \<and>
     (\<exists>ids. checks w' c = ck\<lparr>c_exit_status := modulated_exit_status now (cls w i) (items w i) (c_exit_status ck),
        c_status := (if waits_for_deps now w c i then WaitDep else c_status ck), c_depend_on := ids\<rparr>) \<and>
     host_class w' = host_class w \<and> service_class w' = service_class w \<and>
     next_action_id w \<le> next_action_id w' \<and> global_event_id w' = global_event_id w \<and>
     global_problem_id w' = global_problem_id w"
  proof (cases "waits_for_deps now w c i")
    case True
    then obtain u ids where u: "launched ?w5 u"
      "w' = upd_check c (\<lambda>ck. ck\<lparr>c_depend_on := c_depend_on ck @ ids\<rparr>) u"
      using \<open>waits_for_deps now w c i \<Longrightarrow> _\<close> by blast
    have c5: "c < next_action_id ?w5" using c id3 rest4(2) by (simp add: upd_check_def)
    note f = keeps_fields[OF u(1)]
    have "pcore (items u j) = pcore (items w j)" for j
      using keeps_view[OF launched_pcore[OF u(1)], of j] it3[of j] rest4(1) by simp
    then show ?thesis
      using f(1)[OF c5] f(2-6) True ck4 id3 keeps_fields(2-5)[OF k] rest4 unfolding u(2)
      by (simp add: upd_check_def) blast
  next
    case False
    then have "w' = w4" using r' by simp
    moreover have "checks w4 c = ck\<lparr>c_exit_status := modulated_exit_status now (cls w i) (items w i) (c_exit_status ck),
        c_status := c_status ck, c_depend_on := c_depend_on ck\<rparr>" by (simp add: ck4)
    ultimately show ?thesis using it3 False id3 keeps_fields(2-5)[OF k] rest4
      by (intro conjI allI exI[of _ "c_depend_on ck"]) simp_all
  qed
  then obtain ids where fin: "\<forall>j. pcore (items w' j) = pcore (items w j)"
     "checks w' c = ck\<lparr>c_exit_status := modulated_exit_status now (cls w i) (items w i) (c_exit_status ck),
        c_status := (if waits_for_deps now w c i then WaitDep else c_status ck), c_depend_on := ids\<rparr>"
     "host_class w' = host_class w" "service_class w' = service_class w"
     "next_action_id w \<le> next_action_id w'" "global_event_id w' = global_event_id w"
     "global_problem_id w' = global_problem_id w" by blast
  then show "pcore (items w' j) = pcore (items w j)"
    "c_exit_status (checks w' c) = modulated_exit_status now (cls w i) (items w i) (c_exit_status (checks w c))"
    "c_status (checks w' c) = (if waits_for_deps now w c i then WaitDep else c_status (checks w c))"
    "c_dependency_check (checks w' c) = c_dependency_check (checks w c)"
    "c_depend_on_me (checks w' c) = c_depend_on_me (checks w c)"
    "c_from_trigger (checks w' c) = c_from_trigger (checks w c)"
    "cls_of w' k = cls_of w k" "next_action_id w \<le> next_action_id w'"
    "global_event_id w' = global_event_id w" "global_problem_id w' = global_problem_id w"
    using cls_of_cong[OF fin(3,4)] by (simp_all add: ck_def)
qed

lemma score_fields:
  assumes "score x = score y"
  shows "state x = state y" "state_type x = state_type y"
    "last_state x = last_state y" "last_state_type x = last_state_type y" "attempt x = attempt y"
    "max_check_attempts x = max_check_attempts y" "my_type x = my_type y"
    "is_volatile x = is_volatile y" "is_impact x = is_impact y" "triggers x = triggers y"
    "act_depend_of x = act_depend_of y" "current_event_id x = current_event_id y"
    "current_problem_id x = current_problem_id y"
  by (rule view_cong[where P = score, OF assms], simp add: score_def fcore_def erase_def)+

definition resolved_status :: "check \<Rightarrow> status" where
  "resolved_status ck = (if c_status ck \<in> {WaitConsume, WaitDep}
     then (if c_depend_on_me ck \<noteq> [] then HaveToResolveDep else Zombie) else c_status ck)"

lemma apply_result_effect:
  assumes a: "apply_result now c i w = (na, w')" and c: "c < next_action_id w"
  shows "machine (items w' i) = machine (items w i)"
    and "last_state (items w' i) = true_last_state (cls w i) (items w i)"
    and "last_state_type (items w' i) = state_type (items w i)"
    and "max_check_attempts (items w' i) = max_check_attempts (items w i)"
    and "is_volatile (items w' i) = is_volatile (items w i)" and "my_type (items w' i) = my_type (items w i)"
    and "triggers (items w' i) = triggers (items w i)"
    and "checks w' c = (checks w c)\<lparr>c_status := resolved_status (checks w c)\<rparr>"
    and "cls_of w' k = cls_of w k" and "next_action_id w \<le> next_action_id w'"
    and "global_event_id w' = global_event_id w" and "global_problem_id w' = global_problem_id w"
    and "current_event_id (items w' i) = current_event_id (items w i)"
    and "current_problem_id (items w' i) = current_problem_id (items w i)"
proof -
  define w1 where "w1 = upd i (\<lambda>it. it\<lparr>last_state_type := state_type it\<rparr>) w"
  define es where "es = c_exit_status (checks w1 c)"
  define w2 where "w2 = set_state_from_exit_status now es i w1"
  define w3 where "w3 = upd i (\<lambda>it. it\<lparr>return_code := es, state_changed_since_impact := True\<rparr>) w2"
  define w4 where "w4 = remove_in_progress_check c i w3"
  define w5 where "w5 = upd_check c (\<lambda>ck. ck\<lparr>c_status := (if c_depend_on_me ck \<noteq> [] then HaveToResolveDep else Zombie)\<rparr>) w4"
  have k2: "keeps score (scored now w1 es i) w2" unfolding w2_def by (rule keeps_set_state)
  have it2: "score (items w2 i) = score (items (scored now w1 es i) i)" by (rule keeps_view[OF k2])
  note f2 = score_fields[OF it2]
  have "my_type (items w1 i) = my_type (items w i)" "cls_of w1 k = cls_of w k" for k by (simp_all add: w1_def)
  then have tls: "true_last_state (cls w1 i) (items w1 i) = true_last_state (cls w i) (items w i)"
    by (simp add: true_last_state_def w1_def)
  have c1: "c < next_action_id (scored now w1 es i)" using c by (simp add: scored_def w1_def)
  have ck2: "checks w2 c = checks w c" using keeps_fields(1)[OF k2 c1] by (simp add: scored_def w1_def)
  have rest2: "cls_of w2 k = cls_of w k" "next_action_id w \<le> next_action_id w2"
    "global_event_id w2 = global_event_id w" "global_problem_id w2 = global_problem_id w" for k
    using keeps_fields(4-7)[OF k2] by (simp_all add: scored_def w1_def)
  have it2': "state_type (items w2 i) = state_type (items w i)" "attempt (items w2 i) = attempt (items w i)"
    "last_state (items w2 i) = true_last_state (cls w i) (items w i)"
    "last_state_type (items w2 i) = state_type (items w i)"
    "max_check_attempts (items w2 i) = max_check_attempts (items w i)"
    "is_volatile (items w2 i) = is_volatile (items w i)" "my_type (items w2 i) = my_type (items w i)"
    "triggers (items w2 i) = triggers (items w i)" "current_event_id (items w2 i) = current_event_id (items w i)"
    "current_problem_id (items w2 i) = current_problem_id (items w i)"
    using f2 tls by (simp_all add: scored_def w1_def)
  have s4: "steady (upd i (\<lambda>it. it\<lparr>checks_in_progress := checks_in_progress (items w4 i), return_code := es\<rparr>) w2) w4"
    by (simp add: keeps_def w4_def w3_def remove_in_progress_check_def mcore_def erase_def)
  note f4 = steady_item_fields[OF s4, of i]
  have it4: "machine (items w4 i) = machine (items w i)"
    "last_state (items w4 i) = true_last_state (cls w i) (items w i)"
    "last_state_type (items w4 i) = state_type (items w i)"
    "max_check_attempts (items w4 i) = max_check_attempts (items w i)"
    "is_volatile (items w4 i) = is_volatile (items w i)" "my_type (items w4 i) = my_type (items w i)"
    "triggers (items w4 i) = triggers (items w i)" "current_event_id (items w4 i) = current_event_id (items w i)"
    "current_problem_id (items w4 i) = current_problem_id (items w i)"
    using f4 it2' by (simp_all add: machine_def)
  have g4: "checks w4 = checks w2" "cls_of w4 k = cls_of w k" "next_action_id w \<le> next_action_id w4"
    "global_event_id w4 = global_event_id w" "global_problem_id w4 = global_problem_id w" for k
    using rest2 by (simp_all add: w4_def w3_def remove_in_progress_check_def)
  let ?st = "c_status (checks w c)"
  have w': "w' = (if ?st = WaitConsume then w5 else if ?st = WaitDep then check_and_set_unreachability now i w5 else w4)"
    using a g4(1) ck2
    unfolding apply_result_def Let_def w1_def[symmetric] es_def[symmetric] w2_def[symmetric] w3_def[symmetric]
      w4_def[symmetric] w5_def[symmetric] by (auto split: if_splits)
  define u where "u = (if ?st \<in> {WaitConsume, WaitDep} then w5 else w4)"
  have su: "steady u w'" unfolding w' u_def by simp
  have r5: "items u = items w4" "next_action_id u = next_action_id w4"
    "global_event_id u = global_event_id w4" "global_problem_id u = global_problem_id w4"
    by (simp_all add: u_def w5_def upd_check_def)
  have cls5: "cls_of u k = cls_of w4 k" for k by (rule cls_of_cong) (simp_all add: u_def w5_def upd_check_def)
  have cu: "checks u c = (checks w c)\<lparr>c_status := resolved_status (checks w c)\<rparr>"
    using ck2 by (simp add: u_def w5_def upd_check_def resolved_status_def g4(1))
  have c4: "c < next_action_id u" using c g4(3) r5(2) by simp
  note k = keeps_fields[OF su] and f = steady_item_fields[OF su, of i] and m = steady_machine[OF su, of i]
  show "machine (items w' i) = machine (items w i)"
    "last_state (items w' i) = true_last_state (cls w i) (items w i)"
    "last_state_type (items w' i) = state_type (items w i)"
    "max_check_attempts (items w' i) = max_check_attempts (items w i)"
    "is_volatile (items w' i) = is_volatile (items w i)" "my_type (items w' i) = my_type (items w i)"
    "triggers (items w' i) = triggers (items w i)"
    "current_event_id (items w' i) = current_event_id (items w i)"
    "current_problem_id (items w' i) = current_problem_id (items w i)"
    using f m it4 by (simp_all add: r5)
  show "checks w' c = (checks w c)\<lparr>c_status := resolved_status (checks w c)\<rparr>"
    using k(1)[OF c4] cu by simp
  show "cls_of w' k = cls_of w k" "next_action_id w \<le> next_action_id w'"
    "global_event_id w' = global_event_id w" "global_problem_id w' = global_problem_id w"
    using k(4-7) g4 by (simp_all add: r5 cls5)
qed



subsection \<open>The reaction to a result\<close>

definition set_machine :: "state_type \<times> int \<Rightarrow> item \<Rightarrow> item" where
  "set_machine s it = it\<lparr>state_type := fst s, attempt := snd s\<rparr>"

lemma upd_local: "f (items w i) = g (items w i) \<Longrightarrow> upd i f w = upd i g w"
  by (simp add: upd_def)

lemma upd_set_machine_twice [simp]: "upd i (set_machine s) (upd i (set_machine s') w) = upd i (set_machine s) w"
  by (simp add: upd_def set_machine_def)

lemma upd_set_machine_same: "upd i (set_machine (machine (items w i))) w = w"
  by (simp add: upd_def set_machine_def machine_def)

lemma machine_set_machine [simp]: "machine (set_machine s it) = s"
  by (simp add: machine_def set_machine_def)

abbreviation result_step :: "cid \<Rightarrow> iid \<Rightarrow> world \<Rightarrow> state_type \<times> int" where
  "result_step c i w \<equiv>
     (let it = items w i in
      hs_step (max_check_attempts it) (is_volatile it) (c_dependency_check (checks w c))
        (c_exit_status (checks w c) = 0) (last_state it \<in> {ok_up (my_type it), PENDING}) (last_state it = PENDING)
        (machine it))"

lemma hard_unknown_view:
  assumes P: "\<And>it b. P (it\<lparr>was_in_hard_unknown_reach_phase := b\<rparr>) = P it"
    "\<And>it b. P (it\<lparr>in_hard_unknown_reach_phase := b\<rparr>) = P it"
    "\<And>it s. P (it\<lparr>state_before_hard_unknown_reach_phase := s\<rparr>) = P it"
  shows "P (update_hard_unknown_phase_state it) = P it"
proof -
  define it1 where "it1 = it\<lparr>was_in_hard_unknown_reach_phase := in_hard_unknown_reach_phase it\<rparr>"
  define it2 where "it2 = (if state_type it1 \<noteq> HARD \<or> last_state_type it1 \<noteq> HARD
                then it1\<lparr>in_hard_unknown_reach_phase := False\<rparr> else it1)"
  define it3 where "it3 = (if in_hard_unknown_reach_phase it2 \<and> state it2 \<noteq> UNKNOWN \<and> state it2 \<noteq> UNREACHABLE
                        then it2\<lparr>in_hard_unknown_reach_phase := False\<rparr> else it2)"
  have "P it1 = P it" "P it2 = P it1" "P it3 = P it2" by (simp_all add: it1_def it2_def it3_def P)
  then show ?thesis
    unfolding update_hard_unknown_phase_state_def it1_def[symmetric] Let_def it2_def[symmetric] it3_def[symmetric]
    by (simp add: P)
qed

lemma frozen_upd: "frozen (upd i f w) = frozen w"
  by (simp add: frozen_def)

context item_view
begin

lemma view_set_machine: "P b x = P b y \<Longrightarrow> P b (set_machine s x) = P b (set_machine s y)"
  unfolding set_machine_def by (rule view_machine)

lemma tracks_upd_machine:
  assumes "tracks w w'"
  shows "tracks (upd i (set_machine s) w) (upd i (set_machine s) w')"
proof -
  have "P (frozen w) (set_machine s (items w' i)) = P (frozen w) (set_machine s (items w i))"
    by (rule view_set_machine[OF keeps_view[OF assms]])
  then show ?thesis using assms by (simp add: keeps_def frozen_upd)
qed

lemma tracks_raise_problem:
  assumes "raise_problem fuel now na i w = Some w'"
  shows "tracks w w'"
proof -
  let ?w1 = "if \<not> na then create_notifications now PROBLEM None i w else w"
  let ?w2 = "get_event_handlers now False i ?w1"
  have 1: "tracks w ?w1" by simp
  have 2: "tracks w ?w2" by (rule tracks_trans[OF 1]) simp
  show ?thesis
  proof (cases na)
    case True
    with assms 2 show ?thesis by (simp add: raise_problem_def Let_def)
  next
    case False
    with assms have "set_myself_as_problem fuel now True i ?w2 = Some w'"
      by (simp add: raise_problem_def Let_def)
    then show ?thesis by (rule tracks_trans[OF 2 tracks_set_myself_as_problem])
  qed
qed

lemma machine_go_hard:
  assumes "go_hard fuel now na i w = Some w'"
  shows "tracks (upd i (\<lambda>it. it\<lparr>state_type := HARD\<rparr>) w) w'"
proof -
  let ?w1 = "upd i (\<lambda>it. it\<lparr>state_type := HARD\<rparr>) w"
  let ?w2 = "remove_in_progress_notifications i (raise_alert_log_entry None i ?w1)"
  obtain v where v: "check_for_flexible_downtime fuel now i ?w2 = Some v" "raise_problem fuel now na i v = Some w'"
    using assms by (auto simp: go_hard_def Let_def bind_eq_Some_conv)
  have "tracks ?w1 ?w2" by (rule tracks_trans[of _ "raise_alert_log_entry None i ?w1"]) auto
  also have "tracks ?w2 v" by (rule tracks_check_for_flexible_downtime[OF v(1)])
  also have "tracks v w'" by (rule tracks_raise_problem[OF v(2)])
  finally show ?thesis .
qed



lemma case_ok_after_ok_machine:
  assumes "last_state (items w i) \<in> {ok_up (my_type (items w i)), PENDING}"
  shows "tracks (upd i (set_machine (hs_step (max_check_attempts (items w i)) v d True True
           (last_state (items w i) = PENDING) (machine (items w i)))) w) (case_ok_after_ok i w)"
proof -
  let ?u = "unacknowledge_problem i w"
  have s: "tracks w ?u" by simp
  note f = steady_item_fields[OF tracks_steady[OF s], of i]
  have "case_ok_after_ok i w = upd i (set_machine (hs_step (max_check_attempts (items w i)) v d True True
           (last_state (items w i) = PENDING) (machine (items w i)))) ?u"
    unfolding case_ok_after_ok_def Let_def
    by (auto simp: f(1,2,3,5) hs_step_def machine_def set_machine_def is_max_attempts_def intro!: upd_local)
  then show ?thesis using tracks_upd_machine[OF s] by simp
qed

lemma add_attempt_machine:
  "add_attempt i w = upd i (set_machine (state_type (items w i),
     min (attempt (items w i) + 1) (max_check_attempts (items w i)))) w"
  unfolding add_attempt_def by (rule upd_local) (simp add: set_machine_def)

lemma tracks_alert_handlers [simp, intro]:
  "tracks w (get_event_handlers now b i (raise_alert_log_entry v i w))"
  by (rule tracks_trans[of _ "raise_alert_log_entry v i w"]) auto

lemma case_recovery_machine:
  assumes "case_recovery now c na i w = Some w'"
  shows "tracks (upd i (set_machine (HARD, 1)) w) w'"
proof -
  let ?u = "unacknowledge_problem i w"
  have s: "tracks w ?u" by simp
  have fin: "upd i (\<lambda>it. it\<lparr>state_type := HARD, attempt := 1\<rparr>) = upd i (set_machine (HARD, 1))"
    by (simp add: set_machine_def[abs_def])
  show ?thesis
  proof (cases "state_type (items ?u i) = SOFT")
    case True
    let ?a = "if \<not> c_dependency_check (checks ?u c) then add_attempt i ?u else ?u"
    let ?e = "get_event_handlers now False i (raise_alert_log_entry None i ?a)"
    have "tracks ?a ?e" by simp
    then have "tracks (upd i (set_machine (HARD, 1)) ?a) (upd i (set_machine (HARD, 1)) ?e)"
      by (rule tracks_upd_machine)
    moreover have "upd i (set_machine (HARD, 1)) ?a = upd i (set_machine (HARD, 1)) ?u"
      by (simp add: add_attempt_machine)
    moreover have "w' = upd i (set_machine (HARD, 1)) ?e"
      using assms True unfolding case_recovery_def Let_def fin by simp
    ultimately show ?thesis using tracks_trans[OF tracks_upd_machine[OF s]] by simp
  next
    case False
    let ?r = "remove_in_progress_notifications i (raise_alert_log_entry None i ?u)"
    let ?n = "if \<not> na then create_notifications now RECOVERY None i ?r else ?r"
    let ?e = "get_event_handlers now False i ?n"
    have "tracks w (raise_alert_log_entry None i ?u)" by (rule tracks_trans[OF s]) auto
    also have "tracks (raise_alert_log_entry None i ?u) ?r" by simp
    also have "tracks ?r ?n" by simp
    also have "tracks ?n ?e" by simp
    finally have "tracks w ?e" .
    then have "tracks (upd i (set_machine (HARD, 1)) w) (upd i (set_machine (HARD, 1)) ?e)"
      by (rule tracks_upd_machine)
    also have "tracks (upd i (set_machine (HARD, 1)) ?e) w'"
      using assms False unfolding case_recovery_def Let_def fin by (intro tracks_no_more_a_problem) simp
    finally show ?thesis .
  qed
qed

lemma case_volatile_machine:
  assumes "case_volatile fuel now na i w = Some w'"
  shows "tracks (upd i (set_machine (HARD, 1)) w) w'"
proof -
  let ?h = "upd i (set_machine (HARD, 1)) w"
  have fin: "upd i (\<lambda>it. it\<lparr>attempt := 1, state_type := HARD\<rparr>) w = ?h"
    by (rule upd_local) (simp add: set_machine_def)
  obtain v where v: "check_for_flexible_downtime fuel now i (raise_alert_log_entry None i ?h) = Some v"
    "raise_problem fuel now na i (remove_in_progress_notifications i v) = Some w'"
    using assms unfolding case_volatile_def Let_def fin by (auto simp: bind_eq_Some_conv)
  have "tracks ?h (raise_alert_log_entry None i ?h)" by simp
  also have "tracks (raise_alert_log_entry None i ?h) v" by (rule tracks_check_for_flexible_downtime[OF v(1)])
  also have "tracks v (remove_in_progress_notifications i v)" by simp
  also have "tracks (remove_in_progress_notifications i v) w'" by (rule tracks_raise_problem[OF v(2)])
  finally show ?thesis .
qed

lemma go_hard_machine:
  assumes "go_hard fuel now na i w = Some w'"
  shows "tracks (upd i (set_machine (HARD, attempt (items w i))) w) w'"
proof -
  have "upd i (\<lambda>it. it\<lparr>state_type := HARD\<rparr>) w = upd i (set_machine (HARD, attempt (items w i))) w"
    by (rule upd_local) (simp add: set_machine_def)
  with machine_go_hard[OF assms] show ?thesis by simp
qed

lemma case_problem_after_ok_machine:
  assumes "case_problem_after_ok fuel now na i w = Some w'"
  shows "tracks (upd i (set_machine (hs_step (max_check_attempts (items w i)) False d False True p (machine (items w i)))) w) w'"
proof (cases "is_max_attempts (items w i)")
  case True
  with assms have "go_hard fuel now na i w = Some w'" by (simp add: case_problem_after_ok_def)
  from go_hard_machine[OF this] True show ?thesis by (simp add: hs_step_def machine_def is_max_attempts_def)
next
  case False
  have fin: "upd i (\<lambda>it. it\<lparr>attempt := 1, state_type := SOFT\<rparr>) w = upd i (set_machine (SOFT, 1)) w"
    by (rule upd_local) (simp add: set_machine_def)
  from False assms have "w' = get_event_handlers now False i (raise_alert_log_entry None i (upd i (set_machine (SOFT, 1)) w))"
    unfolding case_problem_after_ok_def Let_def fin by simp
  with False show ?thesis by (simp add: hs_step_def machine_def is_max_attempts_def)
qed

lemma tracks_renotify [simp, intro]: "tracks w (renotify_hard now na i w)"
proof -
  let ?u = "upd i update_hard_unknown_phase_state w"
  have n: "tracks v (if \<not> na then create_notifications now PROBLEM None i v else v)" for v by simp
  have r: "tracks v (let w = remove_in_progress_notifications i v in
      if \<not> na then create_notifications now PROBLEM None i w else w)" for v
    unfolding Let_def by (rule tracks_trans[OF _ n]) simp
  have m: "P b (update_hard_unknown_phase_state it) = P b it" for b it
    by (rule hard_unknown_view) (simp_all)
  have u: "tracks w ?u" by (rule tracks_upd) (rule m)
  have a: "tracks ?u (raise_alert_log_entry None i (unacknowledge_problem_if_not_sticky i ?u))"
    by (rule tracks_trans[of _ "unacknowledge_problem_if_not_sticky i ?u"]) auto
  show ?thesis
    unfolding renotify_hard_def Let_def
    by (intro tracks_if tracks_refl r[unfolded Let_def] u
        tracks_trans[OF u] tracks_trans[OF a r[unfolded Let_def]] r[unfolded Let_def])
qed

lemma case_problem_after_problem_machine:
  assumes "case_problem_after_problem fuel now c na i w = Some w'"
  shows "tracks (upd i (set_machine (hs_step (max_check_attempts (items w i)) False
           (c_dependency_check (checks w c)) False False p (machine (items w i)))) w) w'"
proof (cases "state_type (items w i) = SOFT")
  case True
  define u where "u = (if \<not> c_dependency_check (checks w c) then add_attempt i w else w)"
  define a where "a = (if c_dependency_check (checks w c) then attempt (items w i)
      else min (attempt (items w i) + 1) (max_check_attempts (items w i)))"
  have u: "u = upd i (set_machine (SOFT, a)) w"
    using True upd_set_machine_same[of i w] unfolding u_def a_def by (simp add: add_attempt_machine machine_def)
  have fu: "attempt (items u i) = a" "max_check_attempts (items u i) = max_check_attempts (items w i)"
    by (simp_all add: u set_machine_def)
  have step: "hs_step (max_check_attempts (items w i)) False (c_dependency_check (checks w c)) False False p
      (machine (items w i)) = (if max_check_attempts (items w i) \<le> a then HARD else SOFT, a)"
    using True by (simp add: hs_step_def machine_def a_def Let_def)
  show ?thesis
  proof (cases "is_max_attempts (items u i)")
    case max: True
    with assms True have "go_hard fuel now na i u = Some w'"
      by (simp add: case_problem_after_problem_def u_def[symmetric])
    then have "tracks (upd i (set_machine (HARD, a)) u) w'" using go_hard_machine fu(1) by fastforce
    with max fu show ?thesis by (simp add: step is_max_attempts_def u)
  next
    case False
    with assms True have "w' = get_event_handlers now False i (raise_alert_log_entry None i u)"
      by (simp add: case_problem_after_problem_def u_def[symmetric])
    with False fu show ?thesis by (simp add: step is_max_attempts_def u)
  qed
next
  case False
  then have hard: "state_type (items w i) = HARD" by (cases "state_type (items w i)") auto
  have same: "upd i (set_machine (hs_step (max_check_attempts (items w i)) False
      (c_dependency_check (checks w c)) False False p (machine (items w i)))) w = w"
    using upd_set_machine_same[of i w] hard by (simp add: hs_step_def machine_def Let_def)
  have "tracks w w'"
    using assms False tracks_trans[OF tracks_renotify tracks_set_myself_as_problem]
    by (auto simp: case_problem_after_problem_def Let_def split: if_splits)
  then show ?thesis by (simp add: same)
qed

lemma react_to_result_machine:
  assumes r: "react_to_result fuel now c na i w = Some w'"
  shows "tracks (upd i (set_machine (result_step c i w)) w) w'"
proof -
  let ?it = "items w i"
  let ?ok = "c_exit_status (checks w c) = 0" and ?fine = "last_state ?it \<in> {ok_up (my_type ?it), PENDING}"
  have hs_ok: "hs_step m v d True False p s = (HARD, 1)" for m v d p s
    by (simp add: hs_step_def Let_def split: prod.split)
  have hs_volatile: "hs_step m True d False f p s = (HARD, 1)" for m d f p s
    by (simp add: hs_step_def Let_def split: prod.split)
  consider "?ok" "?fine" | "?ok" "\<not> ?fine" | "\<not> ?ok" "is_volatile ?it" | "\<not> ?ok" "\<not> is_volatile ?it" "?fine"
    | "\<not> ?ok" "\<not> is_volatile ?it" "\<not> ?fine" by blast
  then show ?thesis
  proof cases
    case 1
    with r have "w' = case_ok_after_ok i w" by (simp add: react_to_result_def)
    with case_ok_after_ok_machine[OF 1(2)] 1 show ?thesis by (simp add: Let_def)
  next
    case 2
    with r have "case_recovery now c na i w = Some w'" by (simp add: react_to_result_def)
    from case_recovery_machine[OF this] 2 show ?thesis by (simp add: Let_def hs_ok)
  next
    case 3
    with r have "case_volatile fuel now na i w = Some w'" by (simp add: react_to_result_def)
    from case_volatile_machine[OF this] 3 show ?thesis by (simp add: Let_def hs_volatile)
  next
    case 4
    with r have "case_problem_after_ok fuel now na i w = Some w'" by (simp add: react_to_result_def)
    from case_problem_after_ok_machine[OF this] 4 show ?thesis by (simp add: Let_def)
  next
    case 5
    with r have "case_problem_after_problem fuel now c na i w = Some w'"
      by (simp add: react_to_result_def split: if_splits)
    from case_problem_after_problem_machine[OF this] 5 show ?thesis by (simp add: Let_def)
  qed
qed

end

lemmas react_machine = mv.react_to_result_machine

subsection \<open>The end of a result\<close>

text \<open>What the machine and the phase of an item are read from, and the relation that the bookkeeping at the
  end of a result keeps. Only the counters of events and problems may differ.\<close>

definition phase_view :: "item \<Rightarrow> item_kind \<times> int \<times> bool \<times> (state_type \<times> int) \<times> istate" where
  "phase_view it = (my_type it, max_check_attempts it, is_volatile it, machine it, state it)"

definition agrees :: "world \<Rightarrow> world \<Rightarrow> bool" where
  "agrees w w' \<longleftrightarrow> (\<forall>j. phase_view (items w' j) = phase_view (items w j)) \<and>
     (\<forall>c < next_action_id w. checks w' c = checks w c) \<and> host_class w' = host_class w \<and>
     service_class w' = service_class w \<and> next_action_id w \<le> next_action_id w'"

lemma agrees_refl [simp, intro]: "agrees w w"
  by (simp add: agrees_def)

lemma agrees_trans [trans]: "agrees w w' \<Longrightarrow> agrees w' w'' \<Longrightarrow> agrees w w''"
  by (auto simp: agrees_def)

lemma agreesD:
  assumes "agrees w w'"
  shows "phase_view (items w' j) = phase_view (items w j)" "c < next_action_id w \<Longrightarrow> checks w' c = checks w c"
    "frozen w' = frozen w" "next_action_id w \<le> next_action_id w'"
  using assms by (simp_all add: agrees_def frozen_def)

lemma keeps_agrees:
  assumes "keeps P w w'" and "\<And>x y. P x = P y \<Longrightarrow> phase_view x = phase_view y"
  shows "agrees w w'"
  unfolding agrees_def using assms(2)[OF keeps_view[OF assms(1)]] assms(1) by (simp add: keeps_def)

lemma agrees_upd: "(\<And>it. phase_view (f it) = phase_view it) \<Longrightarrow> agrees w (upd i f w)"
  by (simp add: agrees_def)

lemma agrees_if: "(b \<Longrightarrow> agrees w x) \<Longrightarrow> (\<not> b \<Longrightarrow> agrees w y) \<Longrightarrow> agrees w (if b then x else y)"
  by simp

lemma phase_view_erase: "erase x = erase y \<Longrightarrow> phase_view x = phase_view y"
  using erase_fields(1,3,6,7,8,10)[of x y] by (simp add: phase_view_def machine_def)

lemma quiet_agrees: "quiet w w' \<Longrightarrow> agrees w w'"
  by (rule keeps_agrees[OF quiet_keeps[where P = phase_view]]) (auto intro: phase_view_erase)

definition tame :: "(trigger \<Rightarrow> iid \<Rightarrow> world \<Rightarrow> world) \<Rightarrow> bool" where
  "tame run \<longleftrightarrow> (\<forall>t i w. agrees w (run t i w))"

lemma quiet_alloc_handler: "quiet w (snd (alloc_handler h w))"
  by (simp add: alloc_handler_def quiet_def)

lemma quiet_ocp: "quiet w (get_obsessive_compulsive_processor_command now i w)"
  unfolding get_obsessive_compulsive_processor_command_def host_get_ocp_command_def service_get_ocp_command_def
  by (auto simp: Let_def case_prod_beta split: item_kind.splits intro: quiet_trans[OF quiet_alloc_handler])

lemma quiet_perfdata: "quiet w (get_perfdata_command now i w)"
  unfolding get_perfdata_command_def
  by (auto simp: Let_def case_prod_beta split: option.splits intro: quiet_trans[OF quiet_alloc_handler])

lemma agrees_snapshot: "agrees w (get_snapshot now i w)"
proof -
  have "agrees w (add_action i a (upd i (\<lambda>it. it\<lparr>last_snapshot := now\<rparr>)
      (raise_snapshot_log_entry cmd i (snd (alloc_handler h w)))))" for a cmd h
  proof -
    have "agrees w (snd (alloc_handler h w))" (is "agrees w ?v") by (rule quiet_agrees[OF quiet_alloc_handler])
    also have "agrees ?v (raise_snapshot_log_entry cmd i ?v)" (is "agrees ?v ?u")
      by (rule quiet_agrees[OF quiet_log[OF log_only_entries(6)]])
    also have "agrees ?u (upd i (\<lambda>it. it\<lparr>last_snapshot := now\<rparr>) ?u)" (is "agrees ?u ?x")
      by (rule agrees_upd) (simp add: phase_view_def machine_def)
    also have "agrees ?x (add_action i a ?x)" by (rule quiet_agrees[OF quiet_add_action])
    finally show ?thesis .
  qed
  then show ?thesis by (simp add: get_snapshot_def Let_def case_prod_beta split: option.splits)
qed

lemma agrees_event_ids: "agrees w (update_event_and_problem_id i w)"
  by (simp add: update_event_and_problem_id_def Let_def agrees_def phase_view_def machine_def)

lemma agrees_eval_triggers: "tame run \<Longrightarrow> agrees w (eval_triggers run i w)"
proof -
  assume t: "tame run"
  have "agrees w (fold (\<lambda>t w. run t i w) ts w)" for ts
  proof (induction ts arbitrary: w)
    case (Cons a ts)
    have "agrees w (run a i w)" using t by (simp add: tame_def)
    then show ?case using agrees_trans[OF _ Cons.IH] by simp
  qed simp
  then show ?thesis by (simp add: eval_triggers_def)
qed

lemma agrees_finish_result:
  assumes t: "tame run"
  shows "agrees w (finish_result now run c i w)"
proof -
  define w1 where "w1 = upd i update_hard_unknown_phase_state w"
  define w2 where "w2 = upd i (\<lambda>it. it\<lparr>in_scheduled_downtime_during_last_check := False\<rparr>) w1"
  define w3 where "w3 = upd i (\<lambda>it. if state_type it = HARD
                then it\<lparr>state_type_id := 1, last_hard_state := state it, last_hard_state_id := state_id it\<rparr>
                else it\<lparr>state_type_id := 0\<rparr>) w2"
  define w4 where "w4 = upd i (\<lambda>it. if state_type it = HARD \<and> (last_state_type it = SOFT \<or> last_state it \<noteq> state it)
                then it\<lparr>last_hard_state_change := now\<rparr> else it) w3"
  define w5 where "w5 = update_event_and_problem_id i w4"
  define w6 where "w6 = (if \<not> c_from_trigger (checks w5 c) then eval_triggers run i w5 else w5)"
  define w7 where "w7 = (if c_from_trigger (checks w6 c) \<or>
                  \<not> list_ex trigger_broker_raise_enabled (triggers (items w6 i)) then emit_brok i w6 else w6)"
  have eq: "finish_result now run c i w = get_snapshot now i (get_perfdata_command now i
      (get_obsessive_compulsive_processor_command now i w7))"
    unfolding finish_result_def Let_def w1_def[symmetric] w2_def[symmetric] w3_def[symmetric] w4_def[symmetric]
      w5_def[symmetric] w6_def[symmetric] w7_def[symmetric] ..
  have "phase_view (update_hard_unknown_phase_state it) = phase_view it" for it
    by (rule hard_unknown_view) (simp_all add: phase_view_def machine_def)
  then have "agrees w w1" unfolding w1_def by (rule agrees_upd)
  also have "agrees w1 w2" unfolding w2_def by (rule agrees_upd) (simp add: phase_view_def machine_def)
  also have "agrees w2 w3" unfolding w3_def by (rule agrees_upd) (simp add: phase_view_def machine_def)
  also have "agrees w3 w4" unfolding w4_def by (rule agrees_upd) (simp add: phase_view_def machine_def)
  also have "agrees w4 w5" unfolding w5_def by (rule agrees_event_ids)
  also have "agrees w5 w6" unfolding w6_def by (simp add: agrees_eval_triggers[OF t])
  also have "agrees w6 w7" unfolding w7_def by (simp add: quiet_agrees[OF quiet_emit_brok])
  also have "agrees w7 (get_obsessive_compulsive_processor_command now i w7)" (is "agrees w7 ?a")
    by (rule quiet_agrees[OF quiet_ocp])
  also have "agrees ?a (get_perfdata_command now i ?a)" (is "agrees ?a ?b") by (rule quiet_agrees[OF quiet_perfdata])
  also have "agrees ?b (finish_result now run c i w)" unfolding eq by (rule agrees_snapshot)
  finally show ?thesis .
qed

end
