(* ===== verification/Defaults.thy ===== *)
theory Defaults
  imports World
begin

text \<open>
  The values the attributes of a host or a service have before the first check:
  the defaults of \<^verbatim>\<open>properties\<close> and \<^verbatim>\<open>running_properties\<close> in \<^verbatim>\<open>shinken/objects/host.py\<close> and
  \<^verbatim>\<open>shinken/objects/service.py\<close>, the enforced initial state, and the class attributes that
  \<^verbatim>\<open>shinken/objects/config.py\<close> hands to the classes \<^verbatim>\<open>Host\<close> and \<^verbatim>\<open>Service\<close>. A period or a command whose
  default is the empty string is \<^verbatim>\<open>None\<close> after linkification. The check command is an argument: it is
  a link to a command object, and so is the host of a service.
\<close>

definition new_host :: "string \<Rightarrow> command_call \<Rightarrow> iid \<Rightarrow> item" where
  "new_host name cmd h =
    \<lparr>my_type = Host, my_name = name, host = h, max_check_attempts = 1, check_interval = 0, retry_interval = 0,
     check_period = None, active_checks_enabled = True, passive_checks_enabled = True,
     check_freshness = False, freshness_threshold = 0, check_command = cmd, checkmodulations = [],
     resultmodulations = [], business_impact_modulations = [], event_handler_enabled = False,
     event_handler = None, snapshot_enabled = False, snapshot_command = None, snapshot_period = None,
     snapshot_criteria = [''d'', ''u''], snapshot_interval = 5, flap_detection_enabled = True,
     low_flap_threshold = 25, high_flap_threshold = 50, flap_detection_options = [''o'', ''d'', ''u''],
     process_perf_data = True, obsess_over_me = False, is_volatile = False, stalking_options = [[]],
     notifications_enabled = True, notification_options = [''d'', ''u'', ''r'', ''f''],
     notification_interval = 60, first_notification_delay = 0, notification_period = None, contacts = [],
     escalations = [], time_to_orphanage = 300, maintenance_checks_enabled = False,
     maintenance_check_interval = 0, maintenance_retry_interval = 0, maintenance_check_period = None,
     maintenance_check_command = cmd, maintenance_period = None, item_poller_tag = ''None'',
     got_business_rule = False, business_rule_smart_notifications = False,
     business_rule_downtime_as_ack = False, triggers = [], parents = [], childs = [], services = [],
     parent_dependencies = [], child_dependencies = [], act_depend_of = [], act_depend_of_me = [],
     chk_depend_of = [], chk_depend_of_me = [], state = PENDING, state_id = 0, last_state = PENDING,
     state_type = HARD, last_state_type = HARD, state_type_id = 0, last_hard_state = PENDING,
     last_hard_state_id = 0, last_hard_state_change = 0, attempt = 0, last_state_change = 0,
     last_state_update_time = 0, duration_sec = 0, last_time_up = 0, last_time_down = 0,
     last_time_unreachable = 0, last_time_ok = 0, last_time_warning = 0, last_time_critical = 0,
     last_time_unknown = 0, has_been_checked = False, latency = 0, execution_time = 0, u_time = 0, s_time = 0,
     last_chk = 0, next_chk = Some 0, plugin_output = [], long_output = [], perf_data = [],
     last_perf_data = [], check_type = 0, return_code = 0, flapping_changes = [], percent_state_change = 0,
     is_flapping = False, in_hard_unknown_reach_phase = False, was_in_hard_unknown_reach_phase = False,
     state_before_hard_unknown_reach_phase = UP, in_scheduled_downtime = False,
     in_scheduled_downtime_during_last_check = False, scheduled_downtime_depth = 0,
     problem_has_been_acknowledged = False, acknowledgement = None, comments = [], downtimes = [],
     is_problem = False, is_impact = False, source_problems = [], impacts = [], my_own_business_impact = -1,
     business_impact = 2, state_before_impact = PENDING, state_id_before_impact = 0,
     state_changed_since_impact = False, current_notification_number = 0, last_notification = 0,
     notifications_in_progress = [], notified_contacts = [], checks_in_progress = [], actions = [], broks = 0,
     last_event_id = 0, current_event_id = 0, last_problem_id = 0, current_problem_id = 0, last_snapshot = 0,
     last_check_command = Void, maintenance_last_check_command = Void, next_maintenance_chk = Some 0,
     last_maintenance_chk = 0, maintenance_check_output = [], maintenance_in_production = False,
     maintenance_state_id = 0, last_maintenance_state_id = 0, last_maintenance_state_change = 0,
     in_maintenance = None, modified_attributes = 0, customs = [], topology_change = False,
     own_process_performance_data = None\<rparr>"

definition new_service :: "string \<Rightarrow> command_call \<Rightarrow> iid \<Rightarrow> item" where
  "new_service name cmd h = (new_host name cmd h)
     \<lparr>my_type := Service, low_flap_threshold := -1, high_flap_threshold := -1,
      flap_detection_options := [''o'', ''w'', ''c'', ''u''], snapshot_criteria := [''w'', ''c'', ''u''],
      notification_options := [''w'', ''u'', ''c'', ''r'', ''f'', ''s''],
      state_before_hard_unknown_reach_phase := OK\<rparr>"

text \<open>The enforced initial state; an unknown letter is a configuration error, returned beside the item.\<close>

definition initial_mapping :: "item_kind \<Rightarrow> (string \<times> istate \<times> int) list" where
  "initial_mapping k = (case k of
     Host \<Rightarrow> [(''o'', UP, 0), (''d'', DOWN, 1), (''u'', UNREACHABLE, 2)]
   | Service \<Rightarrow> [(''o'', OK, 0), (''w'', WARNING, 1), (''c'', CRITICAL, 2), (''u'', UNKNOWN, 3)])"

definition set_initial_state :: "string \<Rightarrow> string \<Rightarrow> item \<Rightarrow> string list \<times> item" where
  "set_initial_state init_state init_output it =
     (let (errs, it) =
        (if init_state = [] then ([], it)
         else case map_of (initial_mapping (my_type it)) init_state of
                Some (s, n) \<Rightarrow> ([], it\<lparr>state := s, state_id := n\<rparr>)
              | None \<Rightarrow> ([''invalid initial_state: '' @ init_state], it))
      in (errs, if init_output = [] then it else it\<lparr>plugin_output := init_output, long_output := init_output\<rparr>))"

definition default_class :: "command_call \<Rightarrow> item_kind \<Rightarrow> sclass" where
  "default_class ocp k =
     \<lparr>enable_flap_detection = True, flap_history = 20, global_low_flap_threshold = 20,
      global_high_flap_threshold = 30, global_check_freshness = True, additional_freshness_latency = 15,
      cached_check_horizon = 0, interval_length = 60, execute_checks = True, max_check_spread = 30,
      check_timeout = (case k of Host \<Rightarrow> 30 | Service \<Rightarrow> 60), enable_environment_macros = True,
      enable_event_handlers = True, no_event_handlers_during_downtimes = False,
      global_event_handler = None, event_handler_timeout = 30,
      enable_problem_impacts_states_change = False, enable_problem_impacts_states_reprocessing = False,
      process_performance_data = True, perfdata_command = None, perfdata_timeout = 5, obsess_over = False,
      ocp_command = ocp, ocp_timeout = 15, use_aggressive_host_checking = False,
      enable_notifications = True, notification_timeout = 30, check_for_orphaned = True,
      log_notifications = True, log_event_handlers = True, log_initial_states = True, accept_passive_checks = True,
      max_plugins_output_length = 8192\<rparr>"

end
