(* ===== verification/Machine.thy ===== *)
theory Machine
  imports Results Defaults
begin

text \<open>
  The SOFT/HARD machine of hosts and services. \<^verbatim>\<open>hs_step\<close> is what \<^verbatim>\<open>SchedulingItem.consume_state_result\<close>
  promises about the state type and the attempt counter, without the notifications, logs, downtimes and
  problems it also manages; the refinement theorem says that the code implements it. The machine is then
  run over sequences of results, and the runs of the scheduler are shown to be runs of the machine.
\<close>

subsection \<open>The phase of an item\<close>

datatype phase = Pending_phase | Good_phase | Bad_phase

type_synonym hs_state = "phase \<times> state_type \<times> int"

definition phase_of :: "item_kind \<Rightarrow> istate \<Rightarrow> phase" where
  "phase_of k s = (if s = PENDING then Pending_phase else if s = ok_up k then Good_phase else Bad_phase)"

definition hs_of :: "item \<Rightarrow> hs_state" where
  "hs_of it = (phase_of (my_type it) (state it), machine it)"

lemma hs_of_view: "phase_view x = phase_view y \<Longrightarrow> hs_of x = hs_of y"
  by (simp add: phase_view_def hs_of_def)

lemma phase_new_state: "phase_of k (new_state k s) = (if s = 0 then Good_phase else Bad_phase)"
  by (cases k) (simp_all add: phase_of_def new_state_def ok_up_def)

lemma phase_unreachable: "phase_of k UNREACHABLE = Bad_phase"
  by (cases k) (simp_all add: phase_of_def ok_up_def)

subsection \<open>Phases through the parts of a result\<close>

lemma phase_view_pcore: "pcore x = pcore y \<Longrightarrow> phase_view x = phase_view y"
  using pcore_fields(1,3,5-8)[of x y] by (simp add: phase_view_def machine_def)

lemma phase_view_score: "score x = score y \<Longrightarrow> phase_view x = phase_view y"
  using score_fields(1,2,5-8)[of x y] by (simp add: phase_view_def machine_def)

lemma phase_view_rcore: "rcore x = rcore y \<Longrightarrow> phase_view x = phase_view y"
  using rcore_fields(1,3,6-8,10)[of x y] by (simp add: phase_view_def machine_def)

lemma phase_view_state_view: "state_view True x = state_view True y \<Longrightarrow> phase_view x = phase_view y"
  using mcore_fields(1,2,5,6,8)[of x y] by (simp add: phase_view_def state_view_def machine_def)

lemma tracks_agrees: "keeps (state_view (frozen w)) w w' \<Longrightarrow> frozen w \<Longrightarrow> agrees w w'"
  by (rule keeps_agrees[where P = "state_view True"], simp) (rule phase_view_state_view)

lemma check_unreachability_view:
  "phase_view (items (check_and_set_unreachability now i w) j) = phase_view (items w j) \<or>
   (j = i \<and> items (check_and_set_unreachability now i w) j =
     (items w j)\<lparr>state_id := 2, state := UNREACHABLE, last_time_unreachable := now\<rparr>)"
  by (auto simp: check_and_set_unreachability_def Let_def set_unreachable_def host_set_unreachable_def
      service_set_unreachable_def split: item_kind.splits)

lemma apply_result_phase:
  assumes a: "apply_result now c i w = (na, w')"
  shows "j \<noteq> i \<Longrightarrow> phase_view (items w' j) = phase_view (items w j)"
    and "c_status (checks w c) = WaitDep \<Longrightarrow> c_exit_status (checks w c) \<noteq> 0 \<Longrightarrow> c < next_action_id w \<Longrightarrow>
      phase_of (my_type (items w' i)) (state (items w' i)) = Bad_phase"
    and "c_status (checks w c) \<noteq> WaitDep \<Longrightarrow> c < next_action_id w \<Longrightarrow>
      phase_of (my_type (items w' i)) (state (items w' i)) = (if c_exit_status (checks w c) = 0 then Good_phase else Bad_phase)"
proof -
  define w1 where "w1 = upd i (\<lambda>it. it\<lparr>last_state_type := state_type it\<rparr>) w"
  define es where "es = c_exit_status (checks w1 c)"
  define w2 where "w2 = set_state_from_exit_status now es i w1"
  define w3 where "w3 = upd i (\<lambda>it. it\<lparr>return_code := es, state_changed_since_impact := True\<rparr>) w2"
  define w4 where "w4 = remove_in_progress_check c i w3"
  define w5 where "w5 = upd_check c (\<lambda>ck. ck\<lparr>c_status := (if c_depend_on_me ck \<noteq> [] then HaveToResolveDep else Zombie)\<rparr>) w4"
  have k2: "keeps score (scored now w1 es i) w2" unfolding w2_def by (rule keeps_set_state)
  have v4: "phase_view (items w4 j) = phase_view (items w2 j)" for j
    by (simp add: w4_def w3_def remove_in_progress_check_def phase_view_def machine_def)
  have v2: "phase_view (items w2 j) = phase_view (items (scored now w1 es i) j)" for j
    by (rule phase_view_score[OF keeps_view[OF k2]])
  have es: "es = c_exit_status (checks w c)" by (simp add: es_def w1_def)
  have p4: "phase_of (my_type (items w4 i)) (state (items w4 i)) = (if es = 0 then Good_phase else Bad_phase)"
    using v4[of i] v2[of i] phase_new_state[of "my_type (items w i)" es]
    by (simp add: phase_view_def scored_def w1_def)
  have ck2: "checks w4 c = checks w c" if "c < next_action_id w"
    using keeps_fields(1)[OF k2, of c] that by (simp add: scored_def w1_def w4_def w3_def remove_in_progress_check_def)
  have w': "w' = (if c_status (checks w4 c) = WaitConsume then w5
      else if c_status (checks w4 c) = WaitDep then check_and_set_unreachability now i w5 else w4)"
    using a unfolding apply_result_def Let_def w1_def[symmetric] es_def[symmetric] w2_def[symmetric] w3_def[symmetric]
      w4_def[symmetric] w5_def[symmetric] by (auto split: if_splits)
  have i5: "items w5 = items w4" by (simp add: w5_def)
  show "phase_view (items w' j) = phase_view (items w j)" if "j \<noteq> i"
    using that v4[of j] v2[of j] check_unreachability_view[of now i w5 j] unfolding w'
    by (simp add: i5 scored_def w1_def)
  have u: "phase_view (items w' i) = phase_view (items w4 i) \<or>
     c_status (checks w4 c) = WaitDep \<and> state (items w' i) = UNREACHABLE"
    using check_unreachability_view[of now i w5 i] unfolding w' by (auto simp: i5)
  show "phase_of (my_type (items w' i)) (state (items w' i)) = Bad_phase"
    if "c_exit_status (checks w c) \<noteq> 0"
    using u p4 that phase_unreachable by (auto simp: es phase_view_def)
  show "phase_of (my_type (items w' i)) (state (items w' i)) = (if c_exit_status (checks w c) = 0 then Good_phase else Bad_phase)"
    if "c_status (checks w c) \<noteq> WaitDep" "c < next_action_id w"
    using u p4 that ck2 by (auto simp: es phase_view_def)
qed

subsection \<open>One result\<close>

lemma consume_parts:
  assumes "consume_state_result fuel now run c i w = Some w'"
  obtains w1 na w2 w3 where "receive_result fuel now c i w = Some w1"
    and "apply_result now c i w1 = (na, w2)" and "react_to_result fuel now c na i w2 = Some w3"
    and "w' = finish_result now run c i w3"
proof -
  obtain w1 w3 where "receive_result fuel now c i w = Some w1"
    "react_to_result fuel now c (fst (apply_result now c i w1)) i (snd (apply_result now c i w1)) = Some w3"
    "w' = finish_result now run c i w3"
    using assms by (auto simp: consume_state_result_def bind_eq_Some_conv case_prod_beta)
  then show ?thesis using that by (cases "apply_result now c i w1") simp
qed

definition result_status :: "clock \<Rightarrow> cid \<Rightarrow> iid \<Rightarrow> world \<Rightarrow> int" where
  "result_status now c i w = modulated_exit_status now (cls w i) (items w i) (c_exit_status (checks w c))"

lemma consume_effect:
  assumes r: "consume_state_result fuel now run c i w = Some w'" and c: "c < next_action_id w" and t: "tame run"
  shows "machine (items w' i) =
     hs_step (max_check_attempts (items w i)) (is_volatile (items w i)) (c_dependency_check (checks w c))
       (result_status now c i w = 0)
       (true_last_state (cls w i) (items w i) \<in> {ok_up (my_type (items w i)), PENDING})
       (true_last_state (cls w i) (items w i) = PENDING) (machine (items w i))"
    and "c_status (checks w' c) = resolved_status (checks w c)"
proof -
  obtain w1 na w2 w3 where w1: "receive_result fuel now c i w = Some w1"
    and w2: "apply_result now c i w1 = (na, w2)" and w3: "react_to_result fuel now c na i w2 = Some w3"
    and w': "w' = finish_result now run c i w3"
    by (rule consume_parts[OF r])
  note e1 = receive_result_effect[OF w1 c]
  have c1: "c < next_action_id w1" using c e1(8) by simp
  note e2 = apply_result_effect[OF w2 c1]
  have c2: "c < next_action_id w2" using c1 e2(10) by simp
  note s3 = react_machine[OF w3]
  have c3: "c < next_action_id w3" using keeps_fields(6)[OF s3] c2 by simp
  have ag: "agrees w3 w'" unfolding w' by (rule agrees_finish_result[OF t])
  have v: "machine (items w' i) = machine (items w3 i)" "checks w' c = checks w3 c"
    using agreesD(1)[OF ag, of i] agreesD(2)[OF ag c3] by (simp_all add: phase_view_def)
  have m3: "machine (items w3 i) = result_step c i w2" using steady_machine[OF s3, of i] by simp
  have k3: "checks w3 c = checks w2 c" using keeps_fields(1)[OF s3, of c] c2 by simp
  have p: "pcore (items w1 j) = pcore (items w j)" for j by (rule e1(1))
  note f = pcore_fields[OF p, of i]
  have tls: "true_last_state (cls w1 i) (items w1 i) = true_last_state (cls w i) (items w i)"
    by (simp add: true_last_state_def f e1(7))
  have m1: "machine (items w1 i) = machine (items w i)" by (simp add: machine_def f)
  show "machine (items w' i) =
     hs_step (max_check_attempts (items w i)) (is_volatile (items w i)) (c_dependency_check (checks w c))
       (result_status now c i w = 0)
       (true_last_state (cls w i) (items w i) \<in> {ok_up (my_type (items w i)), PENDING})
       (true_last_state (cls w i) (items w i) = PENDING) (machine (items w i))"
    unfolding v m3 Let_def e2(1,2,4,5,6) e2(8) tls m1 by (simp add: f e1 result_status_def)
  show "c_status (checks w' c) = resolved_status (checks w c)"
    unfolding v k3 e2(8) by (simp add: resolved_status_def e1(3,5) waits_for_deps_def)
qed

lemma consume_phase:
  assumes r: "consume_state_result fuel now run c i w = Some w'" and c: "c < next_action_id w" and t: "tame run"
    and fr: "frozen w" and wc: "c_status (checks w c) = WaitConsume"
  shows "j \<noteq> i \<Longrightarrow> phase_view (items w' j) = phase_view (items w j)"
    and "phase_of (my_type (items w' i)) (state (items w' i)) =
       (if result_status now c i w = 0 then Good_phase else Bad_phase)"
    and "max_check_attempts (items w' i) = max_check_attempts (items w i)"
    and "is_volatile (items w' i) = is_volatile (items w i)"
    and "frozen w'"
proof -
  obtain w1 na w2 w3 where w1: "receive_result fuel now c i w = Some w1"
    and w2: "apply_result now c i w1 = (na, w2)" and w3: "react_to_result fuel now c na i w2 = Some w3"
    and w': "w' = finish_result now run c i w3"
    by (rule consume_parts[OF r])
  note e1 = receive_result_effect[OF w1 c]
  have c1: "c < next_action_id w1" using c e1(8) by simp
  note e2 = apply_result_effect[OF w2 c1]
  have cl: "host_class v = host_class u \<and> service_class v = service_class u" if "\<And>k. cls_of v k = cls_of u k" for u v
    using that[of Host] that[of Service] by (simp add: cls_of_def)
  have fr2: "frozen w2" using fr cl[of w1 w] cl[of w2 w1] e1(7) e2(9) by (simp add: frozen_def)
  let ?u = "upd i (set_machine (result_step c i w2)) w2"
  have ag3: "agrees ?u w3"
    using sv.react_to_result_machine[OF w3] fr2 by (intro tracks_agrees) (simp_all add: frozen_upd)
  have ag: "agrees ?u w'" using agrees_trans[OF ag3 agrees_finish_result[OF t]] by (simp add: w')
  have p1: "phase_view (items w1 j) = phase_view (items w j)" for j by (rule phase_view_pcore[OF e1(1)])
  show "phase_view (items w' j) = phase_view (items w j)" if "j \<noteq> i"
    using agreesD(1)[OF ag, of j] apply_result_phase(1)[OF w2 that] p1[of j] that by simp
  have u: "my_type (items w' i) = my_type (items w2 i)" "state (items w' i) = state (items w2 i)"
    "max_check_attempts (items w' i) = max_check_attempts (items w2 i)" "is_volatile (items w' i) = is_volatile (items w2 i)"
    using agreesD(1)[OF ag, of i] by (simp_all add: phase_view_def set_machine_def)
  have st: "c_exit_status (checks w1 c) = result_status now c i w" by (simp add: e1(2) result_status_def)
  have dep: "c_exit_status (checks w1 c) \<noteq> 0" if "c_status (checks w1 c) = WaitDep"
    using that wc by (simp add: e1(2,3) waits_for_deps_def split: if_splits)
  show "phase_of (my_type (items w' i)) (state (items w' i)) =
       (if result_status now c i w = 0 then Good_phase else Bad_phase)"
    using apply_result_phase(2,3)[OF w2] dep c1 by (cases "c_status (checks w1 c) = WaitDep") (simp_all add: u st)
  show "max_check_attempts (items w' i) = max_check_attempts (items w i)"
    "is_volatile (items w' i) = is_volatile (items w i)"
    using p1[of i] by (simp_all add: u e2(4,5) phase_view_def)
  show "frozen w'" using agreesD(3)[OF ag] fr2 by (simp add: frozen_upd)
qed

subsection \<open>The machine over many results\<close>

definition hs_result :: "int \<Rightarrow> bool \<Rightarrow> bool \<Rightarrow> bool \<Rightarrow> hs_state \<Rightarrow> hs_state" where
  "hs_result m volatile dep ok s =
     (case s of (ph, st, att) \<Rightarrow>
        (if ok then Good_phase else Bad_phase,
         hs_step m volatile dep ok (ph \<noteq> Bad_phase) (ph = Pending_phase) (st, att)))"

text \<open>An item starts pending, HARD, with no attempt; then results arrive in any order.\<close>

inductive hs_reach :: "int \<Rightarrow> bool \<Rightarrow> hs_state \<Rightarrow> bool" for m volatile where
  start: "hs_reach m volatile (Pending_phase, HARD, 0)"
| result: "hs_reach m volatile s \<Longrightarrow> hs_reach m volatile (hs_result m volatile dep ok s)"

definition hs_inv :: "int \<Rightarrow> bool \<Rightarrow> hs_state \<Rightarrow> bool" where
  "hs_inv m volatile s = (case s of (ph, st, att) \<Rightarrow>
     (case ph of
        Pending_phase \<Rightarrow> st = HARD \<and> att = 0
      | Good_phase \<Rightarrow> st = HARD \<and> att = 1
      | Bad_phase \<Rightarrow> (if volatile then st = HARD \<and> att = 1
                      else 1 \<le> att \<and> att \<le> m \<and> (st = HARD \<longrightarrow> att = m) \<and> (st = SOFT \<and> att = m \<longrightarrow> m = 1))))"

lemma hs_reach_inv:
  assumes "hs_reach m volatile s" and m: "1 \<le> m"
  shows "hs_inv m volatile s"
  using assms(1)
proof (induction rule: hs_reach.induct)
  case start
  then show ?case by (simp add: hs_inv_def)
next
  case (result s dep ok)
  obtain ph st att where s: "s = (ph, st, att)" by (cases s)
  show ?case
    using result.IH m unfolding s
    by (cases ph; cases st; cases ok; cases dep; cases volatile;
        auto simp: hs_inv_def hs_result_def hs_step_def)
qed

lemma hs_fail_soft:
  assumes "1 \<le> att" "att < m"
  shows "(hs_result m False False False ^^ n) (Bad_phase, SOFT, att) =
     (Bad_phase, if m \<le> att + int n then HARD else SOFT, min (att + int n) m)"
proof (induction n)
  case 0
  then show ?case using assms by simp
next
  case (Suc n)
  then show ?case using assms by (auto simp: hs_result_def hs_step_def)
qed

lemma hs_fail_hard: "(hs_result m False False False ^^ n) (Bad_phase, HARD, m) = (Bad_phase, HARD, m)"
  by (induction n) (simp_all add: hs_result_def hs_step_def)

lemma hs_failures:
  assumes "1 \<le> m"
  shows "(hs_result m False False False ^^ Suc n) (Good_phase, HARD, 1) =
     (Bad_phase, if m \<le> int (Suc n) then HARD else SOFT, min (int (Suc n)) m)"
proof (cases "m = 1")
  case True
  then have "hs_result m False False False (Good_phase, HARD, 1) = (Bad_phase, HARD, m)"
    by (simp add: hs_result_def hs_step_def)
  with True show ?thesis using hs_fail_hard[where m = m and n = n] by (simp add: funpow_swap1)
next
  case False
  with assms have "hs_result m False False False (Good_phase, HARD, 1) = (Bad_phase, SOFT, 1)"
    by (simp add: hs_result_def hs_step_def)
  with False assms show ?thesis using hs_fail_soft[where att = 1 and m = m and n = n] by (simp add: funpow_swap1 ac_simps)
qed

lemma consume_simulates:
  assumes "consume_state_result fuel now run c i w = Some w'" and "c < next_action_id w" and "tame run"
    and "frozen w" and "c_status (checks w c) = WaitConsume"
  shows "hs_of (items w' i) =
     hs_result (max_check_attempts (items w i)) (is_volatile (items w i)) (c_dependency_check (checks w c))
       (result_status now c i w = 0) (hs_of (items w i))"
proof -
  have "\<not> enable_problem_impacts_states_change (cls w i)"
    using assms(4) by (cases "my_type (items w i)") (simp_all add: frozen_def cls_of_def)
  then have s: "true_last_state (cls w i) (items w i) = state (items w i)" by (simp add: true_last_state_def)
  have "machine (items w' i) = hs_step (max_check_attempts (items w i)) (is_volatile (items w i))
      (c_dependency_check (checks w c)) (result_status now c i w = 0)
      (phase_of (my_type (items w i)) (state (items w i)) \<noteq> Bad_phase)
      (phase_of (my_type (items w i)) (state (items w i)) = Pending_phase) (machine (items w i))"
    using consume_effect(1)[OF assms(1-3)] by (auto simp: s phase_of_def)
  then show ?thesis
    using consume_phase(2)[OF assms] by (simp add: hs_of_def hs_result_def split: prod.split)
qed

text \<open>The steps of the scheduler that touch the state of hosts and services: results, launches of checks,
  and the beginning and the end of downtimes and acknowledgements, in any order.\<close>

inductive world_step :: "world \<Rightarrow> world \<Rightarrow> bool" where
  result: "consume_state_result fuel now run c i w = Some w' \<Longrightarrow> tame run \<Longrightarrow> c < next_action_id w \<Longrightarrow>
    c_status (checks w c) = WaitConsume \<Longrightarrow> world_step w w'"
| maintenance: "world_step w (consume_maintenance_result now c i w)"
| launch: "launch_check fuel now t r False d v i w = Some (x, w') \<Longrightarrow> world_step w w'"
| returned: "world_step w (upd_check c f w)"
| enter_downtime: "dt_enter fuel now d w = Some w' \<Longrightarrow> world_step w w'"
| exit_downtime: "world_step w (dt_exit now d w)"
| cancel_downtime: "dt_cancel fuel now d w = Some w' \<Longrightarrow> world_step w w'"
| acknowledge: "world_step w (acknowledge_problem now st n p a txt e i w)"
| expire: "world_step w (check_for_expire_acknowledge now i w)"
| notify: "world_step w (create_notifications now type t i w)"

definition same_phases :: "world \<Rightarrow> world \<Rightarrow> bool" where
  "same_phases w w' \<longleftrightarrow> (\<forall>j. phase_view (items w' j) = phase_view (items w j)) \<and>
     host_class w' = host_class w \<and> service_class w' = service_class w"

lemma agrees_same_phases: "agrees w w' \<Longrightarrow> same_phases w w'"
  by (simp add: agrees_def same_phases_def)

lemma same_phases_trans [trans]: "same_phases w w' \<Longrightarrow> same_phases w' w'' \<Longrightarrow> same_phases w w''"
  by (simp add: same_phases_def)

lemma same_phases_frozen: "same_phases w w' \<Longrightarrow> frozen w' = frozen w"
  by (simp add: same_phases_def frozen_def)

lemma same_phases_cancel_one: "same_phases w (cancel_one now d w)"
  by (simp add: same_phases_def cancel_one_def Let_def phase_view_def machine_def del_automatic_comment_def
      split: option.split)

lemma same_phases_cancel:
  "dt_cancel fuel now d w = Some w' \<Longrightarrow> same_phases w w'"
  "dt_cancel_all fuel now ds w = Some w' \<Longrightarrow> same_phases w w'"
proof (induction fuel now d w and fuel now ds w arbitrary: w' and w' rule: dt_cancel_dt_cancel_all.induct)
  case (2 fuel now d w)
  then show ?case using same_phases_trans[OF same_phases_cancel_one] by (fastforce simp: Let_def)
next
  case (3 fuel now w)
  then show ?case by (simp add: same_phases_def)
next
  case (4 fuel now d ds w)
  then show ?case by (auto simp: bind_eq_Some_conv intro: same_phases_trans)
qed auto

lemma same_phases_exit: "same_phases w (dt_exit now d w)"
  by (simp add: same_phases_def dt_exit_def Let_def phase_view_def machine_def del_automatic_comment_def
      split: option.split)

lemma same_phases_acknowledge: "same_phases w (acknowledge_problem now st n p a txt e i w)"
  by (simp add: same_phases_def acknowledge_problem_def Let_def phase_view_def machine_def new_acknowledge_def
      new_comment_def add_comment_def)

lemma same_phases_maintenance: "same_phases w (consume_maintenance_result now c i w)"
  by (simp add: same_phases_def consume_maintenance_result_def Let_def phase_view_def machine_def
      remove_in_progress_check_def)

lemma same_phases_tracks: "keeps (state_view (frozen w)) w w' \<Longrightarrow> frozen w \<Longrightarrow> same_phases w w'"
  by (rule agrees_same_phases[OF tracks_agrees])

lemma same_phases_expire: "frozen w \<Longrightarrow> same_phases w (check_for_expire_acknowledge now i w)"
proof (rule same_phases_tracks)
  show "keeps (state_view (frozen w)) w (check_for_expire_acknowledge now i w)"
    by (simp add: check_for_expire_acknowledge_def split: option.split)
qed

lemma world_step_cases:
  assumes "world_step w w'" and fr: "frozen w"
  shows "same_phases w w' \<or>
    (\<exists>fuel now run c i. consume_state_result fuel now run c i w = Some w' \<and> tame run \<and> c < next_action_id w \<and>
       c_status (checks w c) = WaitConsume)"
  using assms(1)
proof cases
  case (result fuel now run c i)
  then show ?thesis by blast
next
  case (launch fuel now t r d v i x)
  have "agrees w w'" by (rule keeps_agrees[OF launched_launch_check[OF launch]]) (rule phase_view_rcore)
  then show ?thesis using agrees_same_phases by blast
next
  case (enter_downtime fuel now d)
  then show ?thesis using same_phases_tracks[OF sv.tracks_dt_enter(1) fr] by blast
next
  case (notify now type t i)
  then show ?thesis using same_phases_tracks[OF sv.tracks_quiets(1) fr] by blast
next
  case (returned c f)
  then show ?thesis by (simp add: same_phases_def)
qed (auto simp: same_phases_exit same_phases_acknowledge same_phases_maintenance same_phases_expire[OF fr]
     dest: same_phases_cancel)

definition item_follows :: "world \<Rightarrow> iid \<Rightarrow> bool" where
  "item_follows w i \<longleftrightarrow> hs_reach (max_check_attempts (items w i)) (is_volatile (items w i)) (hs_of (items w i))"

lemma world_step_follows:
  assumes "world_step w w'" and "frozen w" and "\<And>i. item_follows w i"
  shows "frozen w'" and "item_follows w' j"
proof -
  have same: "item_follows w' j" if "phase_view (items w' j) = phase_view (items w j)" for j
    using that assms(3)[of j] hs_of_view[OF that] by (simp add: item_follows_def phase_view_def)
  show "frozen w'"
    using world_step_cases[OF assms(1,2)] same_phases_frozen[of w w'] consume_phase(5) assms(2) by blast
  show "item_follows w' j"
    using world_step_cases[OF assms(1,2)]
  proof
    assume "same_phases w w'"
    then show ?thesis by (intro same) (simp add: same_phases_def)
  next
    assume "\<exists>fuel now run c i. consume_state_result fuel now run c i w = Some w' \<and> tame run \<and> c < next_action_id w \<and>
       c_status (checks w c) = WaitConsume"
    then obtain fuel now run c i where r: "consume_state_result fuel now run c i w = Some w'" "c < next_action_id w"
      "tame run" "frozen w" "c_status (checks w c) = WaitConsume" using assms(2) by blast
    show ?thesis
    proof (cases "j = i")
      case True
      have "hs_reach (max_check_attempts (items w i)) (is_volatile (items w i)) (hs_of (items w' i))"
        unfolding consume_simulates[OF r] using assms(3)[of i] by (intro hs_reach.result) (simp add: item_follows_def)
      then show ?thesis by (simp add: True item_follows_def consume_phase(3,4)[OF r])
    next
      case False
      then show ?thesis by (intro same consume_phase(1)[OF r])
    qed
  qed
qed

text \<open>A world before the first check: no state is enforced and the states of impacts are left alone.\<close>

definition unchecked_world :: "world \<Rightarrow> bool" where
  "unchecked_world w \<longleftrightarrow> frozen w \<and> (\<forall>i. state (items w i) = PENDING \<and> state_type (items w i) = HARD \<and> attempt (items w i) = 0)"

lemma unchecked_follows: "unchecked_world w \<Longrightarrow> item_follows w i"
  using hs_reach.start by (simp add: unchecked_world_def item_follows_def hs_of_def phase_of_def machine_def)

lemma world_steps_follow:
  assumes "world_step\<^sup>*\<^sup>* w w'" and "unchecked_world w"
  shows "frozen w' \<and> (\<forall>i. item_follows w' i)"
  using assms(1)
proof (induction rule: rtranclp_induct)
  case base
  then show ?case using assms(2) unchecked_follows by (simp add: unchecked_world_def)
next
  case (step y z)
  then show ?case using world_step_follows[of y z] by blast
qed

subsection \<open>The promises of the machine\<close>

text \<open>C1: consuming the result of a state check moves the state type and the attempt
  counter of the item exactly as the abstract machine says: nothing of the notifications, event handlers,
  downtimes, acknowledgements, problems and impacts that the same call manages can disturb them. The status
  the machine sees is the exit status after the result modulations, and the last state is the one the
  item had before it became the impact of a problem.\<close>

theorem consume_refines_machine:
  assumes "consume_state_result fuel now run c i w = Some w'" and "c < next_action_id w" and "tame run"
  shows "machine (items w' i) =
     hs_step (max_check_attempts (items w i)) (is_volatile (items w i)) (c_dependency_check (checks w c))
       (result_status now c i w = 0)
       (true_last_state (cls w i) (items w i) \<in> {ok_up (my_type (items w i)), PENDING})
       (true_last_state (cls w i) (items w i) = PENDING) (machine (items w i))"
  by (rule consume_effect(1)[OF assms])

text \<open>C12: a check that was waiting to be consumed is finished by the same call: it is a zombie,
  or it still has to resolve the checks that depend on it. It never stays in the state \<^verbatim>\<open>waitdep\<close>, although the
  code puts it there when it asks for the checks of its dependencies.\<close>

theorem consume_settles_check:
  assumes "consume_state_result fuel now run c i w = Some w'" and "c < next_action_id w" and "tame run"
    and "c_status (checks w c) \<in> {WaitConsume, WaitDep}"
  shows "c_status (checks w' c) = (if c_depend_on_me (checks w c) \<noteq> [] then HaveToResolveDep else Zombie)"
  using consume_effect(2)[OF assms(1-3)] assms(4) by (auto simp: resolved_status_def)


text \<open>A run of failing results of one item, among steps that keep the phases of the items.\<close>

inductive failing_run :: "iid \<Rightarrow> world \<Rightarrow> nat \<Rightarrow> world \<Rightarrow> bool" for i w where
  none: "failing_run i w 0 w"
| other: "failing_run i w n w' \<Longrightarrow> same_phases w' w'' \<Longrightarrow> failing_run i w n w''"
| failure: "failing_run i w n w' \<Longrightarrow> consume_state_result fuel now run c i w' = Some w'' \<Longrightarrow> tame run \<Longrightarrow>
    c < next_action_id w' \<Longrightarrow> c_status (checks w' c) = WaitConsume \<Longrightarrow> \<not> c_dependency_check (checks w' c) \<Longrightarrow>
    result_status now c i w' \<noteq> 0 \<Longrightarrow> failing_run i w (Suc n) w''"

lemma failing_run_machine:
  assumes "failing_run i w n w'" and "frozen w" and "\<not> is_volatile (items w i)"
  shows "frozen w' \<and> \<not> is_volatile (items w' i) \<and> max_check_attempts (items w' i) = max_check_attempts (items w i) \<and>
    hs_of (items w' i) = (hs_result (max_check_attempts (items w i)) False False False ^^ n) (hs_of (items w i))"
  using assms(1)
proof (induction rule: failing_run.induct)
  case none
  then show ?case using assms by simp
next
  case (other n w' w'')
  have "phase_view (items w'' i) = phase_view (items w' i)" using other(2) by (simp add: same_phases_def)
  with other.IH show ?case
    using hs_of_view[of "items w'' i" "items w' i"] same_phases_frozen[OF other(2)] by (simp add: phase_view_def)
next
  case (failure n w' fuel now run c w'')
  note h = failure(2,4,3) _ failure(5)
  show ?case
    using failure.IH failure.hyps(6,7) consume_simulates[OF h] consume_phase(3-5)[OF h] by simp
qed


subsection \<open>Examples\<close>

definition ping_command :: command_call where
  "ping_command = \<lparr>cmd_call = ''check_ping'', cmd_line = ''check_ping'', cmd_timeout = 0, cmd_poller_tag = ''None'',
     cmd_reactionner_tag = ''None'', cmd_module_type = ''fork'', cmd_environment_macros = False, cmd_priority = 100\<rparr>"

definition ping_result :: "int \<Rightarrow> check" where
  "ping_result status = (new_check (Resolved ping_command []) False 1 0 None 60 ''None'' False ''fork'' False State_variant 100)
     \<lparr>c_status := WaitConsume, c_exit_status := status\<rparr>"

text \<open>A host (address 0) and its service (address 1), whose check 0 came back with the given status.\<close>

definition small_world :: "(item \<Rightarrow> item) \<Rightarrow> int \<Rightarrow> world" where
  "small_world f status =
     \<lparr>items = (\<lambda>i. if i = 0 then (new_host ''h'' ping_command 0)\<lparr>services := [1]\<rparr> else f (new_service ''s'' ping_command 0)),
      checks = (\<lambda>_. ping_result status), notifs = (\<lambda>_. undefined), handlers = (\<lambda>_. undefined),
      comment_store = (\<lambda>_. undefined), downtime_store = (\<lambda>_. undefined), contact_store = (\<lambda>_. undefined),
      contact_downtime_store = (\<lambda>_. undefined), host_class = default_class ping_command Host,
      service_class = default_class ping_command Service, next_action_id = 1, next_comment_id = 1,
      next_downtime = 1, next_ack_id = 1, next_contact_downtime_id = 1, global_event_id = 0, global_problem_id = 0, logs = []\<rparr>"

definition no_run :: "trigger \<Rightarrow> iid \<Rightarrow> world \<Rightarrow> world" where
  "no_run t i w = w"

lemma tame_no_run: "tame no_run"
  by (simp add: tame_def no_run_def)

lemma small_world_returns:
  "\<exists>w'. consume_state_result 1 10 no_run 0 1 (small_world id 2) = Some w'"
proof -
  have "consume_state_result 1 10 no_run 0 1 (small_world id 2) \<noteq> None" by code_simp
  then show ?thesis by blast
qed

lemma small_world_checks [simp]:
  "next_action_id (small_world f s) = 1" "checks (small_world f s) c = ping_result s"
  "c_status (ping_result s) = WaitConsume" "c_depend_on_me (ping_result s) = []"
  "c_dependency_check (ping_result s) = False"
  by (simp_all add: small_world_def ping_result_def new_check_def)

theorem consume_refines_machine_witness:
  "\<exists>w'. consume_state_result 1 10 no_run 0 1 (small_world id 2) = Some w' \<and>
    (let w = small_world id 2 in machine (items w' 1) =
     hs_step (max_check_attempts (items w 1)) (is_volatile (items w 1)) (c_dependency_check (checks w 0))
       (result_status 10 0 1 w = 0)
       (true_last_state (cls w 1) (items w 1) \<in> {ok_up (my_type (items w 1)), PENDING})
       (true_last_state (cls w 1) (items w 1) = PENDING) (machine (items w 1)))"
proof -
  obtain w' where "consume_state_result 1 10 no_run 0 1 (small_world id 2) = Some w'" using small_world_returns by blast
  from this consume_refines_machine[OF this _ tame_no_run] show ?thesis unfolding Let_def by (intro exI[of _ w'] conjI) simp_all
qed

theorem consume_settles_check_witness:
  "\<exists>w'. consume_state_result 1 10 no_run 0 1 (small_world id 2) = Some w' \<and>
     c_status (checks w' 0) = (if c_depend_on_me (checks (small_world id 2) 0) \<noteq> [] then HaveToResolveDep else Zombie)"
proof -
  obtain w' where "consume_state_result 1 10 no_run 0 1 (small_world id 2) = Some w'" using small_world_returns by blast
  from this consume_settles_check[OF this _ tame_no_run] show ?thesis by auto
qed

lemma small_world_conf:
  "unchecked_world (small_world id s)" "frozen (small_world f s)"
  "max_check_attempts (items (small_world id s) 1) = 1" "\<not> is_volatile (items (small_world id s) 1)"
  by (simp_all add: unchecked_world_def frozen_def small_world_def default_class_def new_host_def new_service_def)


definition healthy :: "item \<Rightarrow> item" where
  "healthy it = it\<lparr>state := OK, attempt := 1, max_check_attempts := 3\<rparr>"


text \<open>An item that allows a single attempt is not HARD after its first failing result if that
  result is also its first check: the attempt counter still is 0 there, so the state is SOFT. The next
  failing result makes it HARD.\<close>

theorem first_failure_is_soft:
  "max_check_attempts (items (small_world id 2) 1) = 1 \<and>
   map_option (\<lambda>w. machine (items w 1)) (consume_state_result 1 10 no_run 0 1 (small_world id 2)) = Some (SOFT, 1)"
  by code_simp

end
