(* ===== verification/NotificationRules.thy ===== *)
theory NotificationRules
  imports Machine
begin

text \<open>
  When a host or a service may notify, what a created notification carries, whom it is sent to, and when
  the next one is due. The two methods \<^verbatim>\<open>notification_is_blocked_by_item\<close> are sequences of early
  returns; the theorems give the condition they compute.
\<close>

subsection \<open>When a problem is notified\<close>

definition state_letter :: "istate \<Rightarrow> string option" where
  "state_letter s = (case s of DOWN \<Rightarrow> Some ''d'' | UP \<Rightarrow> Some ''r'' | UNREACHABLE \<Rightarrow> Some ''u''
     | UNKNOWN \<Rightarrow> Some ''u'' | WARNING \<Rightarrow> Some ''w'' | CRITICAL \<Rightarrow> Some ''c'' | OK \<Rightarrow> Some ''r'' | PENDING \<Rightarrow> None)"

definition own_state :: "item_kind \<Rightarrow> istate \<Rightarrow> bool" where
  "own_state k s \<longleftrightarrow> s \<in> (case k of Host \<Rightarrow> {UP, DOWN, UNREACHABLE, PENDING}
     | Service \<Rightarrow> {OK, WARNING, CRITICAL, UNKNOWN, PENDING})"

definition notifies :: "world \<Rightarrow> iid \<Rightarrow> clock \<Rightarrow> bool" where
  "notifies w i t \<longleftrightarrow> enable_notifications (cls w i) \<and> notifications_enabled (items w i) \<and>
     ''n'' \<notin> set (notification_options (items w i)) \<and>
     (\<forall>p. notification_period (items w i) = Some p \<longrightarrow> p_is_time_valid p t)"

definition undisturbed :: "world \<Rightarrow> iid \<Rightarrow> bool" where
  "undisturbed w i \<longleftrightarrow> scheduled_downtime_depth (items w i) \<le> 0 \<and> \<not> problem_has_been_acknowledged (items w i) \<and>
     \<not> is_flapping (items w i) \<and>
     (my_type (items w i) = Service \<longrightarrow> scheduled_downtime_depth (items w (host (items w i))) \<le> 0 \<and>
        state (items w (host (items w i))) = ok_up (my_type (items w (host (items w i)))))"

text \<open>C4: the early returns of \<^verbatim>\<open>notification_is_blocked_by_item\<close> let a problem through exactly when
  notifications are on, inside the notification period, the letter of the state is among the options, the
  state is HARD, and neither a downtime, an acknowledgement, flapping, a host that is in downtime or not
  up, nor a business rule whose problems are all acknowledged holds it back.\<close>

theorem problem_notified_iff:
  assumes "own_state (my_type (items w i)) (state (items w i))"
  shows "\<not> notification_is_blocked_by_item now w i PROBLEM (Some t) \<longleftrightarrow>
     notifies w i t \<and> undisturbed w i \<and> state_type (items w i) = HARD \<and>
     (\<forall>l. state_letter (state (items w i)) = Some l \<longrightarrow> l \<in> set (notification_options (items w i))) \<and>
     \<not> (got_business_rule (items w i) \<and> business_rule_smart_notifications (items w i) \<and>
        business_rule_notification_is_blocked w (items w i))"
proof -
  have hard: "state_type (items w i) = HARD \<longleftrightarrow> state_type (items w i) \<noteq> SOFT"
    by (cases "state_type (items w i)") simp_all
  have period: "(case notification_period (items w i) of None \<Rightarrow> False | Some p \<Rightarrow> \<not> p_is_time_valid p t) \<longleftrightarrow>
      \<not> (\<forall>p. notification_period (items w i) = Some p \<longrightarrow> p_is_time_valid p t)"
    by (cases "notification_period (items w i)") simp_all
  show ?thesis
  proof (cases "my_type (items w i)")
    case Host
    then have s: "state (items w i) \<in> {UP, DOWN, UNREACHABLE, PENDING}" using assms by (simp add: own_state_def)
    show ?thesis
      unfolding notification_is_blocked_by_item_def Host item_kind.case host_notification_is_blocked_by_item_def Let_def
        option.case period hard notifies_def undisturbed_def
      using s by (elim insertE; auto simp: state_letter_def)
  next
    case Service
    then have s: "state (items w i) \<in> {OK, WARNING, CRITICAL, UNKNOWN, PENDING}" using assms by (simp add: own_state_def)
    show ?thesis
      unfolding notification_is_blocked_by_item_def Service item_kind.case service_notification_is_blocked_by_item_def Let_def
        option.case period hard notifies_def undisturbed_def
      using s by (elim insertE; auto simp: state_letter_def)
  qed
qed

subsection \<open>Whom a notification is sent to\<close>

definition wants :: "world \<Rightarrow> iid \<Rightarrow> notif_type \<Rightarrow> ctid \<Rightarrow> command_call \<Rightarrow> bool" where
  "wants w i type ct cmd =
     (let it = items w i in case my_type it of
        Host \<Rightarrow> want_host_notification w (contact_store w ct) (last_chk it) (state it) type (business_impact it) (Some cmd)
      | Service \<Rightarrow> want_service_notification w (contact_store w ct) (last_chk it) (state it) type (business_impact it) (Some cmd))"

definition sent :: "world \<Rightarrow> iid \<Rightarrow> notif_type \<Rightarrow> ctid \<Rightarrow> notification \<Rightarrow> bool" where
  "sent w i type ct nf \<longleftrightarrow> n_contact nf = Some ct \<and> n_type nf = type \<and> n_ref nf = i \<and> n_status nf = Scheduled \<and>
     (\<exists>cmd \<in> set (get_notification_commands (my_type (items w i)) (contact_store w ct)).
        n_command_call nf = Some cmd \<and> wants w i type ct cmd)"

text \<open>The state of the two nested loops of \<^verbatim>\<open>scatter_notification\<close>.\<close>

definition scattered :: "world \<Rightarrow> iid \<Rightarrow> nid \<Rightarrow> ctid set \<Rightarrow> nid list \<times> world \<Rightarrow> bool" where
  "scattered w i n cts acc \<longleftrightarrow> (case acc of (kids, v) \<Rightarrow>
     contact_store v = contact_store w \<and> contact_downtime_store v = contact_downtime_store w \<and>
     erase (items v i) = erase (items w i) \<and> business_impact (items v i) = business_impact (items w i) \<and>
     n_type (notifs v n) = n_type (notifs w n) \<and> n < next_action_id v \<and>
     next_action_id w \<le> next_action_id v \<and> distinct kids \<and>
     (\<forall>m \<in> set kids. next_action_id w \<le> m \<and> m < next_action_id v \<and>
        (\<exists>ct \<in> cts. sent w i (n_type (notifs w n)) ct (notifs v m))))"

lemma wants_cong:
  assumes "contact_store v = contact_store w" and "contact_downtime_store v = contact_downtime_store w"
    and "erase (items v i) = erase (items w i)" and "business_impact (items v i) = business_impact (items w i)"
  shows "wants v i type ct cmd = wants w i type ct cmd"
  using assms erase_fields[OF assms(3)]
  by (simp add: wants_def Let_def want_host_notification_def want_service_notification_def contact_in_downtime_def
      split: item_kind.split)

lemma log_only_stores: "log_only w v \<Longrightarrow> notifs v = notifs w \<and> contact_store v = contact_store w \<and>
    contact_downtime_store v = contact_downtime_store w \<and> items v = items w \<and> next_action_id v = next_action_id w"
  by (auto simp: log_only_def)

lemma scatter_command_step:
  assumes s: "scattered w i n cts (kids, v)" and ct: "ct \<in> cts"
    and cmd: "cmd \<in> set (get_notification_commands (my_type (items w i)) (contact_store w ct))"
  shows "scattered w i n cts (scatter_command now n esc i ct cmd (kids, v))"
proof -
  define nf where "nf = new_notification (n_type (notifs v n)) (Some cmd) i (Some ct) (n_t_to_go (notifs v n))
             esc (notification_timeout (cls v i)) (n_notif_nb (notifs v n)) (cmd_reactionner_tag cmd)
             (cmd_module_type cmd) (cmd_environment_macros cmd) now"
  define m where "m = next_action_id v"
  define v1 where "v1 = v\<lparr>notifs := (notifs v)(m := nf), next_action_id := Suc m\<rparr>"
  define v2 where "v2 = update_notification_command m i v1"
  define v3 where "v3 = raise_notification_log_entry m i v2"
  define v4 where "v4 = upd i (\<lambda>it. it\<lparr>notifications_in_progress := set_add m (notifications_in_progress it)\<rparr>) v3"
  define v5 where "v5 = (if n_type (notifs v n) = PROBLEM
      then upd i (\<lambda>it. it\<lparr>notified_contacts := set_add ct (notified_contacts it)\<rparr>) v4 else v4)"
  have res: "scatter_command now n esc i ct cmd (kids, v) =
      (if notification_is_blocked_by_contact v1 i m ct then (kids, v1) else (kids @ [m], v5))"
    unfolding scatter_command_def Let_def prod.case alloc_notification_def nf_def[symmetric] m_def[symmetric]
      v1_def[symmetric] v2_def[symmetric] v3_def[symmetric] v4_def[symmetric] v5_def[symmetric] by simp
  have old: "contact_store v = contact_store w" "contact_downtime_store v = contact_downtime_store w"
    "erase (items v i) = erase (items w i)" "business_impact (items v i) = business_impact (items w i)"
    "n_type (notifs v n) = n_type (notifs w n)" "n < m"
    "next_action_id w \<le> m" "distinct kids"
    and good: "\<And>x. x \<in> set kids \<Longrightarrow> next_action_id w \<le> x \<and> x < m \<and> (\<exists>ct \<in> cts. sent w i (n_type (notifs w n)) ct (notifs v x))"
    using s by (auto simp: scattered_def m_def)
  have e3: "notifs v3 = notifs v2" "contact_store v3 = contact_store v2"
    "contact_downtime_store v3 = contact_downtime_store v2" "items v3 = items v2" "next_action_id v3 = next_action_id v2"
    using log_only_stores[OF log_only_entries(4)[where w = v2 and n = m and i = i]] by (simp_all add: v3_def)
  have e2: "contact_store v2 = contact_store v" "contact_downtime_store v2 = contact_downtime_store v"
    "items v2 = items v" "next_action_id v2 = Suc m" "\<And>x. x \<noteq> m \<Longrightarrow> notifs v2 x = notifs v x"
    "n_contact (notifs v2 m) = Some ct" "n_type (notifs v2 m) = n_type (notifs w n)" "n_ref (notifs v2 m) = i"
    "n_status (notifs v2 m) = Scheduled" "n_command_call (notifs v2 m) = Some cmd"
    using old(5) by (simp_all add: v2_def v1_def update_notification_command_def upd_notif_def nf_def new_notification_def)
  have v5: "notifs v5 = notifs v2" "contact_store v5 = contact_store v" "contact_downtime_store v5 = contact_downtime_store v"
    "erase (items v5 i) = erase (items v i)" "business_impact (items v5 i) = business_impact (items v i)"
    "next_action_id v5 = Suc m"
    using e2 by (simp_all add: v5_def v4_def e3 erase_def)
  show ?thesis
  proof (cases "notification_is_blocked_by_contact v1 i m ct")
    case True
    have "notifs v1 x = notifs v x" if "x < m" for x using that by (simp add: v1_def)
    with True old good show ?thesis by (auto simp: res scattered_def v1_def less_Suc_eq)
  next
    case False
    have it: "items v1 = items v" "my_type (items v i) = my_type (items w i)"
      using erase_fields(8)[OF old(3)] by (simp_all add: v1_def)
    have "wants v1 i (n_type (notifs w n)) ct cmd"
      using False old(5) by (simp add: notification_is_blocked_by_contact_def host_notification_is_blocked_by_contact_def
          service_notification_is_blocked_by_contact_def wants_def Let_def it v1_def nf_def new_notification_def
          split: item_kind.splits)
    then have "wants w i (n_type (notifs w n)) ct cmd"
      using wants_cong[of v1 w i "n_type (notifs w n)" ct cmd] old by (simp add: v1_def)
    with e2 cmd have new: "sent w i (n_type (notifs w n)) ct (notifs v2 m)" by (auto simp: sent_def)
    have "notifs v2 x = notifs v x" if "x < m" for x using that e2(5) by simp
    with False old good new ct v5 show ?thesis
      by (auto simp: res scattered_def less_Suc_eq)
  qed
qed

lemma fold_preserves:
  assumes "\<And>x acc. x \<in> set xs \<Longrightarrow> Q acc \<Longrightarrow> Q (f x acc)" and "Q acc"
  shows "Q (fold f xs acc)"
  using assms by (induction xs arbitrary: acc) simp_all

lemma scatter_contact_step:
  assumes s: "scattered w i n cts acc" and ct: "ct \<in> cts"
  shows "scattered w i n cts (scatter_contact now n esc i ct acc)"
proof -
  obtain kids v where acc: "acc = (kids, v)" by (cases acc)
  have it: "my_type (items v i) = my_type (items w i)" "contact_store v = contact_store w"
    using s erase_fields(8)[of "items v i" "items w i"] by (simp_all add: acc scattered_def)
  have "scattered w i n cts (fold (scatter_command now n esc i ct)
      (get_notification_commands (my_type (items w i)) (contact_store w ct)) acc)"
  proof (rule fold_preserves)
    show "scattered w i n cts acc" by (rule s)
    fix cmd acc'
    assume "cmd \<in> set (get_notification_commands (my_type (items w i)) (contact_store w ct))" "scattered w i n cts acc'"
    then show "scattered w i n cts (scatter_command now n esc i ct cmd acc')"
      using scatter_command_step[OF _ ct] by (cases acc') simp
  qed
  then show ?thesis using s by (simp add: scatter_contact_def acc Let_def it)
qed

lemma scatter_contacts:
  "scattered w i n cts acc \<Longrightarrow> set xs \<subseteq> cts \<Longrightarrow> scattered w i n cts (fold (scatter_contact now n esc i) xs acc)"
  by (rule fold_preserves) (auto intro: scatter_contact_step)


subsection \<open>What a created notification carries\<close>

text \<open>A notification that is not dropped is queued once, with a fresh identifier, the type asked
  for, and a date inside the notification period; problems are numbered one after the other and a recovery
  starts the count again. Nothing else of the item changes.\<close>

theorem created_notification:
  assumes "\<not> dropped now w i type t_wished"
    and period: "\<And>p t r. notification_period (items w i) = Some p \<Longrightarrow> p_next_valid_time p t = Some r \<Longrightarrow> p_is_time_valid p r"
  shows "let w' = create_notifications now type t_wished i w; n = next_action_id w in
     n_type (notifs w' n) = type \<and> n_ref (notifs w' n) = i \<and> n_status (notifs w' n) = Scheduled \<and>
     n_notif_nb (notifs w' n) = next_number (items w i) type \<and>
     actions (items w' i) = actions (items w i) @ [ANotification n] \<and>
     (t_wished = None \<longrightarrow> (\<forall>p t. notification_period (items w i) = Some p \<and> n_t_to_go (notifs w' n) = Some t \<longrightarrow>
        p_is_time_valid p t)) \<and>
     (\<forall>m. m \<noteq> n \<longrightarrow> notifs w' m = notifs w m) \<and> next_action_id w' = Suc n \<and> quiet w w'"
proof -
  have d: "p_is_time_valid p t" if "notification_period (items w i) = Some p" "due_time now w i type None = Some t" for p t
    using that period[OF that(1), of _ t] by (simp add: due_time_def)
  show ?thesis
    using assms(1) d quiet_create_notifications[of w now type t_wished i]
    by (auto simp: create_notifications_eq Let_def new_notification_def)
qed

subsection \<open>When the next notification is due\<close>

definition escalations_ok :: "item \<Rightarrow> bool" where
  "escalations_ok it \<longleftrightarrow> 0 \<le> notification_interval it \<and>
     (\<forall>es \<in> set (escalations it). es_notification_interval es = -1 \<or> 0 \<le> es_notification_interval es)"

lemma fold_min_interval:
  fixes f :: "escalation \<Rightarrow> int"
  assumes "0 \<le> ni" and "\<forall>es \<in> set ess. f es = -1 \<or> 0 \<le> f es"
  shows "0 \<le> fold (\<lambda>es ni. if E es \<and> f es \<noteq> -1 \<and> f es < ni then f es else ni) ess ni \<and>
    fold (\<lambda>es ni. if E es \<and> f es \<noteq> -1 \<and> f es < ni then f es else ni) ess ni \<le> ni"
  using assms by (induction ess arbitrary: ni) force+

lemma fold_earlier:
  fixes res :: int
  assumes "now \<le> res"
  shows "now \<le> fold (\<lambda>es res. if A es then (case G es of None \<Rightarrow> res | Some r \<Rightarrow> if now < r \<and> r < res then r else res)
              else res) ess res \<and>
    fold (\<lambda>es res. if A es then (case G es of None \<Rightarrow> res | Some r \<Rightarrow> if now < r \<and> r < res then r else res)
              else res) ess res \<le> res"
  using assms
proof (induction ess arbitrary: res)
  case (Cons es ess)
  let ?r = "if A es then (case G es of None \<Rightarrow> res | Some r \<Rightarrow> if now < r \<and> r < res then r else res) else res"
  have "now \<le> ?r" "?r \<le> res" using Cons.prems by (auto split: option.split)
  with Cons.IH[of ?r] show ?case by simp
qed simp

text \<open>C14: the date of the next notification is never in the past, and it is at most one
  notification interval after the later of the planned date and now: escalations may only bring it forward.\<close>

theorem next_notification_bounds:
  assumes "get_next_notification_time now w i n = Some t" and "escalations_ok (items w i)"
    and "0 \<le> interval_length (cls w i)" and "n_t_to_go (notifs w n) = Some planned"
  shows "now \<le> t \<and> t \<le> max planned now + notification_interval (items w i) * interval_length (cls w i)"
proof -
  let ?it = "items w i" and ?nf = "notifs w n" and ?len = "interval_length (cls w i)"
  define ni where "ni = fold (\<lambda>es ni. if is_eligible es planned (state ?it) (n_notif_nb ?nf) (now - n_creation_time ?nf) ?len \<and>
                   es_notification_interval es \<noteq> -1 \<and> es_notification_interval es < ni
                 then es_notification_interval es else ni) (escalations ?it) (notification_interval ?it)"
  have ni: "0 \<le> ni \<and> ni \<le> notification_interval ?it"
    unfolding ni_def by (rule fold_min_interval) (use assms(2) in \<open>auto simp: escalations_ok_def\<close>)
  then have mult: "0 \<le> ni * ?len" "ni * ?len \<le> notification_interval ?it * ?len"
    using assms(3) by (simp_all add: mult_right_mono)
  define std where "std = (if planned + ni * ?len < now then now + ni * ?len else planned + ni * ?len)"
  have std: "now \<le> std" "std \<le> max planned now + notification_interval ?it * ?len" using mult by (auto simp: std_def)
  have t: "t = fold (\<lambda>es res. if escalation_name es \<notin> set (n_already_start_escalations ?nf)
              then (case get_next_notif_time es std (state ?it) (n_creation_time ?nf) ?len of
                      None \<Rightarrow> res | Some r \<Rightarrow> if now < r \<and> r < res then r else res)
              else res) (escalations ?it) std"
    using assms(1,4) unfolding std_def ni_def get_next_notification_time_def Let_def by simp
  have "now \<le> t \<and> t \<le> std" unfolding t by (rule fold_earlier[OF std(1)])
  with std(2) show ?thesis by simp
qed

subsection \<open>Examples\<close>

definition always :: period where
  "always = \<lparr>p_is_time_valid = (\<lambda>_. True), p_next_valid_time = Some,
     p_next_invalid_time = (\<lambda>_. None)\<rparr>"

definition admin_way :: notificationway where
  "admin_way = \<lparr>nw_service_notifications_enabled = True, nw_host_notifications_enabled = True,
     nw_service_notification_period = always, nw_host_notification_period = always,
     nw_service_notification_options = [''c'', ''r''], nw_host_notification_options = [''d'', ''r''],
     nw_service_notification_commands = [ping_command], nw_host_notification_commands = [ping_command],
     nw_min_business_impact = 0\<rparr>"

definition admin :: contact where
  "admin = \<lparr>contact_name = ''admin'', ct_host_notifications_enabled = True, ct_service_notifications_enabled = True,
     ct_downtimes = [], ct_notificationways = [admin_way],
     ct_host_notification_period = None, ct_service_notification_period = None, ct_modified_attributes = 0,
     ct_modified_host_attributes = 0, ct_modified_service_attributes = 0, ct_customs = []\<rparr>"

text \<open>The service is CRITICAL and its only contact is \<^verbatim>\<open>admin\<close>; notification 0 tells the problem.\<close>

definition notify_world :: world where
  "notify_world = (small_world (\<lambda>it. it\<lparr>state := CRITICAL, contacts := [0], notification_period := Some always\<rparr>) 2)
     \<lparr>contact_store := (\<lambda>_. admin),
      notifs := (\<lambda>_. new_notification PROBLEM None 1 None (Some 20) False 30 1 ''None'' ''fork'' False 10)\<rparr>"

theorem problem_notified_iff_witness:
  "(\<not> notification_is_blocked_by_item 10 notify_world 1 PROBLEM (Some 10)) =
     (notifies notify_world 1 10 \<and> undisturbed notify_world 1 \<and> state_type (items notify_world 1) = HARD \<and>
     (\<forall>l. state_letter (state (items notify_world 1)) = Some l \<longrightarrow> l \<in> set (notification_options (items notify_world 1))) \<and>
     \<not> (got_business_rule (items notify_world 1) \<and> business_rule_smart_notifications (items notify_world 1) \<and>
        business_rule_notification_is_blocked notify_world (items notify_world 1)))"
  by (rule problem_notified_iff)
     (simp add: own_state_def notify_world_def small_world_def new_service_def new_host_def)


theorem created_notification_witness:
  "let w' = create_notifications 10 PROBLEM None 1 notify_world; n = next_action_id notify_world in
     n_type (notifs w' n) = PROBLEM \<and> n_ref (notifs w' n) = 1 \<and> n_status (notifs w' n) = Scheduled \<and>
     n_notif_nb (notifs w' n) = next_number (items notify_world 1) PROBLEM \<and>
     actions (items w' 1) = actions (items notify_world 1) @ [ANotification n] \<and>
     ((None :: clock option) = None \<longrightarrow> (\<forall>p t. notification_period (items notify_world 1) = Some p \<and> n_t_to_go (notifs w' n) = Some t \<longrightarrow>
        p_is_time_valid p t)) \<and>
     (\<forall>m. m \<noteq> n \<longrightarrow> notifs w' m = notifs notify_world m) \<and> next_action_id w' = Suc n \<and> quiet notify_world w'"
proof (rule created_notification)
  show "\<not> dropped 10 notify_world 1 PROBLEM None"
    by (simp add: dropped_def notify_world_def small_world_def new_service_def new_host_def)
  show "\<And>p t r. notification_period (items notify_world 1) = Some p \<Longrightarrow> p_next_valid_time p t = Some r \<Longrightarrow> p_is_time_valid p r"
    by (auto simp: notify_world_def small_world_def always_def)
qed

theorem next_notification_bounds_witness:
  "\<exists>t. get_next_notification_time 25 notify_world 1 0 = Some t \<and>
     25 \<le> t \<and> t \<le> max 20 25 + notification_interval (items notify_world 1) * interval_length (cls notify_world 1)"
proof -
  have "get_next_notification_time 25 notify_world 1 0 = Some 3620" by code_simp
  then show ?thesis
    using next_notification_bounds[of 25 notify_world 1 0 3620 20]
    by (simp add: escalations_ok_def notify_world_def small_world_def new_service_def new_host_def cls_of_def
        default_class_def new_notification_def)
qed

end
