(* ===== verification/Scheduling.thy ===== *)
theory Scheduling
  imports Machine
begin

text \<open>
  When the next check of an item is scheduled, and how many checks it has in progress. The items see a time
  period through two methods; \<^verbatim>\<open>period_provider\<close> is the contract they rely on, and the weekly periods of
  \<^verbatim>\<open>Timeperiod\<close> meet it.
\<close>

subsection \<open>The contract of a time period\<close>

locale period_provider =
  fixes wf :: "'p \<Rightarrow> bool" and period :: "'p \<Rightarrow> period"
  assumes next_valid: "wf p \<Longrightarrow> 0 \<le> t \<Longrightarrow> p_next_valid_time (period p) t = Some r \<Longrightarrow>
      t \<le> r \<and> p_is_time_valid (period p) r"
    and none_earlier: "wf p \<Longrightarrow> 0 \<le> t \<Longrightarrow> p_next_valid_time (period p) t = Some r \<Longrightarrow> t \<le> s \<Longrightarrow> s < r \<Longrightarrow>
      \<not> p_is_time_valid (period p) s"
begin

lemma next_time_valid:
  assumes "wf p" and "0 \<le> x" and "next_time (Some (period p)) x = Some r"
  shows "py_int x \<le> r \<and> p_is_time_valid (period p) r"
proof -
  have "0 \<le> py_int x" using assms(2) by (simp add: py_int_def)
  then show ?thesis using next_valid[OF assms(1), of "py_int x" r] assms(3) by (simp add: next_time_def)
qed

lemma next_check_time:
  assumes wf: "wf p" and r: "get_next_check_time now u1 u2 k interval old (Some (period p)) None = Some (Some nc)"
    and pos: "0 \<le> now" "0 \<le> interval" "0 \<le> u1" "0 \<le> u2" "0 \<le> max_check_spread k * interval_length k"
    and old: "old = None \<or> 0 \<le> the old"
  shows "now \<le> nc \<and> (if old \<noteq> None \<and> now < the old then nc = the old else p_is_time_valid (period p) nc)"
proof -
  define spread where "spread = (of_int (max_check_spread k * interval_length k) :: rat)"
  define iv where "iv = (if old = Some 0 then min interval spread else interval)"
  define add where "add = (if old = Some 0 then min interval spread * u1 else interval)"
  define n0 where "n0 = (case old of None \<Rightarrow> now | Some n \<Rightarrow> if n = 0 then now else n)"
  define c where "c = (if n0 \<le> now then next_time (Some (period p)) (of_int n0 + add) else Some n0)"
  have pair: "(if old = Some 0 then (min interval spread, min interval spread * u1) else (interval, interval)) = (iv, add)"
    by (simp add: iv_def add_def)
  have sp: "0 \<le> spread" using pos(5) unfolding spread_def of_int_0_le_iff .
  have iv0: "0 \<le> iv" using pos sp by (simp add: iv_def)
  have add0: "0 \<le> add" using pos sp by (simp add: add_def)
  have n0: "0 \<le> n0" using pos(1) old by (auto simp: n0_def split: option.split)
  have r': "(case c of None \<Rightarrow> None | Some nc \<Rightarrow>
      if nc < now then Some (next_time (Some (period p)) (of_int now + min iv spread * u2)) else Some (Some nc)) = Some (Some nc)"
    using r unfolding get_next_check_time_def Let_def spread_def[symmetric] pair prod.case option.case(1)
      n0_def[symmetric] c_def[symmetric] .
  then obtain m where m: "c = Some m" by (cases c) auto
  show ?thesis
  proof (cases "m < now")
    case True
    then have f: "next_time (Some (period p)) (of_int now + min iv spread * u2) = Some nc" using r' m by simp
    have nn: "0 \<le> min iv spread * u2" using iv0 sp pos(4) by simp
    have "py_int (of_int now + min iv spread * u2) \<le> nc \<and> p_is_time_valid (period p) nc"
      by (rule next_time_valid[OF wf _ f]) (use nn pos(1) in simp)
    moreover have "now \<le> py_int (of_int now + min iv spread * u2)"
      using nn pos(1) by (simp add: py_int_def le_floor_iff)
    moreover have "\<not> (old \<noteq> None \<and> now < the old)"
      using True m pos(1) by (auto simp: c_def n0_def split: if_splits)
    ultimately show ?thesis by auto
  next
    case False
    then have nc: "nc = m" using r' m by simp
    show ?thesis
    proof (cases "n0 \<le> now")
      case True
      then have "next_time (Some (period p)) (of_int n0 + add) = Some m" using m by (simp add: c_def)
      from next_time_valid[OF wf _ this] have "p_is_time_valid (period p) m" using n0 add0 by simp
      moreover have "\<not> (old \<noteq> None \<and> now < the old)" using True pos(1) by (auto simp: n0_def split: if_splits)
      ultimately show ?thesis using nc False by auto
    next
      case future: False
      then have "m = n0" "old \<noteq> None" "the old = n0" using m by (auto simp: c_def n0_def split: option.splits if_splits)
      then show ?thesis using nc future by simp
    qed
  qed
qed

end

text \<open>The methods of a \<^verbatim>\<open>Timeperiod\<close> object, as an item calls them. A call that raises has no next time.
  The search for an invalid time walks in steps of a minute for 30 days and of an hour for the rest of
  a year, which the fuel covers.\<close>

definition next_invalid :: "int \<Rightarrow> timeperiod \<Rightarrow> clock \<Rightarrow> clock option" where
  "next_invalid tz tp t = Option.bind (get_next_invalid_time_from_t 60000 tz tp t) fst"

definition period_of :: "int \<Rightarrow> timeperiod \<Rightarrow> period" where
  "period_of tz tp = \<lparr>p_is_time_valid = (\<lambda>t. map_option fst (is_time_valid tz tp t) = Some True),
     p_next_valid_time = (\<lambda>t. Option.bind (get_next_valid_time_from_t 1 tz tp t) fst),
     p_next_invalid_time = next_invalid tz tp\<rparr>"

lemma period_of_weekly:
  assumes "plain_wf tp" and "cache_ok tz tp" and "0 \<le> t"
  shows "p_is_time_valid (period_of tz tp) s \<longleftrightarrow> plain_valid tz tp s"
    and "p_next_valid_time (period_of tz tp) t = Some r \<Longrightarrow> next_answer tz tp t (Some r)"
proof -
  show "p_is_time_valid (period_of tz tp) s \<longleftrightarrow> plain_valid tz tp s"
    by (simp add: period_of_def plain_is_time_valid[OF assms(1)])
  obtain x tp' where "get_next_valid_time_from_t (Suc 0) tz tp t = Some (x, tp')" "next_answer tz tp t x"
    using next_valid_answers[OF assms, of 0] by blast
  then show "next_answer tz tp t (Some r)" if "p_next_valid_time (period_of tz tp) t = Some r"
    using that by (simp add: period_of_def)
qed

interpretation weekly: period_provider "\<lambda>(tz, tp). plain_wf tp \<and> cache_ok tz tp" "\<lambda>(tz, tp). period_of tz tp"
proof (unfold_locales, goal_cases)
  case (1 p t r)
  then show ?case
    using period_of_weekly[of "snd p" "fst p" t r] period_of_weekly(2)[of "snd p" "fst p" t r]
    by (auto simp: case_prod_beta next_answer_def least_from_def)
next
  case (2 p t r s)
  then show ?case
    using period_of_weekly(1)[of "snd p" "fst p" t s] period_of_weekly(2)[of "snd p" "fst p" t r]
    by (auto simp: case_prod_beta next_answer_def least_from_def)
qed


subsection \<open>One check in progress\<close>

definition single :: "world \<Rightarrow> iid \<Rightarrow> check_variant \<Rightarrow> bool" where
  "single w i v \<longleftrightarrow> length (get_checks_in_progress w i v) \<le> 1"

definition known_checks :: "world \<Rightarrow> iid \<Rightarrow> bool" where
  "known_checks w i \<longleftrightarrow> (\<forall>c \<in> set (checks_in_progress (items w i)). c < next_action_id w)"

lemma in_progress_new_check:
  assumes "known_checks w i"
  shows "get_checks_in_progress (snd (launch_new_check t r v i w)) i v' =
      get_checks_in_progress w i v' @ (if v' = v then [next_action_id w] else [])"
    and "known_checks (snd (launch_new_check t r v i w)) i"
proof -
  let ?w' = "snd (launch_new_check t r v i w)"
  have p: "checks_in_progress (items ?w' i) = checks_in_progress (items w i) @ [next_action_id w]"
    by (simp add: launch_new_check_def Let_def case_prod_beta alloc_check_def add_action_def split: check_variant.split)
  have ck: "c_check_variant (checks ?w' (next_action_id w)) = v" "\<And>c. c < next_action_id w \<Longrightarrow> checks ?w' c = checks w c"
    "next_action_id ?w' = Suc (next_action_id w)"
    by (simp_all add: launch_new_check_def Let_def case_prod_beta alloc_check_def add_action_def new_check_def)
  have "filter (\<lambda>c. c_check_variant (checks ?w' c) = v') (checks_in_progress (items w i)) =
      filter (\<lambda>c. c_check_variant (checks w c) = v') (checks_in_progress (items w i))"
    using assms ck(2) by (intro filter_cong) (auto simp: known_checks_def)
  then show "get_checks_in_progress ?w' i v' = get_checks_in_progress w i v' @ (if v' = v then [next_action_id w] else [])"
    by (simp add: get_checks_in_progress_def p ck(1))
  show "known_checks ?w' i" using assms by (auto simp: known_checks_def p ck(3))
qed

lemma launch_check_single:
  assumes r: "launch_check fuel now t None force False v i w = Some (x, w')" and k: "known_checks w i"
    and f: "force \<or> \<not> is_in_checking w i v"
  shows "known_checks w' i \<and> (single w i v' \<longrightarrow> single w' i v')"
proof -
  have "w' = w \<or> w' = snd (launch_new_check t None v i w) \<and> \<not> is_in_checking w i v \<or>
      (\<exists>c. w' = upd_check c (\<lambda>ck. ck\<lparr>c_t_to_go := now\<rparr>) w)"
    using r f by (auto simp: launch_check_def Let_def case_prod_beta bind_eq_Some_conv split: if_splits)
  then show ?thesis
  proof (elim disjE conjE exE)
    assume "w' = snd (launch_new_check t None v i w)" "\<not> is_in_checking w i v"
    then show ?thesis using in_progress_new_check[OF k, of t None v] by (auto simp: single_def is_in_checking_def)
  next
    fix c assume "w' = upd_check c (\<lambda>ck. ck\<lparr>c_t_to_go := now\<rparr>) w"
    then have "get_checks_in_progress w' i v' = get_checks_in_progress w i v'" "known_checks w' i" for v'
      using k by (auto simp: get_checks_in_progress_def known_checks_def intro!: filter_cong)
    then show ?thesis by (simp add: single_def)
  qed (use k in simp)
qed

lemma in_progress_upd:
  assumes "\<And>it. checks_in_progress (f it) = checks_in_progress it"
  shows "get_checks_in_progress (upd i f w) i v = get_checks_in_progress w i v" "known_checks (upd i f w) i = known_checks w i"
    "is_in_checking (upd i f w) i v = is_in_checking w i v" "single (upd i f w) i v = single w i v"
  using assms by (simp_all add: get_checks_in_progress_def known_checks_def is_in_checking_def single_def)

lemma schedule_state_check_single:
  assumes r: "schedule_state_check fuel now u1 u2 force force_time i w = Some w'" and k: "known_checks w i"
    and f: "force \<or> \<not> forced force force_time"
  shows "known_checks w' i \<and> (single w i v \<longrightarrow> single w' i v)"
proof (cases "w' = w")
  case True
  then show ?thesis using k by simp
next
  case False
  let ?g = "\<lambda>it :: item. it\<lparr>check_interval := 300 / of_int (interval_length (cls w i))\<rparr>"
  define interval where "interval = (if state_type (items w i) = HARD \<or> retry_interval (items w i) = 0 then check_interval (items w i)
                      else retry_interval (items w i)) * of_int (interval_length (cls w i))"
  define v0 where "v0 = (if interval = 0 \<and> \<not> force then upd i ?g w else w)"
  have ic: "force \<or> \<not> is_in_checking w i State_variant"
    using r f False by (auto simp: schedule_state_check_def Let_def split: if_splits)
  obtain nc where nc: "(case nc of None \<Rightarrow> Some (upd i (\<lambda>it. it\<lparr>next_chk := nc\<rparr>) v0)
      | Some t \<Rightarrow> map_option snd (launch_check fuel now t None force False State_variant i
          (upd i (\<lambda>it. it\<lparr>next_chk := nc\<rparr>) v0))) = Some w'"
    using r False unfolding schedule_state_check_def Let_def interval_def[symmetric] v0_def[symmetric]
    by (auto simp only: bind_eq_Some_conv option.inject option.distinct split: if_split_asm)
  let ?u = "upd i (\<lambda>it. it\<lparr>next_chk := nc\<rparr>) v0"
  have "known_checks ?u i = known_checks w i" "single ?u i v = single w i v"
    "is_in_checking ?u i State_variant = is_in_checking w i State_variant"
    by (simp_all add: in_progress_upd v0_def)
  moreover have "(\<exists>t x. launch_check fuel now t None force False State_variant i ?u = Some (x, w')) \<or> w' = ?u"
    using nc by (cases nc) auto
  ultimately show ?thesis using launch_check_single[where v' = v, of _ _ _ _ _ i ?u _ w'] k ic by blast
qed

lemma schedule_standard_check_single:
  assumes r: "schedule_standard_check fuel now u1 u2 force force_time i w = Some w'" and k: "known_checks w i"
    and f: "force \<or> \<not> forced force force_time"
  shows "known_checks w' i \<and> (single w i v \<longrightarrow> single w' i v)"
proof (cases "w' = w")
  case True
  then show ?thesis using k by simp
next
  case False
  have ic: "force \<or> \<not> is_in_checking w i Maintenance_variant"
    using r f False by (auto simp: schedule_standard_check_def Let_def split: if_splits)
  obtain nc where nc: "(case nc of None \<Rightarrow> Some (upd i (\<lambda>it. it\<lparr>next_maintenance_chk := nc\<rparr>) w)
        | Some t \<Rightarrow> map_option snd (launch_check fuel now t None force False Maintenance_variant i
            (upd i (\<lambda>it. it\<lparr>next_maintenance_chk := nc\<rparr>) w))) = Some w'"
    using r False unfolding schedule_standard_check_def Let_def
    by (auto simp only: bind_eq_Some_conv option.inject option.distinct split: if_split_asm)
  let ?u = "upd i (\<lambda>it. it\<lparr>next_maintenance_chk := nc\<rparr>) w"
  have "known_checks ?u i = known_checks w i" "single ?u i v = single w i v"
    "is_in_checking ?u i Maintenance_variant = is_in_checking w i Maintenance_variant"
    by (simp_all add: in_progress_upd)
  moreover have "(\<exists>t x. launch_check fuel now t None force False Maintenance_variant i ?u = Some (x, w')) \<or> w' = ?u"
    using nc by (cases nc) auto
  ultimately show ?thesis using launch_check_single[where v' = v, of _ _ _ _ _ i ?u _ w'] k ic by blast
qed


subsection \<open>Examples\<close>

definition mondays :: timeperiod where
  "mondays = on_days [''monday''] []"


definition idle :: "item \<Rightarrow> item" where
  "idle it = it\<lparr>check_interval := 5\<rparr>"

lemma idle_world: "checks_in_progress (items (small_world idle 0) 1) = []"
  by (simp add: small_world_def idle_def new_service_def new_host_def)


text \<open>With a date imposed but not forced, as the command \<^verbatim>\<open>SCHEDULE_SVC_CHECK\<close> does, an item that already
  has a check in progress gets a second one.\<close>

theorem imposed_date_doubles:
  "map_option (\<lambda>w. checks_in_progress (items w 1))
     (Option.bind (schedule 1 10 (\<lambda>_. 0) False None 1 (small_world idle 0))
       (schedule 1 10 (\<lambda>_. 0) False (Some 20) 1)) = Some [1, 2]"
  by code_simp

end
