(* ===== verification/Flapping.thy ===== *)
theory Flapping
  imports Machine
begin

text \<open>
  Flapping detection: the window of state changes, the weighted percentage, and the two thresholds
  (\<^verbatim>\<open>SchedulingItem.add_flapping_change\<close> and \<^verbatim>\<open>update_flapping\<close>).
\<close>

subsection \<open>The window\<close>

lemma push_change_window:
  "length cs \<le> h \<Longrightarrow> push_change h b cs = drop (length (cs @ [b]) - h) (cs @ [b])"
  by (cases cs) (auto simp: push_change_def Let_def drop_Cons')

text \<open>Pushing changes one by one keeps the last \<^verbatim>\<open>flap_history\<close> of them, oldest first.\<close>

theorem flap_window:
  "fold (push_change h) bs [] = drop (length bs - h) bs"
proof (induction bs rule: rev_induct)
  case (snoc b bs)
  let ?d = "drop (length bs - h) bs"
  have "fold (push_change h) (bs @ [b]) [] = push_change h b ?d" using snoc.IH by simp
  also have "\<dots> = drop (length (?d @ [b]) - h) (?d @ [b])" by (rule push_change_window) simp
  also have "\<dots> = drop (length (bs @ [b]) - h) (bs @ [b])"
  proof -
    have "?d @ [b] = drop (length bs - h) (bs @ [b])" by simp
    moreover have "length (?d @ [b]) - h + (length bs - h) = length (bs @ [b]) - h" by simp
    ultimately show ?thesis by (simp only: drop_drop)
  qed
  finally show ?case .
qed simp

subsection \<open>The percentage\<close>

lemma flap_sum_nonneg: "0 \<le> flap_sum h k bs"
  by (induction bs arbitrary: k) (simp_all add: divide_nonneg_nonneg)

lemma flap_sum_le: "flap_sum h k bs \<le> flap_sum h k (replicate (length bs) True)"
proof (induction bs arbitrary: k)
  case (Cons b bs)
  then show ?case using Cons.IH[of "Suc k"] by (cases b) (simp_all add: add_increasing divide_nonneg_nonneg)
qed simp

lemma flap_sum_all:
  assumes "0 < h"
  shows "flap_sum h k (replicate n True) = of_nat n * (4/5) + (2/5) * (of_nat n * of_nat k + of_nat (n * (n + 1)) / 2) / of_nat h"
proof (induction n arbitrary: k)
  case (Suc n)
  show ?case unfolding replicate_Suc flap_sum.simps Suc.IH using assms by (simp add: field_simps)
qed simp

lemma flap_sum_mono: "n \<le> m \<Longrightarrow> flap_sum h k (replicate n True) \<le> flap_sum h k (replicate m True)"
proof (induction n arbitrary: k m)
  case 0
  then show ?case by (simp add: flap_sum_nonneg)
next
  case (Suc n)
  then obtain m' where "m = Suc m'" "n \<le> m'" by (cases m) auto
  then show ?case using Suc.IH[of m' "Suc k"] by simp
qed

text \<open>The weights are meant to give a percentage; with a full window of changes they give
  \<^verbatim>\<open>100 + 20 / flap_history\<close>, that is 101 for the default history of 20, and this is the largest value.\<close>

theorem flap_percent_bounds:
  assumes "0 < h" and "length bs \<le> h"
  shows "0 \<le> flap_ratio h bs \<and> flap_ratio h bs \<le> 100 + 20 / of_nat h \<and>
    flap_ratio h (replicate h True) = 100 + 20 / of_nat h"
proof -
  have all: "flap_ratio h (replicate h True) = 100 + 20 / of_nat h"
    using assms(1) by (simp add: flap_ratio_def flap_sum_all field_simps)
  have "flap_sum h 0 bs \<le> flap_sum h 0 (replicate h True)"
    using flap_sum_le[of h 0 bs] flap_sum_mono[OF assms(2), of h 0] by simp
  then have "flap_ratio h bs \<le> flap_ratio h (replicate h True)"
    using assms(1) by (simp add: flap_ratio_def divide_right_mono)
  moreover have "0 \<le> flap_ratio h bs" by (simp add: flap_ratio_def flap_sum_nonneg divide_nonneg_nonneg)
  ultimately show ?thesis using all by simp
qed

theorem flap_percent_bounds_witness:
  "0 \<le> flap_ratio 20 [True, False] \<and> flap_ratio 20 [True, False] \<le> 100 + 20 / of_nat 20 \<and>
    flap_ratio 20 (replicate 20 True) = 100 + 20 / of_nat 20"
  by (rule flap_percent_bounds) simp_all

subsection \<open>Starting and stopping\<close>

text \<open>C13: flapping starts when the percentage reaches the high threshold and stops when it falls below
  the low one; between the two, and as long as the window is not full, the flag stays as it is.\<close>

theorem flapping_hysteresis:
  assumes "low_threshold (cls w i) (items w i) \<le> high_threshold (cls w i) (items w i)"
  shows "let r = flap_ratio (flap_history (cls w i)) (flapping_changes (items w i));
             it' = items (update_flapping now i w) i
         in percent_state_change it' = r \<and>
            is_flapping it' = (if length (flapping_changes (items w i)) < flap_history (cls w i) then is_flapping (items w i)
              else if is_flapping (items w i) then low_threshold (cls w i) (items w i) \<le> r
              else high_threshold (cls w i) (items w i) \<le> r)"
  using assms by (auto simp: update_flapping_def Let_def not_le not_less)

theorem flapping_hysteresis_witness:
  "let w = small_world id 0; r = flap_ratio (flap_history (cls w 1)) (flapping_changes (items w 1));
             it' = items (update_flapping 10 1 w) 1
         in percent_state_change it' = r \<and>
            is_flapping it' = (if length (flapping_changes (items w 1)) < flap_history (cls w 1) then is_flapping (items w 1)
              else if is_flapping (items w 1) then low_threshold (cls w 1) (items w 1) \<le> r
              else high_threshold (cls w 1) (items w 1) \<le> r)"
proof -
  have "low_threshold (cls (small_world id 0) 1) (items (small_world id 0) 1)
      \<le> high_threshold (cls (small_world id 0) 1) (items (small_world id 0) 1)"
    by (simp add: low_threshold_def high_threshold_def small_world_def new_service_def new_host_def cls_of_def default_class_def)
  from flapping_hysteresis[OF this, of 10] show ?thesis unfolding Let_def .
qed

end
