(* ===== verification/DowntimeRules.thy ===== *)
theory DowntimeRules
  imports Machine
begin

text \<open>
  The downtime depth of an item counts its downtimes that are in effect. The steps are the bodies of
  \<^verbatim>\<open>Downtime.enter\<close>, \<^verbatim>\<open>exit\<close> and \<^verbatim>\<open>cancel\<close> (\<^verbatim>\<open>shinken/downtime.py\<close>) and the creation of a downtime; entering
  and cancelling a downtime also enters or cancels the downtimes it triggers, one after the other.
\<close>

subsection \<open>The depth\<close>

definition effective :: "world \<Rightarrow> iid \<Rightarrow> nat set" where
  "effective w i = {d. d < next_downtime w \<and> dt_is_in_effect (downtime_store w d) \<and> dt_ref (downtime_store w d) = i}"

definition depth_ok :: "world \<Rightarrow> bool" where
  "depth_ok w \<longleftrightarrow> (\<forall>i. scheduled_downtime_depth (items w i) = int (card (effective w i)) \<and>
     in_scheduled_downtime (items w i) = (effective w i \<noteq> {}))"

lemma finite_effective [simp]: "finite (effective w i)"
  by (simp add: effective_def)

inductive downtime_step :: "world \<Rightarrow> world \<Rightarrow> bool" where
  planned: "downtime_step w (add_downtime d i (snd (new_downtime now ident i s e fx trig dur a note_text w)))"
| started: "d < next_downtime w \<Longrightarrow> \<not> dt_is_in_effect (downtime_store w d) \<Longrightarrow> downtime_step w (enter_one now d w)"
| ended: "d < next_downtime w \<Longrightarrow> downtime_step w (dt_exit now d w)"
| cancelled: "d < next_downtime w \<Longrightarrow> dt_is_in_effect (downtime_store w d) \<Longrightarrow> downtime_step w (cancel_one now d w)"

lemma next_downtime_frames [simp]:
  "next_downtime (upd_comment c f w) = next_downtime w"
  "next_downtime (add_comment c i w) = next_downtime w"
  "next_downtime (del_automatic_comment d w) = next_downtime w"
  "downtime_store (del_automatic_comment d w) = downtime_store w"
  "items (del_automatic_comment d w) = items w"
  by (simp_all add: upd_comment_def add_comment_def del_automatic_comment_def split: option.split)

lemma log_downtimes [simp]:
  "next_downtime (raise_enter_downtime_log_entry i w) = next_downtime w"
  "next_downtime (raise_exit_downtime_log_entry i w) = next_downtime w"
  "next_downtime (raise_cancel_downtime_log_entry i w) = next_downtime w"
  using log_only_entries(9-11)[of w i] by (auto simp: log_only_def)

lemma enter_one_downtimes:
  "next_downtime (enter_one now d w) = next_downtime w"
  "dt_is_in_effect (downtime_store (enter_one now d w) x) = (x = d \<or> dt_is_in_effect (downtime_store w x))"
  "dt_ref (downtime_store (enter_one now d w) x) = dt_ref (downtime_store w x)"
  by (auto simp: enter_one_def Let_def upd_downtime_def)

lemma enter_one_depth:
  "scheduled_downtime_depth (items (enter_one now d w) i) =
     scheduled_downtime_depth (items w i) + (if i = dt_ref (downtime_store w d) then 1 else 0)"
  "in_scheduled_downtime (items (enter_one now d w) i) =
     (i = dt_ref (downtime_store w d) \<or> in_scheduled_downtime (items w i))"
  by (auto simp: enter_one_def Let_def)

lemma enter_one_effective:
  assumes "d < next_downtime w"
  shows "effective (enter_one now d w) i = effective w i \<union> (if i = dt_ref (downtime_store w d) then {d} else {})"
  using assms by (auto simp: effective_def enter_one_downtimes)

lemma exit_downtimes:
  "next_downtime (dt_exit now d w) = next_downtime w"
  "dt_is_in_effect (downtime_store (dt_exit now d w) x) = (x \<noteq> d \<and> dt_is_in_effect (downtime_store w x))"
  "dt_ref (downtime_store (dt_exit now d w) x) = dt_ref (downtime_store w x)"
  by (auto simp: dt_exit_def Let_def upd_downtime_def)

lemma exit_depth:
  "scheduled_downtime_depth (items (dt_exit now d w) i) =
     scheduled_downtime_depth (items w i) -
       (if i = dt_ref (downtime_store w d) \<and> dt_is_in_effect (downtime_store w d) then 1 else 0)"
  "in_scheduled_downtime (items (dt_exit now d w) i) =
     (in_scheduled_downtime (items w i) \<and> \<not> (i = dt_ref (downtime_store w d) \<and> dt_is_in_effect (downtime_store w d) \<and>
        scheduled_downtime_depth (items w i) \<le> 1))"
  by (auto simp: dt_exit_def Let_def)

lemma exit_effective: "effective (dt_exit now d w) i = effective w i - {d}"
  by (auto simp: effective_def exit_downtimes)

lemma cancel_downtimes:
  "next_downtime (cancel_one now d w) = next_downtime w"
  "dt_is_in_effect (downtime_store (cancel_one now d w) x) = (x \<noteq> d \<and> dt_is_in_effect (downtime_store w x))"
  "dt_ref (downtime_store (cancel_one now d w) x) = dt_ref (downtime_store w x)"
  by (auto simp: cancel_one_def Let_def upd_downtime_def)

lemma cancel_depth:
  "scheduled_downtime_depth (items (cancel_one now d w) i) =
     scheduled_downtime_depth (items w i) - (if i = dt_ref (downtime_store w d) then 1 else 0)"
  "in_scheduled_downtime (items (cancel_one now d w) i) =
     (in_scheduled_downtime (items w i) \<and> \<not> (i = dt_ref (downtime_store w d) \<and> scheduled_downtime_depth (items w i) = 1))"
  by (auto simp: cancel_one_def Let_def)

lemma cancel_effective: "effective (cancel_one now d w) i = effective w i - {d}"
  by (auto simp: effective_def cancel_downtimes)

lemma planned_effective:
  "effective (add_downtime d i (snd (new_downtime now ident r s e fx trig dur a note_text w))) j = effective w j"
  "scheduled_downtime_depth (items (add_downtime d i (snd (new_downtime now ident r s e fx trig dur a note_text w))) j) =
     scheduled_downtime_depth (items w j)"
  "in_scheduled_downtime (items (add_downtime d i (snd (new_downtime now ident r s e fx trig dur a note_text w))) j) =
     in_scheduled_downtime (items w j)"
  by (auto simp: effective_def add_downtime_def new_downtime_def add_automatic_comment_def new_comment_def
      upd_downtime_def add_comment_def Let_def less_Suc_eq)

lemma card_without:
  assumes "finite A" and "d \<in> A"
  shows "card A = Suc (card (A - {d}))" and "A - {d} \<noteq> {} \<longleftrightarrow> card (A - {d}) \<noteq> 0"
  using assms by (simp_all only: card_Suc_Diff1 card_eq_0_iff finite_Diff) simp_all

lemma downtime_step_depth_ok:
  assumes "downtime_step w w'" and ok: "depth_ok w"
  shows "depth_ok w'"
  using assms(1)
proof cases
  case (planned d i now ident s e fx trig dur a note_text)
  then show ?thesis using ok by (simp add: depth_ok_def planned_effective)
next
  case (started d now)
  have "d \<notin> effective w i" for i using started by (simp add: effective_def)
  then show ?thesis using ok started by (simp add: depth_ok_def enter_one_depth enter_one_effective)
next
  case (ended d now)
  have mem: "d \<in> effective w i \<longleftrightarrow> i = dt_ref (downtime_store w d) \<and> dt_is_in_effect (downtime_store w d)" for i
    using ended by (auto simp: effective_def)
  show ?thesis
    unfolding depth_ok_def ended
  proof (intro allI)
    fix i
    have c: "scheduled_downtime_depth (items w i) = int (card (effective w i))"
      "in_scheduled_downtime (items w i) = (effective w i \<noteq> {})" using ok by (simp_all add: depth_ok_def)
    show "scheduled_downtime_depth (items (dt_exit now d w) i) = int (card (effective (dt_exit now d w) i)) \<and>
      in_scheduled_downtime (items (dt_exit now d w) i) = (effective (dt_exit now d w) i \<noteq> {})"
    proof (cases "d \<in> effective w i")
      case True
      from card_without[OF finite_effective True] show ?thesis using True mem[of i] c by (auto simp: exit_depth exit_effective)
    next
      case False
      then show ?thesis using mem[of i] c by (auto simp: exit_depth exit_effective)
    qed
  qed
next
  case (cancelled d now)
  have mem: "d \<in> effective w i \<longleftrightarrow> i = dt_ref (downtime_store w d)" for i
    using cancelled by (auto simp: effective_def)
  show ?thesis
    unfolding depth_ok_def cancelled
  proof (intro allI)
    fix i
    have c: "scheduled_downtime_depth (items w i) = int (card (effective w i))"
      "in_scheduled_downtime (items w i) = (effective w i \<noteq> {})" using ok by (simp_all add: depth_ok_def)
    show "scheduled_downtime_depth (items (cancel_one now d w) i) = int (card (effective (cancel_one now d w) i)) \<and>
      in_scheduled_downtime (items (cancel_one now d w) i) = (effective (cancel_one now d w) i \<noteq> {})"
    proof (cases "d \<in> effective w i")
      case True
      from card_without[OF finite_effective True] show ?thesis using True mem[of i] c by (auto simp: cancel_depth cancel_effective)
    next
      case False
      then show ?thesis using mem[of i] c by (auto simp: cancel_depth cancel_effective)
    qed
  qed
qed


text \<open>The three bodies are what the recursive methods execute.\<close>

lemma dt_enter_enters:
  "dt_enter fuel now d w = Some w' \<Longrightarrow> \<exists>ds. w' = fold (enter_one now) (d # ds) w"
  "dt_enter_all fuel now xs w = Some w' \<Longrightarrow> \<exists>ds. w' = fold (enter_one now) ds w"
proof (induction fuel now d w and fuel now xs w arbitrary: w' and w' rule: dt_enter_dt_enter_all.induct)
  case (2 fuel now d w)
  then show ?case by (auto simp: Let_def)
next
  case (3 fuel now w)
  then show ?case by (intro exI[of _ "[]"]) simp
next
  case (4 fuel now d ds w)
  then obtain v where v: "dt_enter fuel now d w = Some v" "dt_enter_all fuel now ds v = Some w'"
    by (auto simp: bind_eq_Some_conv)
  obtain xs where "v = fold (enter_one now) (d # xs) w" using "4.IH"(1)[OF v(1)] by blast
  moreover obtain ys where "w' = fold (enter_one now) ys v" using "4.IH"(2)[OF v] by blast
  ultimately show ?case by (intro exI[of _ "d # xs @ ys"]) simp
qed simp

subsection \<open>Examples\<close>

definition pending_world :: world where
  "pending_world = (small_world id 0)\<lparr>downtime_store := (\<lambda>_. \<lparr>dt_id = 7, dt_ref = 1, dt_activate_me = [], dt_entry_time = 0,
     dt_fixed = True, dt_start_time = 100, dt_duration = 50, dt_trigger_id = 0, dt_end_time = 150,
     dt_real_end_time = 150, dt_author = [], dt_comment = [], dt_is_in_effect = False,
     dt_has_been_triggered = False, dt_can_be_deleted = False, dt_extra_comment = None\<rparr>)\<rparr>"


text \<open>Cancelling a downtime before it starts drives the depth of the item below zero, and a notification
  of the cancelled downtime is created although it never began.\<close>

theorem cancel_pending_negative:
  "map_option (\<lambda>w. (scheduled_downtime_depth (items w 1), notifications_in_progress (items w 1)))
     (dt_cancel 1 50 0 pending_world) = Some (- 1, [1])"
  by code_simp

subsection \<open>Acknowledgements\<close>

definition ack_note :: "nat \<Rightarrow> comment" where
  "ack_note k = \<lparr>co_id = k, co_ref = 1, co_entry_time = 0, co_persistent = False, co_author = [], co_comment = [],
     co_comment_type = 2, co_entry_type = 4, co_source = 0, co_expires = False, co_expire_time = 0,
     co_can_be_deleted = False\<rparr>"

text \<open>Removing the acknowledgement comments of an item skips every second one when they follow each
  other, because the loop deletes from the list it walks over.\<close>

theorem unacknowledge_skips:
  "comments (items (unacknowledge_problem 1
     ((small_world (\<lambda>it. it\<lparr>problem_has_been_acknowledged := True, comments := [1, 2, 3]\<rparr>) 0)\<lparr>comment_store := ack_note\<rparr>)) 1) = [2]"
  by code_simp

end
