(* ===== verification/Scheduler.thy ===== *)
theory Scheduler
  imports Consume "HOL-Library.AList"
begin

text \<open>
  The scheduler of \<^verbatim>\<open>shinken/scheduler.py\<close>: the queues it keeps beside the object store and the functions
  that its loop calls on every tick.

  A dictionary from identifiers to objects is the list of its keys in insertion order; checks,
  notifications and event handlers draw their identifiers from one counter and are addressed by them,
  a downtime has an identifier of its own and an address. The broks are told apart by what they
  report. Logging and the statistics server are left out. A function returns \<^verbatim>\<open>None\<close> where the code
  raises: a missing key, an attribute of \<^verbatim>\<open>None\<close>, a comparison with \<^verbatim>\<open>None\<close>.
\<close>

subsection \<open>Broks and queues\<close>

datatype brok =
    Item_brok iid
  | Update_status_brok iid
  | Contact_status_brok ctid
  | Next_schedule_brok iid
  | Notification_raise_brok nid
  | Snapshot_brok iid string int
  | Program_status_brok
  | Schedule_downtime_brok iid clock clock bool int int string string
  | Unknown_result_brok int string "string option" string string "string option"

text \<open>What a satellite hands back: the action's identifier and the executed copy.\<close>

datatype action_result =
    Check_result cid check
  | Notification_result nid status int rat clock
  | Event_handler_result nat status bool event_handler
  | Other_result

record sched =
  s_world :: world
  s_hosts :: "iid list"
  s_services :: "iid list"
  s_contacts :: "ctid list"
  s_checks :: "cid list"
  s_actions :: "action_ref list"
  s_downtimes :: "(int \<times> nat) list"
  s_contact_downtimes :: "nat list"
  s_comments :: "nat list"
  s_broks :: "brok list"
  s_brokers :: "(string \<times> brok list) list"
  s_waiting_results :: "action_result list"
  s_must_run :: bool
  s_cleaning_queues_interval :: int
  s_timeout_exit_status :: int

definition on_world :: "(world \<Rightarrow> world) \<Rightarrow> sched \<Rightarrow> sched" where
  "on_world f s = s\<lparr>s_world := f (s_world s)\<rparr>"

definition on_world_opt :: "(world \<Rightarrow> world option) \<Rightarrow> sched \<Rightarrow> sched option" where
  "on_world_opt f s = map_option (\<lambda>w. s\<lparr>s_world := w\<rparr>) (f (s_world s))"

text \<open>A loop whose body may raise.\<close>

fun fold_opt :: "('a \<Rightarrow> 's \<Rightarrow> 's option) \<Rightarrow> 'a list \<Rightarrow> 's \<Rightarrow> 's option" where
  "fold_opt f [] s = Some s"
| "fold_opt f (x # xs) s = do { s \<leftarrow> f x s; fold_opt f xs s }"

text \<open>\<^verbatim>\<open>list.remove\<close> raises when the element is missing.\<close>

definition py_remove :: "'a \<Rightarrow> 'a list \<Rightarrow> 'a list option" where
  "py_remove x xs = (if x \<in> set xs then Some (remove1 x xs) else None)"

definition reset :: "sched \<Rightarrow> sched" where
  "reset s = s\<lparr>s_must_run := True, s_waiting_results := [], s_checks := [], s_actions := [],
     s_downtimes := [], s_contact_downtimes := [], s_comments := [], s_brokers := [], s_broks := []\<rparr>"

definition iter_hosts_and_services :: "sched \<Rightarrow> iid list" where
  "iter_hosts_and_services s = s_hosts s @ s_services s"

subsection \<open>Adding to the queues\<close>

definition add_Brok :: "brok \<Rightarrow> sched \<Rightarrow> sched" where
  "add_Brok b s =
     (if s_brokers s \<noteq> [] then s\<lparr>s_brokers := map (\<lambda>(name, bs). (name, bs @ [b])) (s_brokers s)\<rparr>
      else s\<lparr>s_broks := s_broks s @ [b]\<rparr>)"

definition add_Notification :: "nid \<Rightarrow> sched \<Rightarrow> sched" where
  "add_Notification n s =
     (let s = s\<lparr>s_actions := set_add (ANotification n) (s_actions s)\<rparr>
      in if n_contact (notifs (s_world s) n) \<noteq> None then add_Brok (Notification_raise_brok n) s else s)"

definition add_Check :: "cid \<Rightarrow> sched \<Rightarrow> sched" where
  "add_Check c s =
     add_Brok (Next_schedule_brok (c_ref (checks (s_world s) c))) (s\<lparr>s_checks := set_add c (s_checks s)\<rparr>)"

definition add_EventHandler :: "nat \<Rightarrow> sched \<Rightarrow> sched" where
  "add_EventHandler e s = s\<lparr>s_actions := set_add (AEventHandler e) (s_actions s)\<rparr>"

definition add_Comment :: "nat \<Rightarrow> sched \<Rightarrow> sched" where
  "add_Comment c s =
     add_Brok (Update_status_brok (co_ref (comment_store (s_world s) c)))
       (s\<lparr>s_comments := set_add c (s_comments s)\<rparr>)"

definition add_Downtime :: "nat \<Rightarrow> sched \<Rightarrow> sched" where
  "add_Downtime d s =
     (let s = s\<lparr>s_downtimes := AList.update (dt_id (downtime_store (s_world s) d)) d (s_downtimes s)\<rparr>
      in case dt_extra_comment (downtime_store (s_world s) d) of Some c \<Rightarrow> add_Comment c s | None \<Rightarrow> s)"

definition add_ContactDowntime :: "nat \<Rightarrow> sched \<Rightarrow> sched" where
  "add_ContactDowntime d s = s\<lparr>s_contact_downtimes := set_add d (s_contact_downtimes s)\<rparr>"

text \<open>\<^verbatim>\<open>add\<close> on an element of an item's \<^verbatim>\<open>actions\<close>: an object of no known class is dropped.\<close>

definition sched_add :: "action_ref \<Rightarrow> sched \<Rightarrow> sched" where
  "sched_add a s =
     (case a of ACheck c \<Rightarrow> add_Check c s | ANotification n \<Rightarrow> add_Notification n s
      | AEventHandler e \<Rightarrow> add_EventHandler e s | AResultList \<Rightarrow> s)"

definition get_and_register_status_brok :: "iid \<Rightarrow> sched \<Rightarrow> sched" where
  "get_and_register_status_brok i = add_Brok (Update_status_brok i)"

definition get_and_register_update_program_status_brok :: "sched \<Rightarrow> sched" where
  "get_and_register_update_program_status_brok = add_Brok Program_status_brok"

subsection \<open>Removing from the queues\<close>

definition remove_dep_link :: "cid \<Rightarrow> cid \<Rightarrow> world \<Rightarrow> world option" where
  "remove_dep_link c d w =
     map_option (\<lambda>ds. upd_check d (\<lambda>ck. ck\<lparr>c_depend_on := ds\<rparr>) w) (py_remove c (c_depend_on (checks w d)))"

text \<open>\<^verbatim>\<open>depend_on\<close> holds identifiers, which have no attribute \<^verbatim>\<open>depen_on_me\<close>.\<close>

definition drop_check :: "cid \<Rightarrow> sched \<Rightarrow> sched option" where
  "drop_check c s = do {
     let ck = checks (s_world s) c;
     let w = remove_in_progress_check c (c_ref ck) (s_world s);
     w \<leftarrow> fold_opt (remove_dep_link c) (c_depend_on_me ck) w;
     if c_depend_on (checks w c) \<noteq> [] then None
     else Some (s\<lparr>s_world := w, s_checks := removeAll c (s_checks s)\<rparr>)
   }"

fun action_id :: "action_ref \<Rightarrow> nat" where
  "action_id (ACheck c) = c" | "action_id (ANotification n) = n"
| "action_id (AEventHandler e) = e" | "action_id AResultList = 0"

definition drop_action :: "action_ref \<Rightarrow> sched \<Rightarrow> sched" where
  "drop_action a s =
     (let s = (case a of ANotification n \<Rightarrow>
                  on_world (\<lambda>w. remove_in_progress_notification n (n_ref (notifs w n)) w) s
               | _ \<Rightarrow> s)
      in s\<lparr>s_actions := removeAll a (s_actions s)\<rparr>)"

definition clean_queues :: "sched \<Rightarrow> sched option" where
  "clean_queues s =
     (if s_cleaning_queues_interval s = 0 then Some s
      else do {
        let elts = length (s_hosts s) + length (s_services s);
        let max_checks = 5 * elts; let max_broks = 5 * elts;
        let max_actions = 5 * length (s_contacts s) * elts;
        s \<leftarrow> (if length (s_checks s) > max_checks
              then fold_opt drop_check
                     (filter (\<lambda>c. c + max_checks < Max (set (s_checks s))) (s_checks s)) s
              else Some s);
        let s = s\<lparr>s_broks := take max_broks (s_broks s),
                  s_brokers := map (\<lambda>(name, bs). (name, take max_broks bs)) (s_brokers s)\<rparr>;
        Some (if length (s_actions s) > max_actions
              then fold drop_action
                     (filter (\<lambda>a. action_id a + max_actions < Max (action_id ` set (s_actions s))) (s_actions s)) s
              else s)
      })"

definition sched_del_downtime :: "int \<Rightarrow> sched \<Rightarrow> sched" where
  "sched_del_downtime ident s =
     (case map_of (s_downtimes s) ident of
        None \<Rightarrow> s
      | Some d \<Rightarrow> (on_world (\<lambda>w. del_downtime ident (dt_ref (downtime_store w d)) w) s)
          \<lparr>s_downtimes := AList.delete ident (s_downtimes s)\<rparr>)"

text \<open>\<^verbatim>\<open>Item.del_downtime\<close> on a contact, whose downtimes are addressed by their identifiers.\<close>

definition contact_del_downtime :: "nat \<Rightarrow> ctid \<Rightarrow> world \<Rightarrow> world" where
  "contact_del_downtime d ct w =
     (if d \<in> set (ct_downtimes (contact_store w ct))
      then (upd_contact_downtime d (\<lambda>dt. dt\<lparr>cdt_can_be_deleted := True\<rparr>) w)
        \<lparr>contact_store := (contact_store w)(ct := (contact_store w ct)
           \<lparr>ct_downtimes := remove1 d (ct_downtimes (contact_store w ct))\<rparr>)\<rparr>
      else w)"

definition del_contact_downtime :: "nat \<Rightarrow> sched \<Rightarrow> sched" where
  "del_contact_downtime d s =
     (if d \<in> set (s_contact_downtimes s)
      then (on_world (\<lambda>w. contact_del_downtime d (cdt_ref (contact_downtime_store w d)) w) s)
        \<lparr>s_contact_downtimes := removeAll d (s_contact_downtimes s)\<rparr>
      else s)"

definition sched_del_comment :: "nat \<Rightarrow> sched \<Rightarrow> sched" where
  "sched_del_comment c s =
     (if c \<in> set (s_comments s)
      then (on_world (\<lambda>w. del_comment c (co_ref (comment_store w c)) w) s)
        \<lparr>s_comments := removeAll c (s_comments s)\<rparr>
      else s)"

subsection \<open>Acknowledgements and business impacts\<close>

definition sched_check_for_expire_acknowledge :: "clock \<Rightarrow> sched \<Rightarrow> sched" where
  "sched_check_for_expire_acknowledge now s =
     on_world (fold (check_for_expire_acknowledge now) (iter_hosts_and_services s)) s"

definition update_business_value :: "clock \<Rightarrow> bool \<Rightarrow> iid \<Rightarrow> sched \<Rightarrow> sched" where
  "update_business_value now problems i s =
     (if is_problem (items (s_world s) i) = problems
      then let was = business_impact (items (s_world s) i);
               s = on_world (update_business_impact_value now i) s
           in if business_impact (items (s_world s) i) \<noteq> was then get_and_register_status_brok i s else s
      else s)"

definition update_business_values :: "clock \<Rightarrow> sched \<Rightarrow> sched" where
  "update_business_values now s =
     (let elts = iter_hosts_and_services s
      in fold (update_business_value now True) elts (fold (update_business_value now False) elts s))"

subsection \<open>Notifications waiting to be sent\<close>

definition zombie_notification :: "nid \<Rightarrow> iid \<Rightarrow> world \<Rightarrow> world" where
  "zombie_notification n i w =
     upd_notif n (\<lambda>nf. nf\<lparr>n_status := Zombie\<rparr>) (remove_in_progress_notification n i w)"

text \<open>One master notification that is due: its copies for the contacts are queued, then it is planned
  again or wiped out.\<close>

definition scatter_master :: "clock \<Rightarrow> nid \<Rightarrow> sched \<Rightarrow> sched option" where
  "scatter_master now n s = do {
     let w = s_world s; let nf = notifs w n; let i = n_ref nf;
     (childnotifications, w) \<leftarrow>
       (if \<not> notification_is_blocked_by_item now w i (n_type nf) (Some now)
        then scatter_notification now n i w else Some ([], w));
     let s = fold add_Notification childnotifications (s\<lparr>s_world := w\<rparr>);
     if n_type nf = PROBLEM
     then do {
       let s = (if childnotifications \<noteq> []
                then on_world (upd i (\<lambda>it. it\<lparr>current_notification_number := n_notif_nb nf\<rparr>)) s else s);
       if notification_interval (items (s_world s) i) \<noteq> 0 \<and> n_t_to_go nf \<noteq> None
       then do {
         t \<leftarrow> get_next_notification_time now (s_world s) i n;
         Some (on_world (\<lambda>w. upd_notif n (\<lambda>nf. nf\<lparr>n_t_to_go := Some t,
                 n_notif_nb := current_notification_number (items w i) + 1, n_status := Scheduled\<rparr>) w) s)
       }
       else Some (on_world (zombie_notification n i) s)
     }
     else Some (on_world (zombie_notification n i) s)
   }"

definition scatter_action :: "clock \<Rightarrow> action_ref \<Rightarrow> sched \<Rightarrow> sched option" where
  "scatter_action now a s =
     (case a of
        ANotification n \<Rightarrow>
          let nf = notifs (s_world s) n in
          if n_status nf \<noteq> Scheduled then Some s
          else do {
            launchable \<leftarrow> n_is_launchable nf now;
            if launchable \<and> n_contact nf = None then scatter_master now n s else Some s
          }
      | _ \<Rightarrow> Some s)"

definition scatter_master_notifications :: "clock \<Rightarrow> sched \<Rightarrow> sched option" where
  "scatter_master_notifications now s = fold_opt (scatter_action now) (s_actions s) s"

subsection \<open>What a poller or a reactionner gets\<close>

record request =
  do_checks :: bool
  do_actions :: bool
  poller_tags :: "string list"
  reactionner_tags :: "string list"
  worker_name :: string
  module_types :: "string list"
  max_actions :: "nat option"

definition is_full :: "request \<Rightarrow> 'a list \<Rightarrow> bool" where
  "is_full r res = (case max_actions r of None \<Rightarrow> False | Some m \<Rightarrow> length res \<ge> m)"

definition check_wanted :: "clock \<Rightarrow> request \<Rightarrow> check \<Rightarrow> bool" where
  "check_wanted now r ck \<longleftrightarrow>
     c_poller_tag ck \<in> set (poller_tags r) \<and> c_module_type ck \<in> set (module_types r) \<and>
     c_status ck = Scheduled \<and> c_is_launchable ck now \<and> \<not> c_internal ck"

fun give_checks :: "clock \<Rightarrow> request \<Rightarrow> cid list \<Rightarrow> action_ref list \<Rightarrow> world \<Rightarrow> action_ref list \<times> world" where
  "give_checks now r [] res w = (res, w)"
| "give_checks now r (c # cs) res w =
     (if is_full r res then (res, w)
      else if check_wanted now r (checks w c)
      then give_checks now r cs (res @ [ACheck c])
             (upd_check c (\<lambda>ck. ck\<lparr>c_status := InPoller, c_worker := worker_name r\<rparr>) w)
      else give_checks now r cs res w)"

definition upd_handler :: "nat \<Rightarrow> (event_handler \<Rightarrow> event_handler) \<Rightarrow> world \<Rightarrow> world" where
  "upd_handler e f w = w\<lparr>handlers := (handlers w)(e := f (handlers w e))\<rparr>"

text \<open>A master notification has no contact and is not sent. An event handler is launchable from its
  creation on; a notification without a time cannot be compared with the clock.\<close>

definition give_action ::
  "clock \<Rightarrow> request \<Rightarrow> action_ref \<Rightarrow> action_ref list \<times> world \<Rightarrow> (action_ref list \<times> world) option" where
  "give_action now r a = (\<lambda>(res, w).
     (case a of
        ANotification n \<Rightarrow>
          let nf = notifs w n; is_master = (n_contact nf = None) in
          if \<not> is_master \<and> (n_reactionner_tag nf \<notin> set (reactionner_tags r) \<or>
                             n_module_type nf \<notin> set (module_types r)) then Some (res, w)
          else if n_status nf \<noteq> Scheduled then Some (res, w)
          else do {
            launchable \<leftarrow> n_is_launchable nf now;
            Some (if launchable \<and> \<not> is_master
                  then (res @ [a], upd_notif n (\<lambda>nf. nf\<lparr>n_status := InPoller, n_worker := worker_name r\<rparr>) w)
                  else (res, w))
          }
      | AEventHandler e \<Rightarrow>
          let eh = handlers w e in
          Some (if e_reactionner_tag eh \<in> set (reactionner_tags r) \<and> e_module_type eh \<in> set (module_types r) \<and>
                   e_status eh = Scheduled \<and> now \<ge> e_t_to_go eh
                then (res @ [a], upd_handler e (\<lambda>eh. eh\<lparr>e_status := InPoller, e_worker := worker_name r\<rparr>) w)
                else (res, w))
      | _ \<Rightarrow> Some (res, w)))"

fun give_actions ::
  "clock \<Rightarrow> request \<Rightarrow> action_ref list \<Rightarrow> action_ref list \<times> world \<Rightarrow> (action_ref list \<times> world) option" where
  "give_actions now r [] acc = Some acc"
| "give_actions now r (a # as) acc =
     (if is_full r (fst acc) then Some acc
      else do { acc \<leftarrow> give_action now r a acc; give_actions now r as acc })"

definition action_priority :: "world \<Rightarrow> action_ref \<Rightarrow> int" where
  "action_priority w a =
     (case a of ACheck c \<Rightarrow> c_priority (checks w c) | ANotification n \<Rightarrow> n_priority (notifs w n)
      | AEventHandler e \<Rightarrow> e_priority (handlers w e) | AResultList \<Rightarrow> 100)"

definition get_to_run_checks :: "clock \<Rightarrow> request \<Rightarrow> sched \<Rightarrow> (action_ref list \<times> sched) option" where
  "get_to_run_checks now r s = do {
     let (res, w) = (if do_checks r
        then give_checks now r (sort_key (\<lambda>c. c_priority (checks (s_world s) c)) (s_checks s)) [] (s_world s)
        else ([], s_world s));
     (res, w) \<leftarrow> (if do_actions r
        then give_actions now r (sort_key (action_priority w) (s_actions s)) (res, w)
        else Some (res, w));
     Some (res, s\<lparr>s_world := w\<rparr>)
   }"

subsection \<open>Results\<close>

definition time_out_text :: "item_kind \<Rightarrow> string" where
  "time_out_text k = ''('' @ (case k of Host \<Rightarrow> ''Host'' | Service \<Rightarrow> ''Service'') @ '' Check Timed Out)''"

definition put_check :: "int \<Rightarrow> cid \<Rightarrow> check \<Rightarrow> world \<Rightarrow> world" where
  "put_check timeout_status c r w =
     (let msg = time_out_text (my_type (items w (c_ref (checks w c))));
          r = (if c_status r = Timeout
               then r\<lparr>c_output := msg, c_long_output := msg, c_exit_status := timeout_status\<rparr> else r)
      in upd_check c (\<lambda>ck. (c_get_return_from r ck)\<lparr>c_status := WaitConsume\<rparr>) w)"

definition e_get_return_from :: "event_handler \<Rightarrow> event_handler \<Rightarrow> event_handler" where
  "e_get_return_from r self =
     self\<lparr>e_exit_status := e_exit_status r, e_output := e_output r, e_long_output := e_long_output r,
          e_check_time := e_check_time r, e_execution_time := e_execution_time r, e_perf_data := e_perf_data r\<rparr>"

text \<open>The warning about a handler that timed out reads the type of its item: a handler made for the
  obsessive processor has none.\<close>

definition put_results :: "action_result \<Rightarrow> sched \<Rightarrow> sched option" where
  "put_results r s =
     (case r of
        Notification_result n status exit_status exec_time check_time \<Rightarrow>
          if ANotification n \<notin> set (s_actions s) then Some s
          else let i = n_ref (notifs (s_world s) n);
                   w = upd_notif n (\<lambda>nf. nf\<lparr>n_exit_status := exit_status, n_execution_time := exec_time\<rparr>)
                         (s_world s);
                   w = zombie_notification n i w;
                   w = upd i (\<lambda>it. it\<lparr>last_notification := check_time\<rparr>) w
               in Some (get_and_register_status_brok i (s\<lparr>s_world := w\<rparr>))
      | Check_result c ck \<Rightarrow>
          Some (if c \<in> set (s_checks s) then on_world (put_check (s_timeout_exit_status s) c ck) s else s)
      | Event_handler_result e status is_snapshot eh \<Rightarrow>
          if AEventHandler e \<notin> set (s_actions s) then Some s
          else do {
            let s = on_world (upd_handler e (\<lambda>h. h\<lparr>e_status := Zombie\<rparr>)) s;
            _ \<leftarrow> (if status = Timeout then e_ref (handlers (s_world s) e) else Some 0);
            if is_snapshot
            then do {
              let s = on_world (upd_handler e (e_get_return_from eh)) s;
              i \<leftarrow> e_ref (handlers (s_world s) e);
              Some (add_Brok (Snapshot_brok i (e_output eh) (e_exit_status eh)) s)
            }
            else Some s
          }
      | Other_result \<Rightarrow> Some s)"

subsection \<open>Internal checks\<close>

definition resolved_is :: "resolved \<Rightarrow> string \<Rightarrow> bool" where
  "resolved_is r line = (case r of Void \<Rightarrow> False | Resolved c data \<Rightarrow> cmd_line c = line)"

text \<open>\<^verbatim>\<open>manage_internal_check\<close>: the evaluation of the business rule of the item is the argument \<^verbatim>\<open>rule\<close>,
  its state and its output. For \<^verbatim>\<open>_echo\<close> the code stores the name of the state as exit status, which
  equals no exit code: it is written -1. Another command leaves the local variable \<^verbatim>\<open>state\<close> unbound.\<close>

definition manage_internal_check ::
  "clock \<Rightarrow> (world \<Rightarrow> iid \<Rightarrow> int \<times> string) \<Rightarrow> cid \<Rightarrow> iid \<Rightarrow> world \<Rightarrow> world option" where
  "manage_internal_check now rule c i w =
     (let cmd = c_command (checks w c) in
      map_option
        (\<lambda>(st, out, timed). upd_check c (\<lambda>ck. ck\<lparr>c_output := out, c_long_output := out, c_check_time := now,
             c_exit_status := st, c_execution_time := (if timed then 0 else c_execution_time ck)\<rparr>) w)
        (if resolved_starts_with cmd ''bp_'' then Some (fst (rule w i), snd (rule w i), False)
         else if resolved_is cmd ''_internal_host_up'' then Some (0, ''Host assumed to be UP'', True)
         else if resolved_is cmd ''_echo'' then Some (-1, plugin_output (items w i), True)
         else None))"

definition internal_check ::
  "clock \<Rightarrow> (world \<Rightarrow> iid \<Rightarrow> int \<times> string) \<Rightarrow> cid \<Rightarrow> world \<Rightarrow> world option" where
  "internal_check now rule c w =
     (let ck = checks w c in
      if c_internal ck \<and> c_status ck = Scheduled \<and> c_is_launchable ck now
      then map_option (upd_check c (\<lambda>ck. ck\<lparr>c_status := WaitConsume\<rparr>))
             (manage_internal_check now rule c (c_ref ck) w)
      else Some w)"

definition manage_internal_checks ::
  "clock \<Rightarrow> (world \<Rightarrow> iid \<Rightarrow> int \<times> string) \<Rightarrow> sched \<Rightarrow> sched option" where
  "manage_internal_checks now rule s = on_world_opt (fold_opt (internal_check now rule) (s_checks s)) s"

subsection \<open>Broks for a broker\<close>

text \<open>A Python slice \<^verbatim>\<open>xs[:k]\<close> with a negative \<^verbatim>\<open>k\<close> drops the last elements.\<close>

definition py_take :: "int \<Rightarrow> 'a list \<Rightarrow> 'a list" where
  "py_take k xs = take (nat (if k < 0 then int (length xs) + k else k)) xs"

definition py_drop :: "int \<Rightarrow> 'a list \<Rightarrow> 'a list" where
  "py_drop k xs = drop (nat (if k < 0 then int (length xs) + k else k)) xs"

definition get_broks :: "string \<Rightarrow> int \<Rightarrow> sched \<Rightarrow> (brok list \<times> sched) option" where
  "get_broks bname broks_batch s = do {
     let count = (if broks_batch = 0 then int (length (s_broks s)) else min broks_batch (int (length (s_broks s))));
     let res = py_take count (s_broks s);
     let s = s\<lparr>s_broks := py_drop count (s_broks s)\<rparr>;
     own \<leftarrow> map_of (s_brokers s) bname;
     let count = (if broks_batch = 0 then int (length own)
                  else min broks_batch (int (length own)) - int (length res));
     Some (res @ py_take count own, s\<lparr>s_brokers := AList.update bname (py_drop count own) (s_brokers s)\<rparr>)
   }"

subsection \<open>Consuming the results\<close>

definition consume_waiting ::
  "nat \<Rightarrow> clock \<Rightarrow> (trigger \<Rightarrow> iid \<Rightarrow> world \<Rightarrow> world) \<Rightarrow> cid \<Rightarrow> world \<Rightarrow> world option" where
  "consume_waiting fuel now run c w =
     (if c_status (checks w c) = WaitConsume then consume_result fuel now run c (c_ref (checks w c)) w else Some w)"

definition resolve_dependent :: "cid \<Rightarrow> world \<Rightarrow> world option" where
  "resolve_dependent c w =
     (if c_status (checks w c) = HaveToResolveDep
      then map_option (upd_check c (\<lambda>ck. ck\<lparr>c_status := Zombie\<rparr>))
             (fold_opt (remove_dep_link c) (c_depend_on_me (checks w c)) w)
      else Some w)"

definition consume_freed ::
  "nat \<Rightarrow> clock \<Rightarrow> (trigger \<Rightarrow> iid \<Rightarrow> world \<Rightarrow> world) \<Rightarrow> cid \<Rightarrow> world \<Rightarrow> world option" where
  "consume_freed fuel now run c w =
     (if c_status (checks w c) = WaitDep \<and> c_depend_on (checks w c) = []
      then consume_result fuel now run c (c_ref (checks w c)) w else Some w)"

definition consume_results ::
  "nat \<Rightarrow> clock \<Rightarrow> (trigger \<Rightarrow> iid \<Rightarrow> world \<Rightarrow> world) \<Rightarrow> sched \<Rightarrow> sched option" where
  "consume_results fuel now run s = do {
     let waiting_results = s_waiting_results s;
     s \<leftarrow> fold_opt put_results waiting_results (s\<lparr>s_waiting_results := []\<rparr>);
     s \<leftarrow> on_world_opt (fold_opt (consume_waiting fuel now run) (s_checks s)) s;
     s \<leftarrow> on_world_opt (fold_opt resolve_dependent (s_checks s)) s;
     on_world_opt (fold_opt (consume_freed fuel now run) (s_checks s)) s
   }"

definition delete_zombie_checks :: "sched \<Rightarrow> sched" where
  "delete_zombie_checks s =
     s\<lparr>s_checks := filter (\<lambda>c. c_status (checks (s_world s) c) \<noteq> Zombie) (s_checks s)\<rparr>"

definition action_status :: "world \<Rightarrow> action_ref \<Rightarrow> status" where
  "action_status w a =
     (case a of ACheck c \<Rightarrow> c_status (checks w c) | ANotification n \<Rightarrow> n_status (notifs w n)
      | AEventHandler e \<Rightarrow> e_status (handlers w e) | AResultList \<Rightarrow> Scheduled)"

definition delete_zombie_actions :: "sched \<Rightarrow> sched" where
  "delete_zombie_actions s =
     s\<lparr>s_actions := filter (\<lambda>a. action_status (s_world s) a \<noteq> Zombie) (s_actions s)\<rparr>"

subsection \<open>Downtimes and comments\<close>

text \<open>The interval is a whole number, so the product is one.\<close>

definition get_maintenance_dt_times :: "clock \<Rightarrow> iid \<Rightarrow> world \<Rightarrow> (clock option \<times> clock option) option" where
  "get_maintenance_dt_times now i w =
     (let it = items w i; k = cls w i in
      case (case maintenance_period it of
              Some p \<Rightarrow> if p_is_time_valid p now then Some p else None | None \<Rightarrow> None) of
        Some p \<Rightarrow> do {
          start_time \<leftarrow> p_next_valid_time p now;
          invalid \<leftarrow> p_next_invalid_time p (start_time + 1);
          Some (Some start_time, Some (invalid - 1))
        }
      | None \<Rightarrow>
          if maintenance_state_id it = 1
          then Some (Some now, Some (now + py_int (maintenance_check_interval it * of_int (interval_length k)) * 3))
          else Some (None, None))"

text \<open>The identifier of a new downtime comes from the clock and is given for its address.\<close>

definition start_maintenance :: "clock \<Rightarrow> (nat \<Rightarrow> int) \<Rightarrow> iid \<Rightarrow> sched \<Rightarrow> sched option" where
  "start_maintenance now ident i s = do {
     (start_time, end_time) \<leftarrow> get_maintenance_dt_times now i (s_world s);
     case start_time of
       None \<Rightarrow> Some s
     | Some t \<Rightarrow> do {
         e \<leftarrow> end_time;
         let (d, w) = new_downtime now (ident (next_downtime (s_world s))) i t e True 0 0 ''system''
           (''this downtime was automatically scheduled '' @
            ''through a maintenance_period or '' @ ''a maintenance_check'') (s_world s);
         let s = get_and_register_status_brok i (add_Downtime d (s\<lparr>s_world := add_downtime d i w\<rparr>));
         Some (on_world (\<lambda>w. upd i (\<lambda>it. it\<lparr>in_maintenance := Some (dt_id (downtime_store w d))\<rparr>) w) s)
       }
   }"

definition set_maintenance_end :: "clock \<Rightarrow> downtime \<Rightarrow> downtime" where
  "set_maintenance_end e dt = dt\<lparr>dt_end_time := e, dt_real_end_time := e, dt_duration := e - dt_start_time dt\<rparr>"

definition continue_maintenance :: "clock \<Rightarrow> iid \<Rightarrow> int \<Rightarrow> sched \<Rightarrow> sched option" where
  "continue_maintenance now i ident s =
     (let it = items (s_world s) i in
      case map_of (s_downtimes s) ident of
        None \<Rightarrow> Some (on_world (upd i (\<lambda>it. it\<lparr>in_maintenance := None\<rparr>)) s)
      | Some d \<Rightarrow>
          if maintenance_state_id it = 1 \<or>
             (case maintenance_period it of None \<Rightarrow> False | Some p \<Rightarrow> p_is_time_valid p now)
          then do {
            (_, end_time) \<leftarrow> get_maintenance_dt_times now i (s_world s);
            e \<leftarrow> end_time;
            Some (on_world (upd_downtime d (set_maintenance_end e)) s)
          }
          else if maintenance_state_id it = 0
          then Some (on_world (upd_downtime d (set_maintenance_end (now - 1))) s)
          else Some s)"

definition update_maintenance_downtime :: "clock \<Rightarrow> (nat \<Rightarrow> int) \<Rightarrow> iid \<Rightarrow> sched \<Rightarrow> sched option" where
  "update_maintenance_downtime now ident i s =
     (let it = items (s_world s) i in
      if maintenance_period it = None \<and> maintenance_check_period it = None then Some s
      else case in_maintenance it of
             None \<Rightarrow> start_maintenance now ident i s
           | Some d \<Rightarrow> continue_maintenance now i d s)"

definition update_maintenance_downtimes :: "clock \<Rightarrow> (nat \<Rightarrow> int) \<Rightarrow> sched \<Rightarrow> sched option" where
  "update_maintenance_downtimes now ident s =
     fold_opt (update_maintenance_downtime now ident) (iter_hosts_and_services s) s"

definition cleanup_maintenance_downtimes :: "sched \<Rightarrow> sched" where
  "cleanup_maintenance_downtimes s =
     fold (\<lambda>i s. case in_maintenance (items (s_world s) i) of
              None \<Rightarrow> s
            | Some d \<Rightarrow> if map_of (s_downtimes s) d = None
                        then on_world (upd i (\<lambda>it. it\<lparr>in_maintenance := None\<rparr>)) s else s)
       (iter_hosts_and_services s) s"

definition see_comments :: "sched \<Rightarrow> sched" where
  "see_comments s =
     s\<lparr>s_comments := fold set_add
         (concat (map (\<lambda>i. comments (items (s_world s) i)) (iter_hosts_and_services s))) (s_comments s)\<rparr>"

definition start_stop_downtime ::
  "nat \<Rightarrow> clock \<Rightarrow> nat \<Rightarrow> brok list \<times> world \<Rightarrow> (brok list \<times> world) option" where
  "start_stop_downtime fuel now d = (\<lambda>(broks, w).
     (let dt = downtime_store w d in
      if dt_real_end_time dt < now then Some (broks, dt_exit now d w)
      else if now \<ge> dt_start_time dt \<and> dt_fixed dt \<and> \<not> dt_is_in_effect dt \<and> \<not> dt_can_be_deleted dt
      then do { w \<leftarrow> dt_enter fuel now d w; Some (broks @ [Update_status_brok (dt_ref dt)], w) }
      else Some (broks, w)))"

definition drop_downtime :: "nat \<Rightarrow> brok list \<times> sched \<Rightarrow> brok list \<times> sched" where
  "drop_downtime d = (\<lambda>(broks, s).
     (let dt = downtime_store (s_world s) d in
      if dt_can_be_deleted dt
      then (broks @ [Update_status_brok (dt_ref dt)], sched_del_downtime (dt_id dt) s) else (broks, s)))"

definition drop_contact_downtime :: "nat \<Rightarrow> brok list \<times> sched \<Rightarrow> brok list \<times> sched" where
  "drop_contact_downtime d = (\<lambda>(broks, s).
     (let dt = contact_downtime_store (s_world s) d in
      if cdt_can_be_deleted dt
      then (broks @ [Contact_status_brok (cdt_ref dt)], del_contact_downtime d s) else (broks, s)))"

definition drop_comment :: "nat \<Rightarrow> brok list \<times> sched \<Rightarrow> brok list \<times> sched" where
  "drop_comment c = (\<lambda>(broks, s).
     (let co = comment_store (s_world s) c in
      if co_can_be_deleted co
      then (broks @ [Update_status_brok (co_ref co)], sched_del_comment c s) else (broks, s)))"

definition update_downtimes_and_comments ::
  "nat \<Rightarrow> clock \<Rightarrow> (nat \<Rightarrow> int) \<Rightarrow> sched \<Rightarrow> sched option" where
  "update_downtimes_and_comments fuel now ident s = do {
     let s = see_comments s;
     s \<leftarrow> update_maintenance_downtimes now ident s;
     let s = on_world (fold (\<lambda>ct w. fold (check_activation now) (ct_downtimes (contact_store w ct)) w)
               (s_contacts s)) s;
     (broks, w) \<leftarrow> fold_opt (start_stop_downtime fuel now) (map snd (s_downtimes s)) ([], s_world s);
     let s = s\<lparr>s_world := w\<rparr>;
     let (broks, s) = fold drop_downtime (map snd (s_downtimes s)) (broks, s);
     let (broks, s) = fold drop_contact_downtime (s_contact_downtimes s) (broks, s);
     let (broks, s) = fold drop_comment (s_comments s) (broks, s);
     let s = cleanup_maintenance_downtimes s;
     Some (fold add_Brok broks s)
   }"

subsection \<open>Scheduling and collecting the work of the items\<close>

text \<open>The random draws of an item are the values \<^verbatim>\<open>u i\<close>.\<close>

definition schedule_all :: "nat \<Rightarrow> clock \<Rightarrow> (iid \<Rightarrow> nat \<Rightarrow> rat) \<Rightarrow> sched \<Rightarrow> sched option" where
  "schedule_all fuel now u s =
     on_world_opt (fold_opt (\<lambda>i. schedule fuel now (u i) False None i) (iter_hosts_and_services s)) s"

definition take_actions :: "iid \<Rightarrow> sched \<Rightarrow> sched" where
  "take_actions i s =
     on_world (upd i (\<lambda>it. it\<lparr>actions := []\<rparr>)) (fold sched_add (actions (items (s_world s) i)) s)"

definition get_new_actions :: "sched \<Rightarrow> sched" where
  "get_new_actions s = fold take_actions (iter_hosts_and_services s) s"

definition take_broks :: "iid \<Rightarrow> sched \<Rightarrow> sched" where
  "take_broks i s =
     on_world (upd i (\<lambda>it. it\<lparr>broks := 0\<rparr>))
       (fold add_Brok (replicate (broks (items (s_world s) i)) (Item_brok i)) s)"

definition get_new_broks :: "sched \<Rightarrow> sched" where
  "get_new_broks s = fold take_broks (iter_hosts_and_services s) s"

text \<open>\<^verbatim>\<open>do_check_freshness\<close> returns the identifier of the check, which \<^verbatim>\<open>add\<close> drops; the check itself is in
  the item's actions.\<close>

definition check_freshness_all :: "nat \<Rightarrow> clock \<Rightarrow> sched \<Rightarrow> sched option" where
  "check_freshness_all fuel now s =
     on_world_opt (fold_opt (\<lambda>i w. map_option snd (do_check_freshness fuel now i w)) (iter_hosts_and_services s)) s"

subsection \<open>Orphans\<close>

definition reenable_check :: "clock \<Rightarrow> cid \<Rightarrow> world \<Rightarrow> world" where
  "reenable_check now c w =
     (let ck = checks w c; time_to_orphanage = get_time_to_orphanage w (c_ref ck) in
      if time_to_orphanage \<noteq> 0 \<and> c_status ck = InPoller \<and> c_t_to_go ck < now - time_to_orphanage
      then upd_check c (\<lambda>ck. ck\<lparr>c_status := Scheduled\<rparr>) w else w)"

definition reenable_action :: "clock \<Rightarrow> action_ref \<Rightarrow> world \<Rightarrow> world option" where
  "reenable_action now a w =
     (case a of
        ANotification n \<Rightarrow>
          let nf = notifs w n; time_to_orphanage = get_time_to_orphanage w (n_ref nf) in
          if time_to_orphanage \<noteq> 0 \<and> n_status nf = InPoller
          then do {
            t \<leftarrow> n_t_to_go nf;
            Some (if t < now - time_to_orphanage then upd_notif n (\<lambda>nf. nf\<lparr>n_status := Scheduled\<rparr>) w else w)
          }
          else Some w
      | AEventHandler e \<Rightarrow>
          let eh = handlers w e in
          do {
            i \<leftarrow> e_ref eh;
            let time_to_orphanage = get_time_to_orphanage w i;
            Some (if time_to_orphanage \<noteq> 0 \<and> e_status eh = InPoller \<and> e_t_to_go eh < now - time_to_orphanage
                  then upd_handler e (\<lambda>eh. eh\<lparr>e_status := Scheduled\<rparr>) w else w)
          }
      | _ \<Rightarrow> Some w)"

definition check_orphaned :: "clock \<Rightarrow> sched \<Rightarrow> sched option" where
  "check_orphaned now s =
     on_world_opt (\<lambda>w. fold_opt (reenable_action now) (s_actions s) (fold (reenable_check now) (s_checks s) w)) s"

definition reset_topology_change_flag :: "sched \<Rightarrow> sched" where
  "reset_topology_change_flag s =
     on_world (fold (\<lambda>i. upd i (\<lambda>it. it\<lparr>topology_change := False\<rparr>)) (s_hosts s @ s_services s)) s"

subsection \<open>A change of the system time\<close>

text \<open>When no valid time is left the code sets the attribute \<^verbatim>\<open>state\<close>, not \<^verbatim>\<open>status\<close>, so the check stays
  scheduled.\<close>

definition compensate_check :: "clock \<Rightarrow> int \<Rightarrow> cid \<Rightarrow> world \<Rightarrow> world" where
  "compensate_check now difference c w =
     (let ck = checks w c; i = c_ref ck in
      if c_status ck = Scheduled
      then let new_t = max 0 (c_t_to_go ck + difference);
               new_t = (case check_period (items w i) of None \<Rightarrow> Some new_t | Some p \<Rightarrow> p_next_valid_time p new_t)
           in case new_t of
                None \<Rightarrow> upd_check c (\<lambda>ck. ck\<lparr>c_exit_status := 2, c_check_time := now, c_execution_time := 0,
                   c_output := ''(Error: there is no available check time after time change!)''\<rparr>) w
              | Some t \<Rightarrow> upd i (\<lambda>it. it\<lparr>next_chk := Some t\<rparr>) (upd_check c (\<lambda>ck. ck\<lparr>c_t_to_go := t\<rparr>) w)
      else w)"

definition compensate_action :: "int \<Rightarrow> action_ref \<Rightarrow> world \<Rightarrow> world option" where
  "compensate_action difference a w =
     (case a of
        ANotification n \<Rightarrow>
          let nf = notifs w n in
          if n_status nf = Scheduled
          then do {
            t \<leftarrow> n_t_to_go nf;
            let new_t = max 0 (t + difference);
            let new_t = (case notification_period (items w (n_ref nf)) of
                           None \<Rightarrow> Some new_t | Some p \<Rightarrow> p_next_valid_time p new_t);
            Some (upd_notif n (\<lambda>nf. (case new_t of None \<Rightarrow> nf\<lparr>n_exit_status := 2, n_execution_time := 0\<rparr>
                                     | Some t \<Rightarrow> nf\<lparr>n_t_to_go := Some t\<rparr>)
                    \<lparr>n_creation_time := n_creation_time nf + difference\<rparr>) w)
          }
          else Some w
      | AEventHandler e \<Rightarrow>
          Some (if e_status (handlers w e) = Scheduled
                then upd_handler e (\<lambda>eh. eh\<lparr>e_t_to_go := max 0 (e_t_to_go eh + difference)\<rparr>) w else w)
      | _ \<Rightarrow> Some w)"

definition sched_compensate_system_time_change :: "clock \<Rightarrow> int \<Rightarrow> sched \<Rightarrow> sched option" where
  "sched_compensate_system_time_change now difference s =
     on_world_opt (\<lambda>w.
       let w = fold (compensate_system_time_change difference) (s_hosts s @ s_services s) w;
           w = fold (compensate_check now difference) (s_checks s) w
       in fold_opt (compensate_action difference) (s_actions s) w) s"

definition check_for_system_time_change :: "clock \<Rightarrow> clock \<Rightarrow> sched \<Rightarrow> (sched \<times> clock) option" where
  "check_for_system_time_change now t_each_loop s =
     map_option (\<lambda>s. (s, now))
       (if \<bar>now - t_each_loop\<bar> > 900 then sched_compensate_system_time_change now (now - t_each_loop) s
        else Some s)"

subsection \<open>One turn of the loop\<close>

text \<open>The works of \<^verbatim>\<open>recurrent_works\<close> in their order, with the number of ticks between two runs. The caches,
  the retention file, the modules and the change of the system time are not state of the model.\<close>

definition every :: "nat \<Rightarrow> nat \<Rightarrow> ('s \<Rightarrow> 's option) \<Rightarrow> 's \<Rightarrow> 's option" where
  "every nb_ticks ticks f s = (if nb_ticks \<noteq> 0 \<and> ticks mod nb_ticks = 0 then f s else Some s)"

record env =
  env_fuel :: nat
  env_random :: "iid \<Rightarrow> nat \<Rightarrow> rat"
  env_ident :: "nat \<Rightarrow> int"
  env_run :: "trigger \<Rightarrow> iid \<Rightarrow> world \<Rightarrow> world"
  env_rule :: "world \<Rightarrow> iid \<Rightarrow> int \<times> string"

definition recurrent_works :: "env \<Rightarrow> clock \<Rightarrow> nat \<Rightarrow> sched \<Rightarrow> sched option" where
  "recurrent_works e now ticks s = do {
     s \<leftarrow> every 1 ticks (update_downtimes_and_comments (env_fuel e) now (env_ident e)) s;
     s \<leftarrow> every 1 ticks (schedule_all (env_fuel e) now (env_random e)) s;
     s \<leftarrow> every 1 ticks (consume_results (env_fuel e) now (env_run e)) s;
     s \<leftarrow> every 1 ticks (Some \<circ> get_new_actions) s;
     s \<leftarrow> every 1 ticks (Some \<circ> get_new_broks) s;
     s \<leftarrow> every 1 ticks (scatter_master_notifications now) s;
     s \<leftarrow> every 1 ticks (Some \<circ> delete_zombie_checks) s;
     s \<leftarrow> every 1 ticks (Some \<circ> delete_zombie_actions) s;
     s \<leftarrow> every 10 ticks (check_freshness_all (env_fuel e) now) s;
     s \<leftarrow> every 60 ticks (check_orphaned now) s;
     s \<leftarrow> every 10 ticks (Some \<circ> get_and_register_update_program_status_brok) s;
     s \<leftarrow> every 1 ticks (manage_internal_checks now (env_rule e)) s;
     s \<leftarrow> every 1 ticks clean_queues s;
     s \<leftarrow> every 60 ticks (Some \<circ> update_business_values now) s;
     s \<leftarrow> every 1 ticks (Some \<circ> reset_topology_change_flag) s;
     every 1 ticks (Some \<circ> sched_check_for_expire_acknowledge now) s
   }"

end
