(* ===== verification/Queues.thy ===== *)
theory Queues
  imports Scheduler Machine
begin

text \<open>
  Properties of the queues of \<^verbatim>\<open>shinken/scheduler.py\<close>: what a poller is given, that nobody is given the
  same action twice, that every result is consumed, and where the loop can raise.
\<close>

lemma fold_opt_invariant:
  assumes "fold_opt f xs s = Some s'" and "\<And>x s s'. x \<in> set xs \<Longrightarrow> P s \<Longrightarrow> f x s = Some s' \<Longrightarrow> P s'" and "P s"
  shows "P s'"
  using assms by (induction xs arbitrary: s) (auto simp: bind_eq_Some_conv)

subsection \<open>Handing out actions\<close>

text \<open>The contract of the two loops of \<^verbatim>\<open>get_to_run_checks\<close>: one element is given when it is ready, which marks
  it and touches no other, and the loop stops when the answer is full.\<close>

locale dispatcher =
  fixes tag :: "'a \<Rightarrow> action_ref"
    and ready :: "world \<Rightarrow> 'a \<Rightarrow> bool"
    and mark :: "'a \<Rightarrow> world \<Rightarrow> world"
    and view :: "world \<Rightarrow> 'a \<Rightarrow> 'v"
    and full :: "action_ref list \<Rightarrow> bool"
    and give1 :: "'a \<Rightarrow> action_ref list \<times> world \<Rightarrow> (action_ref list \<times> world) option"
    and give :: "'a list \<Rightarrow> action_ref list \<times> world \<Rightarrow> (action_ref list \<times> world) option"
  assumes give_nil: "give [] acc = Some acc"
    and give_cons: "give (a # as) acc = (if full (fst acc) then Some acc else Option.bind (give1 a acc) (give as))"
    and give1: "give1 a (res, w) = Some acc \<Longrightarrow> acc = (if ready w a then (res @ [tag a], mark a w) else (res, w))"
    and mark_other: "b \<noteq> a \<Longrightarrow> view (mark a w) b = view w b"
    and ready_view: "view w b = view w' b \<Longrightarrow> ready w b = ready w' b"
begin

lemma give_spec:
  assumes "give as (res, w) = Some (res', w')" and "distinct as"
  shows "\<exists>ys zs. as = ys @ zs \<and> res' = res @ map tag (filter (ready w) ys) \<and> (zs = [] \<or> full res') \<and>
     w' = fold mark (filter (ready w) ys) w"
  using assms
proof (induction as arbitrary: res w)
  case Nil
  then show ?case by (simp add: give_nil)
next
  case (Cons a as)
  show ?case
  proof (cases "full res")
    case True
    then show ?thesis using Cons.prems(1) by (intro exI[of _ "[]"] exI[of _ "a # as"]) (simp add: give_cons)
  next
    case False
    then obtain acc where acc: "give1 a (res, w) = Some acc" "give as acc = Some (res', w')"
      using Cons.prems(1) by (auto simp: give_cons bind_eq_Some_conv)
    define res1 where "res1 = (if ready w a then res @ [tag a] else res)"
    define w1 where "w1 = (if ready w a then mark a w else w)"
    have "acc = (res1, w1)" using give1[OF acc(1)] by (simp add: res1_def w1_def)
    then obtain ys zs where s: "as = ys @ zs" "res' = res1 @ map tag (filter (ready w1) ys)"
      "zs = [] \<or> full res'" "w' = fold mark (filter (ready w1) ys) w1"
      using Cons.IH[of res1 w1] acc(2) Cons.prems(2) by auto
    have "ready w1 b = ready w b" if "b \<in> set ys" for b
    proof (rule ready_view)
      have "b \<noteq> a" using that Cons.prems(2) s(1) by auto
      then show "view w1 b = view w b" by (simp add: w1_def mark_other)
    qed
    then have "filter (ready w1) ys = filter (ready w) ys" by (simp cong: filter_cong)
    then show ?thesis
      using s by (intro exI[of _ "a # ys"] exI[of _ zs]) (auto simp: res1_def w1_def)
  qed
qed

lemma marks_view: "b \<notin> set as \<Longrightarrow> view (fold mark as w) b = view w b"
  by (induction as arbitrary: w) (auto simp: mark_other)

lemma marks_view_in:
  assumes "a \<in> set as" and "distinct as"
  shows "\<exists>u. view (fold mark as w) a = view (mark a u) a"
  using assms
proof (induction as arbitrary: w)
  case (Cons b as)
  show ?case
  proof (cases "a = b")
    case True
    then show ?thesis using Cons.prems(2) marks_view[of a as "mark a w"] by auto
  next
    case False
    then show ?thesis using Cons by simp
  qed
qed simp

end

definition mark_check :: "request \<Rightarrow> cid \<Rightarrow> world \<Rightarrow> world" where
  "mark_check r c = upd_check c (\<lambda>ck. ck\<lparr>c_status := InPoller, c_worker := worker_name r\<rparr>)"

interpretation pollers: dispatcher ACheck "\<lambda>w c. check_wanted now r (checks w c)" "mark_check r" checks "is_full r"
  "\<lambda>c (res, w). Some (if check_wanted now r (checks w c) then (res @ [ACheck c], mark_check r c w) else (res, w))"
  "\<lambda>cs (res, w). Some (give_checks now r cs res w)" for now r
proof unfold_locales
  show "(case acc of (res, w) \<Rightarrow> Some (give_checks now r [] res w)) = Some acc" for acc by (cases acc) simp
  show "(case acc of (res, w) \<Rightarrow> Some (give_checks now r (a # as) res w)) =
     (if is_full r (fst acc) then Some acc
      else Option.bind (case acc of (res, w) \<Rightarrow> Some (if check_wanted now r (checks w a) then (res @ [ACheck a], mark_check r a w) else (res, w)))
        (\<lambda>(res, w). Some (give_checks now r as res w)))" for acc as a
    by (cases acc) (simp add: mark_check_def)
qed (auto simp: mark_check_def)

definition action_view :: "world \<Rightarrow> action_ref \<Rightarrow> notification option \<times> event_handler option" where
  "action_view w a = (case a of ANotification n \<Rightarrow> (Some (notifs w n), None)
     | AEventHandler e \<Rightarrow> (None, Some (handlers w e)) | _ \<Rightarrow> (None, None))"

definition tags_match :: "request \<Rightarrow> string \<Rightarrow> string \<Rightarrow> bool" where
  "tags_match r tag module_type \<longleftrightarrow> tag \<in> set (reactionner_tags r) \<and> module_type \<in> set (module_types r)"

definition action_wanted :: "clock \<Rightarrow> request \<Rightarrow> world \<Rightarrow> action_ref \<Rightarrow> bool" where
  "action_wanted now r w a =
     (case a of
        ANotification n \<Rightarrow> let nf = notifs w n in
          n_contact nf \<noteq> None \<and> tags_match r (n_reactionner_tag nf) (n_module_type nf) \<and>
          n_status nf = Scheduled \<and> n_is_launchable nf now = Some True
      | AEventHandler e \<Rightarrow> let eh = handlers w e in
          tags_match r (e_reactionner_tag eh) (e_module_type eh) \<and> e_status eh = Scheduled \<and> e_t_to_go eh \<le> now
      | _ \<Rightarrow> False)"

definition mark_action :: "request \<Rightarrow> action_ref \<Rightarrow> world \<Rightarrow> world" where
  "mark_action r a =
     (case a of
        ANotification n \<Rightarrow> upd_notif n (\<lambda>nf. nf\<lparr>n_status := InPoller, n_worker := worker_name r\<rparr>)
      | AEventHandler e \<Rightarrow> upd_handler e (\<lambda>eh. eh\<lparr>e_status := InPoller, e_worker := worker_name r\<rparr>)
      | _ \<Rightarrow> id)"

lemma upd_handler_simps [simp]:
  "handlers (upd_handler e f w) = (handlers w)(e := f (handlers w e))" "checks (upd_handler e f w) = checks w"
  "notifs (upd_handler e f w) = notifs w" "items (upd_handler e f w) = items w"
  "next_action_id (upd_handler e f w) = next_action_id w"
  by (simp_all add: upd_handler_def)

lemma upd_notif_handlers [simp]: "handlers (upd_notif n f w) = handlers w"
  by (simp add: upd_notif_def)

interpretation reactionners: dispatcher "\<lambda>a. a" "action_wanted now r" "mark_action r" action_view "is_full r"
  "give_action now r" "give_actions now r" for now r
proof unfold_locales
  show "action_view (mark_action r a w) b = action_view w b" if "b \<noteq> a" for a b w
    using that by (auto simp: action_view_def mark_action_def split: action_ref.splits)
  show "action_wanted now r w b = action_wanted now r w' b" if "action_view w b = action_view w' b" for w w' b
    using that by (auto simp: action_view_def action_wanted_def split: action_ref.splits)
  show "acc = (if action_wanted now r w a then (res @ [a], mark_action r a w) else (res, w))"
    if "give_action now r a (res, w) = Some acc" for a res w acc
    using that
    by (auto simp: give_action_def action_wanted_def mark_action_def tags_match_def Let_def bind_eq_Some_conv
        split: action_ref.splits if_splits)
qed simp_all

lemma mark_action_frame [simp]: "checks (mark_action r a w) = checks w" "items (mark_action r a w) = items w"
  by (simp_all add: mark_action_def upd_notif_def upd_handler_def split: action_ref.splits)

lemma mark_check_frame [simp]:
  "notifs (mark_check r c w) = notifs w" "handlers (mark_check r c w) = handlers w" "items (mark_check r c w) = items w"
  by (simp_all add: mark_check_def upd_check_def)

lemma marks_frame:
  "checks (fold (mark_action r) as w) = checks w"
  "notifs (fold (mark_check r) cs w) = notifs w" "handlers (fold (mark_check r) cs w) = handlers w"
proof -
  show "checks (fold (mark_action r) as w) = checks w" by (induction as arbitrary: w) simp_all
  show "notifs (fold (mark_check r) cs w) = notifs w" "handlers (fold (mark_check r) cs w) = handlers w"
    by (induction cs arbitrary: w) simp_all
qed

text \<open>One call of \<^verbatim>\<open>get_to_run_checks\<close>: the checks and the actions it gives are the ready ones of a prefix of
  the queue sorted by priority, and it passes over the rest only when the answer is full.\<close>

definition sorted_checks :: "sched \<Rightarrow> cid list" where
  "sorted_checks s = sort_key (\<lambda>c. c_priority (checks (s_world s) c)) (s_checks s)"

definition sorted_actions :: "sched \<Rightarrow> action_ref list" where
  "sorted_actions s = sort_key (action_priority (s_world s)) (s_actions s)"

lemma insort_key_cong: "(\<And>y. y \<in> insert x (set xs) \<Longrightarrow> f y = g y) \<Longrightarrow> insort_key f x xs = insort_key g x xs"
  by (induction xs) auto

lemma sort_key_cong: "(\<And>y. y \<in> set xs \<Longrightarrow> f y = g y) \<Longrightarrow> sort_key f xs = sort_key g xs"
proof (induction xs)
  case (Cons x xs)
  then have "sort_key f xs = sort_key g xs" by simp
  moreover have "insort_key f x (sort_key g xs) = insort_key g x (sort_key g xs)"
    using Cons.prems by (intro insort_key_cong) auto
  ultimately show ?case by simp
qed simp

lemma action_priority_cong:
  assumes "notifs w = notifs w'" and "handlers w = handlers w'" and "\<forall>a\<in>set as. \<forall>c. a \<noteq> ACheck c"
  shows "sort_key (action_priority w) as = sort_key (action_priority w') as"
  using assms by (intro sort_key_cong) (auto simp: action_priority_def split: action_ref.splits)

definition queue_ok :: "sched \<Rightarrow> bool" where
  "queue_ok s \<longleftrightarrow> distinct (s_checks s) \<and> distinct (s_actions s) \<and>
     (\<forall>c\<in>set (s_checks s). c < next_action_id (s_world s)) \<and>
     (\<forall>a\<in>set (s_actions s). \<forall>c. a \<noteq> ACheck c)"

lemma give_checks_effect:
  assumes "give_checks now r cs [] w = (res, w')" and "distinct cs"
  obtains ys zs where "cs = ys @ zs" "res = map ACheck (filter (\<lambda>c. check_wanted now r (checks w c)) ys)"
    "zs = [] \<or> is_full r res" "w' = fold (mark_check r) (filter (\<lambda>c. check_wanted now r (checks w c)) ys) w"
  using pollers.give_spec[where now = now and r = r and as = cs and res = "[]" and w = w and res' = res and w' = w']
    assms by auto

lemma give_actions_effect:
  assumes "give_actions now r as (res, w) = Some (res', w')" and "distinct as"
  obtains ys zs where "as = ys @ zs" "res' = res @ filter (action_wanted now r w) ys"
    "zs = [] \<or> is_full r res'" "w' = fold (mark_action r) (filter (action_wanted now r w) ys) w"
  using reactionners.give_spec[where now = now and r = r and as = as and res = res and w = w and res' = res' and w' = w']
    assms by auto

lemma get_to_run_effect:
  assumes g: "get_to_run_checks now r s = Some (res, s')" and q: "queue_ok s"
  obtains cs zs as ts where
    "sorted_checks s = cs @ zs" "sorted_actions s = as @ ts"
    "res = map ACheck (if do_checks r then filter (\<lambda>c. check_wanted now r (checks (s_world s) c)) cs else [])
         @ (if do_actions r then filter (action_wanted now r (s_world s)) as else [])"
    "do_checks r \<Longrightarrow> zs = [] \<or> is_full r res" "do_actions r \<Longrightarrow> ts = [] \<or> is_full r res"
    "s' = s\<lparr>s_world := fold (mark_action r)
        (if do_actions r then filter (action_wanted now r (s_world s)) as else [])
        (fold (mark_check r) (if do_checks r then filter (\<lambda>c. check_wanted now r (checks (s_world s) c)) cs else [])
          (s_world s))\<rparr>"
proof -
  let ?w = "s_world s" and ?P = "\<lambda>c. check_wanted now r (checks (s_world s) c)"
  obtain res1 w1 where c: "(if do_checks r then give_checks now r (sorted_checks s) [] ?w else ([], ?w)) = (res1, w1)"
    by fastforce
  obtain w2 where a: "(if do_actions r then give_actions now r (sort_key (action_priority w1) (s_actions s)) (res1, w1)
       else Some (res1, w1)) = Some (res, w2)" and s': "s' = s\<lparr>s_world := w2\<rparr>"
    using g unfolding get_to_run_checks_def sorted_checks_def[symmetric] c by (auto simp: bind_eq_Some_conv)
  have d: "distinct (sorted_checks s)" "distinct (sort_key (action_priority w1) (s_actions s))"
    using q by (simp_all add: sorted_checks_def queue_ok_def)
  obtain cs zs where cs: "sorted_checks s = cs @ zs"
    "res1 = map ACheck (if do_checks r then filter ?P cs else [])" "do_checks r \<Longrightarrow> zs = [] \<or> is_full r res1"
    "w1 = fold (mark_check r) (if do_checks r then filter ?P cs else []) ?w"
  proof (cases "do_checks r")
    case True
    then show ?thesis using c d(1) that by (auto elim!: give_checks_effect)
  next
    case False
    then show ?thesis using c that[of "sorted_checks s" "[]"] by simp
  qed
  have f: "notifs w1 = notifs ?w" "handlers w1 = handlers ?w" by (simp_all add: cs(4) marks_frame)
  have srt: "sort_key (action_priority w1) (s_actions s) = sorted_actions s"
    unfolding sorted_actions_def using q f by (intro action_priority_cong) (auto simp: queue_ok_def)
  have aw: "action_wanted now r w1 = action_wanted now r ?w"
    by (rule ext) (simp add: action_wanted_def f split: action_ref.splits)
  obtain as ts where as: "sorted_actions s = as @ ts"
    "res = res1 @ (if do_actions r then filter (action_wanted now r ?w) as else [])"
    "do_actions r \<Longrightarrow> ts = [] \<or> is_full r res"
    "w2 = fold (mark_action r) (if do_actions r then filter (action_wanted now r ?w) as else []) w1"
  proof (cases "do_actions r")
    case True
    then show ?thesis using a d(2) that unfolding srt aw[symmetric] by (auto elim!: give_actions_effect)
  next
    case False
    then show ?thesis using a that[of "sorted_actions s" "[]"] by simp
  qed
  have "do_checks r \<Longrightarrow> zs = [] \<or> is_full r res"
    using cs(3) as(2) by (auto simp: is_full_def split: option.splits)
  then show ?thesis using that[OF cs(1) as(1)] cs as s' by simp
qed

text \<open>C16: the answer to a satellite. The checks it holds are the launchable, external,
  matching checks among the first of the queue in the order of their priority, the actions likewise; a wanted
  element is passed over only when the answer has reached the maximum that was asked for.\<close>

theorem get_to_run_checks_gives:
  assumes "get_to_run_checks now r s = Some (res, s')" and "queue_ok s"
  shows "\<exists>cs zs as ts. sorted_checks s = cs @ zs \<and> sorted_actions s = as @ ts \<and>
    res = map ACheck (if do_checks r then filter (\<lambda>c. check_wanted now r (checks (s_world s) c)) cs else [])
       @ (if do_actions r then filter (action_wanted now r (s_world s)) as else []) \<and>
    (do_checks r \<longrightarrow> zs = [] \<or> is_full r res) \<and> (do_actions r \<longrightarrow> ts = [] \<or> is_full r res)"
  by (rule get_to_run_effect[OF assms]) blast

text \<open>What was given is in the poller, so no later request gets it.\<close>

lemma marked_check_taken:
  assumes "c \<in> set cs" and "distinct cs"
  shows "c_status (checks (fold (mark_check r) cs w) c) = InPoller"
  using pollers.marks_view_in[OF assms, of r w] by (auto simp: mark_check_def)

lemma marked_action_taken:
  assumes "a \<in> set as" and "distinct as" and "action_view w' a = action_view (fold (mark_action r) as w) a"
  shows "\<not> action_wanted now' r' w' a"
proof -
  obtain u where "action_view (fold (mark_action r) as w) a = action_view (mark_action r a u) a"
    using reactionners.marks_view_in[OF assms(1,2), of r w] by blast
  then have "action_wanted now' r' w' a = action_wanted now' r' (mark_action r a u) a"
    using assms(3) by (intro reactionners.ready_view) simp
  then show ?thesis by (auto simp: action_wanted_def mark_action_def split: action_ref.splits)
qed

lemma given_taken:
  assumes g: "get_to_run_checks now r s = Some (res, s')" and q: "queue_ok s" and a: "a \<in> set res"
  shows "(\<forall>c. a = ACheck c \<longrightarrow> \<not> check_wanted now' r' (checks (s_world s') c)) \<and> \<not> action_wanted now' r' (s_world s') a"
proof -
  let ?w = "s_world s"
  obtain cs zs as ts where e: "sorted_checks s = cs @ zs" "sorted_actions s = as @ ts"
    "res = map ACheck (if do_checks r then filter (\<lambda>c. check_wanted now r (checks ?w c)) cs else [])
         @ (if do_actions r then filter (action_wanted now r ?w) as else [])"
    "s' = s\<lparr>s_world := fold (mark_action r) (if do_actions r then filter (action_wanted now r ?w) as else [])
        (fold (mark_check r) (if do_checks r then filter (\<lambda>c. check_wanted now r (checks ?w c)) cs else []) ?w)\<rparr>"
    by (rule get_to_run_effect[OF g q])
  define gc where "gc = (if do_checks r then filter (\<lambda>c. check_wanted now r (checks ?w c)) cs else [])"
  define ga where "ga = (if do_actions r then filter (action_wanted now r ?w) as else [])"
  have d: "distinct gc" "distinct ga"
    using q arg_cong[OF e(1), of distinct] arg_cong[OF e(2), of distinct]
    by (auto simp: gc_def ga_def sorted_checks_def sorted_actions_def queue_ok_def)
  have res: "res = map ACheck gc @ ga" and w': "s_world s' = fold (mark_action r) ga (fold (mark_check r) gc ?w)"
    using e(3,4) by (simp_all add: gc_def ga_def)
  have ga_no: "b \<noteq> ACheck c" if "b \<in> set ga" for b c
    using that by (auto simp: ga_def action_wanted_def split: if_splits)
  consider c where "a = ACheck c" "c \<in> set gc" | "a \<in> set ga" using a res by auto
  then show ?thesis
  proof cases
    case 1
    then have "c_status (checks (s_world s') c) = InPoller"
      by (simp add: w' marks_frame marked_check_taken[OF _ d(1)])
    then show ?thesis using 1 by (auto simp: check_wanted_def action_wanted_def)
  next
    case 2
    then show ?thesis using marked_action_taken[OF 2 d(2)] ga_no[OF 2] by (simp add: w')
  qed
qed

lemma given_wanted:
  assumes "get_to_run_checks now r s = Some (res, s')" and "queue_ok s" and "a \<in> set res"
  shows "(\<exists>c. a = ACheck c \<and> check_wanted now r (checks (s_world s) c)) \<or> action_wanted now r (s_world s) a"
  by (rule get_to_run_effect[OF assms(1,2)]) (use assms(3) in \<open>auto split: if_splits\<close>)

lemma marks_next_id:
  "next_action_id (fold (mark_action r) as w) = next_action_id w" "next_action_id (fold (mark_check r) cs w) = next_action_id w"
proof -
  show "next_action_id (fold (mark_action r) as w) = next_action_id w"
    by (induction as arbitrary: w) (simp_all add: mark_action_def split: action_ref.splits)
  show "next_action_id (fold (mark_check r) cs w) = next_action_id w"
    by (induction cs arbitrary: w) (simp_all add: mark_check_def)
qed

lemma get_to_run_queue_ok: "get_to_run_checks now r s = Some (res, s') \<Longrightarrow> queue_ok s \<Longrightarrow> queue_ok s'"
  by (erule (1) get_to_run_effect) (simp add: queue_ok_def marks_next_id)

text \<open>C17: two satellites that ask one after the other, with any tags and at any times, are never
  given the same check, notification or event handler.\<close>

theorem no_double_dispatch:
  assumes "get_to_run_checks now r s = Some (res, s')" and "get_to_run_checks now' r' s' = Some (res', s'')"
    and "queue_ok s"
  shows "set res \<inter> set res' = {}"
  using given_taken[OF assms(1,3)] given_wanted[OF assms(2) get_to_run_queue_ok[OF assms(1,3)]] by blast

subsection \<open>A check is consumed alone\<close>

text \<open>Consuming the result of a check changes no other check that exists.\<close>

definition others_kept :: "cid \<Rightarrow> world \<Rightarrow> world \<Rightarrow> bool" where
  "others_kept c w w' \<longleftrightarrow> next_action_id w \<le> next_action_id w' \<and>
     (\<forall>d < next_action_id w. d \<noteq> c \<longrightarrow> checks w' d = checks w d)"

lemma others_refl [simp, intro]: "others_kept c w w"
  by (simp add: others_kept_def)

lemma others_trans [trans]: "others_kept c w w' \<Longrightarrow> others_kept c w' w'' \<Longrightarrow> others_kept c w w''"
  by (auto simp: others_kept_def)

lemma keeps_others: "keeps P w w' \<Longrightarrow> others_kept c w w'"
  by (simp add: keeps_def others_kept_def)

lemma agrees_others: "agrees w w' \<Longrightarrow> others_kept c w w'"
  by (simp add: agrees_def others_kept_def)

lemma upd_check_others [simp, intro]: "others_kept c w (upd_check c f w)"
  by (simp add: others_kept_def)

lemma upd_others [simp, intro]: "others_kept c w (upd i f w)"
  by (simp add: others_kept_def)

lemma log_others [simp, intro]: "log_only w w' \<Longrightarrow> others_kept c w w'"
  by (rule keeps_others[OF quiet_keeps[OF quiet_log rcore_erase]])

lemma receive_result_others:
  assumes "receive_result fuel now c i w = Some w'"
  shows "others_kept c w w'"
proof -
  let ?w1 = "manage_stalking c i w"
  define ck where "ck = checks ?w1 c"
  define w2 where "w2 = upd i (\<lambda>it. it\<lparr>latency := max 0 (c_check_time ck - c_t_to_go ck), has_been_checked := True,
      execution_time := c_execution_time ck, u_time := c_u_time ck, s_time := c_s_time ck,
      last_chk := c_check_time ck, plugin_output := c_output ck, long_output := c_long_output ck,
      check_type := c_check_type ck\<rparr>) ?w1"
  define w3 where "w3 = (if process_performance_data (cls ?w1 i) \<and> process_perf_data (items w2 i)
      then upd i (\<lambda>it. it\<lparr>last_perf_data := perf_data it, perf_data := c_perf_data ck\<rparr>) w2 else w2)"
  define w4 where "w4 = upd_check c (\<lambda>ck. ck\<lparr>c_exit_status :=
      modulated_exit_status now (cls ?w1 i) (items w3 i) (c_exit_status ck)\<rparr>) w3"
  have "others_kept c w ?w1" by (rule log_others) (rule log_only_entries)
  also have "others_kept c ?w1 w2" by (simp add: w2_def)
  also have "others_kept c w2 w3" by (simp add: w3_def)
  also have "others_kept c w3 w4" by (simp add: w4_def)
  also have "others_kept c w4 w'"
  proof (cases "c_exit_status (checks w4 c) \<noteq> 0 \<and> c_status (checks w4 c) = WaitConsume \<and>
      length (act_depend_of (items w4 i)) \<noteq> 0")
    case True
    let ?w5 = "upd_check c (\<lambda>ck. ck\<lparr>c_status := WaitDep\<rparr>) w4"
    obtain u ids where u: "raise_dependencies_check fuel now c i ?w5 = Some (ids, u)"
      "w' = upd_check c (\<lambda>ck. ck\<lparr>c_depend_on := c_depend_on ck @ ids\<rparr>) u"
      using assms unfolding receive_result_def Let_def ck_def[symmetric] w2_def[symmetric] w3_def[symmetric]
        w4_def[symmetric] if_P[OF True] by (auto simp: bind_eq_Some_conv)
    have "others_kept c w4 ?w5" by simp
    also have "others_kept c ?w5 u"
      by (rule keeps_others[OF launched_launch_deps[OF u(1)[unfolded raise_dependencies_check_def]]])
    also have "others_kept c u w'" by (simp add: u(2))
    finally show ?thesis .
  next
    case False
    have "w' = w4"
      using assms unfolding receive_result_def Let_def ck_def[symmetric] w2_def[symmetric] w3_def[symmetric]
        w4_def[symmetric] if_not_P[OF False] by simp
    then show ?thesis by simp
  qed
  finally show ?thesis .
qed

lemma apply_result_others:
  assumes "apply_result now c i w = (na, w')"
  shows "others_kept c w w'"
proof -
  define w1 where "w1 = upd i (\<lambda>it. it\<lparr>last_state_type := state_type it\<rparr>) w"
  define es where "es = c_exit_status (checks w1 c)"
  define w2 where "w2 = set_state_from_exit_status now es i w1"
  define w3 where "w3 = upd i (\<lambda>it. it\<lparr>return_code := es, state_changed_since_impact := True\<rparr>) w2"
  define w4 where "w4 = remove_in_progress_check c i w3"
  define w5 where "w5 = upd_check c (\<lambda>ck. ck\<lparr>c_status := (if c_depend_on_me ck \<noteq> [] then HaveToResolveDep else Zombie)\<rparr>) w4"
  have "others_kept c w w1" by (simp add: w1_def)
  also have "others_kept c w1 (scored now w1 es i)" by (simp add: scored_def)
  also have "others_kept c (scored now w1 es i) w2" unfolding w2_def by (rule keeps_others[OF keeps_set_state])
  also have "others_kept c w2 w3" by (simp add: w3_def)
  also have "others_kept c w3 w4" by (simp add: w4_def remove_in_progress_check_def)
  finally have 4: "others_kept c w w4" .
  have 5: "others_kept c w4 w5" by (simp add: w5_def)
  have 6: "others_kept c w5 (check_and_set_unreachability now i w5)" by (rule keeps_others) (rule steady_check_and_set_unreachability)
  have "w' \<in> {w4, w5, check_and_set_unreachability now i w5}"
    using assms
    unfolding apply_result_def Let_def w1_def[symmetric] es_def[symmetric] w2_def[symmetric] w3_def[symmetric]
      w4_def[symmetric] w5_def[symmetric] by (auto split: if_splits)
  then show ?thesis using 4 others_trans[OF 4 5] others_trans[OF others_trans[OF 4 5] 6] by auto
qed

lemma consume_state_others:
  assumes "consume_state_result fuel now run c i w = Some w'" and "tame run"
  shows "others_kept c w w'"
proof -
  obtain w1 na w2 w3 where "receive_result fuel now c i w = Some w1" "apply_result now c i w1 = (na, w2)"
    "react_to_result fuel now c na i w2 = Some w3" "w' = finish_result now run c i w3"
    by (rule consume_parts[OF assms(1)])
  moreover have "others_kept c w2 w3" if "react_to_result fuel now c na i w2 = Some w3"
    using others_trans[OF upd_others keeps_others[OF react_machine[OF that]]] .
  ultimately show ?thesis
    using others_trans[OF others_trans[OF receive_result_others apply_result_others]
        others_trans[OF _ agrees_others[OF agrees_finish_result[OF assms(2)]]]] by blast
qed

lemma consume_maintenance_others: "others_kept c w (consume_maintenance_result now c i w)"
  by (simp add: consume_maintenance_result_def Let_def others_kept_def remove_in_progress_check_def)

lemma consume_maintenance_status:
  "c_status (checks (consume_maintenance_result now c i w) c) =
     (if c_status (checks w c) = WaitConsume then Zombie else c_status (checks w c))"
  by (simp add: consume_maintenance_result_def Let_def remove_in_progress_check_def)

definition settled_check :: "check \<Rightarrow> check \<Rightarrow> bool" where
  "settled_check ck ck' \<longleftrightarrow>
     (if c_status ck = WaitConsume then c_status ck' \<in> {Zombie, HaveToResolveDep}
      else ck' = ck)"

lemma consume_waiting_effect:
  assumes "consume_waiting fuel now run c w = Some w'" and "c < next_action_id w" and "tame run"
  shows "others_kept c w w' \<and> settled_check (checks w c) (checks w' c)"
proof (cases "c_status (checks w c) = WaitConsume")
  case True
  then have r: "consume_result fuel now run c (c_ref (checks w c)) w = Some w'"
    using assms(1) by (simp add: consume_waiting_def)
  show ?thesis
  proof (cases "c_check_variant (checks w c)")
    case State_variant
    then have s: "consume_state_result fuel now run c (c_ref (checks w c)) w = Some w'"
      using r by (simp add: consume_result_def)
    show ?thesis
      using consume_state_others[OF s assms(3)] consume_effect(2)[OF s assms(2,3)] True
      by (simp add: settled_check_def resolved_status_def)
  next
    case Maintenance_variant
    then have "w' = consume_maintenance_result now c (c_ref (checks w c)) w"
      using r by (simp add: consume_result_def)
    then show ?thesis
      using True by (simp add: settled_check_def consume_maintenance_others consume_maintenance_status)
  qed
next
  case False
  then show ?thesis using assms(1) by (simp add: consume_waiting_def settled_check_def)
qed

text \<open>A loop over checks each of whose steps changes the one check as \<^verbatim>\<open>Q\<close> says and keeps the view \<^verbatim>\<open>V\<close> of
  every other one.\<close>

lemma fold_checks:
  assumes "fold_opt f cs w = Some w'" and "distinct cs" and "\<forall>c\<in>set cs. c < next_action_id w"
    and step: "\<And>c w w'. c < next_action_id w \<Longrightarrow> f c w = Some w' \<Longrightarrow>
      Q (V (checks w c)) (V (checks w' c)) \<and> next_action_id w \<le> next_action_id w' \<and>
      (\<forall>d < next_action_id w. d \<noteq> c \<longrightarrow> V (checks w' d) = V (checks w d))"
  shows "(\<forall>c\<in>set cs. Q (V (checks w c)) (V (checks w' c))) \<and> next_action_id w \<le> next_action_id w' \<and>
    (\<forall>d < next_action_id w. d \<notin> set cs \<longrightarrow> V (checks w' d) = V (checks w d))"
  using assms(1-3)
proof (induction cs arbitrary: w)
  case (Cons c cs)
  then obtain u where u: "f c w = Some u" "fold_opt f cs u = Some w'" by (auto simp: bind_eq_Some_conv)
  have c: "c < next_action_id w" using Cons.prems(3) by simp
  note st = step[OF c u(1)]
  have "\<forall>d\<in>set cs. d < next_action_id u" using Cons.prems(3) st by fastforce
  note ih = Cons.IH[OF u(2) _ this]
  have "V (checks w' c) = V (checks u c)" "\<forall>d\<in>set cs. V (checks u d) = V (checks w d)"
    using ih st c Cons.prems(2,3) by auto
  then show ?case using ih st Cons.prems(2) by auto
qed simp

lemma remove_dep_link_effect:
  assumes "remove_dep_link c d w = Some w'"
  shows "next_action_id w' = next_action_id w \<and> (\<forall>e. c_status (checks w' e) = c_status (checks w e))"
  using assms by (auto simp: remove_dep_link_def)

lemma resolve_dependent_effect:
  assumes "resolve_dependent c w = Some w'"
  shows "next_action_id w' = next_action_id w \<and> (\<forall>d. d \<noteq> c \<longrightarrow> c_status (checks w' d) = c_status (checks w d)) \<and>
    c_status (checks w' c) = (if c_status (checks w c) = HaveToResolveDep then Zombie else c_status (checks w c))"
proof -
  have "next_action_id u = next_action_id w \<and> (\<forall>e. c_status (checks u e) = c_status (checks w e))"
    if "fold_opt (remove_dep_link c) ds w = Some u" for ds u
    by (rule fold_opt_invariant[OF that]) (auto dest: remove_dep_link_effect)
  then show ?thesis
    using assms by (auto simp: resolve_dependent_def split: if_splits)
qed

lemma add_Brok_simps [simp]:
  "s_world (add_Brok b s) = s_world s" "s_checks (add_Brok b s) = s_checks s" "s_actions (add_Brok b s) = s_actions s"
  "s_waiting_results (add_Brok b s) = s_waiting_results s" "s_downtimes (add_Brok b s) = s_downtimes s"
  by (simp_all add: add_Brok_def)

lemma on_world_simps [simp]:
  "s_world (on_world f s) = f (s_world s)" "s_checks (on_world f s) = s_checks s"
  "s_actions (on_world f s) = s_actions s" "s_waiting_results (on_world f s) = s_waiting_results s"
  "s_downtimes (on_world f s) = s_downtimes s"
  by (simp_all add: on_world_def)

lemma zombie_notification_simps [simp]:
  "checks (zombie_notification n i w) = checks w" "next_action_id (zombie_notification n i w) = next_action_id w"
  by (simp_all add: zombie_notification_def remove_in_progress_notification_def)

lemma put_results_effect:
  assumes "put_results r s = Some s'"
  shows "s_checks s' = s_checks s \<and> s_actions s' = s_actions s \<and> s_waiting_results s' = s_waiting_results s \<and>
    next_action_id (s_world s') = next_action_id (s_world s) \<and>
    (\<forall>c. c_status (checks (s_world s') c) =
      (if c \<in> set (s_checks s) \<and> (\<exists>ck. r = Check_result c ck) then WaitConsume else c_status (checks (s_world s) c)))"
proof (cases r)
  case (Check_result c ck)
  then show ?thesis using assms by (auto simp: put_results_def put_check_def Let_def)
next
  case (Notification_result n st es et ct)
  then show ?thesis
    using assms by (auto simp: put_results_def Let_def get_and_register_status_brok_def split: if_splits)
next
  case (Event_handler_result e st sn eh)
  then show ?thesis
    using assms by (auto simp: put_results_def Let_def bind_eq_Some_conv split: if_splits)
qed (use assms in \<open>auto simp: put_results_def\<close>)

definition has_result :: "cid \<Rightarrow> action_result list \<Rightarrow> bool" where
  "has_result c rs \<longleftrightarrow> (\<exists>ck. Check_result c ck \<in> set rs)"

lemma put_all_effect:
  assumes "fold_opt put_results rs s = Some s'"
  shows "s_checks s' = s_checks s \<and> s_actions s' = s_actions s \<and> s_waiting_results s' = s_waiting_results s \<and>
    next_action_id (s_world s') = next_action_id (s_world s) \<and>
    (\<forall>c\<in>set (s_checks s). c_status (checks (s_world s') c) =
      (if has_result c rs then WaitConsume else c_status (checks (s_world s) c)))"
  using assms
proof (induction rs arbitrary: s)
  case Nil
  then show ?case by (simp add: has_result_def)
next
  case (Cons r rs)
  then obtain u where u: "put_results r s = Some u" "fold_opt put_results rs u = Some s'"
    by (auto simp: bind_eq_Some_conv)
  show ?case using put_results_effect[OF u(1)] Cons.IH[OF u(2)] by (auto simp: has_result_def)
qed

lemma consume_freed_idle:
  "fold_opt (consume_freed fuel now run) cs w = Some w' \<Longrightarrow> \<forall>c\<in>set cs. c_status (checks w c) \<noteq> WaitDep \<Longrightarrow> w' = w"
  by (induction cs) (auto simp: consume_freed_def bind_eq_Some_conv)

text \<open>C15: one call of \<^verbatim>\<open>consume_results\<close> finishes every check that came back, that was made a
  result by hand or that had dependent checks to free: it is a zombie at the end, and no other check of the
  queue has changed its status. No result is left in the list of waiting results.\<close>

theorem consume_results_settles:
  assumes "consume_results fuel now run s = Some s'" and "queue_ok s" and "tame run"
    and "\<forall>c\<in>set (s_checks s). c_status (checks (s_world s) c) \<noteq> WaitDep"
  shows "s_checks s' = s_checks s \<and> s_waiting_results s' = [] \<and>
    (\<forall>c\<in>set (s_checks s). c_status (checks (s_world s') c) =
      (if has_result c (s_waiting_results s) \<or> c_status (checks (s_world s) c) \<in> {WaitConsume, HaveToResolveDep}
       then Zombie else c_status (checks (s_world s) c)))"
proof -
  let ?cs = "s_checks s" and ?st = "\<lambda>w c. c_status (checks w c)"
  obtain s1 where s1: "fold_opt put_results (s_waiting_results s) (s\<lparr>s_waiting_results := []\<rparr>) = Some s1"
    using assms(1) by (auto simp: consume_results_def bind_eq_Some_conv)
  note p = put_all_effect[OF s1, simplified]
  obtain w2 w3 w4 where w: "fold_opt (consume_waiting fuel now run) ?cs (s_world s1) = Some w2"
    "fold_opt resolve_dependent ?cs w2 = Some w3" "fold_opt (consume_freed fuel now run) ?cs w3 = Some w4"
    and s': "s' = s1\<lparr>s_world := w4\<rparr>"
    using assms(1) p s1 by (auto simp: consume_results_def on_world_opt_def bind_eq_Some_conv)
  have q: "distinct ?cs" "\<forall>c\<in>set ?cs. c < next_action_id (s_world s1)" using assms(2) p by (auto simp: queue_ok_def)
  have f2: "(\<forall>c\<in>set ?cs. settled_check (checks (s_world s1) c) (checks w2 c)) \<and>
      next_action_id (s_world s1) \<le> next_action_id w2 \<and>
      (\<forall>d<next_action_id (s_world s1). d \<notin> set ?cs \<longrightarrow> checks w2 d = checks (s_world s1) d)"
    by (rule fold_checks[OF w(1) q, where V = "\<lambda>x. x" and Q = settled_check])
      (use consume_waiting_effect[OF _ _ assms(3)] in \<open>auto simp: others_kept_def\<close>)
  define R where "R a b \<longleftrightarrow> b = (if a = HaveToResolveDep then Zombie else a)" for a b :: status
  have q2: "\<forall>c\<in>set ?cs. c < next_action_id w2" using q(2) f2 by fastforce
  have f3: "(\<forall>c\<in>set ?cs. R (?st w2 c) (?st w3 c)) \<and> next_action_id w2 \<le> next_action_id w3 \<and>
      (\<forall>d<next_action_id w2. d \<notin> set ?cs \<longrightarrow> ?st w3 d = ?st w2 d)"
    by (rule fold_checks[OF w(2) q(1) q2, where V = c_status and Q = R])
      (use resolve_dependent_effect in \<open>auto simp: R_def\<close>)
  have st: "?st w3 c = (if has_result c (s_waiting_results s) \<or> ?st (s_world s) c \<in> {WaitConsume, HaveToResolveDep}
       then Zombie else ?st (s_world s) c)" if "c \<in> set ?cs" for c
  proof -
    have "?st (s_world s1) c = (if has_result c (s_waiting_results s) then WaitConsume else ?st (s_world s) c)"
      using p that by simp
    moreover have "settled_check (checks (s_world s1) c) (checks w2 c)" "R (?st w2 c) (?st w3 c)"
      using f2 f3 that by blast+
    ultimately show ?thesis by (auto simp: settled_check_def R_def split: if_splits)
  qed
  have "w4 = w3" by (rule consume_freed_idle[OF w(3)]) (use st assms(4) in auto)
  then show ?thesis using s' p st by simp
qed

subsection \<open>Broks\<close>

lemma py_take_drop [simp]: "py_take k xs @ py_drop k xs = xs"
  by (simp add: py_take_def py_drop_def)


text \<open>The batch size is no bound: when the global queue is as long as the batch and longer than the broker's
  own queue, the number left to take is negative and the slice takes all but the last elements.\<close>

text \<open>A broker that asks for four broks is given six.\<close>

theorem get_broks_exceeds_batch:
  "map_option (\<lambda>(res, s'). length res) (get_broks ''b'' 4
     (s\<lparr>s_broks := replicate 4 Program_status_brok, s_brokers := [(''b'', replicate 3 Program_status_brok)]\<rparr>)) = Some 6"
  by (simp add: get_broks_def py_take_def py_drop_def eval_nat_numeral)

subsection \<open>A handler without an item\<close>

lemma fold_opt_fails:
  assumes "x \<in> set xs" and "P s" and "\<And>s. P s \<Longrightarrow> f x s = None" and "\<And>y s s'. P s \<Longrightarrow> f y s = Some s' \<Longrightarrow> P s'"
  shows "fold_opt f xs s = None"
  using assms(1,2)
proof (induction xs arbitrary: s)
  case (Cons y xs)
  show ?case
  proof (cases "f y s")
    case (Some u)
    then have "P u" "y \<noteq> x" using Cons.prems(2) assms(3,4) by auto
    then show ?thesis using Cons Some by simp
  qed simp
qed simp

lemma reenable_action_ref:
  "reenable_action now a w = Some w' \<Longrightarrow> e_ref (handlers w' e) = e_ref (handlers w e)"
  by (auto simp: reenable_action_def Let_def bind_eq_Some_conv split: action_ref.splits if_splits)

lemma reenable_check_handlers: "handlers (fold (reenable_check now) cs w) = handlers w"
proof (induction cs arbitrary: w)
  case (Cons c cs)
  have "handlers (reenable_check now c w) = handlers w" by (simp add: reenable_check_def Let_def upd_check_def)
  then show ?case using Cons by simp
qed simp

lemma check_orphaned_fails:
  assumes "AEventHandler e \<in> set (s_actions s)" and "e_ref (handlers (s_world s) e) = None"
  shows "check_orphaned now s = None"
proof -
  have "fold_opt (reenable_action now) (s_actions s) (fold (reenable_check now) (s_checks s) (s_world s)) = None"
    by (rule fold_opt_fails[OF assms(1), where P = "\<lambda>w. e_ref (handlers w e) = None"])
      (use assms(2) in \<open>auto simp: reenable_check_handlers reenable_action_ref reenable_action_def\<close>)
  then show ?thesis by (simp add: check_orphaned_def on_world_opt_def)
qed

lemma sched_add_actions: "set (s_actions s) \<subseteq> set (s_actions (sched_add a s))"
  by (auto simp: sched_add_def add_Check_def add_Notification_def add_EventHandler_def Let_def split: action_ref.splits)

lemma sched_add_world: "s_world (sched_add a s) = s_world s"
  by (auto simp: sched_add_def add_Check_def add_Notification_def add_EventHandler_def Let_def split: action_ref.splits)

lemma sched_adds_actions: "set (s_actions s) \<subseteq> set (s_actions (fold sched_add as s))"
  by (induction as arbitrary: s) (auto dest: subsetD[OF sched_add_actions])

lemma sched_adds_world: "s_world (fold sched_add as s) = s_world s"
  by (induction as arbitrary: s) (simp_all add: sched_add_world)

text \<open>When a result is handed to the obsessive processor, the handler made for it
  has no item, and once it is queued the search for orphans raises an exception, which ends the loop.\<close>

theorem obsessing_stops_orphan_search:
  assumes "obsess_over (cls (s_world s) i)" and "obsess_over_me (items (s_world s) i)"
  shows "check_orphaned now'
     (take_actions i (on_world (get_obsessive_compulsive_processor_command now i) s)) = None"
proof -
  let ?w = "s_world s"
  let ?s = "on_world (get_obsessive_compulsive_processor_command now i) s"
  define h where "h = new_event_handler now (Resolved (ocp_command (cls ?w i)) (get_data_for_event_handler ?w i))
      None (ocp_timeout (cls ?w i)) ''None'' False"
  have h1: "e_ref h = None" by (simp add: h_def new_event_handler_def)
  have h2: "get_obsessive_compulsive_processor_command now i ?w =
       add_action i (AEventHandler (next_action_id ?w)) (snd (alloc_handler h ?w))"
    using assms by (cases "my_type (items ?w i)")
      (simp_all add: get_obsessive_compulsive_processor_command_def host_get_ocp_command_def h_def
        service_get_ocp_command_def alloc_handler_def Let_def)
  note h = h1 h2
  define as where "as = actions (items (s_world ?s) i)"
  have as: "as = actions (items ?w i) @ [AEventHandler (next_action_id ?w)]"
    by (simp add: as_def h(2) add_action_def alloc_handler_def)
  have "AEventHandler (next_action_id ?w) \<in> set (s_actions (fold sched_add as ?s))"
    by (simp add: as sched_add_def add_EventHandler_def)
  moreover have "e_ref (handlers (s_world ?s) (next_action_id ?w)) = None"
    by (simp add: h add_action_def alloc_handler_def)
  ultimately show ?thesis
    by (intro check_orphaned_fails[of "next_action_id ?w"]) (simp_all add: take_actions_def as_def sched_adds_world)
qed

subsection \<open>Examples\<close>

definition queue_sched :: "world \<Rightarrow> sched" where
  "queue_sched w =
     \<lparr>s_world = w, s_hosts = [0], s_services = [1], s_contacts = [], s_checks = [0], s_actions = [],
      s_downtimes = [], s_contact_downtimes = [], s_comments = [], s_broks = [], s_brokers = [(''b'', [])],
      s_waiting_results = [], s_must_run = True, s_cleaning_queues_interval = 900, s_timeout_exit_status = 2\<rparr>"

definition due_world :: world where
  "due_world = (small_world id 2)\<lparr>checks := (\<lambda>_. (ping_result 0)\<lparr>c_status := Scheduled\<rparr>)\<rparr>"

definition poller_request :: request where
  "poller_request = \<lparr>do_checks = True, do_actions = True, poller_tags = [''None''], reactionner_tags = [''None''],
     worker_name = ''poller-1'', module_types = [''fork''], max_actions = Some 5\<rparr>"

lemma small_queue_ok: "queue_ok (queue_sched (small_world id 2))" "queue_ok (queue_sched due_world)"
  by (simp_all add: queue_ok_def queue_sched_def due_world_def)

lemma due_given:
  "\<exists>s'. get_to_run_checks 10 poller_request (queue_sched due_world) = Some ([ACheck 0], s') \<and>
     get_to_run_checks 11 poller_request s' \<noteq> None"
proof -
  have "map_option fst (get_to_run_checks 10 poller_request (queue_sched due_world)) = Some [ACheck 0]" by code_simp
  moreover have "Option.bind (get_to_run_checks 10 poller_request (queue_sched due_world))
      (\<lambda>(res, s'). get_to_run_checks 11 poller_request s') \<noteq> None" by code_simp
  ultimately show ?thesis by auto
qed

theorem get_to_run_checks_gives_witness:
  "\<exists>s' cs zs as ts. get_to_run_checks 10 poller_request (queue_sched due_world) = Some ([ACheck 0], s') \<and>
    sorted_checks (queue_sched due_world) = cs @ zs \<and> sorted_actions (queue_sched due_world) = as @ ts \<and>
    [ACheck 0] = map ACheck (filter (\<lambda>c. check_wanted 10 poller_request (checks due_world c)) cs)
       @ filter (action_wanted 10 poller_request due_world) as"
proof -
  obtain s' where s': "get_to_run_checks 10 poller_request (queue_sched due_world) = Some ([ACheck 0], s')"
    using due_given by blast
  show ?thesis
    using get_to_run_checks_gives[OF s' small_queue_ok(2)] s' by (auto simp: queue_sched_def poller_request_def)
qed

theorem no_double_dispatch_witness:
  "\<exists>s' res s''. get_to_run_checks 10 poller_request (queue_sched due_world) = Some ([ACheck 0], s') \<and>
    get_to_run_checks 11 poller_request s' = Some (res, s'') \<and> set [ACheck 0] \<inter> set res = {}"
proof -
  obtain s' res s'' where s': "get_to_run_checks 10 poller_request (queue_sched due_world) = Some ([ACheck 0], s')"
    "get_to_run_checks 11 poller_request s' = Some (res, s'')"
    using due_given by fast
  show ?thesis using no_double_dispatch[OF s' small_queue_ok(2)] s' by blast
qed

theorem consume_results_settles_witness:
  "\<exists>s'. consume_results 1 10 no_run (queue_sched (small_world id 2)) = Some s' \<and>
     s_checks s' = [0] \<and> c_status (checks (s_world s') 0) = Zombie"
proof -
  have "consume_results 1 10 no_run (queue_sched (small_world id 2)) \<noteq> None" by code_simp
  then obtain s' where s': "consume_results 1 10 no_run (queue_sched (small_world id 2)) = Some s'" by blast
  have "\<forall>c\<in>set (s_checks (queue_sched (small_world id 2))).
      c_status (checks (s_world (queue_sched (small_world id 2))) c) \<noteq> WaitDep"
    by (simp add: queue_sched_def)
  from consume_results_settles[OF s' small_queue_ok(1) tame_no_run this] s'
  show ?thesis by (simp add: queue_sched_def)
qed


theorem obsessing_stops_orphan_search_witness:
  "let s = queue_sched ((small_world (\<lambda>it. it\<lparr>obsess_over_me := True\<rparr>) 2)
       \<lparr>service_class := (default_class ping_command Service)\<lparr>obsess_over := True\<rparr>\<rparr>)
   in check_orphaned 20 (take_actions 1 (on_world (get_obsessive_compulsive_processor_command 10 1) s)) = None"
  unfolding Let_def
  by (rule obsessing_stops_orphan_search) (simp_all add: queue_sched_def small_world_def cls_of_def new_service_def new_host_def)

end
