(* ===== verification/Texts.thy ===== *)
theory Texts
  imports Prelude
begin

text \<open>
  The small parsers of the texts that reach the scheduler: an external command split at its semicolons
  (\<^verbatim>\<open>split_semicolon\<close>, \<^verbatim>\<open>shinken/util.py\<close>), numbers and truth values (\<^verbatim>\<open>to_int\<close>, \<^verbatim>\<open>to_bool\<close>), a call
  \<^verbatim>\<open>command!arg1!arg2\<close> (\<^verbatim>\<open>shinken/commandcall.py\<close>), and the output of a plugin cut into output, long output
  and performance data (\<^verbatim>\<open>get_outputs\<close>, \<^verbatim>\<open>shinken/action.py\<close>).
\<close>

subsection \<open>Python's string methods\<close>

definition ends_with :: "string \<Rightarrow> char \<Rightarrow> bool" where
  "ends_with s c \<longleftrightarrow> s \<noteq> [] \<and> last s = c"

definition has_prefix :: "string \<Rightarrow> string \<Rightarrow> bool" where
  "has_prefix p s \<longleftrightarrow> take (length p) s = p"

text \<open>\<^verbatim>\<open>s.replace(pat, rep)\<close> for a non-empty pattern: the occurrences from the left that do not overlap.\<close>

function py_replace :: "string \<Rightarrow> string \<Rightarrow> string \<Rightarrow> string" where
  "py_replace pat rep s =
     (if s = [] then []
      else if pat \<noteq> [] \<and> has_prefix pat s then rep @ py_replace pat rep (drop (length pat) s)
      else hd s # py_replace pat rep (tl s))"
  by pat_completeness auto
termination by (relation "measure (\<lambda>(pat, rep, s). length s)") auto

declare py_replace.simps [simp del]

lemma py_replace_Nil [simp]: "py_replace pat rep [] = []"
  by (simp add: py_replace.simps)

text \<open>\<^verbatim>\<open>s.split(c, 1)\<close>\<close>

definition split_once :: "char \<Rightarrow> string \<Rightarrow> string list" where
  "split_once c s = (let a = takeWhile (\<lambda>x. x \<noteq> c) s; b = dropWhile (\<lambda>x. x \<noteq> c) s in if b = [] then [a] else [a, tl b])"

subsection \<open>Semicolons\<close>

text \<open>The loop of \<^verbatim>\<open>split_semicolon\<close>: part \<^verbatim>\<open>i\<close> is glued to the next one when it ends with a backslash, which is
  removed, or when enough parts are there.\<close>

function glue_parts :: "nat \<Rightarrow> nat \<Rightarrow> string list \<Rightarrow> string list" where
  "glue_parts maxsplit i parts =
     (if Suc i < length parts
      then let ends = ends_with (parts ! i) (CHR 0x5C);
               part = (if ends then butlast (parts ! i) else parts ! i)
           in if ends \<or> i \<ge> maxsplit
              then glue_parts maxsplit i
                     (take i parts @ (part @ '';'' @ parts ! Suc i) # drop (Suc (Suc i)) parts)
              else glue_parts maxsplit (Suc i) parts
      else parts)"
  by pat_completeness auto
termination by (relation "measure (\<lambda>(m, i, parts). length parts - i)") auto

declare glue_parts.simps [simp del]

definition split_semicolon :: "string \<Rightarrow> nat option \<Rightarrow> string list" where
  "split_semicolon line maxsplit =
     (let parts = split_on (CHR '';'') line
      in glue_parts (case maxsplit of None \<Rightarrow> length parts | Some m \<Rightarrow> m) 0 parts)"

text \<open>How a sender writes a text that holds semicolons.\<close>

definition escape :: "string \<Rightarrow> string" where
  "escape p = concat (map (\<lambda>c. if c = CHR '';'' then [CHR 0x5C, c] else [c]) p)"

fun escaped_pieces :: "string list \<Rightarrow> string list" where
  "escaped_pieces [] = []"
| "escaped_pieces [q] = [q]"
| "escaped_pieces (q # r # qs) = (q @ [CHR 0x5C]) # escaped_pieces (r # qs)"

lemma split_on_append: "split_on c (a @ c # b) = split_on c a @ split_on c b"
  by (induction a) (auto split: list.splits)

lemma split_escape: "split_on (CHR '';'') (escape p) = escaped_pieces (split_on (CHR '';'') p)"
proof (induction p)
  case (Cons c p)
  obtain q qs where "split_on (CHR '';'') p = q # qs"
    using split_on_not_Nil by (meson list.exhaust)
  then show ?case
    using Cons by (cases qs) (auto simp: escape_def)
qed (simp add: escape_def)

lemma glue_escaped:
  assumes "n < maxsplit" "length done = n"
  shows "glue_parts maxsplit n (done @ escaped_pieces (q # qs) @ rest) =
         glue_parts maxsplit n (done @ join_with '';'' (q # qs) # rest)"
proof (induction qs arbitrary: q)
  case (Cons r qs)
  have "glue_parts maxsplit n (done @ escaped_pieces (q # r # qs) @ rest) =
        glue_parts maxsplit n (done @ escaped_pieces ((q @ '';'' @ r) # qs) @ rest)"
    using assms by (cases qs) (subst glue_parts.simps; simp add: nth_append ends_with_def Let_def)+
  then show ?case using Cons[of "q @ '';'' @ r"] by (cases qs) simp_all
qed simp

lemma glue_step:
  assumes "n < maxsplit" "length done = n" "\<not> ends_with p (CHR 0x5C)" "rest \<noteq> []"
  shows "glue_parts maxsplit n (done @ p # rest) = glue_parts maxsplit (Suc n) ((done @ [p]) @ rest)"
  using assms by (subst glue_parts.simps) (simp add: nth_append Let_def)

lemma glue_all:
  assumes "length done + length ps \<le> maxsplit" "ps \<noteq> []" "\<forall>p \<in> set (butlast ps). \<not> ends_with p (CHR 0x5C)"
  shows "glue_parts maxsplit (length done) (done @ concat (map (\<lambda>p. split_on (CHR '';'') (escape p)) ps)) = done @ ps"
  using assms
proof (induction ps arbitrary: "done")
  case (Cons p ps)
  obtain q qs where q: "split_on (CHR '';'') p = q # qs"
    using split_on_not_Nil by (meson list.exhaust)
  have p: "join_with '';'' (q # qs) = p"
    using join_split[of "CHR '';''" p] q by simp
  let ?rest = "concat (map (\<lambda>p. split_on (CHR '';'') (escape p)) ps)"
  have 1: "glue_parts maxsplit (length done) (done @ concat (map (\<lambda>p. split_on (CHR '';'') (escape p)) (p # ps))) =
        glue_parts maxsplit (length done) (done @ p # ?rest)"
    using glue_escaped[of "length done" maxsplit "done" q qs ?rest] Cons.prems(1) by (simp add: split_escape q p)
  show ?case
  proof (cases "ps = []")
    case True
    then show ?thesis unfolding 1 by (subst glue_parts.simps) simp
  next
    case False
    then have "?rest \<noteq> []" by (cases ps) auto
    then show ?thesis
      unfolding 1 using Cons.IH[of "done @ [p]"] Cons.prems False glue_step[of "length done" maxsplit "done" p ?rest]
      by simp
  qed
qed simp

text \<open>C19: an external command whose parts are written with escaped semicolons is split back
  into these parts, when no part but the last ends with a backslash.\<close>

theorem split_semicolon_escaped:
  assumes "ps \<noteq> []" "\<forall>p \<in> set (butlast ps). \<not> ends_with p (CHR 0x5C)"
  shows "split_semicolon (join_with '';'' (map escape ps)) None = ps"
proof -
  have split: "split_on (CHR '';'') (join_with '';'' (map escape ps)) =
      concat (map (\<lambda>p. split_on (CHR '';'') (escape p)) ps)" if "ps \<noteq> []" for ps
    using that by (induction ps rule: induct_list012) (simp_all add: split_on_append)
  have "length ps \<le> length (concat (map (\<lambda>p. split_on (CHR '';'') (escape p)) ps))"
    by (induction ps) (auto simp: Suc_le_eq add_strict_increasing split_on_not_Nil)
  then show ?thesis
    using glue_all[of "[]" ps] assms by (simp add: split_semicolon_def split Let_def)
qed

theorem split_semicolon_escaped_witness:
  "split_semicolon (join_with '';'' (map escape [''[1] ADD'', ''a;b'', ''c'', [CHR 0x5C]])) None =
     [''[1] ADD'', ''a;b'', ''c'', [CHR 0x5C]]"
  by (rule split_semicolon_escaped) (simp_all add: ends_with_def)

subsection \<open>Values\<close>

definition to_bool :: "string \<Rightarrow> bool" where
  "to_bool val \<longleftrightarrow> val \<in> {''1'', ''on'', ''true'', ''True''}"

definition digit :: "char \<Rightarrow> int option" where
  "digit c = (let n = of_char c :: int in if 48 \<le> n \<and> n \<le> 57 then Some (n - 48) else None)"

text \<open>The digits of a number, which single underscores may separate: their value and their count.\<close>

fun digits :: "string \<Rightarrow> int \<Rightarrow> nat \<Rightarrow> bool \<Rightarrow> (int \<times> nat) option" where
  "digits [] v n sep = (if sep then None else Some (v, n))"
| "digits (c # cs) v n sep =
     (if c = CHR ''_'' then (if sep then None else digits cs v n True)
      else case digit c of None \<Rightarrow> None | Some d \<Rightarrow> digits cs (10 * v + d) (Suc n) False)"

definition whole :: "string \<Rightarrow> (int \<times> nat) option" where
  "whole s = (if s = [] then Some (0, 0) else digits s 0 0 True)"

definition split_sign :: "string \<Rightarrow> int \<times> string" where
  "split_sign s = (case s of c # cs \<Rightarrow> if c = CHR ''-'' then (-1, cs) else if c = CHR ''+'' then (1, cs) else (1, s)
                   | [] \<Rightarrow> (1, s))"

text \<open>\<^verbatim>\<open>int(text)\<close>: \<^term>\<open>None\<close> is the \<^verbatim>\<open>ValueError\<close>.\<close>

definition int_of_text :: "string \<Rightarrow> int option" where
  "int_of_text t =
     (let (sign, s) = split_sign (strip t) in if s = [] then None else map_option (\<lambda>(v, k). sign * v) (whole s))"

text \<open>\<^verbatim>\<open>int(float(val))\<close>: a decimal number with an optional fraction and exponent, cut to an integer; floats
  are exact rationals here as everywhere in the development. \<^verbatim>\<open>float\<close> also reads the infinities, which \<^verbatim>\<open>int\<close>
  refuses with an \<^verbatim>\<open>OverflowError\<close>, and \<^verbatim>\<open>nan\<close>, which it refuses with a \<^verbatim>\<open>ValueError\<close> as it does a text that
  is no number.\<close>

datatype number_error = ValueError | OverflowError

definition lower :: "char \<Rightarrow> char" where
  "lower c = (let n = (of_char c :: int) in if 65 \<le> n \<and> n \<le> 90 then char_of (n + 32) else c)"

definition decimal :: "string \<Rightarrow> int option" where
  "decimal s = do {
     let mantissa = takeWhile (\<lambda>c. c \<noteq> CHR ''e'' \<and> c \<noteq> CHR ''E'') s;
     let rest = drop (length mantissa) s;
     (exp_sign, exp_text) \<leftarrow> (case rest of [] \<Rightarrow> Some (1, ''0'')
        | _ # e \<Rightarrow> let (es, et) = split_sign e in if et = [] then None else Some (es, et));
     (e, _) \<leftarrow> whole exp_text;
     let parts = split_on (CHR ''.'') mantissa;
     (n, k) \<leftarrow> (case parts of
          [a] \<Rightarrow> if a = [] then None else map_option (\<lambda>(v, k). (v, 0)) (whole a)
        | [a, b] \<Rightarrow> if a = [] \<and> b = [] then None
                    else do { (v, i) \<leftarrow> whole a; (f, j) \<leftarrow> whole b; Some (v * 10 ^ j + f, j) }
        | _ \<Rightarrow> None);
     let ex = exp_sign * e - int k;
     Some (if ex \<ge> 0 then n * 10 ^ nat ex else n div 10 ^ nat (- ex))
   }"

definition to_int :: "string \<Rightarrow> number_error + int" where
  "to_int val =
     (let (sign, s) = split_sign (strip val)
      in if map lower s \<in> {''inf'', ''infinity''} then Inl OverflowError
         else case decimal s of None \<Rightarrow> Inl ValueError | Some n \<Rightarrow> Inr (sign * n))"

lemma to_int_examples:
  "to_int ''12'' = Inr 12" "to_int '' -7.9 '' = Inr (-7)" "to_int ''1.5e3'' = Inr 1500" "to_int ''1_000'' = Inr 1000"
  "to_int ''25e-1'' = Inr 2" "to_int ''abc'' = Inl ValueError" "to_int [] = Inl ValueError"
  "to_int ''1__0'' = Inl ValueError" "to_int ''nan'' = Inl ValueError" "to_int ''-Inf'' = Inl OverflowError"
  by code_simp+

subsection \<open>Calls and outputs\<close>

definition protect_exclamation :: string where
  "protect_exclamation = ''___PROTECT_EXCLAMATION___''"

definition get_command_and_args :: "string \<Rightarrow> string \<times> string list" where
  "get_command_and_args call =
     (let tab = split_on (CHR ''!'') (py_replace [CHR 0x5C, CHR ''!''] protect_exclamation call)
      in (hd tab, map (py_replace protect_exclamation ''!'') (tl tab)))"

definition protect_pipe :: string where
  "protect_pipe = ''___PROTECT_PIPE___''"

definition unprotected :: "string \<Rightarrow> string" where
  "unprotected s = py_replace protect_pipe ''|'' (strip s)"

text \<open>The lines after the first: long output up to the first bar, performance data after it.\<close>

fun other_lines :: "bool \<Rightarrow> string list \<Rightarrow> string list \<Rightarrow> string \<Rightarrow> string list \<times> string" where
  "other_lines in_perfdata [] long perf = (long, perf)"
| "other_lines in_perfdata (line # lines) long perf =
     (if in_perfdata then other_lines True lines long (perf @ '' '' @ unprotected line)
      else case split_once (CHR ''|'') line of
             [a, b] \<Rightarrow> other_lines True lines (long @ [unprotected a]) (perf @ '' '' @ unprotected b)
           | _ \<Rightarrow> other_lines False lines (long @ [unprotected line]) perf)"

text \<open>\<^verbatim>\<open>out[:n]\<close>\<close>

definition first_chars :: "int \<Rightarrow> string \<Rightarrow> string" where
  "first_chars n out =
     (if n < 0 then take (length out - nat (- n)) out else if int (length out) \<le> n then out else take (nat n) out)"

text \<open>Output, long output and performance data.\<close>

definition get_outputs :: "string \<Rightarrow> int \<Rightarrow> string \<times> string \<times> string" where
  "get_outputs out max_length =
     (let out = first_chars max_length out;
          out = py_replace [CHR 0x5C, CHR ''|''] protect_pipe out;
          elts = split_on (CHR 0x0A) out;
          elts_line1 = split_on (CHR ''|'') (hd elts);
          perf = (if length elts_line1 > 1 then unprotected (elts_line1 ! 1) else []);
          (long, perf) = other_lines False (tl elts) [] perf
      in (unprotected (hd elts_line1), join_with [CHR 0x0A] long, perf))"

end
