(* ===== verification/Handlers.thy ===== *)
theory Handlers
  imports Scheduler Texts
begin

unbundle bit_operations_syntax

text \<open>
  The state of an \<^verbatim>\<open>ExternalCommandManager\<close> (\<^verbatim>\<open>shinken/external_command.py\<close>) and the methods that carry a
  command out, one definition per method, with the names of the methods. A method for hosts and its twin for
  services are both there, because the table of the commands names both; \<^verbatim>\<open>obsess_over_host\<close> and
  \<^verbatim>\<open>obsess_over_service\<close> are the one attribute \<^verbatim>\<open>obsess_over_me\<close> of the item.

  A manager runs in the arbiter (mode \<^verbatim>\<open>dispatcher\<close>), in a receiver or in a scheduler (mode \<^verbatim>\<open>applyer\<close>). What
  the configuration is asked for by name (\<^verbatim>\<open>find_by_name\<close>) is the record \<^verbatim>\<open>directory\<close>; the satellites that
  commands are sent to are kept in \<^verbatim>\<open>m_links\<close>. A method is a function on managers, or one to
  \<^verbatim>\<open>manager option\<close> where the code can raise. The counter of the received checks is left out.
\<close>

subsection \<open>The bits of a modified attribute\<close>

definition MODATTR_NOTIFICATIONS_ENABLED :: int where "MODATTR_NOTIFICATIONS_ENABLED = 1"
definition MODATTR_ACTIVE_CHECKS_ENABLED :: int where "MODATTR_ACTIVE_CHECKS_ENABLED = 2"
definition MODATTR_PASSIVE_CHECKS_ENABLED :: int where "MODATTR_PASSIVE_CHECKS_ENABLED = 4"
definition MODATTR_EVENT_HANDLER_ENABLED :: int where "MODATTR_EVENT_HANDLER_ENABLED = 8"
definition MODATTR_FLAP_DETECTION_ENABLED :: int where "MODATTR_FLAP_DETECTION_ENABLED = 16"
definition MODATTR_FAILURE_PREDICTION_ENABLED :: int where "MODATTR_FAILURE_PREDICTION_ENABLED = 32"
definition MODATTR_PERFORMANCE_DATA_ENABLED :: int where "MODATTR_PERFORMANCE_DATA_ENABLED = 64"
definition MODATTR_OBSESSIVE_HANDLER_ENABLED :: int where "MODATTR_OBSESSIVE_HANDLER_ENABLED = 128"
definition MODATTR_EVENT_HANDLER_COMMAND :: int where "MODATTR_EVENT_HANDLER_COMMAND = 256"
definition MODATTR_CHECK_COMMAND :: int where "MODATTR_CHECK_COMMAND = 512"
definition MODATTR_NORMAL_CHECK_INTERVAL :: int where "MODATTR_NORMAL_CHECK_INTERVAL = 1024"
definition MODATTR_RETRY_CHECK_INTERVAL :: int where "MODATTR_RETRY_CHECK_INTERVAL = 2048"
definition MODATTR_MAX_CHECK_ATTEMPTS :: int where "MODATTR_MAX_CHECK_ATTEMPTS = 4096"
definition MODATTR_FRESHNESS_CHECKS_ENABLED :: int where "MODATTR_FRESHNESS_CHECKS_ENABLED = 8192"
definition MODATTR_CHECK_TIMEPERIOD :: int where "MODATTR_CHECK_TIMEPERIOD = 16384"
definition MODATTR_CUSTOM_VARIABLE :: int where "MODATTR_CUSTOM_VARIABLE = 32768"
definition MODATTR_NOTIFICATION_TIMEPERIOD :: int where "MODATTR_NOTIFICATION_TIMEPERIOD = 65536"

subsection \<open>The state of a manager\<close>

datatype command_mode = Dispatcher | Receiver | Applyer

text \<open>The attributes of the configuration that commands read or change.\<close>

record program =
  pg_enable_notifications :: bool
  pg_enable_event_handlers :: bool
  pg_enable_flap_detection :: bool
  pg_enable_failure_prediction :: bool
  pg_process_performance_data :: bool
  pg_check_host_freshness :: bool
  pg_check_service_freshness :: bool
  pg_execute_host_checks :: bool
  pg_execute_service_checks :: bool
  pg_accept_passive_host_checks :: bool
  pg_accept_passive_service_checks :: bool
  pg_obsess_over_hosts :: bool
  pg_obsess_over_services :: bool
  pg_modified_attributes :: int
  pg_log_passive_checks :: bool
  pg_log_external_commands :: bool
  pg_accept_passive_unknown_check_results :: bool

record command_def =
  cd_command_line :: string
  cd_poller_tag :: string
  cd_reactionner_tag :: string
  cd_module_type :: string
  cd_timeout :: int
  cd_enable_environment_macros :: bool
  cd_priority :: int

record directory =
  find_host :: "string \<Rightarrow> iid option"
  find_service :: "string \<Rightarrow> string \<Rightarrow> iid option"
  find_contact :: "string \<Rightarrow> ctid option"
  find_timeperiod :: "string \<Rightarrow> period option"
  find_command :: "string \<Rightarrow> command_def option"
  find_hostgroup :: "string \<Rightarrow> iid list option"
  find_servicegroup :: "string \<Rightarrow> iid list option"

text \<open>A satellite that commands are sent to, and a part of the configuration with the scheduler it is assigned to.\<close>

record link =
  lk_alive :: bool
  lk_external_commands :: "string list"

record shard =
  sh_hosts :: "string list"
  sh_assigned_to :: "nat option"

text \<open>\<^verbatim>\<open>m_directory\<close> is missing in a receiver, which has no configuration. \<^verbatim>\<open>m_shards\<close> and \<^verbatim>\<open>m_schedulers\<close> are
  the arbiter's, \<^verbatim>\<open>m_host_assoc\<close> the receiver's; \<^verbatim>\<open>m_accept_unknown\<close> and \<^verbatim>\<open>m_broks\<close> belong to whichever of the
  two owns the manager.\<close>

record manager =
  m_mode :: command_mode
  m_program :: program
  m_directory :: "directory option"
  m_sched :: sched
  m_current_timestamp :: int
  m_links :: "nat \<Rightarrow> link"
  m_schedulers :: "nat list"
  m_shards :: "shard list"
  m_host_assoc :: "string \<Rightarrow> nat option"
  m_accept_unknown :: bool
  m_broks :: "brok list"

text \<open>What a command is carried out with: the clock, the environment of the scheduler, and the two effects that
  are not modelled, a command line run by the operating system (did it time out, its exit status, its output)
  and the poller that the arbiter adds to a realm.\<close>

record surroundings = env +
  now_is :: clock
  run_line :: "string \<Rightarrow> bool \<times> int \<times> string"
  add_poller :: "string \<Rightarrow> string \<Rightarrow> string \<Rightarrow> string \<Rightarrow> manager \<Rightarrow> manager option"

abbreviation world_of :: "manager \<Rightarrow> world" where
  "world_of m \<equiv> s_world (m_sched m)"

abbreviation item_of :: "manager \<Rightarrow> iid \<Rightarrow> item" where
  "item_of m i \<equiv> items (world_of m) i"

abbreviation contact_of :: "manager \<Rightarrow> ctid \<Rightarrow> contact" where
  "contact_of m c \<equiv> contact_store (world_of m) c"

definition on_sched :: "(sched \<Rightarrow> sched) \<Rightarrow> manager \<Rightarrow> manager" where
  "on_sched f m = m\<lparr>m_sched := f (m_sched m)\<rparr>"

definition on_sched_opt :: "(sched \<Rightarrow> sched option) \<Rightarrow> manager \<Rightarrow> manager option" where
  "on_sched_opt f m = map_option (\<lambda>s. m\<lparr>m_sched := s\<rparr>) (f (m_sched m))"

definition on_manager :: "(world \<Rightarrow> world) \<Rightarrow> manager \<Rightarrow> manager" where
  "on_manager f = on_sched (on_world f)"

definition on_manager_opt :: "(world \<Rightarrow> world option) \<Rightarrow> manager \<Rightarrow> manager option" where
  "on_manager_opt f = on_sched_opt (on_world_opt f)"

definition on_item :: "iid \<Rightarrow> (item \<Rightarrow> item) \<Rightarrow> manager \<Rightarrow> manager" where
  "on_item i f = on_manager (upd i f)"

definition upd_contact :: "ctid \<Rightarrow> (contact \<Rightarrow> contact) \<Rightarrow> world \<Rightarrow> world" where
  "upd_contact c f w = w\<lparr>contact_store := (contact_store w)(c := f (contact_store w c))\<rparr>"

definition on_contact :: "ctid \<Rightarrow> (contact \<Rightarrow> contact) \<Rightarrow> manager \<Rightarrow> manager" where
  "on_contact c f = on_manager (upd_contact c f)"

definition status_brok :: "iid \<Rightarrow> manager \<Rightarrow> manager" where
  "status_brok i = on_sched (get_and_register_status_brok i)"

definition contact_status_brok :: "ctid \<Rightarrow> manager \<Rightarrow> manager" where
  "contact_status_brok c = on_sched (add_Brok (Contact_status_brok c))"

definition mark_item :: "int \<Rightarrow> item \<Rightarrow> item" where
  "mark_item flag it = it\<lparr>modified_attributes := modified_attributes it OR flag\<rparr>"

definition mark_contact :: "int \<Rightarrow> contact \<Rightarrow> contact" where
  "mark_contact flag ct = ct\<lparr>ct_modified_attributes := ct_modified_attributes ct OR flag\<rparr>"

text \<open>\<^verbatim>\<open>Config.explode_global_conf\<close> copies the settings of the program into the classes of hosts and services.\<close>

definition explode_class :: "bool \<Rightarrow> program \<Rightarrow> sclass \<Rightarrow> sclass" where
  "explode_class for_host p k =
     k\<lparr>enable_notifications := pg_enable_notifications p, enable_event_handlers := pg_enable_event_handlers p,
       enable_flap_detection := pg_enable_flap_detection p,
       process_performance_data := pg_process_performance_data p,
       global_check_freshness := (if for_host then pg_check_host_freshness p else pg_check_service_freshness p),
       execute_checks := (if for_host then pg_execute_host_checks p else pg_execute_service_checks p),
       accept_passive_checks := (if for_host then pg_accept_passive_host_checks p else pg_accept_passive_service_checks p),
       obsess_over := (if for_host then pg_obsess_over_hosts p else pg_obsess_over_services p)\<rparr>"

definition explode_global_conf :: "manager \<Rightarrow> manager" where
  "explode_global_conf m =
     on_manager (\<lambda>w. w\<lparr>host_class := explode_class True (m_program m) (host_class w),
                        service_class := explode_class False (m_program m) (service_class w)\<rparr>) m"

text \<open>The shape of every method that turns one attribute on or off: nothing happens when it has the value already.\<close>

definition switch_item :: "int \<Rightarrow> (item \<Rightarrow> bool) \<Rightarrow> bool \<Rightarrow> (item \<Rightarrow> item) \<Rightarrow> iid \<Rightarrow> manager \<Rightarrow> manager" where
  "switch_item flag get wanted set_it i m =
     (if get (item_of m i) = wanted then m
      else status_brok i (on_item i (\<lambda>it. set_it (mark_item flag it)) m))"

definition switch_contact ::
  "int \<Rightarrow> (contact \<Rightarrow> bool) \<Rightarrow> bool \<Rightarrow> (contact \<Rightarrow> contact) \<Rightarrow> ctid \<Rightarrow> manager \<Rightarrow> manager" where
  "switch_contact flag get wanted set_it c m =
     (if get (contact_of m c) = wanted then m
      else contact_status_brok c (on_contact c (\<lambda>ct. set_it (mark_contact flag ct)) m))"

definition switch_program :: "int \<Rightarrow> (program \<Rightarrow> bool) \<Rightarrow> bool \<Rightarrow> (program \<Rightarrow> program) \<Rightarrow> manager \<Rightarrow> manager" where
  "switch_program flag get wanted set_it m =
     (if get (m_program m) = wanted then m
      else let p = m_program m;
               p = set_it (p\<lparr>pg_modified_attributes := pg_modified_attributes p OR flag\<rparr>)
           in on_sched get_and_register_update_program_status_brok (explode_global_conf (m\<lparr>m_program := p\<rparr>)))"

definition stop_flapping :: "item \<Rightarrow> item" where
  "stop_flapping it = it\<lparr>is_flapping := False, flapping_changes := []\<rparr>"

definition upper :: "char \<Rightarrow> char" where
  "upper c = (let n = (of_char c :: int) in if 97 \<le> n \<and> n \<le> 122 then char_of (n - 32) else c)"

text \<open>\<^verbatim>\<open>CommandCall(commands, call, poller_tag)\<close> with the priority and the reactionner tag of the command. The
  call of a command that does not exist, which the code would keep as invalid, is \<^term>\<open>None\<close>: a command name is
  looked up before the call is made.\<close>

definition new_command_call :: "manager \<Rightarrow> string \<Rightarrow> string \<Rightarrow> command_call option" where
  "new_command_call m call poller_tag = do {
     d \<leftarrow> m_directory m;
     c \<leftarrow> find_command d (strip (fst (get_command_and_args call)));
     Some \<lparr>cmd_call = call, cmd_line = cd_command_line c, cmd_timeout = cd_timeout c,
           cmd_poller_tag = (if poller_tag = ''None'' then cd_poller_tag c else poller_tag),
           cmd_reactionner_tag = cd_reactionner_tag c, cmd_module_type = cd_module_type c,
           cmd_environment_macros = cd_enable_environment_macros c, cmd_priority = cd_priority c\<rparr>
   }"

subsection \<open>Switches of a host or a service\<close>

definition DISABLE_HOST_EVENT_HANDLER :: "iid \<Rightarrow> manager \<Rightarrow> manager" where
  "DISABLE_HOST_EVENT_HANDLER = 
     switch_item MODATTR_EVENT_HANDLER_ENABLED event_handler_enabled False (\<lambda>it. it\<lparr>event_handler_enabled := False\<rparr>)"

definition DISABLE_HOST_NOTIFICATIONS :: "iid \<Rightarrow> manager \<Rightarrow> manager" where
  "DISABLE_HOST_NOTIFICATIONS = 
     switch_item MODATTR_NOTIFICATIONS_ENABLED notifications_enabled False (\<lambda>it. it\<lparr>notifications_enabled := False\<rparr>)"

definition DISABLE_PASSIVE_HOST_CHECKS :: "iid \<Rightarrow> manager \<Rightarrow> manager" where
  "DISABLE_PASSIVE_HOST_CHECKS = 
     switch_item MODATTR_PASSIVE_CHECKS_ENABLED passive_checks_enabled False (\<lambda>it. it\<lparr>passive_checks_enabled := False\<rparr>)"

definition DISABLE_PASSIVE_SVC_CHECKS :: "iid \<Rightarrow> manager \<Rightarrow> manager" where
  "DISABLE_PASSIVE_SVC_CHECKS = 
     switch_item MODATTR_PASSIVE_CHECKS_ENABLED passive_checks_enabled False (\<lambda>it. it\<lparr>passive_checks_enabled := False\<rparr>)"

definition DISABLE_SVC_EVENT_HANDLER :: "iid \<Rightarrow> manager \<Rightarrow> manager" where
  "DISABLE_SVC_EVENT_HANDLER = 
     switch_item MODATTR_EVENT_HANDLER_ENABLED event_handler_enabled False (\<lambda>it. it\<lparr>event_handler_enabled := False\<rparr>)"

definition DISABLE_SVC_NOTIFICATIONS :: "iid \<Rightarrow> manager \<Rightarrow> manager" where
  "DISABLE_SVC_NOTIFICATIONS = 
     switch_item MODATTR_NOTIFICATIONS_ENABLED notifications_enabled False (\<lambda>it. it\<lparr>notifications_enabled := False\<rparr>)"

definition ENABLE_HOST_CHECK :: "iid \<Rightarrow> manager \<Rightarrow> manager" where
  "ENABLE_HOST_CHECK = 
     switch_item MODATTR_ACTIVE_CHECKS_ENABLED active_checks_enabled True (\<lambda>it. it\<lparr>active_checks_enabled := True\<rparr>)"

definition ENABLE_HOST_EVENT_HANDLER :: "iid \<Rightarrow> manager \<Rightarrow> manager" where
  "ENABLE_HOST_EVENT_HANDLER = 
     switch_item MODATTR_EVENT_HANDLER_ENABLED event_handler_enabled True (\<lambda>it. it\<lparr>event_handler_enabled := True\<rparr>)"

definition ENABLE_HOST_FLAP_DETECTION :: "iid \<Rightarrow> manager \<Rightarrow> manager" where
  "ENABLE_HOST_FLAP_DETECTION = 
     switch_item MODATTR_FLAP_DETECTION_ENABLED flap_detection_enabled True (\<lambda>it. it\<lparr>flap_detection_enabled := True\<rparr>)"

definition ENABLE_HOST_NOTIFICATIONS :: "iid \<Rightarrow> manager \<Rightarrow> manager" where
  "ENABLE_HOST_NOTIFICATIONS = 
     switch_item MODATTR_NOTIFICATIONS_ENABLED notifications_enabled True (\<lambda>it. it\<lparr>notifications_enabled := True\<rparr>)"

definition ENABLE_PASSIVE_HOST_CHECKS :: "iid \<Rightarrow> manager \<Rightarrow> manager" where
  "ENABLE_PASSIVE_HOST_CHECKS = 
     switch_item MODATTR_PASSIVE_CHECKS_ENABLED passive_checks_enabled True (\<lambda>it. it\<lparr>passive_checks_enabled := True\<rparr>)"

definition ENABLE_PASSIVE_SVC_CHECKS :: "iid \<Rightarrow> manager \<Rightarrow> manager" where
  "ENABLE_PASSIVE_SVC_CHECKS = 
     switch_item MODATTR_PASSIVE_CHECKS_ENABLED passive_checks_enabled True (\<lambda>it. it\<lparr>passive_checks_enabled := True\<rparr>)"

definition ENABLE_SVC_CHECK :: "iid \<Rightarrow> manager \<Rightarrow> manager" where
  "ENABLE_SVC_CHECK = 
     switch_item MODATTR_ACTIVE_CHECKS_ENABLED active_checks_enabled True (\<lambda>it. it\<lparr>active_checks_enabled := True\<rparr>)"

definition ENABLE_SVC_EVENT_HANDLER :: "iid \<Rightarrow> manager \<Rightarrow> manager" where
  "ENABLE_SVC_EVENT_HANDLER = 
     switch_item MODATTR_EVENT_HANDLER_ENABLED event_handler_enabled True (\<lambda>it. it\<lparr>event_handler_enabled := True\<rparr>)"

definition ENABLE_SVC_FLAP_DETECTION :: "iid \<Rightarrow> manager \<Rightarrow> manager" where
  "ENABLE_SVC_FLAP_DETECTION = 
     switch_item MODATTR_FLAP_DETECTION_ENABLED flap_detection_enabled True (\<lambda>it. it\<lparr>flap_detection_enabled := True\<rparr>)"

definition ENABLE_SVC_NOTIFICATIONS :: "iid \<Rightarrow> manager \<Rightarrow> manager" where
  "ENABLE_SVC_NOTIFICATIONS = 
     switch_item MODATTR_NOTIFICATIONS_ENABLED notifications_enabled True (\<lambda>it. it\<lparr>notifications_enabled := True\<rparr>)"

definition START_OBSESSING_OVER_HOST :: "iid \<Rightarrow> manager \<Rightarrow> manager" where
  "START_OBSESSING_OVER_HOST = 
     switch_item MODATTR_OBSESSIVE_HANDLER_ENABLED obsess_over_me True (\<lambda>it. it\<lparr>obsess_over_me := True\<rparr>)"

definition START_OBSESSING_OVER_SVC :: "iid \<Rightarrow> manager \<Rightarrow> manager" where
  "START_OBSESSING_OVER_SVC = 
     switch_item MODATTR_OBSESSIVE_HANDLER_ENABLED obsess_over_me True (\<lambda>it. it\<lparr>obsess_over_me := True\<rparr>)"

definition STOP_OBSESSING_OVER_HOST :: "iid \<Rightarrow> manager \<Rightarrow> manager" where
  "STOP_OBSESSING_OVER_HOST = 
     switch_item MODATTR_OBSESSIVE_HANDLER_ENABLED obsess_over_me False (\<lambda>it. it\<lparr>obsess_over_me := False\<rparr>)"

definition STOP_OBSESSING_OVER_SVC :: "iid \<Rightarrow> manager \<Rightarrow> manager" where
  "STOP_OBSESSING_OVER_SVC = 
     switch_item MODATTR_OBSESSIVE_HANDLER_ENABLED obsess_over_me False (\<lambda>it. it\<lparr>obsess_over_me := False\<rparr>)"

text \<open>Disabling the active checks also ends the checks in progress; disabling the flap detection ends a flapping.\<close>

definition DISABLE_HOST_CHECK :: "clock \<Rightarrow> iid \<Rightarrow> manager \<Rightarrow> manager" where
  "DISABLE_HOST_CHECK now i m = 
     (if active_checks_enabled (item_of m i)
      then status_brok i (on_manager (disable_active_checks now i)
             (on_item i (mark_item MODATTR_ACTIVE_CHECKS_ENABLED) m))
      else m)"

definition DISABLE_SVC_CHECK :: "clock \<Rightarrow> iid \<Rightarrow> manager \<Rightarrow> manager" where
  "DISABLE_SVC_CHECK now i m = 
     (if active_checks_enabled (item_of m i)
      then status_brok i (on_item i (mark_item MODATTR_ACTIVE_CHECKS_ENABLED)
             (on_manager (disable_active_checks now i) m))
      else m)"

definition DISABLE_HOST_FLAP_DETECTION :: "iid \<Rightarrow> manager \<Rightarrow> manager" where
  "DISABLE_HOST_FLAP_DETECTION = switch_item MODATTR_FLAP_DETECTION_ENABLED flap_detection_enabled False
     (\<lambda>it. (if is_flapping it then stop_flapping it else it)\<lparr>flap_detection_enabled := False\<rparr>)"

definition DISABLE_SERVICE_FLAP_DETECTION :: "iid \<Rightarrow> manager \<Rightarrow> manager" where
  "DISABLE_SERVICE_FLAP_DETECTION = switch_item MODATTR_FLAP_DETECTION_ENABLED flap_detection_enabled False
     (\<lambda>it. (if is_flapping it then stop_flapping it else it)\<lparr>flap_detection_enabled := False\<rparr>)"

definition DISABLE_SVC_FLAP_DETECTION :: "iid \<Rightarrow> manager \<Rightarrow> manager" where
  "DISABLE_SVC_FLAP_DETECTION i = DISABLE_SERVICE_FLAP_DETECTION i"

subsection \<open>Switches of a contact\<close>

definition DISABLE_CONTACT_HOST_NOTIFICATIONS :: "ctid \<Rightarrow> manager \<Rightarrow> manager" where
  "DISABLE_CONTACT_HOST_NOTIFICATIONS = 
     switch_contact MODATTR_NOTIFICATIONS_ENABLED ct_host_notifications_enabled False (\<lambda>it. it\<lparr>ct_host_notifications_enabled := False\<rparr>)"

definition DISABLE_CONTACT_SVC_NOTIFICATIONS :: "ctid \<Rightarrow> manager \<Rightarrow> manager" where
  "DISABLE_CONTACT_SVC_NOTIFICATIONS = 
     switch_contact MODATTR_NOTIFICATIONS_ENABLED ct_service_notifications_enabled False (\<lambda>it. it\<lparr>ct_service_notifications_enabled := False\<rparr>)"

definition ENABLE_CONTACT_HOST_NOTIFICATIONS :: "ctid \<Rightarrow> manager \<Rightarrow> manager" where
  "ENABLE_CONTACT_HOST_NOTIFICATIONS = 
     switch_contact MODATTR_NOTIFICATIONS_ENABLED ct_host_notifications_enabled True (\<lambda>it. it\<lparr>ct_host_notifications_enabled := True\<rparr>)"

definition ENABLE_CONTACT_SVC_NOTIFICATIONS :: "ctid \<Rightarrow> manager \<Rightarrow> manager" where
  "ENABLE_CONTACT_SVC_NOTIFICATIONS = 
     switch_contact MODATTR_NOTIFICATIONS_ENABLED ct_service_notifications_enabled True (\<lambda>it. it\<lparr>ct_service_notifications_enabled := True\<rparr>)"

definition DISABLE_CONTACTGROUP_HOST_NOTIFICATIONS :: "ctid list \<Rightarrow> manager \<Rightarrow> manager" where
  "DISABLE_CONTACTGROUP_HOST_NOTIFICATIONS contactgroup = fold DISABLE_CONTACT_HOST_NOTIFICATIONS contactgroup"

definition DISABLE_CONTACTGROUP_SVC_NOTIFICATIONS :: "ctid list \<Rightarrow> manager \<Rightarrow> manager" where
  "DISABLE_CONTACTGROUP_SVC_NOTIFICATIONS contactgroup = fold DISABLE_CONTACT_SVC_NOTIFICATIONS contactgroup"

definition ENABLE_CONTACTGROUP_HOST_NOTIFICATIONS :: "ctid list \<Rightarrow> manager \<Rightarrow> manager" where
  "ENABLE_CONTACTGROUP_HOST_NOTIFICATIONS contactgroup = fold ENABLE_CONTACT_HOST_NOTIFICATIONS contactgroup"

definition ENABLE_CONTACTGROUP_SVC_NOTIFICATIONS :: "ctid list \<Rightarrow> manager \<Rightarrow> manager" where
  "ENABLE_CONTACTGROUP_SVC_NOTIFICATIONS contactgroup = fold ENABLE_CONTACT_SVC_NOTIFICATIONS contactgroup"

subsection \<open>Switches of the program\<close>

definition DISABLE_EVENT_HANDLERS :: "manager \<Rightarrow> manager" where
  "DISABLE_EVENT_HANDLERS = 
     switch_program MODATTR_EVENT_HANDLER_ENABLED pg_enable_event_handlers False (\<lambda>p. p\<lparr>pg_enable_event_handlers := False\<rparr>)"

definition DISABLE_FAILURE_PREDICTION :: "manager \<Rightarrow> manager" where
  "DISABLE_FAILURE_PREDICTION = 
     switch_program MODATTR_FAILURE_PREDICTION_ENABLED pg_enable_failure_prediction False (\<lambda>p. p\<lparr>pg_enable_failure_prediction := False\<rparr>)"

definition DISABLE_HOST_FRESHNESS_CHECKS :: "manager \<Rightarrow> manager" where
  "DISABLE_HOST_FRESHNESS_CHECKS = 
     switch_program MODATTR_FRESHNESS_CHECKS_ENABLED pg_check_host_freshness False (\<lambda>p. p\<lparr>pg_check_host_freshness := False\<rparr>)"

definition DISABLE_SERVICE_FRESHNESS_CHECKS :: "manager \<Rightarrow> manager" where
  "DISABLE_SERVICE_FRESHNESS_CHECKS = 
     switch_program MODATTR_FRESHNESS_CHECKS_ENABLED pg_check_service_freshness False (\<lambda>p. p\<lparr>pg_check_service_freshness := False\<rparr>)"

definition DISABLE_NOTIFICATIONS :: "manager \<Rightarrow> manager" where
  "DISABLE_NOTIFICATIONS = 
     switch_program MODATTR_NOTIFICATIONS_ENABLED pg_enable_notifications False (\<lambda>p. p\<lparr>pg_enable_notifications := False\<rparr>)"

definition DISABLE_PERFORMANCE_DATA :: "manager \<Rightarrow> manager" where
  "DISABLE_PERFORMANCE_DATA = 
     switch_program MODATTR_PERFORMANCE_DATA_ENABLED pg_process_performance_data False (\<lambda>p. p\<lparr>pg_process_performance_data := False\<rparr>)"

definition ENABLE_EVENT_HANDLERS :: "manager \<Rightarrow> manager" where
  "ENABLE_EVENT_HANDLERS = 
     switch_program MODATTR_EVENT_HANDLER_ENABLED pg_enable_event_handlers True (\<lambda>p. p\<lparr>pg_enable_event_handlers := True\<rparr>)"

definition ENABLE_FAILURE_PREDICTION :: "manager \<Rightarrow> manager" where
  "ENABLE_FAILURE_PREDICTION = 
     switch_program MODATTR_FAILURE_PREDICTION_ENABLED pg_enable_failure_prediction True (\<lambda>p. p\<lparr>pg_enable_failure_prediction := True\<rparr>)"

definition ENABLE_HOST_FRESHNESS_CHECKS :: "manager \<Rightarrow> manager" where
  "ENABLE_HOST_FRESHNESS_CHECKS = 
     switch_program MODATTR_FRESHNESS_CHECKS_ENABLED pg_check_host_freshness True (\<lambda>p. p\<lparr>pg_check_host_freshness := True\<rparr>)"

definition ENABLE_SERVICE_FRESHNESS_CHECKS :: "manager \<Rightarrow> manager" where
  "ENABLE_SERVICE_FRESHNESS_CHECKS = 
     switch_program MODATTR_FRESHNESS_CHECKS_ENABLED pg_check_service_freshness True (\<lambda>p. p\<lparr>pg_check_service_freshness := True\<rparr>)"

definition ENABLE_NOTIFICATIONS :: "manager \<Rightarrow> manager" where
  "ENABLE_NOTIFICATIONS = 
     switch_program MODATTR_NOTIFICATIONS_ENABLED pg_enable_notifications True (\<lambda>p. p\<lparr>pg_enable_notifications := True\<rparr>)"

definition ENABLE_PERFORMANCE_DATA :: "manager \<Rightarrow> manager" where
  "ENABLE_PERFORMANCE_DATA = 
     switch_program MODATTR_PERFORMANCE_DATA_ENABLED pg_process_performance_data True (\<lambda>p. p\<lparr>pg_process_performance_data := True\<rparr>)"

definition ENABLE_FLAP_DETECTION :: "manager \<Rightarrow> manager" where
  "ENABLE_FLAP_DETECTION = 
     switch_program MODATTR_FLAP_DETECTION_ENABLED pg_enable_flap_detection True (\<lambda>p. p\<lparr>pg_enable_flap_detection := True\<rparr>)"

definition START_ACCEPTING_PASSIVE_HOST_CHECKS :: "manager \<Rightarrow> manager" where
  "START_ACCEPTING_PASSIVE_HOST_CHECKS = 
     switch_program MODATTR_PASSIVE_CHECKS_ENABLED pg_accept_passive_host_checks True (\<lambda>p. p\<lparr>pg_accept_passive_host_checks := True\<rparr>)"

definition START_ACCEPTING_PASSIVE_SVC_CHECKS :: "manager \<Rightarrow> manager" where
  "START_ACCEPTING_PASSIVE_SVC_CHECKS = 
     switch_program MODATTR_PASSIVE_CHECKS_ENABLED pg_accept_passive_service_checks True (\<lambda>p. p\<lparr>pg_accept_passive_service_checks := True\<rparr>)"

definition START_EXECUTING_HOST_CHECKS :: "manager \<Rightarrow> manager" where
  "START_EXECUTING_HOST_CHECKS = 
     switch_program MODATTR_ACTIVE_CHECKS_ENABLED pg_execute_host_checks True (\<lambda>p. p\<lparr>pg_execute_host_checks := True\<rparr>)"

definition START_EXECUTING_SVC_CHECKS :: "manager \<Rightarrow> manager" where
  "START_EXECUTING_SVC_CHECKS = 
     switch_program MODATTR_ACTIVE_CHECKS_ENABLED pg_execute_service_checks True (\<lambda>p. p\<lparr>pg_execute_service_checks := True\<rparr>)"

definition START_OBSESSING_OVER_HOST_CHECKS :: "manager \<Rightarrow> manager" where
  "START_OBSESSING_OVER_HOST_CHECKS = 
     switch_program MODATTR_OBSESSIVE_HANDLER_ENABLED pg_obsess_over_hosts True (\<lambda>p. p\<lparr>pg_obsess_over_hosts := True\<rparr>)"

definition START_OBSESSING_OVER_SVC_CHECKS :: "manager \<Rightarrow> manager" where
  "START_OBSESSING_OVER_SVC_CHECKS = 
     switch_program MODATTR_OBSESSIVE_HANDLER_ENABLED pg_obsess_over_services True (\<lambda>p. p\<lparr>pg_obsess_over_services := True\<rparr>)"

definition STOP_ACCEPTING_PASSIVE_HOST_CHECKS :: "manager \<Rightarrow> manager" where
  "STOP_ACCEPTING_PASSIVE_HOST_CHECKS = 
     switch_program MODATTR_PASSIVE_CHECKS_ENABLED pg_accept_passive_host_checks False (\<lambda>p. p\<lparr>pg_accept_passive_host_checks := False\<rparr>)"

definition STOP_ACCEPTING_PASSIVE_SVC_CHECKS :: "manager \<Rightarrow> manager" where
  "STOP_ACCEPTING_PASSIVE_SVC_CHECKS = 
     switch_program MODATTR_PASSIVE_CHECKS_ENABLED pg_accept_passive_service_checks False (\<lambda>p. p\<lparr>pg_accept_passive_service_checks := False\<rparr>)"

definition STOP_EXECUTING_HOST_CHECKS :: "manager \<Rightarrow> manager" where
  "STOP_EXECUTING_HOST_CHECKS = 
     switch_program MODATTR_ACTIVE_CHECKS_ENABLED pg_execute_host_checks False (\<lambda>p. p\<lparr>pg_execute_host_checks := False\<rparr>)"

definition STOP_EXECUTING_SVC_CHECKS :: "manager \<Rightarrow> manager" where
  "STOP_EXECUTING_SVC_CHECKS = 
     switch_program MODATTR_ACTIVE_CHECKS_ENABLED pg_execute_service_checks False (\<lambda>p. p\<lparr>pg_execute_service_checks := False\<rparr>)"

definition STOP_OBSESSING_OVER_HOST_CHECKS :: "manager \<Rightarrow> manager" where
  "STOP_OBSESSING_OVER_HOST_CHECKS = 
     switch_program MODATTR_OBSESSIVE_HANDLER_ENABLED pg_obsess_over_hosts False (\<lambda>p. p\<lparr>pg_obsess_over_hosts := False\<rparr>)"

definition STOP_OBSESSING_OVER_SVC_CHECKS :: "manager \<Rightarrow> manager" where
  "STOP_OBSESSING_OVER_SVC_CHECKS = 
     switch_program MODATTR_OBSESSIVE_HANDLER_ENABLED pg_obsess_over_services False (\<lambda>p. p\<lparr>pg_obsess_over_services := False\<rparr>)"

definition end_flapping :: "iid \<Rightarrow> manager \<Rightarrow> manager" where
  "end_flapping i m = (if is_flapping (item_of m i) then status_brok i (on_item i stop_flapping m) else m)"

definition DISABLE_FLAP_DETECTION :: "manager \<Rightarrow> manager" where
  "DISABLE_FLAP_DETECTION m = 
     (if pg_enable_flap_detection (m_program m)
      then let m = switch_program MODATTR_FLAP_DETECTION_ENABLED pg_enable_flap_detection False
                     (\<lambda>p. p\<lparr>pg_enable_flap_detection := False\<rparr>) m
           in fold end_flapping (s_services (m_sched m) @ s_hosts (m_sched m)) m
      else m)"

subsection \<open>Groups and services of a host\<close>

text \<open>A group is the list of its members; \<^verbatim>\<open>services\<close> of a host is the list of its services.\<close>

definition DISABLE_HOSTGROUP_HOST_CHECKS :: "clock \<Rightarrow> iid list \<Rightarrow> manager \<Rightarrow> manager" where
  "DISABLE_HOSTGROUP_HOST_CHECKS now hostgroup = fold (DISABLE_HOST_CHECK now) hostgroup"

definition DISABLE_SERVICEGROUP_HOST_CHECKS :: "clock \<Rightarrow> iid list \<Rightarrow> manager \<Rightarrow> manager" where
  "DISABLE_SERVICEGROUP_HOST_CHECKS now servicegroup m = 
     fold (\<lambda>i m. DISABLE_HOST_CHECK now (host (item_of m i)) m) servicegroup m"

definition DISABLE_HOSTGROUP_HOST_NOTIFICATIONS :: "iid list \<Rightarrow> manager \<Rightarrow> manager" where
  "DISABLE_HOSTGROUP_HOST_NOTIFICATIONS hostgroup = fold DISABLE_HOST_NOTIFICATIONS hostgroup"

definition DISABLE_SERVICEGROUP_HOST_NOTIFICATIONS :: "iid list \<Rightarrow> manager \<Rightarrow> manager" where
  "DISABLE_SERVICEGROUP_HOST_NOTIFICATIONS servicegroup m = 
     fold (\<lambda>i m. DISABLE_HOST_NOTIFICATIONS (host (item_of m i)) m) servicegroup m"

definition DISABLE_HOSTGROUP_PASSIVE_HOST_CHECKS :: "iid list \<Rightarrow> manager \<Rightarrow> manager" where
  "DISABLE_HOSTGROUP_PASSIVE_HOST_CHECKS hostgroup = fold DISABLE_PASSIVE_HOST_CHECKS hostgroup"

definition DISABLE_SERVICEGROUP_PASSIVE_HOST_CHECKS :: "iid list \<Rightarrow> manager \<Rightarrow> manager" where
  "DISABLE_SERVICEGROUP_PASSIVE_HOST_CHECKS servicegroup m = 
     fold (\<lambda>i m. DISABLE_PASSIVE_HOST_CHECKS (host (item_of m i)) m) servicegroup m"

definition DISABLE_HOSTGROUP_PASSIVE_SVC_CHECKS :: "iid list \<Rightarrow> manager \<Rightarrow> manager" where
  "DISABLE_HOSTGROUP_PASSIVE_SVC_CHECKS hostgroup m = 
     fold (\<lambda>h m. fold DISABLE_PASSIVE_SVC_CHECKS (services (item_of m h)) m) hostgroup m"

definition DISABLE_SERVICEGROUP_PASSIVE_SVC_CHECKS :: "iid list \<Rightarrow> manager \<Rightarrow> manager" where
  "DISABLE_SERVICEGROUP_PASSIVE_SVC_CHECKS servicegroup = fold DISABLE_PASSIVE_SVC_CHECKS servicegroup"

definition DISABLE_HOSTGROUP_SVC_CHECKS :: "clock \<Rightarrow> iid list \<Rightarrow> manager \<Rightarrow> manager" where
  "DISABLE_HOSTGROUP_SVC_CHECKS now hostgroup m = 
     fold (\<lambda>h m. fold (DISABLE_SVC_CHECK now) (services (item_of m h)) m) hostgroup m"

definition DISABLE_SERVICEGROUP_SVC_CHECKS :: "clock \<Rightarrow> iid list \<Rightarrow> manager \<Rightarrow> manager" where
  "DISABLE_SERVICEGROUP_SVC_CHECKS now servicegroup = fold (DISABLE_SVC_CHECK now) servicegroup"

definition DISABLE_HOSTGROUP_SVC_NOTIFICATIONS :: "iid list \<Rightarrow> manager \<Rightarrow> manager" where
  "DISABLE_HOSTGROUP_SVC_NOTIFICATIONS hostgroup m = 
     fold (\<lambda>h m. fold DISABLE_SVC_NOTIFICATIONS (services (item_of m h)) m) hostgroup m"

definition DISABLE_SERVICEGROUP_SVC_NOTIFICATIONS :: "iid list \<Rightarrow> manager \<Rightarrow> manager" where
  "DISABLE_SERVICEGROUP_SVC_NOTIFICATIONS servicegroup = fold DISABLE_SVC_NOTIFICATIONS servicegroup"

definition DISABLE_HOST_SVC_CHECKS :: "clock \<Rightarrow> iid \<Rightarrow> manager \<Rightarrow> manager" where
  "DISABLE_HOST_SVC_CHECKS now h m = fold (DISABLE_SVC_CHECK now) (services (item_of m h)) m"

definition DISABLE_HOST_SVC_NOTIFICATIONS :: "iid \<Rightarrow> manager \<Rightarrow> manager" where
  "DISABLE_HOST_SVC_NOTIFICATIONS h m = 
     fold (\<lambda>s m. status_brok s (DISABLE_SVC_NOTIFICATIONS s m)) (services (item_of m h)) m"

definition ENABLE_HOSTGROUP_HOST_CHECKS :: "iid list \<Rightarrow> manager \<Rightarrow> manager" where
  "ENABLE_HOSTGROUP_HOST_CHECKS hostgroup = fold ENABLE_HOST_CHECK hostgroup"

definition ENABLE_SERVICEGROUP_HOST_CHECKS :: "iid list \<Rightarrow> manager \<Rightarrow> manager" where
  "ENABLE_SERVICEGROUP_HOST_CHECKS servicegroup m = 
     fold (\<lambda>i m. ENABLE_HOST_CHECK (host (item_of m i)) m) servicegroup m"

definition ENABLE_HOSTGROUP_HOST_NOTIFICATIONS :: "iid list \<Rightarrow> manager \<Rightarrow> manager" where
  "ENABLE_HOSTGROUP_HOST_NOTIFICATIONS hostgroup = fold ENABLE_HOST_NOTIFICATIONS hostgroup"

definition ENABLE_SERVICEGROUP_HOST_NOTIFICATIONS :: "iid list \<Rightarrow> manager \<Rightarrow> manager" where
  "ENABLE_SERVICEGROUP_HOST_NOTIFICATIONS servicegroup m = 
     fold (\<lambda>i m. ENABLE_HOST_NOTIFICATIONS (host (item_of m i)) m) servicegroup m"

definition ENABLE_HOSTGROUP_PASSIVE_HOST_CHECKS :: "iid list \<Rightarrow> manager \<Rightarrow> manager" where
  "ENABLE_HOSTGROUP_PASSIVE_HOST_CHECKS hostgroup = fold ENABLE_PASSIVE_HOST_CHECKS hostgroup"

definition ENABLE_SERVICEGROUP_PASSIVE_HOST_CHECKS :: "iid list \<Rightarrow> manager \<Rightarrow> manager" where
  "ENABLE_SERVICEGROUP_PASSIVE_HOST_CHECKS servicegroup m = 
     fold (\<lambda>i m. ENABLE_PASSIVE_HOST_CHECKS (host (item_of m i)) m) servicegroup m"

definition ENABLE_HOSTGROUP_PASSIVE_SVC_CHECKS :: "iid list \<Rightarrow> manager \<Rightarrow> manager" where
  "ENABLE_HOSTGROUP_PASSIVE_SVC_CHECKS hostgroup m = 
     fold (\<lambda>h m. fold ENABLE_PASSIVE_SVC_CHECKS (services (item_of m h)) m) hostgroup m"

definition ENABLE_SERVICEGROUP_PASSIVE_SVC_CHECKS :: "iid list \<Rightarrow> manager \<Rightarrow> manager" where
  "ENABLE_SERVICEGROUP_PASSIVE_SVC_CHECKS servicegroup = fold ENABLE_PASSIVE_SVC_CHECKS servicegroup"

definition ENABLE_HOSTGROUP_SVC_CHECKS :: "iid list \<Rightarrow> manager \<Rightarrow> manager" where
  "ENABLE_HOSTGROUP_SVC_CHECKS hostgroup m = 
     fold (\<lambda>h m. fold ENABLE_SVC_CHECK (services (item_of m h)) m) hostgroup m"

definition ENABLE_SERVICEGROUP_SVC_CHECKS :: "iid list \<Rightarrow> manager \<Rightarrow> manager" where
  "ENABLE_SERVICEGROUP_SVC_CHECKS servicegroup = fold ENABLE_SVC_CHECK servicegroup"

definition ENABLE_HOSTGROUP_SVC_NOTIFICATIONS :: "iid list \<Rightarrow> manager \<Rightarrow> manager" where
  "ENABLE_HOSTGROUP_SVC_NOTIFICATIONS hostgroup m = 
     fold (\<lambda>h m. fold ENABLE_SVC_NOTIFICATIONS (services (item_of m h)) m) hostgroup m"

definition ENABLE_SERVICEGROUP_SVC_NOTIFICATIONS :: "iid list \<Rightarrow> manager \<Rightarrow> manager" where
  "ENABLE_SERVICEGROUP_SVC_NOTIFICATIONS servicegroup = fold ENABLE_SVC_NOTIFICATIONS servicegroup"

definition ENABLE_HOST_SVC_CHECKS :: "iid \<Rightarrow> manager \<Rightarrow> manager" where
  "ENABLE_HOST_SVC_CHECKS h m = fold ENABLE_SVC_CHECK (services (item_of m h)) m"

definition ENABLE_HOST_SVC_NOTIFICATIONS :: "iid \<Rightarrow> manager \<Rightarrow> manager" where
  "ENABLE_HOST_SVC_NOTIFICATIONS h m = 
     fold (\<lambda>s m. status_brok s (ENABLE_SVC_NOTIFICATIONS s m)) (services (item_of m h)) m"

subsection \<open>Values of a host or a service\<close>

definition CHANGE_CUSTOM_HOST_VAR :: "iid \<Rightarrow> string \<Rightarrow> string \<Rightarrow> manager \<Rightarrow> manager" where
  "CHANGE_CUSTOM_HOST_VAR i varname varvalue = 
     on_item i (\<lambda>it. (mark_item MODATTR_CUSTOM_VARIABLE it)
       \<lparr>customs := AList.update (map upper varname) varvalue (customs it)\<rparr>)"

definition CHANGE_HOST_CHECK_TIMEPERIOD :: "iid \<Rightarrow> period \<Rightarrow> manager \<Rightarrow> manager" where
  "CHANGE_HOST_CHECK_TIMEPERIOD i timeperiod m = 
     status_brok i (on_item i (\<lambda>it. (mark_item MODATTR_CHECK_TIMEPERIOD it)\<lparr>check_period := Some timeperiod\<rparr>) m)"

definition CHANGE_HOST_CHECK_COMMAND :: "iid \<Rightarrow> string \<Rightarrow> manager \<Rightarrow> manager option" where
  "CHANGE_HOST_CHECK_COMMAND i cmd m = do {
     call \<leftarrow> new_command_call m cmd (item_poller_tag (item_of m i));
     Some (status_brok i (on_item i (\<lambda>it. (mark_item MODATTR_CHECK_COMMAND it)\<lparr>check_command := call\<rparr>) m))
   }"

definition CHANGE_HOST_EVENT_HANDLER :: "iid \<Rightarrow> string \<Rightarrow> manager \<Rightarrow> manager option" where
  "CHANGE_HOST_EVENT_HANDLER i event_handler_command m = do {
     call \<leftarrow> new_command_call m event_handler_command ''None'';
     Some (status_brok i (on_item i (\<lambda>it. (mark_item MODATTR_EVENT_HANDLER_COMMAND it)\<lparr>event_handler := Some call\<rparr>) m))
   }"

definition CHANGE_MAX_HOST_CHECK_ATTEMPTS :: "iid \<Rightarrow> int \<Rightarrow> manager \<Rightarrow> manager" where
  "CHANGE_MAX_HOST_CHECK_ATTEMPTS i check_attempts m = 
     status_brok i (on_item i (\<lambda>it. let it = (mark_item MODATTR_MAX_CHECK_ATTEMPTS it)\<lparr>max_check_attempts := check_attempts\<rparr>
        in if state_type it = HARD \<and> state it = UP \<and> attempt it > 1
           then it\<lparr>attempt := max_check_attempts it\<rparr> else it) m)"

definition CHANGE_NORMAL_HOST_CHECK_INTERVAL :: "iid \<Rightarrow> int \<Rightarrow> manager \<Rightarrow> manager option" where
  "CHANGE_NORMAL_HOST_CHECK_INTERVAL i interval m = 
     (if check_interval (item_of m i) = 0 then None
      else Some (status_brok i (on_item i (\<lambda>it. (mark_item MODATTR_NORMAL_CHECK_INTERVAL it)
             \<lparr>check_interval := of_int interval\<rparr>) m)))"

definition CHANGE_RETRY_HOST_CHECK_INTERVAL :: "iid \<Rightarrow> int \<Rightarrow> manager \<Rightarrow> manager" where
  "CHANGE_RETRY_HOST_CHECK_INTERVAL i interval m = 
     status_brok i (on_item i (\<lambda>it. (mark_item MODATTR_RETRY_CHECK_INTERVAL it)\<lparr>retry_interval := of_int interval\<rparr>) m)"

definition DELAY_HOST_NOTIFICATION :: "iid \<Rightarrow> int \<Rightarrow> manager \<Rightarrow> manager" where
  "DELAY_HOST_NOTIFICATION i notification_time m = 
     status_brok i (on_item i (\<lambda>it. it\<lparr>first_notification_delay := notification_time\<rparr>) m)"

definition CHANGE_CUSTOM_SVC_VAR :: "iid \<Rightarrow> string \<Rightarrow> string \<Rightarrow> manager \<Rightarrow> manager" where
  "CHANGE_CUSTOM_SVC_VAR i varname varvalue = 
     on_item i (\<lambda>it. (mark_item MODATTR_CUSTOM_VARIABLE it)
       \<lparr>customs := AList.update (map upper varname) varvalue (customs it)\<rparr>)"

definition CHANGE_SVC_CHECK_TIMEPERIOD :: "iid \<Rightarrow> period \<Rightarrow> manager \<Rightarrow> manager" where
  "CHANGE_SVC_CHECK_TIMEPERIOD i timeperiod m = 
     status_brok i (on_item i (\<lambda>it. (mark_item MODATTR_CHECK_TIMEPERIOD it)\<lparr>check_period := Some timeperiod\<rparr>) m)"

definition CHANGE_SVC_CHECK_COMMAND :: "iid \<Rightarrow> string \<Rightarrow> manager \<Rightarrow> manager option" where
  "CHANGE_SVC_CHECK_COMMAND i cmd m = do {
     call \<leftarrow> new_command_call m cmd (item_poller_tag (item_of m i));
     Some (status_brok i (on_item i (\<lambda>it. (mark_item MODATTR_CHECK_COMMAND it)\<lparr>check_command := call\<rparr>) m))
   }"

definition CHANGE_SVC_EVENT_HANDLER :: "iid \<Rightarrow> string \<Rightarrow> manager \<Rightarrow> manager option" where
  "CHANGE_SVC_EVENT_HANDLER i event_handler_command m = do {
     call \<leftarrow> new_command_call m event_handler_command ''None'';
     Some (status_brok i (on_item i (\<lambda>it. (mark_item MODATTR_EVENT_HANDLER_COMMAND it)\<lparr>event_handler := Some call\<rparr>) m))
   }"

definition CHANGE_MAX_SVC_CHECK_ATTEMPTS :: "iid \<Rightarrow> int \<Rightarrow> manager \<Rightarrow> manager" where
  "CHANGE_MAX_SVC_CHECK_ATTEMPTS i check_attempts m = 
     status_brok i (on_item i (\<lambda>it. let it = (mark_item MODATTR_MAX_CHECK_ATTEMPTS it)\<lparr>max_check_attempts := check_attempts\<rparr>
        in if state_type it = HARD \<and> state it = OK \<and> attempt it > 1
           then it\<lparr>attempt := max_check_attempts it\<rparr> else it) m)"

definition CHANGE_NORMAL_SVC_CHECK_INTERVAL :: "iid \<Rightarrow> int \<Rightarrow> manager \<Rightarrow> manager option" where
  "CHANGE_NORMAL_SVC_CHECK_INTERVAL i interval m = 
     (if check_interval (item_of m i) = 0 then None
      else Some (status_brok i (on_item i (\<lambda>it. (mark_item MODATTR_NORMAL_CHECK_INTERVAL it)
             \<lparr>check_interval := of_int interval\<rparr>) m)))"

definition CHANGE_RETRY_SVC_CHECK_INTERVAL :: "iid \<Rightarrow> int \<Rightarrow> manager \<Rightarrow> manager" where
  "CHANGE_RETRY_SVC_CHECK_INTERVAL i interval m = 
     status_brok i (on_item i (\<lambda>it. (mark_item MODATTR_RETRY_CHECK_INTERVAL it)\<lparr>retry_interval := of_int interval\<rparr>) m)"

definition DELAY_SVC_NOTIFICATION :: "iid \<Rightarrow> int \<Rightarrow> manager \<Rightarrow> manager" where
  "DELAY_SVC_NOTIFICATION i notification_time m = 
     status_brok i (on_item i (\<lambda>it. it\<lparr>first_notification_delay := notification_time\<rparr>) m)"

definition CHANGE_SVC_NOTIFICATION_TIMEPERIOD :: "iid \<Rightarrow> period \<Rightarrow> manager \<Rightarrow> manager" where
  "CHANGE_SVC_NOTIFICATION_TIMEPERIOD i timeperiod m = 
     status_brok i (on_item i (\<lambda>it. (mark_item MODATTR_NOTIFICATION_TIMEPERIOD it)\<lparr>notification_period := Some timeperiod\<rparr>) m)"

definition CHANGE_HOST_MODATTR :: "iid \<Rightarrow> int \<Rightarrow> manager \<Rightarrow> manager" where
  "CHANGE_HOST_MODATTR i value = on_item i (\<lambda>it. it\<lparr>modified_attributes := value\<rparr>)"

text \<open>The attributes that \<^verbatim>\<open>CHANGE_SVC_MODATTR\<close> can turn around, with their bits. \<^verbatim>\<open>process_performance_data\<close> is an
  attribute of the class that the method shadows by one of the service.\<close>

definition toggles :: "sclass \<Rightarrow> (int \<times> (item \<Rightarrow> item)) list" where
  "toggles k =
     [(MODATTR_NOTIFICATIONS_ENABLED, \<lambda>it. it\<lparr>notifications_enabled := \<not> notifications_enabled it\<rparr>),
      (MODATTR_ACTIVE_CHECKS_ENABLED, \<lambda>it. it\<lparr>active_checks_enabled := \<not> active_checks_enabled it\<rparr>),
      (MODATTR_PASSIVE_CHECKS_ENABLED, \<lambda>it. it\<lparr>passive_checks_enabled := \<not> passive_checks_enabled it\<rparr>),
      (MODATTR_EVENT_HANDLER_ENABLED, \<lambda>it. it\<lparr>event_handler_enabled := \<not> event_handler_enabled it\<rparr>),
      (MODATTR_FLAP_DETECTION_ENABLED, \<lambda>it. it\<lparr>flap_detection_enabled := \<not> flap_detection_enabled it\<rparr>),
      (MODATTR_PERFORMANCE_DATA_ENABLED, \<lambda>it. it\<lparr>own_process_performance_data := Some (\<not>
         (case own_process_performance_data it of Some b \<Rightarrow> b | None \<Rightarrow> process_performance_data k))\<rparr>),
      (MODATTR_OBSESSIVE_HANDLER_ENABLED, \<lambda>it. it\<lparr>obsess_over_me := \<not> obsess_over_me it\<rparr>),
      (MODATTR_FRESHNESS_CHECKS_ENABLED, \<lambda>it. it\<lparr>check_freshness := \<not> check_freshness it\<rparr>)]"

definition turn :: "int \<Rightarrow> int \<times> (item \<Rightarrow> item) \<Rightarrow> item \<Rightarrow> item" where
  "turn changes = (\<lambda>(flag, f) it. if changes AND flag \<noteq> 0 then f it else it)"

definition CHANGE_SVC_MODATTR :: "iid \<Rightarrow> int \<Rightarrow> manager \<Rightarrow> manager" where
  "CHANGE_SVC_MODATTR i value m =
     (let changes = value XOR modified_attributes (item_of m i)
      in status_brok i (on_item i (\<lambda>it. (fold (turn changes) (toggles (cls (world_of m) i)) it)
           \<lparr>modified_attributes := value\<rparr>) m))"

subsection \<open>Values of a contact\<close>

definition CHANGE_CONTACT_MODSATTR :: "ctid \<Rightarrow> string \<Rightarrow> manager \<Rightarrow> manager option" where
  "CHANGE_CONTACT_MODSATTR c value m =
     map_option (\<lambda>v. on_contact c (\<lambda>ct. ct\<lparr>ct_modified_service_attributes := v\<rparr>) m) (int_of_text value)"

definition CHANGE_CONTACT_MODHATTR :: "ctid \<Rightarrow> string \<Rightarrow> manager \<Rightarrow> manager option" where
  "CHANGE_CONTACT_MODHATTR c value m =
     map_option (\<lambda>v. on_contact c (\<lambda>ct. ct\<lparr>ct_modified_host_attributes := v\<rparr>) m) (int_of_text value)"

definition CHANGE_CONTACT_MODATTR :: "ctid \<Rightarrow> string \<Rightarrow> manager \<Rightarrow> manager option" where
  "CHANGE_CONTACT_MODATTR c value m =
     map_option (\<lambda>v. on_contact c (\<lambda>ct. ct\<lparr>ct_modified_attributes := v\<rparr>) m) (int_of_text value)"

definition CHANGE_CONTACT_HOST_NOTIFICATION_TIMEPERIOD :: "ctid \<Rightarrow> period \<Rightarrow> manager \<Rightarrow> manager" where
  "CHANGE_CONTACT_HOST_NOTIFICATION_TIMEPERIOD c timeperiod m =
     contact_status_brok c (on_contact c (\<lambda>ct. ct\<lparr>ct_modified_host_attributes :=
        ct_modified_host_attributes ct OR MODATTR_NOTIFICATION_TIMEPERIOD,
        ct_host_notification_period := Some timeperiod\<rparr>) m)"

definition CHANGE_CONTACT_SVC_NOTIFICATION_TIMEPERIOD :: "ctid \<Rightarrow> period \<Rightarrow> manager \<Rightarrow> manager" where
  "CHANGE_CONTACT_SVC_NOTIFICATION_TIMEPERIOD c timeperiod m =
     contact_status_brok c (on_contact c (\<lambda>ct. ct\<lparr>ct_modified_service_attributes :=
        ct_modified_service_attributes ct OR MODATTR_NOTIFICATION_TIMEPERIOD,
        ct_service_notification_period := Some timeperiod\<rparr>) m)"

definition CHANGE_CUSTOM_CONTACT_VAR :: "ctid \<Rightarrow> string \<Rightarrow> string \<Rightarrow> manager \<Rightarrow> manager" where
  "CHANGE_CUSTOM_CONTACT_VAR c varname varvalue =
     on_contact c (\<lambda>ct. (mark_contact MODATTR_CUSTOM_VARIABLE ct)
       \<lparr>ct_customs := AList.update (map upper varname) varvalue (ct_customs ct)\<rparr>)"

subsection \<open>Comments and acknowledgements\<close>

definition add_new_comment :: "surroundings \<Rightarrow> int \<Rightarrow> iid \<Rightarrow> bool \<Rightarrow> string \<Rightarrow> string \<Rightarrow> manager \<Rightarrow> manager" where
  "add_new_comment e comment_type i persistent author text m =
     (let (c, w) = new_comment (now_is e) i persistent author text comment_type 1 1 False 0 (world_of m)
      in on_sched (\<lambda>s. add_Comment c (s\<lparr>s_world := add_comment c i w\<rparr>)) m)"

definition ADD_SVC_COMMENT :: "surroundings \<Rightarrow> iid \<Rightarrow> bool \<Rightarrow> string \<Rightarrow> string \<Rightarrow> manager \<Rightarrow> manager" where
  "ADD_SVC_COMMENT e = add_new_comment e 2"

definition ADD_HOST_COMMENT :: "surroundings \<Rightarrow> iid \<Rightarrow> bool \<Rightarrow> string \<Rightarrow> string \<Rightarrow> manager \<Rightarrow> manager" where
  "ADD_HOST_COMMENT e = add_new_comment e 1"

definition ACKNOWLEDGE_SVC_PROBLEM ::
  "surroundings \<Rightarrow> iid \<Rightarrow> int \<Rightarrow> bool \<Rightarrow> bool \<Rightarrow> string \<Rightarrow> string \<Rightarrow> manager \<Rightarrow> manager" where
  "ACKNOWLEDGE_SVC_PROBLEM e i sticky notify persistent author text =
     on_manager (acknowledge_problem (now_is e) sticky notify persistent author text 0 i)"

definition ACKNOWLEDGE_HOST_PROBLEM ::
  "surroundings \<Rightarrow> iid \<Rightarrow> int \<Rightarrow> bool \<Rightarrow> bool \<Rightarrow> string \<Rightarrow> string \<Rightarrow> manager \<Rightarrow> manager" where
  "ACKNOWLEDGE_HOST_PROBLEM e i sticky notify persistent author text =
     on_manager (acknowledge_problem (now_is e) sticky notify persistent author text 0 i)"

definition ACKNOWLEDGE_SVC_PROBLEM_EXPIRE ::
  "surroundings \<Rightarrow> iid \<Rightarrow> int \<Rightarrow> bool \<Rightarrow> bool \<Rightarrow> int \<Rightarrow> string \<Rightarrow> string \<Rightarrow> manager \<Rightarrow> manager" where
  "ACKNOWLEDGE_SVC_PROBLEM_EXPIRE e i sticky notify persistent end_time author text =
     on_manager (acknowledge_problem (now_is e) sticky notify persistent author text end_time i)"

definition ACKNOWLEDGE_HOST_PROBLEM_EXPIRE ::
  "surroundings \<Rightarrow> iid \<Rightarrow> int \<Rightarrow> bool \<Rightarrow> bool \<Rightarrow> int \<Rightarrow> string \<Rightarrow> string \<Rightarrow> manager \<Rightarrow> manager" where
  "ACKNOWLEDGE_HOST_PROBLEM_EXPIRE e i sticky notify persistent end_time author text =
     on_manager (acknowledge_problem (now_is e) sticky notify persistent author text end_time i)"

definition REMOVE_HOST_ACKNOWLEDGEMENT :: "iid \<Rightarrow> manager \<Rightarrow> manager" where
  "REMOVE_HOST_ACKNOWLEDGEMENT i = on_manager (unacknowledge_problem i)"

definition REMOVE_SVC_ACKNOWLEDGEMENT :: "iid \<Rightarrow> manager \<Rightarrow> manager" where
  "REMOVE_SVC_ACKNOWLEDGEMENT i = on_manager (unacknowledge_problem i)"

text \<open>Comments and the downtimes of contacts are numbered from one counter each, which addresses them.\<close>

definition del_comment_by_id :: "int \<Rightarrow> manager \<Rightarrow> manager" where
  "del_comment_by_id comment_id m =
     (if comment_id \<ge> 0 \<and> nat comment_id \<in> set (s_comments (m_sched m))
      then on_manager (upd_comment (nat comment_id) (\<lambda>co. co\<lparr>co_can_be_deleted := True\<rparr>)) m else m)"

definition DEL_HOST_COMMENT :: "int \<Rightarrow> manager \<Rightarrow> manager" where
  "DEL_HOST_COMMENT = del_comment_by_id"

definition DEL_SVC_COMMENT :: "int \<Rightarrow> manager \<Rightarrow> manager" where
  "DEL_SVC_COMMENT = del_comment_by_id"

definition DEL_ALL_HOST_COMMENTS :: "iid \<Rightarrow> manager \<Rightarrow> manager" where
  "DEL_ALL_HOST_COMMENTS i m =
     fold (\<lambda>c m. DEL_HOST_COMMENT (int (co_id (comment_store (world_of m) c))) m) (comments (item_of m i)) m"

definition DEL_ALL_SVC_COMMENTS :: "iid \<Rightarrow> manager \<Rightarrow> manager" where
  "DEL_ALL_SVC_COMMENTS i m =
     fold (\<lambda>c m. DEL_SVC_COMMENT (int (co_id (comment_store (world_of m) c))) m) (comments (item_of m i)) m"

subsection \<open>Downtimes\<close>

definition cancel_by_id :: "surroundings \<Rightarrow> int \<Rightarrow> manager \<Rightarrow> manager option" where
  "cancel_by_id e downtime_id m =
     (case map_of (s_downtimes (m_sched m)) downtime_id of
        None \<Rightarrow> Some m
      | Some d \<Rightarrow> on_manager_opt (dt_cancel (env_fuel e) (now_is e) d) m)"

definition DEL_HOST_DOWNTIME :: "surroundings \<Rightarrow> int \<Rightarrow> manager \<Rightarrow> manager option" where
  "DEL_HOST_DOWNTIME = cancel_by_id"

definition DEL_SVC_DOWNTIME :: "surroundings \<Rightarrow> int \<Rightarrow> manager \<Rightarrow> manager option" where
  "DEL_SVC_DOWNTIME = cancel_by_id"

definition DEL_ALL_HOST_DOWNTIMES :: "surroundings \<Rightarrow> iid \<Rightarrow> manager \<Rightarrow> manager option" where
  "DEL_ALL_HOST_DOWNTIMES e i m =
     fold_opt (\<lambda>d m. DEL_HOST_DOWNTIME e (dt_id (downtime_store (world_of m) d)) m) (downtimes (item_of m i)) m"

definition DEL_ALL_SVC_DOWNTIMES :: "surroundings \<Rightarrow> iid \<Rightarrow> manager \<Rightarrow> manager option" where
  "DEL_ALL_SVC_DOWNTIMES e i m =
     fold_opt (\<lambda>d m. DEL_SVC_DOWNTIME e (dt_id (downtime_store (world_of m) d)) m) (downtimes (item_of m i)) m"

definition DEL_CONTACT_DOWNTIME :: "int \<Rightarrow> manager \<Rightarrow> manager" where
  "DEL_CONTACT_DOWNTIME downtime_id m =
     (if downtime_id \<ge> 0 \<and> nat downtime_id \<in> set (s_contact_downtimes (m_sched m))
      then on_manager (cdt_cancel (nat downtime_id)) m else m)"

definition SCHEDULE_CONTACT_DOWNTIME ::
  "ctid \<Rightarrow> clock \<Rightarrow> clock \<Rightarrow> string \<Rightarrow> string \<Rightarrow> manager \<Rightarrow> manager" where
  "SCHEDULE_CONTACT_DOWNTIME c start_time end_time author text m =
     (let d = next_contact_downtime_id (world_of m);
          m = on_manager (\<lambda>w. w\<lparr>contact_downtime_store := (contact_downtime_store w)
                 (d := new_contact_downtime c start_time end_time author text), next_contact_downtime_id := Suc d\<rparr>) m;
          m = on_contact c (\<lambda>ct. ct\<lparr>ct_downtimes := ct_downtimes ct @ [d]\<rparr>) m
      in contact_status_brok c (on_sched (add_ContactDowntime d) m))"

definition schedule_downtime ::
  "surroundings \<Rightarrow> iid \<Rightarrow> clock \<Rightarrow> clock \<Rightarrow> bool \<Rightarrow> int \<Rightarrow> int \<Rightarrow> string \<Rightarrow> string \<Rightarrow> manager \<Rightarrow> manager" where
  "schedule_downtime e i start_time end_time fixed trigger_id duration author text m =
     (let (d, w) = new_downtime (now_is e) (env_ident e (next_downtime (world_of m))) i start_time end_time fixed
                     trigger_id duration author text (world_of m);
          m = on_sched (\<lambda>s. add_Downtime d (s\<lparr>s_world := add_downtime d i w\<rparr>)) m;
          m = status_brok i m;
          m = (if trigger_id = 0 then m
               else case map_of (s_downtimes (m_sched m)) trigger_id of
                      None \<Rightarrow> m | Some t \<Rightarrow> on_manager (trigger_me t d) m)
      in on_sched (add_Brok (Schedule_downtime_brok i start_time end_time fixed trigger_id duration author text)) m)"

definition SCHEDULE_HOST_DOWNTIME ::
  "surroundings \<Rightarrow> iid \<Rightarrow> clock \<Rightarrow> clock \<Rightarrow> bool \<Rightarrow> int \<Rightarrow> int \<Rightarrow> string \<Rightarrow> string \<Rightarrow> manager \<Rightarrow> manager" where
  "SCHEDULE_HOST_DOWNTIME = schedule_downtime"

definition SCHEDULE_SVC_DOWNTIME ::
  "surroundings \<Rightarrow> iid \<Rightarrow> clock \<Rightarrow> clock \<Rightarrow> bool \<Rightarrow> int \<Rightarrow> int \<Rightarrow> string \<Rightarrow> string \<Rightarrow> manager \<Rightarrow> manager" where
  "SCHEDULE_SVC_DOWNTIME = schedule_downtime"

definition SCHEDULE_HOST_SVC_DOWNTIME ::
  "surroundings \<Rightarrow> iid \<Rightarrow> clock \<Rightarrow> clock \<Rightarrow> bool \<Rightarrow> int \<Rightarrow> int \<Rightarrow> string \<Rightarrow> string \<Rightarrow> manager \<Rightarrow> manager" where
  "SCHEDULE_HOST_SVC_DOWNTIME e h start_time end_time fixed trigger_id duration author text m =
     fold (\<lambda>s. SCHEDULE_SVC_DOWNTIME e s start_time end_time fixed trigger_id duration author text)
       (services (item_of m h)) m"

definition SCHEDULE_HOSTGROUP_HOST_DOWNTIME ::
  "surroundings \<Rightarrow> iid list \<Rightarrow> clock \<Rightarrow> clock \<Rightarrow> bool \<Rightarrow> int \<Rightarrow> int \<Rightarrow> string \<Rightarrow> string \<Rightarrow> manager \<Rightarrow> manager" where
  "SCHEDULE_HOSTGROUP_HOST_DOWNTIME e hostgroup start_time end_time fixed trigger_id duration author text =
     fold (\<lambda>h. SCHEDULE_HOST_DOWNTIME e h start_time end_time fixed trigger_id duration author text) hostgroup"

definition SCHEDULE_HOSTGROUP_SVC_DOWNTIME ::
  "surroundings \<Rightarrow> iid list \<Rightarrow> clock \<Rightarrow> clock \<Rightarrow> bool \<Rightarrow> int \<Rightarrow> int \<Rightarrow> string \<Rightarrow> string \<Rightarrow> manager \<Rightarrow> manager" where
  "SCHEDULE_HOSTGROUP_SVC_DOWNTIME e hostgroup start_time end_time fixed trigger_id duration author text =
     fold (\<lambda>h m. fold (\<lambda>s. SCHEDULE_SVC_DOWNTIME e s start_time end_time fixed trigger_id duration author text)
                   (services (item_of m h)) m) hostgroup"

definition SCHEDULE_SERVICEGROUP_HOST_DOWNTIME ::
  "surroundings \<Rightarrow> iid list \<Rightarrow> clock \<Rightarrow> clock \<Rightarrow> bool \<Rightarrow> int \<Rightarrow> int \<Rightarrow> string \<Rightarrow> string \<Rightarrow> manager \<Rightarrow> manager" where
  "SCHEDULE_SERVICEGROUP_HOST_DOWNTIME e servicegroup start_time end_time fixed trigger_id duration author text m =
     fold (\<lambda>h. SCHEDULE_HOST_DOWNTIME e h start_time end_time fixed trigger_id duration author text)
       (map (\<lambda>s. host (item_of m s)) servicegroup) m"

definition SCHEDULE_SERVICEGROUP_SVC_DOWNTIME ::
  "surroundings \<Rightarrow> iid list \<Rightarrow> clock \<Rightarrow> clock \<Rightarrow> bool \<Rightarrow> int \<Rightarrow> int \<Rightarrow> string \<Rightarrow> string \<Rightarrow> manager \<Rightarrow> manager" where
  "SCHEDULE_SERVICEGROUP_SVC_DOWNTIME e servicegroup start_time end_time fixed trigger_id duration author text =
     fold (\<lambda>s. SCHEDULE_SVC_DOWNTIME e s start_time end_time fixed trigger_id duration author text) servicegroup"

subsection \<open>Checks\<close>

definition plan_check :: "surroundings \<Rightarrow> bool \<Rightarrow> iid \<Rightarrow> clock \<Rightarrow> manager \<Rightarrow> manager option" where
  "plan_check e force i check_time m =
     map_option (status_brok i)
       (on_manager_opt (schedule (env_fuel e) (now_is e) (env_random e i) force (Some check_time) i) m)"

definition SCHEDULE_HOST_CHECK :: "surroundings \<Rightarrow> iid \<Rightarrow> clock \<Rightarrow> manager \<Rightarrow> manager option" where
  "SCHEDULE_HOST_CHECK e = plan_check e False"

definition SCHEDULE_SVC_CHECK :: "surroundings \<Rightarrow> iid \<Rightarrow> clock \<Rightarrow> manager \<Rightarrow> manager option" where
  "SCHEDULE_SVC_CHECK e = plan_check e False"

definition SCHEDULE_FORCED_HOST_CHECK :: "surroundings \<Rightarrow> iid \<Rightarrow> clock \<Rightarrow> manager \<Rightarrow> manager option" where
  "SCHEDULE_FORCED_HOST_CHECK e = plan_check e True"

definition SCHEDULE_FORCED_SVC_CHECK :: "surroundings \<Rightarrow> iid \<Rightarrow> clock \<Rightarrow> manager \<Rightarrow> manager option" where
  "SCHEDULE_FORCED_SVC_CHECK e = plan_check e True"

definition SCHEDULE_HOST_SVC_CHECKS :: "surroundings \<Rightarrow> iid \<Rightarrow> clock \<Rightarrow> manager \<Rightarrow> manager option" where
  "SCHEDULE_HOST_SVC_CHECKS e h check_time m =
     fold_opt (\<lambda>s m. map_option (status_brok s) (SCHEDULE_SVC_CHECK e s check_time m)) (services (item_of m h)) m"

definition SCHEDULE_FORCED_HOST_SVC_CHECKS :: "surroundings \<Rightarrow> iid \<Rightarrow> clock \<Rightarrow> manager \<Rightarrow> manager option" where
  "SCHEDULE_FORCED_HOST_SVC_CHECKS e h check_time m =
     fold_opt (\<lambda>s m. map_option (status_brok s) (SCHEDULE_FORCED_SVC_CHECK e s check_time m)) (services (item_of m h)) m"

text \<open>The result of a passive check: a check is launched, or the one in progress is taken, and turned into a result
  that waits to be consumed.\<close>

definition feed_result :: "int \<Rightarrow> string \<Rightarrow> int \<Rightarrow> clock \<Rightarrow> check \<Rightarrow> check" where
  "feed_result status out max_length timestamp ck =
     (case get_outputs out max_length of (first, long, perf) \<Rightarrow>
        c_set_type_passive (ck\<lparr>c_exit_status := status, c_output := first, c_long_output := long,
          c_perf_data := perf, c_status := WaitConsume, c_check_time := timestamp\<rparr>))"

definition passive_result :: "surroundings \<Rightarrow> iid \<Rightarrow> int \<Rightarrow> string \<Rightarrow> manager \<Rightarrow> manager option" where
  "passive_result e i status out m =
     (let k = cls (world_of m) i; it = item_of m i in
      if \<not> (accept_passive_checks k \<and> passive_checks_enabled it) then Some m
      else if m_current_timestamp m < last_chk it then Some m
      else do {
        (c, w) \<leftarrow> launch_check (env_fuel e) (now_is e) (now_is e) None True False State_variant i (world_of m);
        let m' = on_manager (\<lambda>_. w) m;
        Some (case c of None \<Rightarrow> m'
              | Some c \<Rightarrow> if c \<in> set (get_checks_in_progress w i State_variant)
                          then on_manager (upd_check c (feed_result status out (max_plugins_output_length k)
                                 (m_current_timestamp m))) m'
                          else m')
      })"

definition log_passive :: "log_entry \<Rightarrow> manager \<Rightarrow> manager" where
  "log_passive entry m = (if pg_log_passive_checks (m_program m) then on_manager (naglog_result entry) m else m)"

definition PROCESS_HOST_CHECK_RESULT :: "surroundings \<Rightarrow> iid \<Rightarrow> int \<Rightarrow> string \<Rightarrow> manager \<Rightarrow> manager option" where
  "PROCESS_HOST_CHECK_RESULT e i status_code out m =
     passive_result e i status_code out (log_passive (PASSIVE_HOST_CHECK i status_code out) m)"

definition PROCESS_HOST_OUTPUT :: "surroundings \<Rightarrow> iid \<Rightarrow> string \<Rightarrow> manager \<Rightarrow> manager option" where
  "PROCESS_HOST_OUTPUT e i out m = PROCESS_HOST_CHECK_RESULT e i (state_id (item_of m i)) out m"

definition PROCESS_SERVICE_CHECK_RESULT :: "surroundings \<Rightarrow> iid \<Rightarrow> int \<Rightarrow> string \<Rightarrow> manager \<Rightarrow> manager option" where
  "PROCESS_SERVICE_CHECK_RESULT e i status out m =
     passive_result e i status out (log_passive (PASSIVE_SERVICE_CHECK (host (item_of m i)) i status out) m)"

definition PROCESS_SERVICE_OUTPUT :: "surroundings \<Rightarrow> iid \<Rightarrow> string \<Rightarrow> manager \<Rightarrow> manager option" where
  "PROCESS_SERVICE_OUTPUT e i out m = PROCESS_SERVICE_CHECK_RESULT e i (state_id (item_of m i)) out m"

definition LAUNCH_SVC_EVENT_HANDLER :: "surroundings \<Rightarrow> iid \<Rightarrow> manager \<Rightarrow> manager" where
  "LAUNCH_SVC_EVENT_HANDLER e i = on_manager (get_event_handlers (now_is e) True i)"

definition LAUNCH_HOST_EVENT_HANDLER :: "surroundings \<Rightarrow> iid \<Rightarrow> manager \<Rightarrow> manager" where
  "LAUNCH_HOST_EVENT_HANDLER e i = on_manager (get_event_handlers (now_is e) True i)"

subsection \<open>Dependencies between hosts\<close>

definition is_linked_with_host :: "world \<Rightarrow> iid \<Rightarrow> iid \<Rightarrow> bool" where
  "is_linked_with_host w self other = list_ex (\<lambda>d. dep_item d = other) (act_depend_of (items w self))"

definition register_son_in_parent_child_dependencies :: "iid \<Rightarrow> iid \<Rightarrow> world \<Rightarrow> world" where
  "register_son_in_parent_child_dependencies self son w =
     upd son (\<lambda>it. it\<lparr>parent_dependencies := set_add self (parent_dependencies it)\<rparr>)
       (upd self (\<lambda>it. it\<lparr>child_dependencies := set_add son (child_dependencies it)\<rparr>) w)"

definition host_dependency :: "iid \<Rightarrow> string list \<Rightarrow> period option \<Rightarrow> bool \<Rightarrow> dependency" where
  "host_dependency h status timeperiod inherits_parent =
     \<lparr>dep_item = h, dep_status = status, dep_kind = Logic_dep, dep_period = timeperiod,
      dep_inherits_parent = inherits_parent\<rparr>"

definition add_host_act_dependency ::
  "iid \<Rightarrow> iid \<Rightarrow> string list \<Rightarrow> period option \<Rightarrow> bool \<Rightarrow> world \<Rightarrow> world" where
  "add_host_act_dependency self h status timeperiod inherits_parent w =
     (let w = upd self (\<lambda>it. it\<lparr>act_depend_of := act_depend_of it @ [host_dependency h status timeperiod inherits_parent]\<rparr>) w;
          w = upd h (\<lambda>it. it\<lparr>act_depend_of_me := act_depend_of_me it @ [host_dependency self status timeperiod inherits_parent]\<rparr>) w
      in register_son_in_parent_child_dependencies h self w)"

text \<open>\<^verbatim>\<open>set.remove\<close> raises when the element is missing.\<close>

definition del_host_act_dependency :: "iid \<Rightarrow> iid \<Rightarrow> world \<Rightarrow> world option" where
  "del_host_act_dependency self other w = do {
     let w = upd self (\<lambda>it. it\<lparr>act_depend_of := filter (\<lambda>d. dep_item d \<noteq> other) (act_depend_of it)\<rparr>) w;
     let w = upd other (\<lambda>it. it\<lparr>act_depend_of_me := filter (\<lambda>d. dep_item d \<noteq> self) (act_depend_of_me it)\<rparr>) w;
     cs \<leftarrow> py_remove self (child_dependencies (items w other));
     let w = upd other (\<lambda>it. it\<lparr>child_dependencies := cs\<rparr>) w;
     ps \<leftarrow> py_remove other (parent_dependencies (items w self));
     Some (upd self (\<lambda>it. it\<lparr>parent_dependencies := ps\<rparr>) w)
   }"

definition flag_topology :: "iid \<Rightarrow> iid \<Rightarrow> world \<Rightarrow> world" where
  "flag_topology son father w =
     upd father (\<lambda>it. it\<lparr>topology_change := True\<rparr>) (upd son (\<lambda>it. it\<lparr>topology_change := True\<rparr>) w)"

definition ADD_SIMPLE_HOST_DEPENDENCY :: "iid \<Rightarrow> iid \<Rightarrow> manager \<Rightarrow> manager" where
  "ADD_SIMPLE_HOST_DEPENDENCY son father m =
     (if is_linked_with_host (world_of m) son father then m
      else status_brok father (status_brok son
             (on_manager (\<lambda>w. add_host_act_dependency son father [''w'', ''u'', ''d''] None True
                (flag_topology son father w)) m)))"

definition DEL_HOST_DEPENDENCY :: "iid \<Rightarrow> iid \<Rightarrow> manager \<Rightarrow> manager option" where
  "DEL_HOST_DEPENDENCY son father m =
     (if is_linked_with_host (world_of m) son father
      then map_option (\<lambda>m. status_brok father (status_brok son m))
             (on_manager_opt (\<lambda>w. del_host_act_dependency son father (flag_topology son father w)) m)
      else Some m)"

subsection \<open>Restart and reload\<close>

definition run_named_command :: "surroundings \<Rightarrow> string \<Rightarrow> manager \<Rightarrow> manager option" where
  "run_named_command e name m = do {
     d \<leftarrow> m_directory m;
     Some (case find_command d name of
             None \<Rightarrow> m
           | Some c \<Rightarrow>
               let (timed_out, exit_status, out) = run_line e (cd_command_line c)
               in if timed_out \<or> exit_status \<noteq> 0 then m else on_manager (naglog_result (INFO out)) m)
   }"

definition RESTART_PROGRAM :: "surroundings \<Rightarrow> manager \<Rightarrow> manager option" where
  "RESTART_PROGRAM e = run_named_command e ''restart-shinken''"

definition RELOAD_CONFIG :: "surroundings \<Rightarrow> manager \<Rightarrow> manager option" where
  "RELOAD_CONFIG e = run_named_command e ''reload-shinken''"

end
