(* ===== verification/Commands.thy ===== *)
theory Commands
  imports Handlers
begin

text \<open>
  The external commands of \<^verbatim>\<open>shinken/external_command.py\<close>: the table \<^verbatim>\<open>commands\<close> with the arguments each command
  takes, the methods they name, the parser of a command line (\<^verbatim>\<open>get_command_and_args\<close>), and the way a command takes
  in the arbiter, in a receiver and in a scheduler (\<^verbatim>\<open>resolve_command\<close>, \<^verbatim>\<open>search_host_and_dispatch\<close>,
  \<^verbatim>\<open>dispatch_global_command\<close>).

  Python calls \<^verbatim>\<open>getattr(self, c_name)(*args)\<close>; here the methods are a second table, and each entry takes its
  arguments off the list one by one. A list that does not fit gives no method.
\<close>

subsection \<open>Arguments\<close>

datatype arg_kind = K_host | K_service | K_contact | K_time_period | K_to_bool | K_to_int | K_author | K_text
  | K_command | K_host_group | K_service_group | K_contact_group

datatype arg = A_item iid | A_contact ctid | A_period period | A_bool bool | A_int int | A_text string
  | A_items "iid list" | A_contacts "ctid list"

fun has_kind :: "arg \<Rightarrow> arg_kind \<Rightarrow> bool" where
  "has_kind (A_item i) k = (k \<in> {K_host, K_service})"
| "has_kind (A_contact c) k = (k = K_contact)"
| "has_kind (A_period p) k = (k = K_time_period)"
| "has_kind (A_bool b) k = (k = K_to_bool)"
| "has_kind (A_int n) k = (k = K_to_int)"
| "has_kind (A_text t) k = (k \<in> {K_author, K_text, K_command})"
| "has_kind (A_items is) k = (k \<in> {K_host_group, K_service_group})"
| "has_kind (A_contacts cs) k = (k = K_contact_group)"

record command_entry =
  en_global :: bool
  en_internal :: bool
  en_args :: "arg_kind list"

definition global_entry :: "arg_kind list \<Rightarrow> command_entry" where
  "global_entry ks = \<lparr>en_global = True, en_internal = False, en_args = ks\<rparr>"

definition local_entry :: "arg_kind list \<Rightarrow> command_entry" where
  "local_entry ks = \<lparr>en_global = False, en_internal = False, en_args = ks\<rparr>"

definition internal_entry :: "arg_kind list \<Rightarrow> command_entry" where
  "internal_entry ks = \<lparr>en_global = True, en_internal = True, en_args = ks\<rparr>"

subsection \<open>The table of the commands\<close>

definition commands_1 :: "(string \<times> command_entry) list" where
  "commands_1 = [
     (''CHANGE_CONTACT_MODSATTR'', global_entry [K_contact, K_text]),
     (''CHANGE_CONTACT_MODHATTR'', global_entry [K_contact, K_text]),
     (''CHANGE_CONTACT_MODATTR'', global_entry [K_contact, K_text]),
     (''CHANGE_CONTACT_HOST_NOTIFICATION_TIMEPERIOD'', global_entry [K_contact, K_time_period]),
     (''ADD_SVC_COMMENT'', local_entry [K_service, K_to_bool, K_author, K_text]),
     (''ADD_HOST_COMMENT'', local_entry [K_host, K_to_bool, K_author, K_text]),
     (''ACKNOWLEDGE_SVC_PROBLEM'', local_entry [K_service, K_to_int, K_to_bool, K_to_bool, K_author, K_text]),
     (''ACKNOWLEDGE_HOST_PROBLEM'', local_entry [K_host, K_to_int, K_to_bool, K_to_bool, K_author, K_text]),
     (''ACKNOWLEDGE_SVC_PROBLEM_EXPIRE'', local_entry [K_service, K_to_int, K_to_bool, K_to_bool, K_to_int, K_author, K_text]),
     (''ACKNOWLEDGE_HOST_PROBLEM_EXPIRE'', local_entry [K_host, K_to_int, K_to_bool, K_to_bool, K_to_int, K_author, K_text]),
     (''CHANGE_CONTACT_SVC_NOTIFICATION_TIMEPERIOD'', global_entry [K_contact, K_time_period]),
     (''CHANGE_CUSTOM_CONTACT_VAR'', global_entry [K_contact, K_text, K_text]),
     (''CHANGE_CUSTOM_HOST_VAR'', local_entry [K_host, K_text, K_text]),
     (''CHANGE_CUSTOM_SVC_VAR'', local_entry [K_service, K_text, K_text]),
     (''CHANGE_GLOBAL_HOST_EVENT_HANDLER'', global_entry [K_command]),
     (''CHANGE_GLOBAL_SVC_EVENT_HANDLER'', global_entry [K_command]),
     (''CHANGE_HOST_CHECK_COMMAND'', local_entry [K_host, K_command]),
     (''CHANGE_HOST_CHECK_TIMEPERIOD'', local_entry [K_host, K_time_period]),
     (''CHANGE_HOST_EVENT_HANDLER'', local_entry [K_host, K_command]),
     (''CHANGE_HOST_MODATTR'', local_entry [K_host, K_to_int]),
     (''CHANGE_MAX_HOST_CHECK_ATTEMPTS'', local_entry [K_host, K_to_int]),
     (''CHANGE_MAX_SVC_CHECK_ATTEMPTS'', local_entry [K_service, K_to_int]),
     (''CHANGE_NORMAL_HOST_CHECK_INTERVAL'', local_entry [K_host, K_to_int]),
     (''CHANGE_NORMAL_SVC_CHECK_INTERVAL'', local_entry [K_service, K_to_int]),
     (''CHANGE_RETRY_HOST_CHECK_INTERVAL'', local_entry [K_host, K_to_int]),
     (''CHANGE_RETRY_SVC_CHECK_INTERVAL'', local_entry [K_service, K_to_int]),
     (''CHANGE_SVC_CHECK_COMMAND'', local_entry [K_service, K_command]),
     (''CHANGE_SVC_CHECK_TIMEPERIOD'', local_entry [K_service, K_time_period]),
     (''CHANGE_SVC_EVENT_HANDLER'', local_entry [K_service, K_command]),
     (''CHANGE_SVC_MODATTR'', local_entry [K_service, K_to_int]),
     (''CHANGE_SVC_NOTIFICATION_TIMEPERIOD'', local_entry [K_service, K_time_period]),
     (''DELAY_HOST_NOTIFICATION'', local_entry [K_host, K_to_int]),
     (''DELAY_SVC_NOTIFICATION'', local_entry [K_service, K_to_int]),
     (''DEL_ALL_HOST_COMMENTS'', local_entry [K_host]),
     (''DEL_ALL_HOST_DOWNTIMES'', local_entry [K_host]),
     (''DEL_ALL_SVC_COMMENTS'', local_entry [K_service]),
     (''DEL_ALL_SVC_DOWNTIMES'', local_entry [K_service]),
     (''DEL_CONTACT_DOWNTIME'', global_entry [K_to_int]),
     (''DEL_HOST_COMMENT'', global_entry [K_to_int]),
     (''DEL_HOST_DOWNTIME'', global_entry [K_to_int]),
     (''DEL_SVC_COMMENT'', global_entry [K_to_int]),
     (''DEL_SVC_DOWNTIME'', global_entry [K_to_int]),
     (''DISABLE_ALL_NOTIFICATIONS_BEYOND_HOST'', local_entry [K_host]),
     (''DISABLE_CONTACTGROUP_HOST_NOTIFICATIONS'', global_entry [K_contact_group]),
     (''DISABLE_CONTACTGROUP_SVC_NOTIFICATIONS'', global_entry [K_contact_group]),
     (''DISABLE_CONTACT_HOST_NOTIFICATIONS'', global_entry [K_contact]),
     (''DISABLE_CONTACT_SVC_NOTIFICATIONS'', global_entry [K_contact]),
     (''DISABLE_EVENT_HANDLERS'', global_entry []),
     (''DISABLE_FAILURE_PREDICTION'', global_entry []),
     (''DISABLE_FLAP_DETECTION'', global_entry []),
     (''DISABLE_HOSTGROUP_HOST_CHECKS'', global_entry [K_host_group]),
     (''DISABLE_HOSTGROUP_HOST_NOTIFICATIONS'', global_entry [K_host_group]),
     (''DISABLE_HOSTGROUP_PASSIVE_HOST_CHECKS'', global_entry [K_host_group]),
     (''DISABLE_HOSTGROUP_PASSIVE_SVC_CHECKS'', global_entry [K_host_group]),
     (''DISABLE_HOSTGROUP_SVC_CHECKS'', global_entry [K_host_group])]"

definition commands_2 :: "(string \<times> command_entry) list" where
  "commands_2 = [
     (''DISABLE_HOSTGROUP_SVC_NOTIFICATIONS'', global_entry [K_host_group]),
     (''DISABLE_HOST_AND_CHILD_NOTIFICATIONS'', local_entry [K_host]),
     (''DISABLE_HOST_CHECK'', local_entry [K_host]),
     (''DISABLE_HOST_EVENT_HANDLER'', local_entry [K_host]),
     (''DISABLE_HOST_FLAP_DETECTION'', local_entry [K_host]),
     (''DISABLE_HOST_FRESHNESS_CHECKS'', global_entry []),
     (''DISABLE_HOST_NOTIFICATIONS'', local_entry [K_host]),
     (''DISABLE_HOST_SVC_CHECKS'', local_entry [K_host]),
     (''DISABLE_HOST_SVC_NOTIFICATIONS'', local_entry [K_host]),
     (''DISABLE_NOTIFICATIONS'', global_entry []),
     (''DISABLE_PASSIVE_HOST_CHECKS'', local_entry [K_host]),
     (''DISABLE_PASSIVE_SVC_CHECKS'', local_entry [K_service]),
     (''DISABLE_PERFORMANCE_DATA'', global_entry []),
     (''DISABLE_SERVICEGROUP_HOST_CHECKS'', global_entry [K_service_group]),
     (''DISABLE_SERVICEGROUP_HOST_NOTIFICATIONS'', global_entry [K_service_group]),
     (''DISABLE_SERVICEGROUP_PASSIVE_HOST_CHECKS'', global_entry [K_service_group]),
     (''DISABLE_SERVICEGROUP_PASSIVE_SVC_CHECKS'', global_entry [K_service_group]),
     (''DISABLE_SERVICEGROUP_SVC_CHECKS'', global_entry [K_service_group]),
     (''DISABLE_SERVICEGROUP_SVC_NOTIFICATIONS'', global_entry [K_service_group]),
     (''DISABLE_SERVICE_FLAP_DETECTION'', local_entry [K_service]),
     (''DISABLE_SERVICE_FRESHNESS_CHECKS'', global_entry []),
     (''DISABLE_SVC_CHECK'', local_entry [K_service]),
     (''DISABLE_SVC_EVENT_HANDLER'', local_entry [K_service]),
     (''DISABLE_SVC_FLAP_DETECTION'', local_entry [K_service]),
     (''DISABLE_SVC_NOTIFICATIONS'', local_entry [K_service]),
     (''ENABLE_ALL_NOTIFICATIONS_BEYOND_HOST'', local_entry [K_host]),
     (''ENABLE_CONTACTGROUP_HOST_NOTIFICATIONS'', global_entry [K_contact_group]),
     (''ENABLE_CONTACTGROUP_SVC_NOTIFICATIONS'', global_entry [K_contact_group]),
     (''ENABLE_CONTACT_HOST_NOTIFICATIONS'', global_entry [K_contact]),
     (''ENABLE_CONTACT_SVC_NOTIFICATIONS'', global_entry [K_contact]),
     (''ENABLE_EVENT_HANDLERS'', global_entry []),
     (''ENABLE_FAILURE_PREDICTION'', global_entry []),
     (''ENABLE_FLAP_DETECTION'', global_entry []),
     (''ENABLE_HOSTGROUP_HOST_CHECKS'', global_entry [K_host_group]),
     (''ENABLE_HOSTGROUP_HOST_NOTIFICATIONS'', global_entry [K_host_group]),
     (''ENABLE_HOSTGROUP_PASSIVE_HOST_CHECKS'', global_entry [K_host_group]),
     (''ENABLE_HOSTGROUP_PASSIVE_SVC_CHECKS'', global_entry [K_host_group]),
     (''ENABLE_HOSTGROUP_SVC_CHECKS'', global_entry [K_host_group]),
     (''ENABLE_HOSTGROUP_SVC_NOTIFICATIONS'', global_entry [K_host_group]),
     (''ENABLE_HOST_AND_CHILD_NOTIFICATIONS'', local_entry [K_host]),
     (''ENABLE_HOST_CHECK'', local_entry [K_host]),
     (''ENABLE_HOST_EVENT_HANDLER'', local_entry [K_host]),
     (''ENABLE_HOST_FLAP_DETECTION'', local_entry [K_host]),
     (''ENABLE_HOST_FRESHNESS_CHECKS'', global_entry []),
     (''ENABLE_HOST_NOTIFICATIONS'', local_entry [K_host]),
     (''ENABLE_HOST_SVC_CHECKS'', local_entry [K_host]),
     (''ENABLE_HOST_SVC_NOTIFICATIONS'', local_entry [K_host]),
     (''ENABLE_NOTIFICATIONS'', global_entry []),
     (''ENABLE_PASSIVE_HOST_CHECKS'', local_entry [K_host]),
     (''ENABLE_PASSIVE_SVC_CHECKS'', local_entry [K_service]),
     (''ENABLE_PERFORMANCE_DATA'', global_entry []),
     (''ENABLE_SERVICEGROUP_HOST_CHECKS'', global_entry [K_service_group]),
     (''ENABLE_SERVICEGROUP_HOST_NOTIFICATIONS'', global_entry [K_service_group]),
     (''ENABLE_SERVICEGROUP_PASSIVE_HOST_CHECKS'', global_entry [K_service_group]),
     (''ENABLE_SERVICEGROUP_PASSIVE_SVC_CHECKS'', global_entry [K_service_group]),
     (''ENABLE_SERVICEGROUP_SVC_CHECKS'', global_entry [K_service_group])]"

definition commands_3 :: "(string \<times> command_entry) list" where
  "commands_3 = [
     (''ENABLE_SERVICEGROUP_SVC_NOTIFICATIONS'', global_entry [K_service_group]),
     (''ENABLE_SERVICE_FRESHNESS_CHECKS'', global_entry []),
     (''ENABLE_SVC_CHECK'', local_entry [K_service]),
     (''ENABLE_SVC_EVENT_HANDLER'', local_entry [K_service]),
     (''ENABLE_SVC_FLAP_DETECTION'', local_entry [K_service]),
     (''ENABLE_SVC_NOTIFICATIONS'', local_entry [K_service]),
     (''PROCESS_FILE'', global_entry [K_text, K_to_bool]),
     (''PROCESS_HOST_CHECK_RESULT'', local_entry [K_host, K_to_int, K_text]),
     (''PROCESS_HOST_OUTPUT'', local_entry [K_host, K_text]),
     (''PROCESS_SERVICE_CHECK_RESULT'', local_entry [K_service, K_to_int, K_text]),
     (''PROCESS_SERVICE_OUTPUT'', local_entry [K_service, K_text]),
     (''READ_STATE_INFORMATION'', global_entry []),
     (''REMOVE_HOST_ACKNOWLEDGEMENT'', local_entry [K_host]),
     (''REMOVE_SVC_ACKNOWLEDGEMENT'', local_entry [K_service]),
     (''RESTART_PROGRAM'', internal_entry []),
     (''RELOAD_CONFIG'', internal_entry []),
     (''SAVE_STATE_INFORMATION'', global_entry []),
     (''SCHEDULE_AND_PROPAGATE_HOST_DOWNTIME'', local_entry [K_host, K_to_int, K_to_int, K_to_bool, K_to_int, K_to_int, K_author, K_text]),
     (''SCHEDULE_AND_PROPAGATE_TRIGGERED_HOST_DOWNTIME'', local_entry [K_host, K_to_int, K_to_int, K_to_bool, K_to_int, K_to_int, K_author, K_text]),
     (''SCHEDULE_CONTACT_DOWNTIME'', global_entry [K_contact, K_to_int, K_to_int, K_author, K_text]),
     (''SCHEDULE_FORCED_HOST_CHECK'', local_entry [K_host, K_to_int]),
     (''SCHEDULE_FORCED_HOST_SVC_CHECKS'', local_entry [K_host, K_to_int]),
     (''SCHEDULE_FORCED_SVC_CHECK'', local_entry [K_service, K_to_int]),
     (''SCHEDULE_HOSTGROUP_HOST_DOWNTIME'', global_entry [K_host_group, K_to_int, K_to_int, K_to_bool, K_to_int, K_to_int, K_author, K_text]),
     (''SCHEDULE_HOSTGROUP_SVC_DOWNTIME'', global_entry [K_host_group, K_to_int, K_to_int, K_to_bool, K_to_int, K_to_int, K_author, K_text]),
     (''SCHEDULE_HOST_CHECK'', local_entry [K_host, K_to_int]),
     (''SCHEDULE_HOST_DOWNTIME'', local_entry [K_host, K_to_int, K_to_int, K_to_bool, K_to_int, K_to_int, K_author, K_text]),
     (''SCHEDULE_HOST_SVC_CHECKS'', local_entry [K_host, K_to_int]),
     (''SCHEDULE_HOST_SVC_DOWNTIME'', local_entry [K_host, K_to_int, K_to_int, K_to_bool, K_to_int, K_to_int, K_author, K_text]),
     (''SCHEDULE_SERVICEGROUP_HOST_DOWNTIME'', global_entry [K_service_group, K_to_int, K_to_int, K_to_bool, K_to_int, K_to_int, K_author, K_text]),
     (''SCHEDULE_SERVICEGROUP_SVC_DOWNTIME'', global_entry [K_service_group, K_to_int, K_to_int, K_to_bool, K_to_int, K_to_int, K_author, K_text]),
     (''SCHEDULE_SVC_CHECK'', local_entry [K_service, K_to_int]),
     (''SCHEDULE_SVC_DOWNTIME'', local_entry [K_service, K_to_int, K_to_int, K_to_bool, K_to_int, K_to_int, K_author, K_text]),
     (''SEND_CUSTOM_HOST_NOTIFICATION'', local_entry [K_host, K_to_int, K_author, K_text]),
     (''SEND_CUSTOM_SVC_NOTIFICATION'', local_entry [K_service, K_to_int, K_author, K_text]),
     (''SET_HOST_NOTIFICATION_NUMBER'', local_entry [K_host, K_to_int]),
     (''SET_SVC_NOTIFICATION_NUMBER'', local_entry [K_service, K_to_int]),
     (''SHUTDOWN_PROGRAM'', global_entry []),
     (''START_ACCEPTING_PASSIVE_HOST_CHECKS'', global_entry []),
     (''START_ACCEPTING_PASSIVE_SVC_CHECKS'', global_entry []),
     (''START_EXECUTING_HOST_CHECKS'', global_entry []),
     (''START_EXECUTING_SVC_CHECKS'', global_entry []),
     (''START_OBSESSING_OVER_HOST'', local_entry [K_host]),
     (''START_OBSESSING_OVER_HOST_CHECKS'', global_entry []),
     (''START_OBSESSING_OVER_SVC'', local_entry [K_service]),
     (''START_OBSESSING_OVER_SVC_CHECKS'', global_entry []),
     (''STOP_ACCEPTING_PASSIVE_HOST_CHECKS'', global_entry []),
     (''STOP_ACCEPTING_PASSIVE_SVC_CHECKS'', global_entry []),
     (''STOP_EXECUTING_HOST_CHECKS'', global_entry []),
     (''STOP_EXECUTING_SVC_CHECKS'', global_entry []),
     (''STOP_OBSESSING_OVER_HOST'', local_entry [K_host])]"

definition commands_4 :: "(string \<times> command_entry) list" where
  "commands_4 = [
     (''STOP_OBSESSING_OVER_HOST_CHECKS'', global_entry []),
     (''STOP_OBSESSING_OVER_SVC'', local_entry [K_service]),
     (''STOP_OBSESSING_OVER_SVC_CHECKS'', global_entry []),
     (''LAUNCH_SVC_EVENT_HANDLER'', local_entry [K_service]),
     (''LAUNCH_HOST_EVENT_HANDLER'', local_entry [K_host]),
     (''ADD_SIMPLE_HOST_DEPENDENCY'', local_entry [K_host, K_host]),
     (''DEL_HOST_DEPENDENCY'', local_entry [K_host, K_host]),
     (''ADD_SIMPLE_POLLER'', internal_entry [K_text, K_text, K_text, K_text])]"

definition commands :: "(string \<times> command_entry) list" where
  "commands = commands_1 @ commands_2 @ commands_3 @ commands_4"

subsection \<open>The methods\<close>

type_synonym routine = "arg list \<Rightarrow> (manager \<Rightarrow> manager option) option"

definition surely :: "(manager \<Rightarrow> manager) \<Rightarrow> manager \<Rightarrow> manager option" where
  "surely f m = Some (f m)"

definition finish :: "(manager \<Rightarrow> manager option) \<Rightarrow> routine" where
  "finish f args = (if args = [] then Some f else None)"

definition eat_item :: "(iid \<Rightarrow> routine) \<Rightarrow> routine" where
  "eat_item f args = (case args of A_item i # rest \<Rightarrow> f i rest | _ \<Rightarrow> None)"

definition eat_contact :: "(ctid \<Rightarrow> routine) \<Rightarrow> routine" where
  "eat_contact f args = (case args of A_contact c # rest \<Rightarrow> f c rest | _ \<Rightarrow> None)"

definition eat_period :: "(period \<Rightarrow> routine) \<Rightarrow> routine" where
  "eat_period f args = (case args of A_period p # rest \<Rightarrow> f p rest | _ \<Rightarrow> None)"

definition eat_bool :: "(bool \<Rightarrow> routine) \<Rightarrow> routine" where
  "eat_bool f args = (case args of A_bool b # rest \<Rightarrow> f b rest | _ \<Rightarrow> None)"

definition eat_int :: "(int \<Rightarrow> routine) \<Rightarrow> routine" where
  "eat_int f args = (case args of A_int n # rest \<Rightarrow> f n rest | _ \<Rightarrow> None)"

definition eat_text :: "(string \<Rightarrow> routine) \<Rightarrow> routine" where
  "eat_text f args = (case args of A_text t # rest \<Rightarrow> f t rest | _ \<Rightarrow> None)"

definition eat_items :: "(iid list \<Rightarrow> routine) \<Rightarrow> routine" where
  "eat_items f args = (case args of A_items is # rest \<Rightarrow> f is rest | _ \<Rightarrow> None)"

definition eat_contacts :: "(ctid list \<Rightarrow> routine) \<Rightarrow> routine" where
  "eat_contacts f args = (case args of A_contacts cs # rest \<Rightarrow> f cs rest | _ \<Rightarrow> None)"

text \<open>A method whose body is \<^verbatim>\<open>pass\<close> is \<^term>\<open>Some\<close>.\<close>

definition methods_1 :: "surroundings \<Rightarrow> (string \<times> routine) list" where
  "methods_1 e = [
     (''CHANGE_CONTACT_MODSATTR'',
       eat_contact (\<lambda>c. eat_text (\<lambda>t. finish (CHANGE_CONTACT_MODSATTR c t)))),
     (''CHANGE_CONTACT_MODHATTR'',
       eat_contact (\<lambda>c. eat_text (\<lambda>t. finish (CHANGE_CONTACT_MODHATTR c t)))),
     (''CHANGE_CONTACT_MODATTR'',
       eat_contact (\<lambda>c. eat_text (\<lambda>t. finish (CHANGE_CONTACT_MODATTR c t)))),
     (''CHANGE_CONTACT_HOST_NOTIFICATION_TIMEPERIOD'',
       eat_contact (\<lambda>c. eat_period (\<lambda>p. finish (surely (CHANGE_CONTACT_HOST_NOTIFICATION_TIMEPERIOD c p))))),
     (''ADD_SVC_COMMENT'',
       eat_item (\<lambda>i. eat_bool (\<lambda>b. eat_text (\<lambda>t1. eat_text (\<lambda>t2. finish (surely (ADD_SVC_COMMENT e i b t1 t2))))))),
     (''ADD_HOST_COMMENT'',
       eat_item (\<lambda>i. eat_bool (\<lambda>b. eat_text (\<lambda>t1. eat_text (\<lambda>t2. finish (surely (ADD_HOST_COMMENT e i b t1 t2))))))),
     (''ACKNOWLEDGE_SVC_PROBLEM'',
       eat_item (\<lambda>i. eat_int (\<lambda>n. eat_bool (\<lambda>b1. eat_bool (\<lambda>b2. eat_text (\<lambda>t1. eat_text (\<lambda>t2. finish (surely (ACKNOWLEDGE_SVC_PROBLEM e i n b1 b2 t1 t2))))))))),
     (''ACKNOWLEDGE_HOST_PROBLEM'',
       eat_item (\<lambda>i. eat_int (\<lambda>n. eat_bool (\<lambda>b1. eat_bool (\<lambda>b2. eat_text (\<lambda>t1. eat_text (\<lambda>t2. finish (surely (ACKNOWLEDGE_HOST_PROBLEM e i n b1 b2 t1 t2))))))))),
     (''ACKNOWLEDGE_SVC_PROBLEM_EXPIRE'',
       eat_item (\<lambda>i. eat_int (\<lambda>n1. eat_bool (\<lambda>b1. eat_bool (\<lambda>b2. eat_int (\<lambda>n2. eat_text (\<lambda>t1. eat_text (\<lambda>t2. finish (surely (ACKNOWLEDGE_SVC_PROBLEM_EXPIRE e i n1 b1 b2 n2 t1 t2)))))))))),
     (''ACKNOWLEDGE_HOST_PROBLEM_EXPIRE'',
       eat_item (\<lambda>i. eat_int (\<lambda>n1. eat_bool (\<lambda>b1. eat_bool (\<lambda>b2. eat_int (\<lambda>n2. eat_text (\<lambda>t1. eat_text (\<lambda>t2. finish (surely (ACKNOWLEDGE_HOST_PROBLEM_EXPIRE e i n1 b1 b2 n2 t1 t2)))))))))),
     (''CHANGE_CONTACT_SVC_NOTIFICATION_TIMEPERIOD'',
       eat_contact (\<lambda>c. eat_period (\<lambda>p. finish (surely (CHANGE_CONTACT_SVC_NOTIFICATION_TIMEPERIOD c p))))),
     (''CHANGE_CUSTOM_CONTACT_VAR'',
       eat_contact (\<lambda>c. eat_text (\<lambda>t1. eat_text (\<lambda>t2. finish (surely (CHANGE_CUSTOM_CONTACT_VAR c t1 t2)))))),
     (''CHANGE_CUSTOM_HOST_VAR'',
       eat_item (\<lambda>i. eat_text (\<lambda>t1. eat_text (\<lambda>t2. finish (surely (CHANGE_CUSTOM_HOST_VAR i t1 t2)))))),
     (''CHANGE_CUSTOM_SVC_VAR'',
       eat_item (\<lambda>i. eat_text (\<lambda>t1. eat_text (\<lambda>t2. finish (surely (CHANGE_CUSTOM_SVC_VAR i t1 t2)))))),
     (''CHANGE_GLOBAL_HOST_EVENT_HANDLER'',
       eat_text (\<lambda>t. finish Some)),
     (''CHANGE_GLOBAL_SVC_EVENT_HANDLER'',
       eat_text (\<lambda>t. finish Some)),
     (''CHANGE_HOST_CHECK_COMMAND'',
       eat_item (\<lambda>i. eat_text (\<lambda>t. finish (CHANGE_HOST_CHECK_COMMAND i t)))),
     (''CHANGE_HOST_CHECK_TIMEPERIOD'',
       eat_item (\<lambda>i. eat_period (\<lambda>p. finish (surely (CHANGE_HOST_CHECK_TIMEPERIOD i p))))),
     (''CHANGE_HOST_EVENT_HANDLER'',
       eat_item (\<lambda>i. eat_text (\<lambda>t. finish (CHANGE_HOST_EVENT_HANDLER i t)))),
     (''CHANGE_HOST_MODATTR'',
       eat_item (\<lambda>i. eat_int (\<lambda>n. finish (surely (CHANGE_HOST_MODATTR i n))))),
     (''CHANGE_MAX_HOST_CHECK_ATTEMPTS'',
       eat_item (\<lambda>i. eat_int (\<lambda>n. finish (surely (CHANGE_MAX_HOST_CHECK_ATTEMPTS i n))))),
     (''CHANGE_MAX_SVC_CHECK_ATTEMPTS'',
       eat_item (\<lambda>i. eat_int (\<lambda>n. finish (surely (CHANGE_MAX_SVC_CHECK_ATTEMPTS i n))))),
     (''CHANGE_NORMAL_HOST_CHECK_INTERVAL'',
       eat_item (\<lambda>i. eat_int (\<lambda>n. finish (CHANGE_NORMAL_HOST_CHECK_INTERVAL i n)))),
     (''CHANGE_NORMAL_SVC_CHECK_INTERVAL'',
       eat_item (\<lambda>i. eat_int (\<lambda>n. finish (CHANGE_NORMAL_SVC_CHECK_INTERVAL i n)))),
     (''CHANGE_RETRY_HOST_CHECK_INTERVAL'',
       eat_item (\<lambda>i. eat_int (\<lambda>n. finish (surely (CHANGE_RETRY_HOST_CHECK_INTERVAL i n))))),
     (''CHANGE_RETRY_SVC_CHECK_INTERVAL'',
       eat_item (\<lambda>i. eat_int (\<lambda>n. finish (surely (CHANGE_RETRY_SVC_CHECK_INTERVAL i n))))),
     (''CHANGE_SVC_CHECK_COMMAND'',
       eat_item (\<lambda>i. eat_text (\<lambda>t. finish (CHANGE_SVC_CHECK_COMMAND i t)))),
     (''CHANGE_SVC_CHECK_TIMEPERIOD'',
       eat_item (\<lambda>i. eat_period (\<lambda>p. finish (surely (CHANGE_SVC_CHECK_TIMEPERIOD i p))))),
     (''CHANGE_SVC_EVENT_HANDLER'',
       eat_item (\<lambda>i. eat_text (\<lambda>t. finish (CHANGE_SVC_EVENT_HANDLER i t)))),
     (''CHANGE_SVC_MODATTR'',
       eat_item (\<lambda>i. eat_int (\<lambda>n. finish (surely (CHANGE_SVC_MODATTR i n))))),
     (''CHANGE_SVC_NOTIFICATION_TIMEPERIOD'',
       eat_item (\<lambda>i. eat_period (\<lambda>p. finish (surely (CHANGE_SVC_NOTIFICATION_TIMEPERIOD i p))))),
     (''DELAY_HOST_NOTIFICATION'',
       eat_item (\<lambda>i. eat_int (\<lambda>n. finish (surely (DELAY_HOST_NOTIFICATION i n))))),
     (''DELAY_SVC_NOTIFICATION'',
       eat_item (\<lambda>i. eat_int (\<lambda>n. finish (surely (DELAY_SVC_NOTIFICATION i n))))),
     (''DEL_ALL_HOST_COMMENTS'',
       eat_item (\<lambda>i. finish (surely (DEL_ALL_HOST_COMMENTS i)))),
     (''DEL_ALL_HOST_DOWNTIMES'',
       eat_item (\<lambda>i. finish (DEL_ALL_HOST_DOWNTIMES e i))),
     (''DEL_ALL_SVC_COMMENTS'',
       eat_item (\<lambda>i. finish (surely (DEL_ALL_SVC_COMMENTS i)))),
     (''DEL_ALL_SVC_DOWNTIMES'',
       eat_item (\<lambda>i. finish (DEL_ALL_SVC_DOWNTIMES e i))),
     (''DEL_CONTACT_DOWNTIME'',
       eat_int (\<lambda>n. finish (surely (DEL_CONTACT_DOWNTIME n)))),
     (''DEL_HOST_COMMENT'',
       eat_int (\<lambda>n. finish (surely (DEL_HOST_COMMENT n)))),
     (''DEL_HOST_DOWNTIME'',
       eat_int (\<lambda>n. finish (DEL_HOST_DOWNTIME e n))),
     (''DEL_SVC_COMMENT'',
       eat_int (\<lambda>n. finish (surely (DEL_SVC_COMMENT n)))),
     (''DEL_SVC_DOWNTIME'',
       eat_int (\<lambda>n. finish (DEL_SVC_DOWNTIME e n))),
     (''DISABLE_ALL_NOTIFICATIONS_BEYOND_HOST'',
       eat_item (\<lambda>i. finish Some)),
     (''DISABLE_CONTACTGROUP_HOST_NOTIFICATIONS'',
       eat_contacts (\<lambda>cs. finish (surely (DISABLE_CONTACTGROUP_HOST_NOTIFICATIONS cs)))),
     (''DISABLE_CONTACTGROUP_SVC_NOTIFICATIONS'',
       eat_contacts (\<lambda>cs. finish (surely (DISABLE_CONTACTGROUP_SVC_NOTIFICATIONS cs)))),
     (''DISABLE_CONTACT_HOST_NOTIFICATIONS'',
       eat_contact (\<lambda>c. finish (surely (DISABLE_CONTACT_HOST_NOTIFICATIONS c)))),
     (''DISABLE_CONTACT_SVC_NOTIFICATIONS'',
       eat_contact (\<lambda>c. finish (surely (DISABLE_CONTACT_SVC_NOTIFICATIONS c)))),
     (''DISABLE_EVENT_HANDLERS'',
       finish (surely DISABLE_EVENT_HANDLERS)),
     (''DISABLE_FAILURE_PREDICTION'',
       finish (surely DISABLE_FAILURE_PREDICTION)),
     (''DISABLE_FLAP_DETECTION'',
       finish (surely DISABLE_FLAP_DETECTION)),
     (''DISABLE_HOSTGROUP_HOST_CHECKS'',
       eat_items (\<lambda>is. finish (surely (DISABLE_HOSTGROUP_HOST_CHECKS (now_is e) is)))),
     (''DISABLE_HOSTGROUP_HOST_NOTIFICATIONS'',
       eat_items (\<lambda>is. finish (surely (DISABLE_HOSTGROUP_HOST_NOTIFICATIONS is)))),
     (''DISABLE_HOSTGROUP_PASSIVE_HOST_CHECKS'',
       eat_items (\<lambda>is. finish (surely (DISABLE_HOSTGROUP_PASSIVE_HOST_CHECKS is)))),
     (''DISABLE_HOSTGROUP_PASSIVE_SVC_CHECKS'',
       eat_items (\<lambda>is. finish (surely (DISABLE_HOSTGROUP_PASSIVE_SVC_CHECKS is)))),
     (''DISABLE_HOSTGROUP_SVC_CHECKS'',
       eat_items (\<lambda>is. finish (surely (DISABLE_HOSTGROUP_SVC_CHECKS (now_is e) is))))]"

definition methods_2 :: "surroundings \<Rightarrow> (string \<times> routine) list" where
  "methods_2 e = [
     (''DISABLE_HOSTGROUP_SVC_NOTIFICATIONS'',
       eat_items (\<lambda>is. finish (surely (DISABLE_HOSTGROUP_SVC_NOTIFICATIONS is)))),
     (''DISABLE_HOST_AND_CHILD_NOTIFICATIONS'',
       eat_item (\<lambda>i. finish Some)),
     (''DISABLE_HOST_CHECK'',
       eat_item (\<lambda>i. finish (surely (DISABLE_HOST_CHECK (now_is e) i)))),
     (''DISABLE_HOST_EVENT_HANDLER'',
       eat_item (\<lambda>i. finish (surely (DISABLE_HOST_EVENT_HANDLER i)))),
     (''DISABLE_HOST_FLAP_DETECTION'',
       eat_item (\<lambda>i. finish (surely (DISABLE_HOST_FLAP_DETECTION i)))),
     (''DISABLE_HOST_FRESHNESS_CHECKS'',
       finish (surely DISABLE_HOST_FRESHNESS_CHECKS)),
     (''DISABLE_HOST_NOTIFICATIONS'',
       eat_item (\<lambda>i. finish (surely (DISABLE_HOST_NOTIFICATIONS i)))),
     (''DISABLE_HOST_SVC_CHECKS'',
       eat_item (\<lambda>i. finish (surely (DISABLE_HOST_SVC_CHECKS (now_is e) i)))),
     (''DISABLE_HOST_SVC_NOTIFICATIONS'',
       eat_item (\<lambda>i. finish (surely (DISABLE_HOST_SVC_NOTIFICATIONS i)))),
     (''DISABLE_NOTIFICATIONS'',
       finish (surely DISABLE_NOTIFICATIONS)),
     (''DISABLE_PASSIVE_HOST_CHECKS'',
       eat_item (\<lambda>i. finish (surely (DISABLE_PASSIVE_HOST_CHECKS i)))),
     (''DISABLE_PASSIVE_SVC_CHECKS'',
       eat_item (\<lambda>i. finish (surely (DISABLE_PASSIVE_SVC_CHECKS i)))),
     (''DISABLE_PERFORMANCE_DATA'',
       finish (surely DISABLE_PERFORMANCE_DATA)),
     (''DISABLE_SERVICEGROUP_HOST_CHECKS'',
       eat_items (\<lambda>is. finish (surely (DISABLE_SERVICEGROUP_HOST_CHECKS (now_is e) is)))),
     (''DISABLE_SERVICEGROUP_HOST_NOTIFICATIONS'',
       eat_items (\<lambda>is. finish (surely (DISABLE_SERVICEGROUP_HOST_NOTIFICATIONS is)))),
     (''DISABLE_SERVICEGROUP_PASSIVE_HOST_CHECKS'',
       eat_items (\<lambda>is. finish (surely (DISABLE_SERVICEGROUP_PASSIVE_HOST_CHECKS is)))),
     (''DISABLE_SERVICEGROUP_PASSIVE_SVC_CHECKS'',
       eat_items (\<lambda>is. finish (surely (DISABLE_SERVICEGROUP_PASSIVE_SVC_CHECKS is)))),
     (''DISABLE_SERVICEGROUP_SVC_CHECKS'',
       eat_items (\<lambda>is. finish (surely (DISABLE_SERVICEGROUP_SVC_CHECKS (now_is e) is)))),
     (''DISABLE_SERVICEGROUP_SVC_NOTIFICATIONS'',
       eat_items (\<lambda>is. finish (surely (DISABLE_SERVICEGROUP_SVC_NOTIFICATIONS is)))),
     (''DISABLE_SERVICE_FLAP_DETECTION'',
       eat_item (\<lambda>i. finish (surely (DISABLE_SERVICE_FLAP_DETECTION i)))),
     (''DISABLE_SERVICE_FRESHNESS_CHECKS'',
       finish (surely DISABLE_SERVICE_FRESHNESS_CHECKS)),
     (''DISABLE_SVC_CHECK'',
       eat_item (\<lambda>i. finish (surely (DISABLE_SVC_CHECK (now_is e) i)))),
     (''DISABLE_SVC_EVENT_HANDLER'',
       eat_item (\<lambda>i. finish (surely (DISABLE_SVC_EVENT_HANDLER i)))),
     (''DISABLE_SVC_FLAP_DETECTION'',
       eat_item (\<lambda>i. finish (surely (DISABLE_SVC_FLAP_DETECTION i)))),
     (''DISABLE_SVC_NOTIFICATIONS'',
       eat_item (\<lambda>i. finish (surely (DISABLE_SVC_NOTIFICATIONS i)))),
     (''ENABLE_ALL_NOTIFICATIONS_BEYOND_HOST'',
       eat_item (\<lambda>i. finish Some)),
     (''ENABLE_CONTACTGROUP_HOST_NOTIFICATIONS'',
       eat_contacts (\<lambda>cs. finish (surely (ENABLE_CONTACTGROUP_HOST_NOTIFICATIONS cs)))),
     (''ENABLE_CONTACTGROUP_SVC_NOTIFICATIONS'',
       eat_contacts (\<lambda>cs. finish (surely (ENABLE_CONTACTGROUP_SVC_NOTIFICATIONS cs)))),
     (''ENABLE_CONTACT_HOST_NOTIFICATIONS'',
       eat_contact (\<lambda>c. finish (surely (ENABLE_CONTACT_HOST_NOTIFICATIONS c)))),
     (''ENABLE_CONTACT_SVC_NOTIFICATIONS'',
       eat_contact (\<lambda>c. finish (surely (ENABLE_CONTACT_SVC_NOTIFICATIONS c)))),
     (''ENABLE_EVENT_HANDLERS'',
       finish (surely ENABLE_EVENT_HANDLERS)),
     (''ENABLE_FAILURE_PREDICTION'',
       finish (surely ENABLE_FAILURE_PREDICTION)),
     (''ENABLE_FLAP_DETECTION'',
       finish (surely ENABLE_FLAP_DETECTION)),
     (''ENABLE_HOSTGROUP_HOST_CHECKS'',
       eat_items (\<lambda>is. finish (surely (ENABLE_HOSTGROUP_HOST_CHECKS is)))),
     (''ENABLE_HOSTGROUP_HOST_NOTIFICATIONS'',
       eat_items (\<lambda>is. finish (surely (ENABLE_HOSTGROUP_HOST_NOTIFICATIONS is)))),
     (''ENABLE_HOSTGROUP_PASSIVE_HOST_CHECKS'',
       eat_items (\<lambda>is. finish (surely (ENABLE_HOSTGROUP_PASSIVE_HOST_CHECKS is)))),
     (''ENABLE_HOSTGROUP_PASSIVE_SVC_CHECKS'',
       eat_items (\<lambda>is. finish (surely (ENABLE_HOSTGROUP_PASSIVE_SVC_CHECKS is)))),
     (''ENABLE_HOSTGROUP_SVC_CHECKS'',
       eat_items (\<lambda>is. finish (surely (ENABLE_HOSTGROUP_SVC_CHECKS is)))),
     (''ENABLE_HOSTGROUP_SVC_NOTIFICATIONS'',
       eat_items (\<lambda>is. finish (surely (ENABLE_HOSTGROUP_SVC_NOTIFICATIONS is)))),
     (''ENABLE_HOST_AND_CHILD_NOTIFICATIONS'',
       eat_item (\<lambda>i. finish Some)),
     (''ENABLE_HOST_CHECK'',
       eat_item (\<lambda>i. finish (surely (ENABLE_HOST_CHECK i)))),
     (''ENABLE_HOST_EVENT_HANDLER'',
       eat_item (\<lambda>i. finish (surely (ENABLE_HOST_EVENT_HANDLER i)))),
     (''ENABLE_HOST_FLAP_DETECTION'',
       eat_item (\<lambda>i. finish (surely (ENABLE_HOST_FLAP_DETECTION i)))),
     (''ENABLE_HOST_FRESHNESS_CHECKS'',
       finish (surely ENABLE_HOST_FRESHNESS_CHECKS)),
     (''ENABLE_HOST_NOTIFICATIONS'',
       eat_item (\<lambda>i. finish (surely (ENABLE_HOST_NOTIFICATIONS i)))),
     (''ENABLE_HOST_SVC_CHECKS'',
       eat_item (\<lambda>i. finish (surely (ENABLE_HOST_SVC_CHECKS i)))),
     (''ENABLE_HOST_SVC_NOTIFICATIONS'',
       eat_item (\<lambda>i. finish (surely (ENABLE_HOST_SVC_NOTIFICATIONS i)))),
     (''ENABLE_NOTIFICATIONS'',
       finish (surely ENABLE_NOTIFICATIONS)),
     (''ENABLE_PASSIVE_HOST_CHECKS'',
       eat_item (\<lambda>i. finish (surely (ENABLE_PASSIVE_HOST_CHECKS i)))),
     (''ENABLE_PASSIVE_SVC_CHECKS'',
       eat_item (\<lambda>i. finish (surely (ENABLE_PASSIVE_SVC_CHECKS i)))),
     (''ENABLE_PERFORMANCE_DATA'',
       finish (surely ENABLE_PERFORMANCE_DATA)),
     (''ENABLE_SERVICEGROUP_HOST_CHECKS'',
       eat_items (\<lambda>is. finish (surely (ENABLE_SERVICEGROUP_HOST_CHECKS is)))),
     (''ENABLE_SERVICEGROUP_HOST_NOTIFICATIONS'',
       eat_items (\<lambda>is. finish (surely (ENABLE_SERVICEGROUP_HOST_NOTIFICATIONS is)))),
     (''ENABLE_SERVICEGROUP_PASSIVE_HOST_CHECKS'',
       eat_items (\<lambda>is. finish (surely (ENABLE_SERVICEGROUP_PASSIVE_HOST_CHECKS is)))),
     (''ENABLE_SERVICEGROUP_PASSIVE_SVC_CHECKS'',
       eat_items (\<lambda>is. finish (surely (ENABLE_SERVICEGROUP_PASSIVE_SVC_CHECKS is)))),
     (''ENABLE_SERVICEGROUP_SVC_CHECKS'',
       eat_items (\<lambda>is. finish (surely (ENABLE_SERVICEGROUP_SVC_CHECKS is))))]"

definition methods_3 :: "surroundings \<Rightarrow> (string \<times> routine) list" where
  "methods_3 e = [
     (''ENABLE_SERVICEGROUP_SVC_NOTIFICATIONS'',
       eat_items (\<lambda>is. finish (surely (ENABLE_SERVICEGROUP_SVC_NOTIFICATIONS is)))),
     (''ENABLE_SERVICE_FRESHNESS_CHECKS'',
       finish (surely ENABLE_SERVICE_FRESHNESS_CHECKS)),
     (''ENABLE_SVC_CHECK'',
       eat_item (\<lambda>i. finish (surely (ENABLE_SVC_CHECK i)))),
     (''ENABLE_SVC_EVENT_HANDLER'',
       eat_item (\<lambda>i. finish (surely (ENABLE_SVC_EVENT_HANDLER i)))),
     (''ENABLE_SVC_FLAP_DETECTION'',
       eat_item (\<lambda>i. finish (surely (ENABLE_SVC_FLAP_DETECTION i)))),
     (''ENABLE_SVC_NOTIFICATIONS'',
       eat_item (\<lambda>i. finish (surely (ENABLE_SVC_NOTIFICATIONS i)))),
     (''PROCESS_FILE'',
       eat_text (\<lambda>t. eat_bool (\<lambda>b. finish Some))),
     (''PROCESS_HOST_CHECK_RESULT'',
       eat_item (\<lambda>i. eat_int (\<lambda>n. eat_text (\<lambda>t. finish (PROCESS_HOST_CHECK_RESULT e i n t))))),
     (''PROCESS_HOST_OUTPUT'',
       eat_item (\<lambda>i. eat_text (\<lambda>t. finish (PROCESS_HOST_OUTPUT e i t)))),
     (''PROCESS_SERVICE_CHECK_RESULT'',
       eat_item (\<lambda>i. eat_int (\<lambda>n. eat_text (\<lambda>t. finish (PROCESS_SERVICE_CHECK_RESULT e i n t))))),
     (''PROCESS_SERVICE_OUTPUT'',
       eat_item (\<lambda>i. eat_text (\<lambda>t. finish (PROCESS_SERVICE_OUTPUT e i t)))),
     (''READ_STATE_INFORMATION'',
       finish Some),
     (''REMOVE_HOST_ACKNOWLEDGEMENT'',
       eat_item (\<lambda>i. finish (surely (REMOVE_HOST_ACKNOWLEDGEMENT i)))),
     (''REMOVE_SVC_ACKNOWLEDGEMENT'',
       eat_item (\<lambda>i. finish (surely (REMOVE_SVC_ACKNOWLEDGEMENT i)))),
     (''RESTART_PROGRAM'',
       finish (RESTART_PROGRAM e)),
     (''RELOAD_CONFIG'',
       finish (RELOAD_CONFIG e)),
     (''SAVE_STATE_INFORMATION'',
       finish Some),
     (''SCHEDULE_AND_PROPAGATE_HOST_DOWNTIME'',
       eat_item (\<lambda>i. eat_int (\<lambda>n1. eat_int (\<lambda>n2. eat_bool (\<lambda>b. eat_int (\<lambda>n3. eat_int (\<lambda>n4. eat_text (\<lambda>t1. eat_text (\<lambda>t2. finish Some))))))))),
     (''SCHEDULE_AND_PROPAGATE_TRIGGERED_HOST_DOWNTIME'',
       eat_item (\<lambda>i. eat_int (\<lambda>n1. eat_int (\<lambda>n2. eat_bool (\<lambda>b. eat_int (\<lambda>n3. eat_int (\<lambda>n4. eat_text (\<lambda>t1. eat_text (\<lambda>t2. finish Some))))))))),
     (''SCHEDULE_CONTACT_DOWNTIME'',
       eat_contact (\<lambda>c. eat_int (\<lambda>n1. eat_int (\<lambda>n2. eat_text (\<lambda>t1. eat_text (\<lambda>t2. finish (surely (SCHEDULE_CONTACT_DOWNTIME c n1 n2 t1 t2)))))))),
     (''SCHEDULE_FORCED_HOST_CHECK'',
       eat_item (\<lambda>i. eat_int (\<lambda>n. finish (SCHEDULE_FORCED_HOST_CHECK e i n)))),
     (''SCHEDULE_FORCED_HOST_SVC_CHECKS'',
       eat_item (\<lambda>i. eat_int (\<lambda>n. finish (SCHEDULE_FORCED_HOST_SVC_CHECKS e i n)))),
     (''SCHEDULE_FORCED_SVC_CHECK'',
       eat_item (\<lambda>i. eat_int (\<lambda>n. finish (SCHEDULE_FORCED_SVC_CHECK e i n)))),
     (''SCHEDULE_HOSTGROUP_HOST_DOWNTIME'',
       eat_items (\<lambda>is. eat_int (\<lambda>n1. eat_int (\<lambda>n2. eat_bool (\<lambda>b. eat_int (\<lambda>n3. eat_int (\<lambda>n4. eat_text (\<lambda>t1. eat_text (\<lambda>t2. finish (surely (SCHEDULE_HOSTGROUP_HOST_DOWNTIME e is n1 n2 b n3 n4 t1 t2))))))))))),
     (''SCHEDULE_HOSTGROUP_SVC_DOWNTIME'',
       eat_items (\<lambda>is. eat_int (\<lambda>n1. eat_int (\<lambda>n2. eat_bool (\<lambda>b. eat_int (\<lambda>n3. eat_int (\<lambda>n4. eat_text (\<lambda>t1. eat_text (\<lambda>t2. finish (surely (SCHEDULE_HOSTGROUP_SVC_DOWNTIME e is n1 n2 b n3 n4 t1 t2))))))))))),
     (''SCHEDULE_HOST_CHECK'',
       eat_item (\<lambda>i. eat_int (\<lambda>n. finish (SCHEDULE_HOST_CHECK e i n)))),
     (''SCHEDULE_HOST_DOWNTIME'',
       eat_item (\<lambda>i. eat_int (\<lambda>n1. eat_int (\<lambda>n2. eat_bool (\<lambda>b. eat_int (\<lambda>n3. eat_int (\<lambda>n4. eat_text (\<lambda>t1. eat_text (\<lambda>t2. finish (surely (SCHEDULE_HOST_DOWNTIME e i n1 n2 b n3 n4 t1 t2))))))))))),
     (''SCHEDULE_HOST_SVC_CHECKS'',
       eat_item (\<lambda>i. eat_int (\<lambda>n. finish (SCHEDULE_HOST_SVC_CHECKS e i n)))),
     (''SCHEDULE_HOST_SVC_DOWNTIME'',
       eat_item (\<lambda>i. eat_int (\<lambda>n1. eat_int (\<lambda>n2. eat_bool (\<lambda>b. eat_int (\<lambda>n3. eat_int (\<lambda>n4. eat_text (\<lambda>t1. eat_text (\<lambda>t2. finish (surely (SCHEDULE_HOST_SVC_DOWNTIME e i n1 n2 b n3 n4 t1 t2))))))))))),
     (''SCHEDULE_SERVICEGROUP_HOST_DOWNTIME'',
       eat_items (\<lambda>is. eat_int (\<lambda>n1. eat_int (\<lambda>n2. eat_bool (\<lambda>b. eat_int (\<lambda>n3. eat_int (\<lambda>n4. eat_text (\<lambda>t1. eat_text (\<lambda>t2. finish (surely (SCHEDULE_SERVICEGROUP_HOST_DOWNTIME e is n1 n2 b n3 n4 t1 t2))))))))))),
     (''SCHEDULE_SERVICEGROUP_SVC_DOWNTIME'',
       eat_items (\<lambda>is. eat_int (\<lambda>n1. eat_int (\<lambda>n2. eat_bool (\<lambda>b. eat_int (\<lambda>n3. eat_int (\<lambda>n4. eat_text (\<lambda>t1. eat_text (\<lambda>t2. finish (surely (SCHEDULE_SERVICEGROUP_SVC_DOWNTIME e is n1 n2 b n3 n4 t1 t2))))))))))),
     (''SCHEDULE_SVC_CHECK'',
       eat_item (\<lambda>i. eat_int (\<lambda>n. finish (SCHEDULE_SVC_CHECK e i n)))),
     (''SCHEDULE_SVC_DOWNTIME'',
       eat_item (\<lambda>i. eat_int (\<lambda>n1. eat_int (\<lambda>n2. eat_bool (\<lambda>b. eat_int (\<lambda>n3. eat_int (\<lambda>n4. eat_text (\<lambda>t1. eat_text (\<lambda>t2. finish (surely (SCHEDULE_SVC_DOWNTIME e i n1 n2 b n3 n4 t1 t2))))))))))),
     (''SEND_CUSTOM_HOST_NOTIFICATION'',
       eat_item (\<lambda>i. eat_int (\<lambda>n. eat_text (\<lambda>t1. eat_text (\<lambda>t2. finish Some))))),
     (''SEND_CUSTOM_SVC_NOTIFICATION'',
       eat_item (\<lambda>i. eat_int (\<lambda>n. eat_text (\<lambda>t1. eat_text (\<lambda>t2. finish Some))))),
     (''SET_HOST_NOTIFICATION_NUMBER'',
       eat_item (\<lambda>i. eat_int (\<lambda>n. finish Some))),
     (''SET_SVC_NOTIFICATION_NUMBER'',
       eat_item (\<lambda>i. eat_int (\<lambda>n. finish Some))),
     (''SHUTDOWN_PROGRAM'',
       finish Some),
     (''START_ACCEPTING_PASSIVE_HOST_CHECKS'',
       finish (surely START_ACCEPTING_PASSIVE_HOST_CHECKS)),
     (''START_ACCEPTING_PASSIVE_SVC_CHECKS'',
       finish (surely START_ACCEPTING_PASSIVE_SVC_CHECKS)),
     (''START_EXECUTING_HOST_CHECKS'',
       finish (surely START_EXECUTING_HOST_CHECKS)),
     (''START_EXECUTING_SVC_CHECKS'',
       finish (surely START_EXECUTING_SVC_CHECKS)),
     (''START_OBSESSING_OVER_HOST'',
       eat_item (\<lambda>i. finish (surely (START_OBSESSING_OVER_HOST i)))),
     (''START_OBSESSING_OVER_HOST_CHECKS'',
       finish (surely START_OBSESSING_OVER_HOST_CHECKS)),
     (''START_OBSESSING_OVER_SVC'',
       eat_item (\<lambda>i. finish (surely (START_OBSESSING_OVER_SVC i)))),
     (''START_OBSESSING_OVER_SVC_CHECKS'',
       finish (surely START_OBSESSING_OVER_SVC_CHECKS)),
     (''STOP_ACCEPTING_PASSIVE_HOST_CHECKS'',
       finish (surely STOP_ACCEPTING_PASSIVE_HOST_CHECKS)),
     (''STOP_ACCEPTING_PASSIVE_SVC_CHECKS'',
       finish (surely STOP_ACCEPTING_PASSIVE_SVC_CHECKS)),
     (''STOP_EXECUTING_HOST_CHECKS'',
       finish (surely STOP_EXECUTING_HOST_CHECKS)),
     (''STOP_EXECUTING_SVC_CHECKS'',
       finish (surely STOP_EXECUTING_SVC_CHECKS)),
     (''STOP_OBSESSING_OVER_HOST'',
       eat_item (\<lambda>i. finish (surely (STOP_OBSESSING_OVER_HOST i))))]"

definition methods_4 :: "surroundings \<Rightarrow> (string \<times> routine) list" where
  "methods_4 e = [
     (''STOP_OBSESSING_OVER_HOST_CHECKS'',
       finish (surely STOP_OBSESSING_OVER_HOST_CHECKS)),
     (''STOP_OBSESSING_OVER_SVC'',
       eat_item (\<lambda>i. finish (surely (STOP_OBSESSING_OVER_SVC i)))),
     (''STOP_OBSESSING_OVER_SVC_CHECKS'',
       finish (surely STOP_OBSESSING_OVER_SVC_CHECKS)),
     (''LAUNCH_SVC_EVENT_HANDLER'',
       eat_item (\<lambda>i. finish (surely (LAUNCH_SVC_EVENT_HANDLER e i)))),
     (''LAUNCH_HOST_EVENT_HANDLER'',
       eat_item (\<lambda>i. finish (surely (LAUNCH_HOST_EVENT_HANDLER e i)))),
     (''ADD_SIMPLE_HOST_DEPENDENCY'',
       eat_item (\<lambda>i1. eat_item (\<lambda>i2. finish (surely (ADD_SIMPLE_HOST_DEPENDENCY i1 i2))))),
     (''DEL_HOST_DEPENDENCY'',
       eat_item (\<lambda>i1. eat_item (\<lambda>i2. finish (DEL_HOST_DEPENDENCY i1 i2)))),
     (''ADD_SIMPLE_POLLER'',
       eat_text (\<lambda>t1. eat_text (\<lambda>t2. eat_text (\<lambda>t3. eat_text (\<lambda>t4. finish (add_poller e t1 t2 t3 t4))))))]"

definition methods :: "surroundings \<Rightarrow> (string \<times> routine) list" where
  "methods e = methods_1 e @ methods_2 e @ methods_3 e @ methods_4 e"

definition call_command :: "surroundings \<Rightarrow> string \<Rightarrow> arg list \<Rightarrow> manager \<Rightarrow> manager option" where
  "call_command e name args m = do {
     f \<leftarrow> map_of (methods e) name;
     step \<leftarrow> f args;
     step m
   }"

subsection \<open>Results for unknown objects\<close>

text \<open>The two patterns of \<^verbatim>\<open>get_unknown_check_result_brok\<close>, read from the left: a field ends at a semicolon, the
  output at a bar, the performance data at the end of the line.\<close>

definition field :: "string \<Rightarrow> (string \<times> string) option" where
  "field s = (case dropWhile (\<lambda>c. c \<noteq> CHR '';'') s of [] \<Rightarrow> None | _ # rest \<Rightarrow> Some (takeWhile (\<lambda>c. c \<noteq> CHR '';'') s, rest))"

definition output_and_perf :: "string \<Rightarrow> string \<times> string option" where
  "output_and_perf s =
     (takeWhile (\<lambda>c. c \<noteq> CHR ''|'') s,
      case dropWhile (\<lambda>c. c \<noteq> CHR ''|'') s of [] \<Rightarrow> None | _ # rest \<Rightarrow> Some (takeWhile (\<lambda>c. c \<noteq> CHR 0x0A) rest))"

definition literal :: "string \<Rightarrow> string \<Rightarrow> string option" where
  "literal p s = (if has_prefix p s then Some (drop (length p) s) else None)"

definition ten_digits :: "string \<Rightarrow> (int \<times> string) option" where
  "ten_digits s =
     (let ds = take 10 s
      in if length ds = 10 \<and> list_all (\<lambda>c. digit c \<noteq> None) ds
         then Some (foldl (\<lambda>v c. 10 * v + the (digit c)) 0 ds, drop 10 s) else None)"

definition unknown_service_result :: "string \<Rightarrow> brok option" where
  "unknown_service_result s = do {
     s \<leftarrow> literal ''['' s; (t, s) \<leftarrow> ten_digits s; s \<leftarrow> literal ''] PROCESS_SERVICE_CHECK_RESULT;'' s;
     (host_name, s) \<leftarrow> field s; (description, s) \<leftarrow> field s; (code, s) \<leftarrow> field s;
     let (out, perf) = output_and_perf s;
     Some (Unknown_result_brok t host_name (Some description) code out perf)
   }"

definition unknown_host_result :: "string \<Rightarrow> brok option" where
  "unknown_host_result s = do {
     s \<leftarrow> literal ''['' s; (t, s) \<leftarrow> ten_digits s; s \<leftarrow> literal ''] PROCESS_HOST_CHECK_RESULT;'' s;
     (host_name, s) \<leftarrow> field s; (code, s) \<leftarrow> field s;
     let (out, perf) = output_and_perf s;
     Some (Unknown_result_brok t host_name None code out perf)
   }"

definition get_unknown_check_result_brok :: "string \<Rightarrow> brok option" where
  "get_unknown_check_result_brok line =
     (case unknown_service_result line of Some b \<Rightarrow> Some b | None \<Rightarrow> unknown_host_result line)"

subsection \<open>Dispatching\<close>

definition push_command :: "nat \<Rightarrow> string \<Rightarrow> manager \<Rightarrow> manager" where
  "push_command l command m =
     m\<lparr>m_links := (m_links m)(l := (m_links m l)\<lparr>lk_external_commands := lk_external_commands (m_links m l) @ [command]\<rparr>)\<rparr>"

definition dispatch_global_command :: "string \<Rightarrow> manager \<Rightarrow> manager" where
  "dispatch_global_command command m =
     fold (\<lambda>l m. if lk_alive (m_links m l) then push_command l command m else m) (m_schedulers m) m"

text \<open>A part of the configuration that has the host but no scheduler is passed over.\<close>

fun assigned_scheduler :: "string \<Rightarrow> shard list \<Rightarrow> nat option" where
  "assigned_scheduler host_name [] = None"
| "assigned_scheduler host_name (cfg # cfgs) =
     (if host_name \<in> set (sh_hosts cfg) \<and> sh_assigned_to cfg \<noteq> None then sh_assigned_to cfg
      else assigned_scheduler host_name cfgs)"

text \<open>The receiver sends the command as it was received, the arbiter its stripped text. When the line is no check
  result, the brok for the unknown host is \<^verbatim>\<open>None\<close>: the receiver's \<^verbatim>\<open>add\<close> raises on it, the arbiter's does not.\<close>

definition search_host_and_dispatch :: "string \<Rightarrow> string \<Rightarrow> string \<Rightarrow> manager \<Rightarrow> manager option" where
  "search_host_and_dispatch host_name command raw m =
     (let found = (if m_mode m = Receiver then map_option (\<lambda>l. (l, raw)) (m_host_assoc m host_name)
                   else map_option (\<lambda>l. (l, command)) (assigned_scheduler host_name (m_shards m)))
      in case found of
           Some (l, text) \<Rightarrow> Some (push_command l text m)
         | None \<Rightarrow>
             if m_accept_unknown m
             then case get_unknown_check_result_brok command of
                    Some b \<Rightarrow> Some (m\<lparr>m_broks := m_broks m @ [b]\<rparr>)
                  | None \<Rightarrow> if m_mode m = Receiver then None else Some m
             else Some m)"

subsection \<open>The parser\<close>

text \<open>An object that the scheduler does not know: \<^verbatim>\<open>add_Brok(None)\<close> raises.\<close>

definition note_unknown :: "string \<Rightarrow> manager \<Rightarrow> manager option" where
  "note_unknown command m =
     (if pg_accept_passive_unknown_check_results (m_program m)
      then map_option (\<lambda>b. on_sched (add_Brok b) m) (get_unknown_check_result_brok command) else Some m)"

text \<open>\<^verbatim>\<open>val[:-1]\<close> when the last character is a newline.\<close>

definition drop_newline :: "string \<Rightarrow> string" where
  "drop_newline s = (if ends_with s (CHR 0x0A) then butlast s else s)"

text \<open>An argument that is neither a host nor a service. The outer \<^term>\<open>None\<close> is an exception: a number that is
  none, a receiver that has no configuration, and every contact group, because the code looks in
  \<^verbatim>\<open>self.contact_groups\<close> where the attribute is called \<^verbatim>\<open>contactgroups\<close>.\<close>

definition read_arg :: "arg_kind \<Rightarrow> string \<Rightarrow> manager \<Rightarrow> arg option option" where
  "read_arg k val m =
     (let lookup = (\<lambda>f. map_option f (m_directory m)) in
      case k of
        K_contact \<Rightarrow> lookup (\<lambda>d. map_option A_contact (find_contact d val))
      | K_time_period \<Rightarrow> lookup (\<lambda>d. map_option A_period (find_timeperiod d val))
      | K_to_bool \<Rightarrow> Some (Some (A_bool (to_bool val)))
      | K_to_int \<Rightarrow> (case to_int val of Inl _ \<Rightarrow> None | Inr n \<Rightarrow> Some (Some (A_int n)))
      | K_author \<Rightarrow> Some (Some (A_text val))
      | K_text \<Rightarrow> Some (Some (A_text val))
      | K_command \<Rightarrow> lookup (\<lambda>d. map_option (\<lambda>_. A_text val) (find_command d val))
      | K_host_group \<Rightarrow> lookup (\<lambda>d. map_option A_items (find_hostgroup d val))
      | K_service_group \<Rightarrow> lookup (\<lambda>d. map_option A_items (find_servicegroup d val))
      | K_contact_group \<Rightarrow> None
      | K_host \<Rightarrow> None
      | K_service \<Rightarrow> None)"

text \<open>The loop over the parts of the line. A service takes two of them: \<^verbatim>\<open>host_name\<close> is \<^term>\<open>Some\<close> between the
  two. The inner \<^term>\<open>None\<close> is a \<^verbatim>\<open>return None\<close>: the command was sent on, or an \<^verbatim>\<open>IndexError\<close> was caught.\<close>

fun parse_args ::
  "string \<Rightarrow> string \<Rightarrow> arg_kind list \<Rightarrow> string option \<Rightarrow> string list \<Rightarrow> arg list \<Rightarrow> manager
     \<Rightarrow> (arg list option \<times> manager) option" where
  "parse_args command raw ks host_name [] args m = Some (Some args, m)"
| "parse_args command raw ks (Some tmp_host) (elt # elts) args m =
     (if elt = [] then Some (None, m)
      else if m_mode m = Receiver
      then map_option (\<lambda>m. (None, m)) (search_host_and_dispatch tmp_host command raw m)
      else do {
        d \<leftarrow> m_directory m;
        case find_service d tmp_host (drop_newline elt) of
          Some s \<Rightarrow> parse_args command raw ks None elts (args @ [A_item s]) m
        | None \<Rightarrow> do { m \<leftarrow> note_unknown command m; parse_args command raw ks None elts args m }
      })"
| "parse_args command raw [] None (elt # elts) args m = Some (None, m)"
| "parse_args command raw (k # ks) None (elt # elts) args m =
     (let val = drop_newline (strip elt) in
      if k = K_host then
        if m_mode m = Dispatcher \<or> m_mode m = Receiver
        then map_option (\<lambda>m. (None, m)) (search_host_and_dispatch val command raw m)
        else do {
          d \<leftarrow> m_directory m;
          case find_host d val of
            Some h \<Rightarrow> parse_args command raw ks None elts (args @ [A_item h]) m
          | None \<Rightarrow> do { m \<leftarrow> note_unknown command m; parse_args command raw ks None elts args m }
        }
      else if k = K_service then
        let tmp_host = strip elt in
        if tmp_host = [] then Some (None, m)
        else if m_mode m = Dispatcher
        then map_option (\<lambda>m. (None, m)) (search_host_and_dispatch (drop_newline tmp_host) command raw m)
        else parse_args command raw ks (Some (drop_newline tmp_host)) elts args m
      else do {
        a \<leftarrow> read_arg k val m;
        parse_args command raw ks None elts (case a of Some a \<Rightarrow> args @ [a] | None \<Rightarrow> args) m
      })"

definition rstrip :: "string \<Rightarrow> string" where
  "rstrip s = rev (dropWhile is_space (rev s))"

datatype resolution = Nothing | Resend string | Call string "arg list"

definition numargs :: "command_entry \<Rightarrow> nat" where
  "numargs entry = (if K_service \<in> set (en_args entry) then Suc (length (en_args entry)) else length (en_args entry))"

definition parse_known :: "string \<Rightarrow> string \<Rightarrow> string \<Rightarrow> command_entry \<Rightarrow> manager \<Rightarrow> (resolution \<times> manager) option" where
  "parse_known command raw c_name entry m =
     (let elts = split_semicolon command (Some (numargs entry)) in
      if m_mode m = Dispatcher \<and> en_global entry \<and> \<not> en_internal entry then Some (Resend command, m)
      else do {
        (args, m) \<leftarrow> parse_args command raw (en_args entry) None (tl elts) [] m;
        Some (case args of Some args \<Rightarrow> if length args = length (en_args entry) then Call c_name args else Nothing
              | None \<Rightarrow> Nothing, m)
      })"

definition parse_command :: "string \<Rightarrow> string \<Rightarrow> manager \<Rightarrow> (resolution \<times> manager) option" where
  "parse_command command raw m =
     (let command = rstrip command;
          elts2 = split_on (CHR '' '') (hd (split_semicolon command None))
      in if length elts2 \<noteq> 2 then Some (Nothing, m)
         else let ts = elts2 ! 0; c_name = elts2 ! 1 in
           if \<not> (has_prefix ''['' ts \<and> ends_with ts (CHR '']'')) then Some (Nothing, m)
           else case to_int (butlast (tl ts)) of
                  Inl ValueError \<Rightarrow> Some (Nothing, m)
                | Inl OverflowError \<Rightarrow> None
                | Inr t \<Rightarrow>
                    let m = m\<lparr>m_current_timestamp := t\<rparr> in
                    case map_of commands c_name of
                      None \<Rightarrow> Some (Nothing, m)
                    | Some entry \<Rightarrow> parse_known command raw c_name entry m)"

definition log_command :: "string \<Rightarrow> manager \<Rightarrow> manager" where
  "log_command command m =
     (if m_mode m = Dispatcher \<and> pg_log_external_commands (m_program m)
      then on_manager (naglog_result (EXTERNAL_COMMAND (rstrip command))) m else m)"

definition resolve_command :: "surroundings \<Rightarrow> string \<Rightarrow> manager \<Rightarrow> manager option" where
  "resolve_command e raw m = do {
     let command = strip raw;
     (r, m) \<leftarrow> parse_command command raw (log_command command m);
     if m_mode m = Receiver then Some m
     else case r of
            Nothing \<Rightarrow> Some m
          | Resend cmd \<Rightarrow> Some (dispatch_global_command cmd m)
          | Call name args \<Rightarrow> call_command e name args m
   }"

text \<open>\<^verbatim>\<open>Scheduler.run_external_commands\<close>\<close>

definition run_external_commands :: "surroundings \<Rightarrow> string list \<Rightarrow> manager \<Rightarrow> manager option" where
  "run_external_commands e = fold_opt (resolve_command e)"

end
