(* ===== verification/CommandRules.thy ===== *)
theory CommandRules
  imports Commands Queues Scheduling "HOL-Library.Sublist"
begin

text \<open>
  What external commands do: the arguments that reach a method have the kinds the table promises, the arbiter carries
  out none of the commands that concern hosts, a passive result becomes a check that waits to be consumed, and
  \<^verbatim>\<open>CHANGE_SVC_MODATTR\<close> turns exactly the attributes around whose bits change.
\<close>

subsection \<open>Kinds\<close>

text \<open>A method accepts the kinds \<open>ks\<close> when it has a step for every list of arguments of these kinds.\<close>

definition accepts :: "arg_kind list \<Rightarrow> routine \<Rightarrow> bool" where
  "accepts ks f \<longleftrightarrow> (\<forall>args. list_all2 has_kind args ks \<longrightarrow> f args \<noteq> None)"

lemma accepts_finish [intro]: "accepts [] (finish f)"
  by (simp add: accepts_def finish_def)

lemma has_kind_iff:
  "has_kind a K_host = (\<exists>i. a = A_item i)" "has_kind a K_service = (\<exists>i. a = A_item i)"
  "has_kind a K_contact = (\<exists>c. a = A_contact c)" "has_kind a K_time_period = (\<exists>p. a = A_period p)"
  "has_kind a K_to_bool = (\<exists>b. a = A_bool b)" "has_kind a K_to_int = (\<exists>n. a = A_int n)"
  "has_kind a K_author = (\<exists>t. a = A_text t)" "has_kind a K_text = (\<exists>t. a = A_text t)"
  "has_kind a K_command = (\<exists>t. a = A_text t)" "has_kind a K_host_group = (\<exists>is. a = A_items is)"
  "has_kind a K_service_group = (\<exists>is. a = A_items is)" "has_kind a K_contact_group = (\<exists>cs. a = A_contacts cs)"
  by (cases a; simp)+

lemma accepts_eat [intro]:
  "(\<And>i. accepts ks (f1 i)) \<Longrightarrow> accepts (K_host # ks) (eat_item f1)"
  "(\<And>i. accepts ks (f1 i)) \<Longrightarrow> accepts (K_service # ks) (eat_item f1)"
  "(\<And>c. accepts ks (f2 c)) \<Longrightarrow> accepts (K_contact # ks) (eat_contact f2)"
  "(\<And>p. accepts ks (f3 p)) \<Longrightarrow> accepts (K_time_period # ks) (eat_period f3)"
  "(\<And>b. accepts ks (f4 b)) \<Longrightarrow> accepts (K_to_bool # ks) (eat_bool f4)"
  "(\<And>n. accepts ks (f5 n)) \<Longrightarrow> accepts (K_to_int # ks) (eat_int f5)"
  "(\<And>t. accepts ks (f6 t)) \<Longrightarrow> accepts (K_author # ks) (eat_text f6)"
  "(\<And>t. accepts ks (f6 t)) \<Longrightarrow> accepts (K_text # ks) (eat_text f6)"
  "(\<And>t. accepts ks (f6 t)) \<Longrightarrow> accepts (K_command # ks) (eat_text f6)"
  "(\<And>is. accepts ks (f7 is)) \<Longrightarrow> accepts (K_host_group # ks) (eat_items f7)"
  "(\<And>is. accepts ks (f7 is)) \<Longrightarrow> accepts (K_service_group # ks) (eat_items f7)"
  "(\<And>cs. accepts ks (f8 cs)) \<Longrightarrow> accepts (K_contact_group # ks) (eat_contacts f8)"
  by (auto simp: accepts_def list_all2_Cons2 has_kind_iff eat_item_def eat_contact_def eat_period_def eat_bool_def
      eat_int_def eat_text_def eat_items_def eat_contacts_def)

abbreviation fits :: "string \<times> command_entry \<Rightarrow> string \<times> routine \<Rightarrow> bool" where
  "fits \<equiv> \<lambda>(n, en) (n', f). n = n' \<and> accepts (en_args en) f"

lemma fits_1: "list_all2 fits commands_1 (methods_1 e)"
  unfolding commands_1_def methods_1_def
  by (simp add: global_entry_def local_entry_def internal_entry_def) (intro conjI accepts_eat accepts_finish)

lemma fits_2: "list_all2 fits commands_2 (methods_2 e)"
  unfolding commands_2_def methods_2_def
  by (simp add: global_entry_def local_entry_def internal_entry_def) (intro conjI accepts_eat accepts_finish)

lemma fits_3: "list_all2 fits commands_3 (methods_3 e)"
  unfolding commands_3_def methods_3_def
  by (simp add: global_entry_def local_entry_def internal_entry_def) (intro conjI accepts_eat accepts_finish)

lemma fits_4: "list_all2 fits commands_4 (methods_4 e)"
  unfolding commands_4_def methods_4_def
  by (simp add: global_entry_def local_entry_def internal_entry_def) (intro conjI accepts_eat accepts_finish)

lemma fits_all: "list_all2 fits commands (methods e)"
  unfolding commands_def methods_def
  by (intro list_all2_appendI fits_1 fits_2 fits_3 fits_4)

lemma fits_lookup:
  "list_all2 fits cs ms \<Longrightarrow> map_of cs name = Some en \<Longrightarrow>
     \<exists>f. map_of ms name = Some f \<and> accepts (en_args en) f"
  by (induction rule: list_all2_induct) (auto split: if_splits)

lemma read_arg_kind: "read_arg k val m = Some (Some a) \<Longrightarrow> has_kind a k"
  by (cases k) (auto simp: read_arg_def Let_def split: sum.splits)

definition pending :: "arg_kind list \<Rightarrow> string option \<Rightarrow> arg_kind list" where
  "pending ks host_name = (case host_name of None \<Rightarrow> ks | Some _ \<Rightarrow> K_service # ks)"

definition reads :: "arg_kind list \<Rightarrow> arg list \<Rightarrow> arg list \<Rightarrow> bool" where
  "reads ks args args' \<longleftrightarrow> (\<exists>new us. args' = args @ new \<and> list_all2 has_kind new us \<and> subseq us ks)"

lemma reads_refl: "reads ks args args"
  unfolding reads_def by (rule exI[of _ "[]"], rule exI[of _ "[]"]) simp

lemma reads_skip: "reads ks args args' \<Longrightarrow> reads (k # ks) args args'"
  unfolding reads_def by (elim exE conjE, intro exI conjI) (auto intro: list_emb_Cons)

lemma reads_found: "has_kind a k \<Longrightarrow> reads ks (args @ [a]) args' \<Longrightarrow> reads (k # ks) args args'"
  unfolding reads_def
proof (elim exE conjE)
  fix new us assume "has_kind a k" "args' = (args @ [a]) @ new" "list_all2 has_kind new us" "subseq us ks"
  then show "\<exists>new us. args' = args @ new \<and> list_all2 has_kind new us \<and> subseq us (k # ks)"
    by (intro exI[of _ "a # new"] exI[of _ "k # us"]) simp
qed

lemma reads_all: "reads ks [] args \<Longrightarrow> length args = length ks \<Longrightarrow> list_all2 has_kind args ks"
  unfolding reads_def by (metis append_Nil list_all2_lengthD subseq_same_length)

lemmas reads_object = reads_found[of "A_item i" K_host for i, simplified] reads_found[of "A_item i" K_service for i, simplified]

lemma parse_args_kinds:
  "parse_args command raw ks host_name elts args m = Some (Some args', m') \<Longrightarrow>
     reads (pending ks host_name) args args'"
proof (induction command raw ks host_name elts args m rule: parse_args.induct)
  case (1 command raw ks host_name args m)
  then show ?case by (simp add: reads_refl)
next
  case (2 command raw ks tmp_host elt elts args m)
  from 2(3) obtain d where d: "elt \<noteq> []" "m_mode m \<noteq> Receiver" "m_directory m = Some d"
    by (auto split: if_splits bind_splits)
  show ?case
  proof (cases "find_service d tmp_host (drop_newline elt)")
    case None
    with 2(3) d obtain m1 where "note_unknown command m = Some m1"
      "parse_args command raw ks None elts args m1 = Some (Some args', m')"
      by (auto split: bind_splits)
    with 2(1)[OF d(1,2)] None d show ?thesis by (auto simp: pending_def intro: reads_skip)
  next
    case (Some s)
    with 2(2)[OF d(1,2)] 2(3) d show ?thesis by (auto simp: pending_def intro: reads_object)
  qed
next
  case (3 command raw elt elts args m)
  then show ?case by simp
next
  case (4 command raw k ks elt elts args m)
  let ?val = "drop_newline (strip elt)"
  show ?case
  proof (cases "k = K_host")
    case True
    with 4(5) obtain d where d: "m_directory m = Some d" and mode: "\<not> (m_mode m = Dispatcher \<or> m_mode m = Receiver)"
      by (auto simp: Let_def bind_eq_Some_conv split: if_splits)
    show ?thesis
    proof (cases "find_host d ?val")
      case None
      with 4(5) True d mode obtain m1 where "note_unknown command m = Some m1"
        "parse_args command raw ks None elts args m1 = Some (Some args', m')"
        by (auto simp: Let_def split: bind_splits)
      with 4(1)[OF refl True mode] True None d show ?thesis by (auto simp: pending_def intro: reads_skip)
    next
      case (Some h)
      with 4(2)[OF refl True mode] 4(5) True d mode show ?thesis by (auto simp: pending_def Let_def intro: reads_object)
    qed
  next
    case host: False
    show ?thesis
    proof (cases "k = K_service")
      case True
      with 4(3)[OF refl host True refl] 4(5) host show ?thesis
        by (auto simp: pending_def Let_def split: if_splits)
    next
      case False
      with 4(5) host obtain a where a: "read_arg k ?val m = Some a"
        "parse_args command raw ks None elts (case a of Some a \<Rightarrow> args @ [a] | None \<Rightarrow> args) m = Some (Some args', m')"
        by (auto simp: Let_def split: bind_splits)
      with 4(4)[OF refl host False, of a] show ?thesis
        by (cases a) (auto simp: pending_def intro: reads_skip reads_found read_arg_kind)
    qed
  qed
qed

lemma parse_known_cases:
  assumes "parse_known line raw c entry m = Some (r, m')"
  obtains "r = Resend line" "m' = m" "en_global entry" "\<not> en_internal entry" "m_mode m = Dispatcher"
  | args elts where "parse_args line raw (en_args entry) None elts [] m = Some (Some args, m')"
      "length args = length (en_args entry)" "r = Call c args"
      "\<not> (m_mode m = Dispatcher \<and> en_global entry \<and> \<not> en_internal entry)"
  | a elts where "parse_args line raw (en_args entry) None elts [] m = Some (a, m')" "r = Nothing"
  using assms by (auto simp: parse_known_def Let_def bind_eq_Some_conv split: if_splits option.splits)

lemma parse_command_cases:
  assumes "parse_command command raw m = Some (r, m')"
  obtains "r = Nothing" "m_sched m' = m_sched m"
  | line entry c t where "map_of commands c = Some entry"
      "parse_known line raw c entry (m\<lparr>m_current_timestamp := t\<rparr>) = Some (r, m')"
  using assms
  by (auto simp: parse_command_def Let_def split: if_splits sum.splits number_error.splits option.splits)


subsection \<open>The arbiter\<close>

lemma internal_commands:
  "list_all (\<lambda>(n, en). (en_internal en \<longrightarrow> n \<in> {''RESTART_PROGRAM'', ''RELOAD_CONFIG'', ''ADD_SIMPLE_POLLER''}) \<and>
     (\<not> en_global en \<longrightarrow> (\<exists>ks. en_args en = K_host # ks \<or> en_args en = K_service # ks))) commands"
  unfolding commands_def commands_1_def commands_2_def commands_3_def commands_4_def
  by (simp add: global_entry_def local_entry_def internal_entry_def)

lemma search_host_sched: "search_host_and_dispatch h command raw m = Some m' \<Longrightarrow> m_sched m' = m_sched m"
  by (auto simp: search_host_and_dispatch_def push_command_def Let_def split: option.splits if_splits)

lemma dispatcher_args_sched:
  "parse_args command raw ks None elts args m = Some (r, m') \<Longrightarrow> m_mode m = Dispatcher \<Longrightarrow> m_sched m' = m_sched m"
proof (induction elts arbitrary: ks args)
  case (Cons elt elts)
  then show ?case
    by (cases ks) (auto simp: Let_def bind_eq_Some_conv split: if_splits dest: search_host_sched)
qed simp

lemma global_command_sched: "m_sched (dispatch_global_command command m) = m_sched m"
proof -
  have "m_sched (fold (\<lambda>l m. if lk_alive (m_links m l) then push_command l command m else m) ls m) = m_sched m" for ls
    by (induction ls arbitrary: m) (auto simp: push_command_def)
  then show ?thesis by (simp add: dispatch_global_command_def)
qed

lemma dispatcher_local_refused:
  assumes "m_mode m = Dispatcher" "ks = K_host # ks' \<or> ks = K_service # ks'"
    "parse_args command raw ks None elts [] m = Some (Some args, m')"
  shows "length args \<noteq> length ks"
  using assms by (cases elts) (auto simp: Let_def split: if_splits)

lemma dispatcher_parse:
  assumes "m_mode m = Dispatcher" "parse_command command raw m = Some (r, m')"
  shows "m_sched m' = m_sched m \<and>
    (\<forall>name args. r = Call name args \<longrightarrow> name \<in> {''RESTART_PROGRAM'', ''RELOAD_CONFIG'', ''ADD_SIMPLE_POLLER''})"
  using assms(2)
proof (cases rule: parse_command_cases)
  case (2 line entry c t)
  let ?m = "m\<lparr>m_current_timestamp := t\<rparr>"
  have mode: "m_mode ?m = Dispatcher" using assms(1) by simp
  have table: "(en_internal entry \<longrightarrow> c \<in> {''RESTART_PROGRAM'', ''RELOAD_CONFIG'', ''ADD_SIMPLE_POLLER''}) \<and>
      (\<not> en_global entry \<longrightarrow> (\<exists>ks. en_args entry = K_host # ks \<or> en_args entry = K_service # ks))"
    using internal_commands map_of_SomeD[OF 2(1)] by (auto simp: list_all_iff)
  from 2(2) show ?thesis
  proof (cases rule: parse_known_cases)
    case (2 args elts)
    have "en_global entry"
    proof (rule ccontr)
      assume "\<not> en_global entry"
      with table obtain ks where "en_args entry = K_host # ks \<or> en_args entry = K_service # ks" by blast
      from dispatcher_local_refused[OF mode this 2(1)] 2(2) show False by simp
    qed
    with 2 mode table dispatcher_args_sched[OF 2(1) mode] show ?thesis by auto
  next
    case (3 a elts)
    with dispatcher_args_sched[OF 3(1) mode] show ?thesis by simp
  qed simp
qed simp

text \<open>C21: in the arbiter a command either is one of the three internal ones or leaves the
  hosts, the services and every queue as they are, the log entry of the command apart: it is sent on, or dropped.\<close>

theorem arbiter_executes_internal_only:
  assumes "m_mode m = Dispatcher" "resolve_command e raw m = Some m'"
  shows "m_sched m' = m_sched (log_command (strip raw) m) \<or>
    (\<exists>name args m1. parse_command (strip raw) raw (log_command (strip raw) m) = Some (Call name args, m1) \<and>
       name \<in> {''RESTART_PROGRAM'', ''RELOAD_CONFIG'', ''ADD_SIMPLE_POLLER''})"
proof -
  have mode: "m_mode (log_command (strip raw) m) = Dispatcher"
    using assms(1) by (simp add: log_command_def on_manager_def on_sched_def)
  obtain r m1 where parse: "parse_command (strip raw) raw (log_command (strip raw) m) = Some (r, m1)"
    using assms(2) by (auto simp: resolve_command_def Let_def bind_eq_Some_conv)
  show ?thesis
    using dispatcher_parse[OF mode parse] parse assms(2)
    by (cases r) (auto simp: resolve_command_def Let_def global_command_sched split: if_splits)
qed

subsection \<open>Passive results\<close>

lemma on_manager_simps [simp]:
  "world_of (on_manager f m) = f (world_of m)" "m_program (on_manager f m) = m_program m"
  "m_mode (on_manager f m) = m_mode m" "m_current_timestamp (on_manager f m) = m_current_timestamp m"
  "m_directory (on_manager f m) = m_directory m" "s_checks (m_sched (on_manager f m)) = s_checks (m_sched m)"
  by (simp_all add: on_manager_def on_sched_def on_world_def)

lemma status_brok_simps [simp]:
  "world_of (status_brok i m) = world_of m" "m_program (status_brok i m) = m_program m"
  by (simp_all add: status_brok_def on_sched_def get_and_register_status_brok_def add_Brok_def)

lemma feed_result_fields:
  "c_status (feed_result status out l t ck) = WaitConsume" "c_exit_status (feed_result status out l t ck) = status"
  "c_check_type (feed_result status out l t ck) = 1" "c_check_time (feed_result status out l t ck) = t"
  "c_ref (feed_result status out l t ck) = c_ref ck" "c_check_variant (feed_result status out l t ck) = c_check_variant ck"
  "(c_output (feed_result status out l t ck), c_long_output (feed_result status out l t ck),
    c_perf_data (feed_result status out l t ck)) = get_outputs out l"
  by (simp_all add: feed_result_def c_set_type_passive_def split: prod.splits)

lemma forced_launch:
  assumes "known_checks w i"
  shows "\<exists>c w'. launch_check fuel now t None True False State_variant i w = Some (Some c, w') \<and>
     c \<in> set (get_checks_in_progress w' i State_variant) \<and>
     (if is_in_checking w i State_variant
      then c = hd (get_checks_in_progress w i State_variant) \<and> w' = upd_check c (\<lambda>ck. ck\<lparr>c_t_to_go := now\<rparr>) w
      else c = next_action_id w \<and> w' = snd (launch_new_check t None State_variant i w))"
proof (cases "is_in_checking w i State_variant")
  case True
  let ?c = "hd (get_checks_in_progress w i State_variant)"
  have "?c \<in> set (get_checks_in_progress w i State_variant)"
    using True by (auto simp: is_in_checking_def)
  then have "?c \<in> set (get_checks_in_progress (upd_check ?c (\<lambda>ck. ck\<lparr>c_t_to_go := now\<rparr>) w) i State_variant)"
    by (auto simp: get_checks_in_progress_def)
  with True show ?thesis by (simp add: launch_check_def Let_def)
next
  case False
  have "fst (launch_new_check t None State_variant i w) = next_action_id w"
    by (simp add: launch_new_check_def Let_def alloc_check_def case_prod_beta)
  with False in_progress_new_check(1)[OF assms, of t None State_variant State_variant] show ?thesis
    by (simp add: launch_check_def Let_def case_prod_beta)
qed

lemma passive_result_effect:
  assumes "accept_passive_checks (cls (world_of m) i)" "passive_checks_enabled (item_of m i)"
    "last_chk (item_of m i) \<le> m_current_timestamp m" "known_checks (world_of m) i"
  shows "\<exists>c m'. passive_result e i status out m = Some m' \<and> c \<in> set (get_checks_in_progress (world_of m') i State_variant) \<and>
     (is_in_checking (world_of m) i State_variant \<longrightarrow> next_action_id (world_of m') = next_action_id (world_of m)) \<and>
     (\<not> is_in_checking (world_of m) i State_variant \<longrightarrow> ACheck c \<in> set (actions (item_of m' i))) \<and>
     (\<exists>ck. checks (world_of m') c =
        feed_result status out (max_plugins_output_length (cls (world_of m) i)) (m_current_timestamp m) ck)"
proof -
  let ?w = "world_of m" and ?l = "max_plugins_output_length (cls (world_of m) i)"
  let ?feed = "feed_result status out ?l (m_current_timestamp m)"
  obtain c w where launch: "launch_check (env_fuel e) (now_is e) (now_is e) None True False State_variant i ?w = Some (Some c, w)"
    and c: "c \<in> set (get_checks_in_progress w i State_variant)"
    and how: "if is_in_checking ?w i State_variant
      then c = hd (get_checks_in_progress ?w i State_variant) \<and> w = upd_check c (\<lambda>ck. ck\<lparr>c_t_to_go := now_is e\<rparr>) ?w
      else c = next_action_id ?w \<and> w = snd (launch_new_check (now_is e) None State_variant i ?w)"
    using forced_launch[OF assms(4)] by metis
  let ?m' = "on_manager (upd_check c ?feed) (on_manager (\<lambda>_. w) m)"
  have "passive_result e i status out m = Some ?m'"
    using assms(1-3) launch c by (simp add: passive_result_def Let_def not_less)
  moreover have "c \<in> set (get_checks_in_progress (world_of ?m') i State_variant)"
    using c by (auto simp: get_checks_in_progress_def feed_result_fields)
  moreover have "is_in_checking ?w i State_variant \<longrightarrow> next_action_id (world_of ?m') = next_action_id ?w"
    using how by auto
  moreover have "\<not> is_in_checking ?w i State_variant \<longrightarrow> ACheck c \<in> set (actions (item_of ?m' i))"
    using how by (auto simp: launch_new_check_def Let_def alloc_check_def add_action_def case_prod_beta)
  moreover have "checks (world_of ?m') c = ?feed (checks w c)" by simp
  ultimately show ?thesis by blast
qed

text \<open>C22: a passive result for a service that accepts it and that is not older than the last check
  becomes the result of a check in progress, which waits to be consumed: with the status and the output of the
  command, at its time, marked passive. A check in progress is taken when there is one; otherwise one is launched
  and handed to the scheduler.\<close>

theorem passive_result_waits:
  assumes "accept_passive_checks (cls (world_of m) i)" "passive_checks_enabled (item_of m i)"
    "last_chk (item_of m i) \<le> m_current_timestamp m" "known_checks (world_of m) i"
  shows "\<exists>c m'. PROCESS_SERVICE_CHECK_RESULT e i status out m = Some m' \<and>
     c \<in> set (get_checks_in_progress (world_of m') i State_variant) \<and>
     (if is_in_checking (world_of m) i State_variant then next_action_id (world_of m') = next_action_id (world_of m)
      else ACheck c \<in> set (actions (item_of m' i))) \<and>
     (let ck = checks (world_of m') c in
      c_status ck = WaitConsume \<and> c_exit_status ck = status \<and> c_check_type ck = 1 \<and>
      c_check_time ck = m_current_timestamp m \<and>
      (c_output ck, c_long_output ck, c_perf_data ck) = get_outputs out (max_plugins_output_length (cls (world_of m) i)))"
proof -
  let ?log = "log_passive (PASSIVE_SERVICE_CHECK (host (item_of m i)) i status out) m"
  have same: "items (world_of ?log) = items (world_of m)" "cls_of (world_of ?log) k = cls_of (world_of m) k"
    "m_current_timestamp ?log = m_current_timestamp m" "checks (world_of ?log) = checks (world_of m)"
    "next_action_id (world_of ?log) = next_action_id (world_of m)" for k
    by (auto simp: log_passive_def cls_of_def split: item_kind.split)
  then have k: "known_checks (world_of ?log) i" "is_in_checking (world_of ?log) i v = is_in_checking (world_of m) i v" for v
    using assms(4) by (simp_all add: known_checks_def is_in_checking_def get_checks_in_progress_def)
  have pre: "accept_passive_checks (cls (world_of ?log) i)" "passive_checks_enabled (item_of ?log i)"
    "last_chk (item_of ?log i) \<le> m_current_timestamp ?log"
    using assms same by simp_all
  show ?thesis
    using passive_result_effect[OF pre k(1), of e status out]
    unfolding PROCESS_SERVICE_CHECK_RESULT_def same k(2)
    by (elim exE conjE, intro exI conjI) (auto simp: feed_result_fields Let_def)
qed

subsection \<open>Modified attributes\<close>

definition turned :: "int \<Rightarrow> int \<Rightarrow> int \<Rightarrow> bool" where
  "turned old new flag \<longleftrightarrow> (new XOR old) AND flag \<noteq> 0"

lemma turn_keeps: "(\<And>x. g (f x) = g x) \<Longrightarrow> g (turn changes (flag, f) it) = g it"
  by (simp add: turn_def)

lemma turn_flips: "(\<And>x. g (f x) = (\<not> g x)) \<Longrightarrow> g (turn changes (flag, f) it) = (g it \<noteq> (changes AND flag \<noteq> 0))"
  by (simp add: turn_def)

lemmas turns = turn_keeps[of notifications_enabled] turn_flips[of notifications_enabled]
  turn_keeps[of active_checks_enabled] turn_flips[of active_checks_enabled]
  turn_keeps[of passive_checks_enabled] turn_flips[of passive_checks_enabled]
  turn_keeps[of event_handler_enabled] turn_flips[of event_handler_enabled]
  turn_keeps[of flap_detection_enabled] turn_flips[of flap_detection_enabled]
  turn_keeps[of obsess_over_me] turn_flips[of obsess_over_me]
  turn_keeps[of check_freshness] turn_flips[of check_freshness]

lemma fold_turns: "fold (turn changes) (t # ts) it = fold (turn changes) ts (turn changes t it)" by simp


subsection \<open>Contact groups\<close>

lemma drop_nothing: "s = [] \<or> \<not> is_space (hd s) \<Longrightarrow> dropWhile is_space s = s"
  by (cases s) auto

lemma rstrip_id: "s \<noteq> [] \<Longrightarrow> \<not> is_space (last s) \<Longrightarrow> rstrip s = s"
  by (simp add: rstrip_def drop_nothing hd_rev)

lemma strip_id: "s \<noteq> [] \<Longrightarrow> \<not> is_space (hd s) \<Longrightarrow> \<not> is_space (last s) \<Longrightarrow> strip s = s \<and> rstrip s = s"
  by (simp add: strip_def rstrip_def drop_nothing hd_rev)

lemma split_two:
  assumes "CHR '';'' \<notin> set pre" "CHR '';'' \<notin> set g" "\<not> ends_with pre (CHR 0x5C)"
  shows "split_semicolon (pre @ CHR '';'' # g) None = [pre, g]"
    "split_semicolon (pre @ CHR '';'' # g) (Some (Suc 0)) = [pre, g]"
  using assms
  by (simp_all add: split_semicolon_def split_on_append_sep split_on_single Let_def glue_parts.simps)

text \<open>A line with one argument, up to the reading of the argument.\<close>

lemma parse_one_argument:
  assumes "split_on (CHR '' '') pre = [''[1]'', name]" "CHR '';'' \<notin> set pre" "\<not> ends_with pre (CHR 0x5C)"
    "map_of commands name = Some entry" "numargs entry = 1"
    "m_mode m = Applyer" "g \<noteq> []" "\<forall>c \<in> set g. c \<noteq> CHR '';'' \<and> \<not> is_space c"
  shows "parse_command (pre @ CHR '';'' # g) raw m = do {
      (args, m') \<leftarrow> parse_args (pre @ CHR '';'' # g) raw (en_args entry) None [g] [] (m\<lparr>m_current_timestamp := 1\<rparr>);
      Some (case args of Some args \<Rightarrow> if length args = length (en_args entry) then Call name args else Nothing
            | None \<Rightarrow> Nothing, m') }"
proof -
  have "\<not> is_space (last (pre @ CHR '';'' # g))" using assms(7,8) by simp
  then have r: "rstrip (pre @ CHR '';'' # g) = pre @ CHR '';'' # g"
    by (intro rstrip_id) auto
  have one: "to_int ''1'' = Inr 1" by code_simp
  have g: "CHR '';'' \<notin> set g" using assms(8) by auto
  note split = split_two[OF assms(2) g assms(3)]
  show ?thesis
    unfolding parse_command_def r Let_def split list.sel assms(1)
    using assms(4-6) by (simp add: has_prefix_def ends_with_def one parse_known_def split)
qed

definition contact_group_names :: "string list" where
  "contact_group_names = [''DISABLE_CONTACTGROUP_HOST_NOTIFICATIONS'', ''DISABLE_CONTACTGROUP_SVC_NOTIFICATIONS'',
     ''ENABLE_CONTACTGROUP_HOST_NOTIFICATIONS'', ''ENABLE_CONTACTGROUP_SVC_NOTIFICATIONS'']"

lemma contact_group_names:
  "name \<in> set contact_group_names \<Longrightarrow> map_of commands name = Some (global_entry [K_contact_group]) \<and>
     split_on (CHR '' '') (''[1] '' @ name) = [''[1]'', name] \<and> CHR '';'' \<notin> set (''[1] '' @ name) \<and>
     \<not> ends_with (''[1] '' @ name) (CHR 0x5C)"
proof -
  have "\<forall>name \<in> set contact_group_names. map_of commands name = Some (global_entry [K_contact_group]) \<and>
     split_on (CHR '' '') (''[1] '' @ name) = [''[1]'', name] \<and> CHR '';'' \<notin> set (''[1] '' @ name) \<and>
     \<not> ends_with (''[1] '' @ name) (CHR 0x5C)" by code_simp
  then show "name \<in> set contact_group_names \<Longrightarrow> ?thesis" by blast
qed

text \<open>Every command on a contact group raises in a scheduler, whatever the group: the
  parser looks in an attribute that does not exist.\<close>

theorem contact_group_commands_raise:
  assumes "name \<in> set contact_group_names" "m_mode m = Applyer" "g \<noteq> []"
    "\<forall>c \<in> set g. c \<noteq> CHR '';'' \<and> \<not> is_space c"
  shows "resolve_command e (''[1] '' @ name @ '';'' @ g) m = None"
proof -
  let ?pre = "''[1] '' @ name"
  note pre = contact_group_names[OF assms(1)]
  have "strip (?pre @ CHR '';'' # g) = ?pre @ CHR '';'' # g"
    using assms(3,4) by (intro conjunct1[OF strip_id]) (auto simp: is_space_def)
  moreover have "log_command c m = m" for c using assms(2) by (simp add: log_command_def)
  moreover have "parse_command (?pre @ CHR '';'' # g) raw m = None" for raw
    using parse_one_argument[of ?pre name "global_entry [K_contact_group]" m g raw] pre assms(2-4)
    by (simp add: global_entry_def numargs_def read_arg_def)
  ultimately show ?thesis by (simp add: resolve_command_def Let_def)
qed

subsection \<open>Examples\<close>

definition small_program :: program where
  "small_program = \<lparr>pg_enable_notifications = True, pg_enable_event_handlers = True, pg_enable_flap_detection = True,
     pg_enable_failure_prediction = False, pg_process_performance_data = True, pg_check_host_freshness = True,
     pg_check_service_freshness = True, pg_execute_host_checks = True, pg_execute_service_checks = True,
     pg_accept_passive_host_checks = True, pg_accept_passive_service_checks = True, pg_obsess_over_hosts = False,
     pg_obsess_over_services = False, pg_modified_attributes = 0, pg_log_passive_checks = True,
     pg_log_external_commands = True, pg_accept_passive_unknown_check_results = False\<rparr>"

definition small_directory :: directory where
  "small_directory = \<lparr>find_host = (\<lambda>n. if n = ''h'' then Some 0 else None),
     find_service = (\<lambda>h n. if h = ''h'' \<and> n = ''s'' then Some 1 else None), find_contact = (\<lambda>n. None),
     find_timeperiod = (\<lambda>n. None), find_command = (\<lambda>n. None), find_hostgroup = (\<lambda>n. None),
     find_servicegroup = (\<lambda>n. None)\<rparr>"

definition small_manager :: "command_mode \<Rightarrow> manager" where
  "small_manager mode = \<lparr>m_mode = mode, m_program = small_program, m_directory = Some small_directory,
     m_sched = queue_sched (small_world id 2), m_current_timestamp = 0,
     m_links = (\<lambda>_. \<lparr>lk_alive = True, lk_external_commands = []\<rparr>), m_schedulers = [7],
     m_shards = [\<lparr>sh_hosts = [''h''], sh_assigned_to = Some 7\<rparr>], m_host_assoc = (\<lambda>n. None),
     m_accept_unknown = False, m_broks = []\<rparr>"

definition small_surroundings :: surroundings where
  "small_surroundings = \<lparr>env_fuel = 5, env_random = (\<lambda>_ _. 0), env_ident = int, env_run = no_run,
     env_rule = (\<lambda>w i. (0, [])), now_is = 10, run_line = (\<lambda>l. (False, 0, [])), add_poller = (\<lambda>_ _ _ _ m. Some m)\<rparr>"

definition passive_line :: string where
  "passive_line = ''[9] PROCESS_SERVICE_CHECK_RESULT;h;s;1;slow|time=3s''"

definition run_line_of :: "command_mode \<Rightarrow> string \<Rightarrow> manager option" where
  "run_line_of mode line = resolve_command small_surroundings line (small_manager mode)"


theorem arbiter_executes_internal_only_witness:
  "\<exists>m'. run_line_of Dispatcher passive_line = Some m' \<and>
     (m_sched m' = m_sched (log_command (strip passive_line) (small_manager Dispatcher)) \<or>
      (\<exists>name args m1. parse_command (strip passive_line) passive_line (log_command (strip passive_line) (small_manager Dispatcher)) =
          Some (Call name args, m1) \<and> name \<in> {''RESTART_PROGRAM'', ''RELOAD_CONFIG'', ''ADD_SIMPLE_POLLER''}))"
proof -
  have "run_line_of Dispatcher passive_line \<noteq> None" by code_simp
  then obtain m' where "resolve_command small_surroundings passive_line (small_manager Dispatcher) = Some m'"
    by (auto simp: run_line_of_def)
  from this arbiter_executes_internal_only[OF _ this] show ?thesis
    unfolding run_line_of_def by (intro exI[of _ m'] conjI) (simp_all add: small_manager_def)
qed

theorem passive_result_waits_witness:
  "\<exists>c m'. PROCESS_SERVICE_CHECK_RESULT small_surroundings 1 1 ''slow|time=3s'' (small_manager Applyer) = Some m' \<and>
     c \<in> set (get_checks_in_progress (world_of m') 1 State_variant) \<and> c_exit_status (checks (world_of m') c) = 1"
proof -
  let ?m = "small_manager Applyer"
  have pre: "accept_passive_checks (cls (world_of ?m) 1)" "passive_checks_enabled (item_of ?m 1)"
    "last_chk (item_of ?m 1) \<le> m_current_timestamp ?m" by code_simp+
  have known: "known_checks (world_of ?m) 1"
    unfolding known_checks_def by code_simp
  from passive_result_waits[OF pre known, of small_surroundings 1 "''slow|time=3s''"]
  show ?thesis by (auto simp: Let_def)
qed

theorem contact_group_commands_raise_witness:
  "run_line_of Applyer (''[1] '' @ ''ENABLE_CONTACTGROUP_SVC_NOTIFICATIONS'' @ '';'' @ ''admins'') = None"
  unfolding run_line_of_def
  by (rule contact_group_commands_raise) (simp_all add: contact_group_names_def small_manager_def is_space_def)

end
