(* ===== verification/BusinessRules.thy ===== *)
theory BusinessRules
  imports Texts
begin

text \<open>
  Business rules (\<^verbatim>\<open>shinken/dependencynode.py\<close>): the tree of a rule, the state it computes from the hard states of
  hosts and services, and the parser of the expressions such trees are written as.

  A son of a node is a node or, under a leaf, a host or service (\<^term>\<open>Item\<close>); \<^term>\<open>NoNode\<close> is the \<^verbatim>\<open>None\<close> that the
  parser puts there for an expression that mixes the two operators. The outer \<^term>\<open>None\<close> is an exception. What the
  rule asks of the configuration is the record \<^verbatim>\<open>catalog\<close>; regular expressions of the user are compiled and
  matched by its field \<^verbatim>\<open>cg_regex\<close>, where \<^term>\<open>None\<close> is an invalid expression. Percentages are exact rationals.
\<close>

subsection \<open>The tree\<close>

datatype operand = Op_none | Op_and | Op_or | Op_of | Op_host | Op_service | Op_object

datatype dnode =
    Item nat
  | NoNode
  | Dnode (n_operand: operand) (n_sons: "dnode list") (n_of_values: "string list") (n_is_of_mul: bool)
      (n_not_value: bool) (n_configuration_errors: "string list")

definition new_node :: dnode where
  "new_node = Dnode Op_none [] [''0'', ''0'', ''0''] False False []"

fun get_reverse_state :: "int \<Rightarrow> int" where
  "get_reverse_state st = (if st = 1 then 1 else if st = 0 then 2 else if st = 2 then 0 else st)"

text \<open>\<^verbatim>\<open>get_state_for\<close>: how many sons are asked for, as a number or a percentage, counted from the end when negative.\<close>

definition get_state_for :: "int \<Rightarrow> int \<Rightarrow> string \<Rightarrow> bool option" where
  "get_state_for nb_tot nb_real nb_search =
     (if ends_with nb_search (CHR ''%'')
      then do {
        n \<leftarrow> int_of_text (butlast nb_search);
        let n = (if n < 0 then max (100 + n) 0 else n);
        if nb_tot = 0 then None else Some ((of_int nb_real / of_int nb_tot * 100 :: rat) \<ge> of_int n)
      }
      else do {
        n \<leftarrow> int_of_text nb_search;
        let n = (if n < 0 then max (nb_tot + n) 0 else n);
        Some (nb_real \<ge> n)
      })"

definition simple_node_state :: "operand \<Rightarrow> bool \<Rightarrow> int \<Rightarrow> int" where
  "simple_node_state opr not_value st =
     (let st = (if opr = Op_host \<and> st = 1 then 2 else st) in
      if not_value
      then if opr = Op_host \<and> st = 1 then 0
           else if opr = Op_host \<and> st = 0 then 1
           else if opr = Op_service \<and> st = 2 then 0
           else if opr = Op_service \<and> st = 0 then 2
           else st
      else st)"

definition reverse_if :: "bool \<Rightarrow> int \<Rightarrow> int" where
  "reverse_if not_value st = (if not_value then get_reverse_state st else st)"

definition or_node_state :: "bool \<Rightarrow> int list \<Rightarrow> int option" where
  "or_node_state not_value states = map_option (reverse_if not_value) (list_min states)"

definition worst_state :: "int list \<Rightarrow> int option" where
  "worst_state states =
     (if 2 \<in> set states then Some 2 else if states = [] then None else Some (Max (set states)))"

definition and_node_state :: "bool \<Rightarrow> int list \<Rightarrow> int option" where
  "and_node_state not_value states = map_option (reverse_if not_value) (worst_state states)"

definition count_state :: "int \<Rightarrow> int list \<Rightarrow> int" where
  "count_state st states = int (length (filter (\<lambda>s. s = st) states))"

definition xof_node_state :: "bool \<Rightarrow> bool \<Rightarrow> string list \<Rightarrow> int list \<Rightarrow> int option" where
  "xof_node_state not_value is_of_mul of_values states = do {
     let nb_sons = int (length states);
     ok_apply \<leftarrow> get_state_for nb_sons (count_state 0 states) (of_values ! 0);
     warn_apply \<leftarrow> get_state_for nb_sons (count_state 1 states + count_state 2 states) (of_values ! 1);
     crit_apply \<leftarrow> get_state_for nb_sons (count_state 2 states) (of_values ! 2);
     map_option (reverse_if not_value)
       (if crit_apply then Some 2
        else if warn_apply then Some 1
        else if ok_apply then Some 0
        else if is_of_mul then Some 0
        else worst_state states)
   }"

definition is_leaf :: "operand \<Rightarrow> bool" where
  "is_leaf opr \<longleftrightarrow> opr = Op_host \<or> opr = Op_service"

text \<open>\<^verbatim>\<open>hard i\<close> is the \<^verbatim>\<open>last_hard_state_id\<close> of the host or service \<^verbatim>\<open>i\<close>.\<close>

fun get_state :: "(nat \<Rightarrow> int) \<Rightarrow> dnode \<Rightarrow> int option" where
  "get_state hard (Item i) = None"
| "get_state hard NoNode = None"
| "get_state hard (Dnode opr sons of_values is_of_mul not_value errors) =
     (if is_leaf opr
      then case sons of Item i # _ \<Rightarrow> Some (simple_node_state opr not_value (hard i)) | _ \<Rightarrow> None
      else do {
        states \<leftarrow> those (map (get_state hard) sons);
        if opr = Op_or then or_node_state not_value states
        else if opr = Op_and then and_node_state not_value states
        else xof_node_state not_value is_of_mul of_values states
      })"

fun list_all_elements :: "dnode \<Rightarrow> nat list option" where
  "list_all_elements (Item i) = None"
| "list_all_elements NoNode = None"
| "list_all_elements (Dnode opr sons of_values is_of_mul not_value errors) =
     (if is_leaf opr then case sons of Item i # _ \<Rightarrow> Some [i] | _ \<Rightarrow> None
      else map_option (\<lambda>rs. remdups (concat rs)) (those (map list_all_elements sons)))"

text \<open>\<^verbatim>\<open>is_valid\<close> with the errors it leaves on the node: only nodes are asked, anything else is taken for valid.\<close>

fun is_valid :: "dnode \<Rightarrow> bool \<times> string list" where
  "is_valid (Item i) = (True, [])"
| "is_valid NoNode = (True, [])"
| "is_valid (Dnode opr sons of_values is_of_mul not_value errors) =
     (let bad = filter (\<lambda>(ok, errs). \<not> ok) (map is_valid sons)
      in (sons \<noteq> [] \<and> bad = [], errors @ concat (map snd bad)))"

function show_nat :: "nat \<Rightarrow> string" where
  "show_nat n = (if n < 10 then [char_of (48 + n)] else show_nat (n div 10) @ [char_of (48 + n mod 10)])"
  by pat_completeness auto
termination by (relation "measure id") auto

declare show_nat.simps [simp del]

definition switch_zeros :: "nat \<Rightarrow> string list \<Rightarrow> string list" where
  "switch_zeros nb_sons = map (\<lambda>v. if v = ''0'' then show_nat nb_sons else v)"

subsection \<open>X of\<close>

text \<open>The pattern \<^verbatim>\<open>^(-?\d+%?),*(-?\d*%?),*(-?\d*%?) *of: *(.+)\<close>. Taking as much as possible at every step is the
  choice the matcher keeps, but for the blanks before the rest, of which the last one is given back when nothing
  else is left.\<close>

definition span_while :: "(char \<Rightarrow> bool) \<Rightarrow> string \<Rightarrow> string \<times> string" where
  "span_while P s = (takeWhile P s, dropWhile P s)"

definition optional_char :: "char \<Rightarrow> string \<Rightarrow> string \<times> string" where
  "optional_char x s = (if has_prefix [x] s then ([x], tl s) else ([], s))"

definition is_digit :: "char \<Rightarrow> bool" where
  "is_digit c \<longleftrightarrow> digit c \<noteq> None"

definition xof_number :: "string \<Rightarrow> string \<times> bool \<times> string" where
  "xof_number s =
     (let (sign, s) = optional_char (CHR ''-'') s;
          (ds, s) = span_while is_digit s;
          (pc, s) = optional_char (CHR ''%'') s
      in (sign @ ds @ pc, ds \<noteq> [], s))"

definition xof_rest :: "string \<Rightarrow> string option" where
  "xof_rest s =
     (let (blanks, s) = span_while (\<lambda>c. c = CHR '' '') s; body = takeWhile (\<lambda>c. c \<noteq> CHR 0x0A) s
      in if body \<noteq> [] then Some body else if blanks \<noteq> [] then Some '' '' else None)"

definition match_xof :: "string \<Rightarrow> (string list \<times> string) option" where
  "match_xof p = do {
     let (g1, some_digit, s) = xof_number p;
     let s = dropWhile (\<lambda>c. c = CHR '','') s;
     let (g2, _, s) = xof_number s;
     let s = dropWhile (\<lambda>c. c = CHR '','') s;
     let (g3, _, s) = xof_number s;
     let s = dropWhile (\<lambda>c. c = CHR '' '') s;
     if some_digit \<and> has_prefix ''of:'' s
     then map_option (\<lambda>rest. ([g1, g2, g3], rest)) (xof_rest (drop 3 s)) else None
   }"

text \<open>\<^verbatim>\<open>eval_xof_pattern\<close>: the operand, the values, whether there are three of them, and the rest of the pattern.\<close>

definition eval_xof_pattern :: "string \<Rightarrow> operand \<times> string list \<times> bool \<times> string" where
  "eval_xof_pattern p =
     (case match_xof p of
        None \<Rightarrow> (Op_none, [''0'', ''0'', ''0''], False, p)
      | Some (gs, rest) \<Rightarrow>
          if gs ! 1 \<noteq> [] \<and> gs ! 2 \<noteq> [] then (Op_of, gs, True, rest) else (Op_of, [gs ! 0, ''0'', ''0''], False, rest))"

lemma eval_xof_examples:
  "eval_xof_pattern ''3 of: a & b'' = (Op_of, [''3'', ''0'', ''0''], False, ''a & b'')"
  "eval_xof_pattern ''30%,-1,2 of: a | b'' = (Op_of, [''30%'', ''-1'', ''2''], True, ''a | b'')"
  "eval_xof_pattern ''a & b'' = (Op_none, [''0'', ''0'', ''0''], False, ''a & b'')"
  "eval_xof_pattern ''-% of: a'' = (Op_none, [''0'', ''0'', ''0''], False, ''-% of: a'')"
  by code_simp+

subsection \<open>Cutting an expression\<close>

text \<open>The loop of \<^verbatim>\<open>eval_complex_cor_pattern\<close> over the characters. It is split from the evaluation of the parts it
  cuts out: \<^verbatim>\<open>cut\<close> gives the parts with the negation that applies to each, the operand, and whether two
  different operands met, where the loop stops.\<close>

definition complex_char :: "char \<Rightarrow> bool" where
  "complex_char c \<longleftrightarrow> c \<in> {CHR ''('', CHR '')'', CHR ''&'', CHR ''|''}"

definition op_of_char :: "char \<Rightarrow> operand" where
  "op_of_char c = (if c = CHR ''&'' then Op_and else Op_or)"

fun cut_rule :: "bool \<Rightarrow> string \<Rightarrow> bool \<Rightarrow> int \<Rightarrow> operand \<Rightarrow> string \<Rightarrow> (string \<times> bool) list \<times> operand \<times> bool" where
  "cut_rule in_par tmp son_is_not stacked_par opr [] =
     (if strip tmp \<noteq> [] then [(strip tmp, son_is_not)] else [], opr, False)"
| "cut_rule in_par tmp son_is_not stacked_par opr (c # cs) =
     (if c = CHR ''('' then
        let stacked_par = stacked_par + 1; tmp = strip tmp in
        if stacked_par = 1 \<and> tmp \<noteq> [] then cut_rule True tmp son_is_not stacked_par opr cs
        else cut_rule True (if stacked_par > 1 then tmp @ [c] else tmp) son_is_not stacked_par opr cs
      else if c = CHR '')'' then
        let stacked_par = stacked_par - 1 in
        if stacked_par < 0 then cut_rule in_par tmp son_is_not stacked_par opr cs
        else if stacked_par = 0
        then let (parts, rest) = cut_rule False [] False stacked_par opr cs in ((strip tmp, son_is_not) # parts, rest)
        else cut_rule in_par (tmp @ [c]) son_is_not stacked_par opr cs
      else if in_par then cut_rule in_par (tmp @ [c]) son_is_not stacked_par opr cs
      else if c = CHR ''!'' then
        let tmp = strip tmp in
        if tmp \<noteq> [] \<and> hd tmp \<noteq> CHR ''!'' then cut_rule in_par tmp son_is_not stacked_par opr cs
        else cut_rule in_par tmp True stacked_par opr cs
      else if c = CHR ''&'' \<or> c = CHR ''|'' then
        let tmp = strip tmp in
        if opr \<noteq> Op_none \<and> opr \<noteq> Op_of \<and> op_of_char c \<noteq> opr then ([], opr, True)
        else let opr = (if opr \<noteq> Op_of then op_of_char c else opr) in
          if tmp \<noteq> []
          then let (parts, rest) = cut_rule in_par [] False stacked_par opr cs in ((tmp, son_is_not) # parts, rest)
          else cut_rule in_par [] son_is_not stacked_par opr cs
      else cut_rule in_par (tmp @ [c]) son_is_not stacked_par opr cs)"

lemma strip_length: "length (strip s) \<le> length s"
proof -
  have "length (dropWhile is_space (rev (dropWhile is_space s))) \<le> length (dropWhile is_space s)"
    using length_dropWhile_le[of is_space "rev (dropWhile is_space s)"] by simp
  also have "\<dots> \<le> length s" by (rule length_dropWhile_le)
  finally show ?thesis by (simp add: strip_def)
qed

text \<open>One step of the loop: the parts it cuts out, and the text and the mode it goes on with.\<close>

lemma cut_step:
  assumes "p \<in> set (fst (cut_rule in_par tmp son_is_not stacked_par opr (c # cs)))"
  obtains "fst p = strip tmp" "complex_char c"
  | in_par' tmp' son_is_not' stacked_par' opr' where
      "p \<in> set (fst (cut_rule in_par' tmp' son_is_not' stacked_par' opr' cs))"
      "length tmp' \<le> Suc (length tmp)"
      "\<not> in_par \<Longrightarrow> stacked_par = 0 \<Longrightarrow>
         (if complex_char c then length tmp' \<le> length tmp else \<not> in_par' \<and> stacked_par' = 0)"
proof -
  have s: "length (strip tmp) \<le> length tmp" by (rule strip_length)
  note unfold = cut_rule.simps Let_def case_prod_beta
  show thesis
  proof (cases "c = CHR ''(''")
    case True
    show thesis
    proof (cases "stacked_par + 1 = 1 \<and> strip tmp \<noteq> []")
      case t: True
      with assms True have "p \<in> set (fst (cut_rule True (strip tmp) son_is_not (stacked_par + 1) opr cs))"
        unfolding unfold by simp
      then show thesis by (rule that(2)) (use s True in \<open>simp_all add: complex_char_def\<close>)
    next
      case f: False
      with assms True have "p \<in> set (fst (cut_rule True (if stacked_par + 1 > 1 then strip tmp @ [c] else strip tmp)
          son_is_not (stacked_par + 1) opr cs))"
        unfolding unfold by (simp only: if_True if_False simp_thms)
      then show thesis by (rule that(2)) (use s True in \<open>simp_all add: complex_char_def\<close>)
    qed
  next
    case no_open: False
    show thesis
    proof (cases "c = CHR '')''")
      case True
      consider "stacked_par - 1 < 0" | "stacked_par - 1 = 0" | "stacked_par - 1 > 0" by linarith
      then show thesis
      proof cases
        case 1
        with assms True have "p \<in> set (fst (cut_rule in_par tmp son_is_not (stacked_par - 1) opr cs))"
          unfolding unfold by simp
        then show thesis by (rule that(2)) (use True in \<open>simp_all add: complex_char_def\<close>)
      next
        case 2
        with assms True have "fst p = strip tmp \<or> p \<in> set (fst (cut_rule False [] False (stacked_par - 1) opr cs))"
          unfolding unfold by auto
        then show thesis
        proof
          assume "p \<in> set (fst (cut_rule False [] False (stacked_par - 1) opr cs))"
          then show thesis by (rule that(2)) (use 2 True in \<open>simp_all add: complex_char_def\<close>)
        qed (use True in \<open>auto simp: complex_char_def intro: that(1)\<close>)
      next
        case 3
        with assms True have "p \<in> set (fst (cut_rule in_par (tmp @ [c]) son_is_not (stacked_par - 1) opr cs))"
          unfolding unfold by simp
        then show thesis by (rule that(2)) (use 3 True in \<open>simp_all add: complex_char_def\<close>)
      qed
    next
      case no_close: False
      show thesis
      proof (cases "c = CHR ''!'' \<and> \<not> in_par")
        case True
        then have c: "(c = CHR ''!'') = True" "\<not> in_par" by simp_all
        from assms have "p \<in> set (fst (if strip tmp \<noteq> [] \<and> hd (strip tmp) \<noteq> CHR ''!''
            then cut_rule in_par (strip tmp) son_is_not stacked_par opr cs
            else cut_rule in_par (strip tmp) True stacked_par opr cs))"
          unfolding unfold by (simp only: no_open no_close c if_False if_True)
        then obtain b where "p \<in> set (fst (cut_rule in_par (strip tmp) b stacked_par opr cs))"
          by (cases "strip tmp \<noteq> [] \<and> hd (strip tmp) \<noteq> CHR ''!''") (simp_all only: if_True if_False simp_thms)
        then show thesis by (rule that(2)) (use s True in \<open>simp_all add: complex_char_def\<close>)
      next
        case no_not: False
        show thesis
        proof (cases "(c = CHR ''&'' \<or> c = CHR ''|'') \<and> \<not> in_par")
          case True
          then have c: "(c = CHR ''&'' \<or> c = CHR ''|'') = True" "c \<noteq> CHR ''!''" "\<not> in_par" by auto
          let ?o = "if opr \<noteq> Op_of then op_of_char c else opr"
          let ?go = "\<lambda>b. cut_rule in_par [] b stacked_par ?o cs"
          from assms have "p \<in> set (fst (if opr \<noteq> Op_none \<and> opr \<noteq> Op_of \<and> op_of_char c \<noteq> opr then ([], opr, True)
              else if strip tmp \<noteq> [] then ((strip tmp, son_is_not) # fst (?go False), snd (?go False)) else ?go son_is_not))"
            unfolding unfold by (simp only: no_open no_close c if_False if_True)
          then have "\<exists>o' b. fst p = strip tmp \<or> p \<in> set (fst (cut_rule in_par [] b stacked_par o' cs))"
            by (cases "opr \<noteq> Op_none \<and> opr \<noteq> Op_of \<and> op_of_char c \<noteq> opr"; cases "strip tmp = []") auto
          then show thesis
          proof (elim exE disjE)
            fix o' b assume "p \<in> set (fst (cut_rule in_par [] b stacked_par o' cs))"
            then show thesis by (rule that(2)) simp_all
          qed (use True in \<open>auto simp: complex_char_def intro: that(1)\<close>)
        next
          case False
          have "p \<in> set (fst (cut_rule in_par (tmp @ [c]) son_is_not stacked_par opr cs))"
          proof (cases in_par)
            case True
            from assms show ?thesis unfolding unfold by (simp only: no_open no_close True if_True if_False)
          next
            case out: False
            then have "c \<noteq> CHR ''!''" "\<not> (c = CHR ''&'' \<or> c = CHR ''|'')" using no_not False by simp_all
            with assms show ?thesis unfolding unfold by (simp only: no_open no_close out if_False)
          qed
          then show thesis
            by (rule that(2)) (use False no_open no_close in \<open>auto simp: complex_char_def\<close>)
        qed
      qed
    qed
  qed
qed

lemma cut_parts_length:
  "p \<in> set (fst (cut_rule in_par tmp son_is_not stacked_par opr cs)) \<Longrightarrow> length (fst p) \<le> length tmp + length cs"
proof (induction cs arbitrary: in_par tmp son_is_not stacked_par opr)
  case Nil
  then show ?case using strip_length[of tmp] by (auto split: if_splits)
next
  case (Cons c cs)
  from Cons.prems show ?case
  proof (cases rule: cut_step)
    case 1
    then show ?thesis using strip_length[of tmp] by simp
  next
    case 2
    from Cons.IH[OF 2(1)] 2(2) show ?thesis by simp
  qed
qed

text \<open>The first complex character is dropped, so every part is shorter than the pattern it was cut from.\<close>

lemma cut_parts_shorter:
  assumes "list_ex complex_char cs" "p \<in> set (fst (cut_rule False tmp son_is_not 0 opr cs))"
  shows "length (fst p) < length tmp + length cs"
  using assms
proof (induction cs arbitrary: tmp son_is_not opr)
  case (Cons c cs)
  from Cons.prems(2) show ?case
  proof (cases rule: cut_step)
    case 1
    then show ?thesis using strip_length[of tmp] by simp
  next
    case (2 in_par' tmp' son_is_not' stacked_par' opr')
    show ?thesis
    proof (cases "complex_char c")
      case True
      with cut_parts_length[OF 2(1)] 2(3) show ?thesis by simp
    next
      case False
      with 2(3) have "\<not> in_par'" "stacked_par' = 0" by simp_all
      with Cons.IH[of tmp' son_is_not' opr'] 2(1,2) Cons.prems(1) False show ?thesis by simp
    qed
  qed
qed simp

subsection \<open>Leaves\<close>

text \<open>What the configuration answers: the objects of a name, the lists that are filtered, and what the filters read.\<close>

record catalog =
  cg_find_host :: "string \<Rightarrow> nat option"
  cg_find_service :: "string \<Rightarrow> string \<Rightarrow> nat option"
  cg_hosts :: "nat list"
  cg_services :: "nat list"
  cg_host_name :: "nat \<Rightarrow> string"
  cg_service_description :: "nat \<Rightarrow> string"
  cg_host_of :: "nat \<Rightarrow> nat option"
  cg_hostgroups :: "nat \<Rightarrow> string list"
  cg_servicegroups :: "nat \<Rightarrow> string list"
  cg_tags :: "nat \<Rightarrow> string list"
  cg_labels :: "nat \<Rightarrow> string list"
  cg_regex :: "string \<Rightarrow> (string \<Rightarrow> bool) option"
  cg_bound_host :: string

text \<open>\<^verbatim>\<open>find_object\<close>: the object with the type it is a leaf of, or the error.\<close>

definition find_object :: "catalog \<Rightarrow> string \<Rightarrow> string + operand \<times> nat" where
  "find_object cg p =
     (let elts = split_on (CHR '','') p;
          host_name = strip (hd elts);
          host_name = (if host_name = [] then cg_bound_host cg else host_name)
      in if length elts > 1
         then let service_description = strip (elts ! 1) in
              case cg_find_service cg host_name service_description of
                Some s \<Rightarrow> Inr (Op_service, s)
              | None \<Rightarrow> Inl (''Business rule uses unknown service '' @ host_name @ ''/'' @ service_description)
         else case cg_find_host cg host_name of
                Some h \<Rightarrow> Inr (Op_host, h)
              | None \<Rightarrow> Inl (''Business rule uses unknown host '' @ host_name))"

text \<open>\<^verbatim>\<open>^([flags]+):(.*)\<close>\<close>

definition match_flags :: "string \<Rightarrow> string \<Rightarrow> (string \<times> string) option" where
  "match_flags flags s =
     (let (fs, rest) = span_while (\<lambda>c. c \<in> set flags) s
      in if fs \<noteq> [] \<and> has_prefix '':'' rest then Some (fs, takeWhile (\<lambda>c. c \<noteq> CHR 0x0A) (tl rest)) else None)"

definition host_flags :: string where "host_flags = ''grlt''"
definition service_flags :: string where "service_flags = ''grl''"

text \<open>The filters of \<^verbatim>\<open>shinken/util.py\<close>, on hosts and on services. One that compiles a regular expression is
  \<^term>\<open>None\<close> when the expression is invalid.\<close>

definition filter_host_by_name :: "catalog \<Rightarrow> string \<Rightarrow> nat \<Rightarrow> bool" where
  "filter_host_by_name cg n h \<longleftrightarrow> cg_host_name cg h = n"

definition filter_host_by_regex :: "catalog \<Rightarrow> string \<Rightarrow> (nat \<Rightarrow> bool) option" where
  "filter_host_by_regex cg regex = map_option (\<lambda>m h. m (cg_host_name cg h)) (cg_regex cg regex)"

definition filter_host_by_group :: "catalog \<Rightarrow> string \<Rightarrow> nat \<Rightarrow> bool" where
  "filter_host_by_group cg gr h \<longleftrightarrow> gr \<in> set (cg_hostgroups cg h)"

definition filter_host_by_tag :: "catalog \<Rightarrow> string \<Rightarrow> nat \<Rightarrow> bool" where
  "filter_host_by_tag cg tpl h \<longleftrightarrow> tpl \<in> set (map strip (cg_tags cg h))"

definition filter_host_by_bp_rule_label :: "catalog \<Rightarrow> string \<Rightarrow> nat \<Rightarrow> bool" where
  "filter_host_by_bp_rule_label cg label h \<longleftrightarrow> label \<in> set (cg_labels cg h)"

definition filter_service_by_name :: "catalog \<Rightarrow> string \<Rightarrow> nat \<Rightarrow> bool" where
  "filter_service_by_name cg n s \<longleftrightarrow> cg_service_description cg s = n"

definition filter_service_by_regex_name :: "catalog \<Rightarrow> string \<Rightarrow> (nat \<Rightarrow> bool) option" where
  "filter_service_by_regex_name cg regex = map_option (\<lambda>m s. m (cg_service_description cg s)) (cg_regex cg regex)"

definition filter_service_by_host_name :: "catalog \<Rightarrow> string \<Rightarrow> nat \<Rightarrow> bool" where
  "filter_service_by_host_name cg n s \<longleftrightarrow> cg_host_name cg s = n"

definition filter_service_by_regex_host_name :: "catalog \<Rightarrow> string \<Rightarrow> (nat \<Rightarrow> bool) option" where
  "filter_service_by_regex_host_name cg regex = map_option (\<lambda>m s. m (cg_host_name cg s)) (cg_regex cg regex)"

definition filter_service_by_hostgroup_name :: "catalog \<Rightarrow> string \<Rightarrow> nat \<Rightarrow> bool" where
  "filter_service_by_hostgroup_name cg gr s = 
     (case cg_host_of cg s of None \<Rightarrow> False | Some h \<Rightarrow> gr \<in> set (cg_hostgroups cg h))"

definition filter_service_by_host_tag_name :: "catalog \<Rightarrow> string \<Rightarrow> nat \<Rightarrow> bool" where
  "filter_service_by_host_tag_name cg tpl s = 
     (case cg_host_of cg s of None \<Rightarrow> False | Some h \<Rightarrow> tpl \<in> set (map strip (cg_tags cg h)))"

definition filter_service_by_servicegroup_name :: "catalog \<Rightarrow> string \<Rightarrow> nat \<Rightarrow> bool" where
  "filter_service_by_servicegroup_name cg gr s \<longleftrightarrow> gr \<in> set (cg_servicegroups cg s)"

definition filter_service_by_host_bp_rule_label :: "catalog \<Rightarrow> string \<Rightarrow> nat \<Rightarrow> bool" where
  "filter_service_by_host_bp_rule_label cg label s = 
     (case cg_host_of cg s of None \<Rightarrow> False | Some h \<Rightarrow> label \<in> set (cg_labels cg h))"

definition filter_service_by_bp_rule_label :: "catalog \<Rightarrow> string \<Rightarrow> nat \<Rightarrow> bool" where
  "filter_service_by_bp_rule_label cg label s \<longleftrightarrow> label \<in> set (cg_labels cg s)"

text \<open>The filter that the flags of an expression ask for; with these flags one of the branches always applies.\<close>

definition get_host_filters :: "catalog \<Rightarrow> string \<Rightarrow> (nat \<Rightarrow> bool) option" where
  "get_host_filters cg expr =
     (if expr = ''*'' then Some (\<lambda>_. True)
      else case match_flags host_flags expr of
        None \<Rightarrow> Some (filter_host_by_name cg expr)
      | Some (fs, expr) \<Rightarrow>
          if CHR ''g'' \<in> set fs then Some (filter_host_by_group cg expr)
          else if CHR ''r'' \<in> set fs then filter_host_by_regex cg expr
          else if CHR ''l'' \<in> set fs then Some (filter_host_by_bp_rule_label cg expr)
          else Some (filter_host_by_tag cg expr))"

definition get_srv_host_filters :: "catalog \<Rightarrow> string \<Rightarrow> (nat \<Rightarrow> bool) option" where
  "get_srv_host_filters cg expr =
     (if expr = ''*'' then Some (\<lambda>_. True)
      else case match_flags host_flags expr of
        None \<Rightarrow> Some (filter_service_by_host_name cg expr)
      | Some (fs, expr) \<Rightarrow>
          if CHR ''g'' \<in> set fs then Some (filter_service_by_hostgroup_name cg expr)
          else if CHR ''r'' \<in> set fs then filter_service_by_regex_host_name cg expr
          else if CHR ''l'' \<in> set fs then Some (filter_service_by_host_bp_rule_label cg expr)
          else Some (filter_service_by_host_tag_name cg expr))"

definition get_srv_service_filters :: "catalog \<Rightarrow> string \<Rightarrow> (nat \<Rightarrow> bool) option" where
  "get_srv_service_filters cg expr =
     (if expr = ''*'' then Some (\<lambda>_. True)
      else case match_flags service_flags expr of
        None \<Rightarrow> Some (filter_service_by_name cg expr)
      | Some (fs, expr) \<Rightarrow>
          if CHR ''g'' \<in> set fs then Some (filter_service_by_servicegroup_name cg expr)
          else if CHR ''r'' \<in> set fs then filter_service_by_regex_name cg expr
          else Some (filter_service_by_bp_rule_label cg expr))"

text \<open>\<^verbatim>\<open>expand_expression\<close>: the leaves for the items that pass the filters, or the error. Unpacking more than two
  parts raises.\<close>

definition leaf :: "operand \<Rightarrow> nat \<Rightarrow> dnode" where
  "leaf opr i = Dnode opr [Item i] [''0'', ''0'', ''0''] False False []"

definition expand_items :: "catalog \<Rightarrow> string \<Rightarrow> (operand \<times> nat list option) option" where
  "expand_items cg p =
     (let elts = map strip (split_on (CHR '','') p);
          elts = (if hd elts = [] then cg_bound_host cg # tl elts else elts)
      in case elts of
           [host_expr] \<Rightarrow> Some (Op_host, map_option (\<lambda>f. filter f (cg_hosts cg)) (get_host_filters cg host_expr))
         | [host_expr, service_expr] \<Rightarrow>
             Some (Op_service, do {
               f \<leftarrow> get_srv_host_filters cg host_expr;
               g \<leftarrow> get_srv_service_filters cg service_expr;
               Some (filter (\<lambda>s. f s \<and> g s) (cg_services cg)) })
         | _ \<Rightarrow> None)"

text \<open>The text of a regular expression's error is left out.\<close>

definition expand_expression :: "catalog \<Rightarrow> bool \<Rightarrow> string \<Rightarrow> (dnode list \<times> string list) option" where
  "expand_expression cg running p = do {
     (opr, items) \<leftarrow> expand_items cg p;
     let error = (case items of
          None \<Rightarrow> Some (''Business rule uses invalid regex '' @ p)
        | Some is \<Rightarrow> if is = [] then Some (''Business rule got an empty result for pattern '' @ p) else None);
     case error of
       Some e \<Rightarrow> if running then None else Some ([], [e])
     | None \<Rightarrow> Some (map (leaf opr) (case items of Some is \<Rightarrow> is | None \<Rightarrow> []), [])
   }"

text \<open>The two searches that tell an expression to expand: \<^verbatim>\<open>^([grlt]+|\*):\<close> and \<^verbatim>\<open>,\s*([grl]+:.*|\*)$\<close>. The pattern has
  been stripped, so the end is no newline.\<close>

fun suffixes_after :: "char \<Rightarrow> string \<Rightarrow> string list" where
  "suffixes_after c [] = []"
| "suffixes_after c (x # xs) = (if x = c then xs # suffixes_after c xs else suffixes_after c xs)"

definition to_expand :: "string \<Rightarrow> bool" where
  "to_expand p \<longleftrightarrow>
     match_flags host_flags p \<noteq> None \<or> has_prefix ''*:'' p \<or>
     list_ex (\<lambda>s. let s = dropWhile is_space s in
        s = ''*'' \<or> (match_flags service_flags s \<noteq> None \<and> CHR 0x0A \<notin> set s)) (suffixes_after (CHR '','') p)"

definition eval_simple_cor_pattern :: "catalog \<Rightarrow> bool \<Rightarrow> string \<Rightarrow> dnode option" where
  "eval_simple_cor_pattern cg running p =
     (let (opr, of_values, is_of_mul, p) = eval_xof_pattern p;
          not_value = has_prefix ''!'' p;
          p = (if not_value then tl p else p)
      in if to_expand p
         then do {
           (sons, errors) \<leftarrow> expand_expression cg running p;
           Some (Dnode (if opr = Op_of then Op_of else Op_and) sons (switch_zeros (length sons) of_values)
                   is_of_mul not_value errors)
         }
         else case find_object cg p of
                Inr (opr, i) \<Rightarrow> Some (Dnode opr [Item i] of_values is_of_mul not_value [])
              | Inl error \<Rightarrow>
                  if running then None else Some (Dnode Op_object [] of_values is_of_mul not_value [error]))"

subsection \<open>The parser\<close>

definition set_not :: "dnode \<Rightarrow> dnode option" where
  "set_not d = (case d of Dnode opr sons vs mul _ errors \<Rightarrow> Some (Dnode opr sons vs mul True errors) | _ \<Rightarrow> None)"

definition parts_of :: "string \<Rightarrow> (string \<times> bool) list \<times> operand \<times> bool" where
  "parts_of p = (case eval_xof_pattern p of (opr, _, _, rest) \<Rightarrow> cut_rule False [] False 0 opr rest)"

definition complex_pattern :: "string \<Rightarrow> bool" where
  "complex_pattern p \<longleftrightarrow> list_ex complex_char p"

lemma dropWhile_mono: "length s \<le> n \<Longrightarrow> length (dropWhile P s) \<le> n"
  using length_dropWhile_le[of P s] by linarith

lemma optional_char_length: "length (snd (optional_char x s)) \<le> length s"
  by (simp add: optional_char_def)

lemma xof_number_length: "length (snd (snd (xof_number s))) \<le> length s"
  unfolding xof_number_def span_while_def Let_def case_prod_beta snd_conv
  by (rule order.trans[OF optional_char_length], rule dropWhile_mono, simp add: optional_char_length)

lemma xof_rest_length: "xof_rest s = Some r \<Longrightarrow> length r \<le> length s"
proof -
  assume r: "xof_rest s = Some r"
  let ?t = "dropWhile (\<lambda>c. c = CHR '' '') s"
  have "length (takeWhile (\<lambda>c. c \<noteq> CHR 0x0A) ?t) \<le> length s"
    by (rule order.trans[OF length_takeWhile_le length_dropWhile_le])
  with r show ?thesis
    by (cases s) (auto simp: xof_rest_def span_while_def Let_def split: if_splits)
qed

lemma match_xof_length: "match_xof p = Some (gs, rest) \<Longrightarrow> length rest + 3 \<le> length p"
proof -
  assume m: "match_xof p = Some (gs, rest)"
  let ?n = "\<lambda>s. snd (snd (xof_number s))" and ?c = "dropWhile (\<lambda>c. c = CHR '','')"
  let ?s = "dropWhile (\<lambda>c. c = CHR '' '') (?n (?c (?n (?c (?n p)))))"
  have s: "length ?s \<le> length p"
    by (intro dropWhile_mono order.trans[OF xof_number_length])  simp
  from m have "has_prefix ''of:'' ?s" "xof_rest (drop 3 ?s) = Some rest"
    by (auto simp: match_xof_def Let_def case_prod_beta bind_eq_Some_conv split: if_splits)
  with s xof_rest_length[of "drop 3 ?s" rest] show ?thesis
    by (auto simp: has_prefix_def dest: arg_cong[of _ _ length])
qed

lemma eval_xof_length:
  assumes "eval_xof_pattern p = (opr, vs, mul, rest)"
  shows "rest = p \<or> length rest + 3 \<le> length p"
  using assms match_xof_length[of p] by (auto simp: eval_xof_pattern_def split: option.splits prod.splits if_splits)

lemma part_length:
  assumes "complex_pattern p" "x \<in> set (fst (parts_of p))"
  shows "length (fst x) < length p"
proof -
  obtain opr vs mul rest where x: "eval_xof_pattern p = (opr, vs, mul, rest)" by (metis prod_cases4)
  from assms(2) x have t: "x \<in> set (fst (cut_rule False [] False 0 opr rest))" by (simp add: parts_of_def)
  from eval_xof_length[OF x] show ?thesis
  proof
    assume "rest = p"
    with cut_parts_shorter[OF _ t] assms(1) show ?thesis by (simp add: complex_pattern_def)
  next
    assume "length rest + 3 \<le> length p"
    with cut_parts_length[OF t] show ?thesis by simp
  qed
qed

text \<open>\<^verbatim>\<open>eval_cor_pattern\<close>, \<^verbatim>\<open>eval_complex_cor_pattern\<close>: \<^verbatim>\<open>running\<close> says that the rule is evaluated again, when an error of
  a leaf is raised instead of kept on its node.\<close>

function eval_cor_pattern :: "catalog \<Rightarrow> bool \<Rightarrow> string \<Rightarrow> dnode option" where
  "eval_cor_pattern cg running p =
     (if complex_pattern (strip p)
      then do {
        sons \<leftarrow> those (map (\<lambda>x. do {
            d \<leftarrow> eval_cor_pattern cg running (fst x);
            if snd x then set_not d else Some d }) (fst (parts_of (strip p))));
        let (opr, mixed) = snd (parts_of (strip p));
        let (_, of_values, is_of_mul, _) = eval_xof_pattern (strip p);
        Some (if mixed then NoNode
              else Dnode opr sons (switch_zeros (length sons) of_values) is_of_mul False [])
      }
      else eval_simple_cor_pattern cg running (strip p))"
  by pat_completeness auto
termination
proof (relation "measure (\<lambda>(cg, running, p). length p)", goal_cases)
  case (2 cg running p x)
  then show ?case using part_length[of "strip p" x] strip_length[of p] by simp
qed simp

declare eval_cor_pattern.simps [simp del]

text \<open>C24: every part that is cut out of a complex expression is shorter than the expression, which is
  what ends the recursion of the parser: an operator or a parenthesis is dropped, or the head of an X of rule.\<close>

theorem parts_shorter:
  assumes "complex_pattern p" "(t, b) \<in> set (fst (parts_of p))"
  shows "length t < length p"
  using part_length[OF assms] by simp

subsection \<open>What a rule computes\<close>

lemma those_Some: "those xs = Some ys \<longleftrightarrow> xs = map Some ys"
  by (induction xs arbitrary: ys) (auto split: option.splits simp: Cons_eq_map_conv)

lemma those_None: "those xs = None \<longleftrightarrow> None \<in> set xs"
  by (induction xs) (auto split: option.splits)

definition known_state :: "int \<Rightarrow> bool" where
  "known_state st \<longleftrightarrow> 0 \<le> st \<and> st \<le> 3"

lemma reverse_known: "known_state st \<Longrightarrow> known_state (reverse_if b st)"
  by (auto simp: known_state_def reverse_if_def)

lemma list_min_mem: "list_min xs = Some m \<Longrightarrow> m \<in> set xs"
  by (auto dest: list_min_Some)

lemma worst_mem: "worst_state states = Some st \<Longrightarrow> st \<in> set states"
  by (auto simp: worst_state_def split: if_splits)

lemma xof_state_cases:
  "xof_node_state not_value mul vs states = Some st \<Longrightarrow>
     \<exists>s. st = reverse_if not_value s \<and> (s \<in> {0, 1, 2} \<or> worst_state states = Some s)"
  by (auto simp: xof_node_state_def Let_def bind_eq_Some_conv split: if_splits)


text \<open>De Morgan. Turning the negation of a son around reverses its state, a host apart: the state of a host is made
  CRITICAL before the negation looks for DOWN.\<close>

fun negate :: "dnode \<Rightarrow> dnode" where
  "negate (Dnode opr sons vs mul not_value errors) = Dnode opr sons vs mul (\<not> not_value) errors"
| "negate d = d"

lemma reverse_reverse [simp]: "get_reverse_state (get_reverse_state st) = st"
  by simp

definition negatable :: "dnode \<Rightarrow> bool" where
  "negatable d \<longleftrightarrow> (\<exists>opr sons vs mul nv errors. d = Dnode opr sons vs mul nv errors \<and> opr \<noteq> Op_host)"

lemma negatable_iff [simp]: "negatable (Dnode opr sons vs mul nv errors) \<longleftrightarrow> opr \<noteq> Op_host"
  by (auto simp: negatable_def)

lemma reverse_if_not: "map_option (reverse_if (\<not> nv)) x = map_option get_reverse_state (map_option (reverse_if nv) x)"
  by (cases x) (simp_all add: reverse_if_def del: get_reverse_state.simps)

lemma get_state_negate:
  assumes "negatable d"
  shows "get_state hard (negate d) = map_option get_reverse_state (get_state hard d)"
proof -
  obtain opr sons vs mul nv errors where d: "d = Dnode opr sons vs mul nv errors" "opr \<noteq> Op_host"
    using assms by (auto simp: negatable_def)
  show ?thesis
  proof (cases "is_leaf opr")
    case True
    with d show ?thesis
      by (auto simp: is_leaf_def simple_node_state_def Let_def split: list.splits dnode.splits)
  next
    case False
    have x: "xof_node_state (\<not> nv) mul vs ss = map_option get_reverse_state (xof_node_state nv mul vs ss)" for ss
      unfolding xof_node_state_def reverse_if_not[of nv] by (simp add: Let_def map_option_bind comp_def)
    show ?thesis
      using False d unfolding or_node_state_def and_node_state_def
      by (cases "those (map (get_state hard) sons)") (simp_all add: or_node_state_def and_node_state_def x reverse_if_not[of nv])
  qed
qed

lemma min_reverse:
  assumes "states \<noteq> []" "set states \<subseteq> {0, 1, 2}" "list_min states = Some m"
  shows "worst_state (map get_reverse_state states) = Some (get_reverse_state m)"
proof -
  have m: "m \<in> set states" "\<forall>x \<in> set states. m \<le> x" using list_min_Some[OF assms(3)] by auto
  then have m3: "m \<in> {0, 1, 2}" using assms(2) by auto
  show ?thesis
  proof (cases "2 \<in> get_reverse_state ` set states")
    case True
    then obtain x where "x \<in> set states" "get_reverse_state x = 2" by force
    then have "x = 0" using assms(2) by (auto split: if_splits)
    with \<open>x \<in> set states\<close> m(2) m3 have "m = 0" by fastforce
    with True show ?thesis by (simp add: worst_state_def)
  next
    case False
    have "0 \<notin> set states"
    proof
      assume "0 \<in> set states"
      then have "get_reverse_state 0 \<in> get_reverse_state ` set states" by (rule imageI)
      with False show False by simp
    qed
    with assms(2) have s: "set states \<subseteq> {1, 2}" by auto
    have "Max (get_reverse_state ` set states) = get_reverse_state m"
    proof (rule Max_eqI)
      show "y \<le> get_reverse_state m" if "y \<in> get_reverse_state ` set states" for y
        using that s m by fastforce
    qed (use m in auto)
    with False assms(1) show ?thesis by (simp add: worst_state_def del: get_reverse_state.simps)
  qed
qed


text \<open>A host that is DOWN stays CRITICAL under a negation.\<close>

theorem not_down_host:
  "get_state (\<lambda>i. 1) (negate (leaf Op_host i)) = Some 2 \<and> get_state (\<lambda>i. 1) (leaf Op_host i) = Some 2"
  by (simp add: leaf_def is_leaf_def simple_node_state_def)

text \<open>An expression that mixes the operators leaves a son that is no node. The check of the
  configuration takes the rule for valid, and its evaluation raises.\<close>

theorem mixed_rule_slips:
  assumes "NoNode \<in> set sons" "\<forall>d \<in> set sons. fst (is_valid d)" "\<not> is_leaf opr"
  shows "fst (is_valid (Dnode opr sons vs mul nv errors)) \<and> get_state hard (Dnode opr sons vs mul nv errors) = None"
proof
  have "filter (\<lambda>(ok, errs). \<not> ok) (map is_valid sons) = []"
    using assms(2) by (auto simp: filter_empty_conv)
  then show "fst (is_valid (Dnode opr sons vs mul nv errors))" using assms(1) by (auto simp: Let_def)
  have "None \<in> set (map (get_state hard) sons)" using assms(1) by (auto intro!: image_eqI[of _ _ NoNode])
  then have "those (map (get_state hard) sons) = None" by (simp add: those_None del: set_map)
  with assms(3) show "get_state hard (Dnode opr sons vs mul nv errors) = None" by simp
qed

subsection \<open>One of is or\<close>

lemma digit_of: "n < 10 \<Longrightarrow> digit (char_of (48 + n)) = Some (int n) \<and> char_of (48 + n) \<noteq> CHR ''_'' \<and>
    \<not> is_space (char_of (48 + n)) \<and> char_of (48 + n) \<notin> {CHR ''-'', CHR ''+'', CHR ''%''}"
proof -
  have "\<forall>n \<in> {0..<10::nat}. digit (char_of (48 + n)) = Some (int n) \<and> char_of (48 + n) \<noteq> CHR ''_'' \<and>
    \<not> is_space (char_of (48 + n)) \<and> char_of (48 + n) \<notin> {CHR ''-'', CHR ''+'', CHR ''%''}" by code_simp
  then show "n < 10 \<Longrightarrow> ?thesis" by simp
qed

lemma digits_show:
  "digits (show_nat n @ cs) v k sep =
     digits cs (v * 10 ^ length (show_nat n) + int n) (k + length (show_nat n)) False"
proof (induction n arbitrary: cs v k sep rule: show_nat.induct)
  case (1 n)
  show ?case
  proof (cases "n < 10")
    case True
    then show ?thesis using digit_of[of n] by (simp add: show_nat.simps[of n] ac_simps)
  next
    case False
    have "v * 10 ^ Suc l + int n = (v * 10 ^ l + int (n div 10)) * 10 + int (n mod 10)" for l
    proof -
      have "int n = int (n div 10) * 10 + int (n mod 10)" by presburger
      then show ?thesis by (simp add: algebra_simps)
    qed
    with False 1[OF False] digit_of[of "n mod 10"] show ?thesis
      by (simp add: show_nat.simps[of n] ac_simps)
  qed
qed

lemma show_nat_not_Nil [simp]: "show_nat n \<noteq> []"
  by (simp add: show_nat.simps[of n])

lemma show_nat_chars: "c \<in> set (show_nat n) \<Longrightarrow> \<not> is_space c \<and> c \<notin> {CHR ''-'', CHR ''+'', CHR ''%''}"
proof (induction n rule: show_nat.induct)
  case (1 n)
  then show ?case
    using digit_of[of n] digit_of[of "n mod 10"] by (cases "n < 10") (auto simp: show_nat.simps[of n])
qed

lemma int_of_show: "int_of_text (show_nat n) = Some (int n)"
proof -
  have s: "strip (show_nat n) = show_nat n"
  proof -
    have "dropWhile is_space (show_nat n) = show_nat n" "dropWhile is_space (rev (show_nat n)) = rev (show_nat n)"
      using show_nat_chars[of "hd (show_nat n)" n] show_nat_chars[of "last (show_nat n)" n]
      by (simp_all add: dropWhile_eq_self_iff hd_rev)
    then show ?thesis by (simp add: strip_def)
  qed
  have "split_sign (show_nat n) = (1, show_nat n)"
    using show_nat_chars[of _ n] by (cases "show_nat n") (auto simp: split_sign_def)
  with s digits_show[of n "[]" 0 0 True] show ?thesis
    by (simp add: int_of_text_def whole_def)
qed

lemma show_no_percent: "\<not> ends_with (show_nat n) (CHR ''%'')"
  using show_nat_chars[of "last (show_nat n)" n] by (auto simp: ends_with_def)

lemma get_state_for_show: "get_state_for tot real_nb (show_nat n) = Some (real_nb \<ge> int n)"
  by (simp add: get_state_for_def show_no_percent int_of_show)

lemma count_all: "set states \<subseteq> {0, 1, 2} \<Longrightarrow>
    count_state 0 states + count_state 1 states + count_state 2 states = int (length states)"
  by (induction states) (auto simp: count_state_def)

lemma count_pos: "count_state st states \<ge> 1 \<longleftrightarrow> st \<in> set states" "count_state st states \<ge> 0"
  by (auto simp: count_state_def Suc_le_eq filter_empty_conv length_greater_0_conv simp flip: of_nat_Suc)

lemma one_of_states:
  assumes "states \<noteq> []" "set states \<subseteq> {0, 1, 2}"
  shows "xof_node_state nv False (switch_zeros (length states) [''1'', ''0'', ''0'']) states = or_node_state nv states"
proof -
  obtain m where m: "list_min states = Some m" using list_min_ex[OF assms(1)] by blast
  note mem = list_min_Some[OF m]
  have one: "get_state_for tot n ''1'' = Some (n \<ge> 1)" for tot n
    using get_state_for_show[of tot n 1] by (simp add: show_nat.simps) code_simp
  have c2: "count_state 2 states \<ge> int (length states) \<longleftrightarrow> m = 2"
    using count_all[OF assms(2)] count_pos[of 0 states] count_pos[of 1 states] mem assms(2)
    by (smt (verit) insertE singletonD subsetD)
  have c1: "count_state 1 states + count_state 2 states \<ge> int (length states) \<longleftrightarrow> m \<noteq> 0"
    using count_all[OF assms(2)] count_pos[of 0 states] mem assms(2)
    by (smt (verit) insertE singletonD subsetD)
  have c0: "count_state 0 states \<ge> 1 \<longleftrightarrow> m = 0"
    using count_pos(1)[of 0 states] mem assms(2) by (smt (verit) insertE singletonD subsetD)
  have "m \<in> {0, 1, 2}" using mem assms(2) by auto
  then show ?thesis
    unfolding xof_node_state_def or_node_state_def switch_zeros_def m Let_def
    by (auto simp: one get_state_for_show c0 c1 c2)
qed

text \<open>Over sons in the states OK, WARNING and CRITICAL, \<^verbatim>\<open>1 of:\<close> computes the same state as the
  disjunction.\<close>

theorem one_of_is_or:
  assumes "sons \<noteq> []" "\<forall>d \<in> set sons. get_state hard d \<in> {Some 0, Some 1, Some 2}"
  shows "get_state hard (Dnode Op_of sons (switch_zeros (length sons) [''1'', ''0'', ''0'']) False nv errors) =
         get_state hard (Dnode Op_or sons vs mul nv errors)"
proof -
  define states where "states = map (the \<circ> get_state hard) sons"
  have states: "map (get_state hard) sons = map Some states" "set states \<subseteq> {0, 1, 2}" "states \<noteq> []" "length states = length sons"
    using assms by (auto simp: states_def)
  have "those (map (get_state hard) sons) = Some states" by (simp add: those_Some states(1))
  with one_of_states[OF states(3,2), of nv] states(4) show ?thesis by (simp add: is_leaf_def)
qed

subsection \<open>Examples\<close>

definition two_hosts :: catalog where
  "two_hosts = \<lparr>cg_find_host = (\<lambda>n. if n = ''a'' then Some 0 else if n = ''b'' then Some 1 else None),
     cg_find_service = (\<lambda>h s. if h = ''a'' \<and> s = ''web'' then Some 2 else None), cg_hosts = [0, 1], cg_services = [2],
     cg_host_name = (\<lambda>i. if i = 1 then ''b'' else ''a''), cg_service_description = (\<lambda>_. ''web''),
     cg_host_of = (\<lambda>i. if i = 2 then Some 0 else None), cg_hostgroups = (\<lambda>_. [''linux'']), cg_servicegroups = (\<lambda>_. []),
     cg_tags = (\<lambda>_. []), cg_labels = (\<lambda>_. []), cg_regex = (\<lambda>_. None), cg_bound_host = ''a''\<rparr>"

lemma parser_examples:
  "eval_cor_pattern two_hosts False ''a & (b | a,web)'' =
     Some (Dnode Op_and [leaf Op_host 0, Dnode Op_or [leaf Op_host 1, leaf Op_service 2] [''2'', ''2'', ''2''] False False []]
        [''2'', ''2'', ''2''] False False [])"
  "eval_cor_pattern two_hosts False ''1 of: g:linux'' =
     Some (Dnode Op_of [leaf Op_host 0, leaf Op_host 1] [''1'', ''2'', ''2''] False False [])"
  "eval_cor_pattern two_hosts False ''!(a | b) & c'' =
     Some (Dnode Op_and [Dnode Op_or [leaf Op_host 0, leaf Op_host 1] [''2'', ''2'', ''2''] False True [],
        Dnode Op_object [] [''0'', ''0'', ''0''] False False [''Business rule uses unknown host c'']] [''2'', ''2'', ''2''] False False [])"
  "eval_cor_pattern two_hosts True ''a & c'' = None"
  by code_simp+

theorem parts_shorter_witness:
  "length ''(b | a)'' < length ''a & ((b | a))'' \<and> length (fst (hd (fst (parts_of ''a & b'')))) < length ''a & b''"
proof
  have "complex_pattern ''a & b''" "hd (fst (parts_of ''a & b'')) \<in> set (fst (parts_of ''a & b''))" by code_simp+
  from parts_shorter[OF this(1), of "fst (hd (fst (parts_of ''a & b'')))" "snd (hd (fst (parts_of ''a & b'')))"] this(2)
  show "length (fst (hd (fst (parts_of ''a & b'')))) < length ''a & b''" by simp
qed simp

definition example_rule :: dnode where
  "example_rule = Dnode Op_or [leaf Op_service 2, leaf Op_service 3] [''2'', ''2'', ''2''] False True []"



theorem one_of_is_or_witness:
  "get_state (\<lambda>i. if i = 2 then 2 else 1)
      (Dnode Op_of [leaf Op_service 2, leaf Op_service 3]
         (switch_zeros (length [leaf Op_service 2, leaf Op_service 3]) [''1'', ''0'', ''0'']) False True []) =
   get_state (\<lambda>i. if i = 2 then 2 else 1) example_rule"
  unfolding example_rule_def
  by (rule one_of_is_or) (simp_all add: leaf_def is_leaf_def simple_node_state_def)

theorem mixed_rule_slips_witness:
  "\<exists>sons vs. eval_cor_pattern two_hosts False ''a & (b & a | b)'' = Some (Dnode Op_and sons vs False False []) \<and>
     fst (is_valid (Dnode Op_and sons vs False False [])) \<and> get_state (\<lambda>i. 0) (Dnode Op_and sons vs False False []) = None"
proof -
  have "eval_cor_pattern two_hosts False ''a & (b & a | b)'' =
      Some (Dnode Op_and [leaf Op_host 0, NoNode] [''2'', ''2'', ''2''] False False [])" by code_simp
  moreover have "NoNode \<in> set [leaf Op_host 0, NoNode]" "\<forall>d \<in> set [leaf Op_host 0, NoNode]. fst (is_valid d)" "\<not> is_leaf Op_and"
    by (simp_all add: leaf_def is_leaf_def)
  ultimately show ?thesis using mixed_rule_slips by blast
qed

end
