(* ===== verification/Satellites.thy ===== *)
theory Satellites
  imports Texts "HOL-Library.AList"
begin

text \<open>
  The links of the arbiter to the other daemons (\<^verbatim>\<open>shinken/objects/satellitelink.py\<close> and its subclasses
  \<^verbatim>\<open>schedulerlink.py\<close>, \<^verbatim>\<open>receiverlink.py\<close>, \<^verbatim>\<open>arbiterlink.py\<close>): when a daemon is alive and reachable, and the requests that
  are sent to it.

  The network is a function of everything that was asked before: a request is appended to the history, and the
  function gives the answer. A method takes the link and the history and returns both. An exception that the
  method does not catch is \<^term>\<open>None\<close>. Addresses, ports and the static parts of what is sent are left out.
\<close>

subsection \<open>Requests and answers\<close>

type_synonym lid = nat
type_synonym cid = int

datatype link_type =
  Scheduler_link | Arbiter_link | Reactionner_link | Poller_link | Broker_link | Receiver_link

text \<open>What a satellite is told of a scheduler (\<^verbatim>\<open>SchedulerLink.give_satellite_cfg\<close>), and the configuration of a
  satellite: the schedulers it works for, the arbiters, and for a broker the other satellites.\<close>

record sched_cfg =
  sg_instance_id :: lid
  sg_active :: bool
  sg_push_flavor :: int

record sat_cfg =
  sc_schedulers :: "(cid \<times> sched_cfg option) list"
  sc_arbiters :: "lid list"
  sc_pollers :: "lid list"
  sc_reactionners :: "lid list"
  sc_receivers :: "lid list"

datatype request =
  Ping | Wait_new_conf | Have_conf | Have_this_conf | Got_conf | Remove_from_conf cid | What_i_managed
  | Get_external_commands | Do_not_run
  | Put_conf_part cid int "lid list" "lid list" | Put_sat_conf sat_cfg | Put_whole_conf
  | Put_broks "string list" | Put_external_commands "string list" | Put_host_names cid "string list"

text \<open>An answer is an \<^verbatim>\<open>HTTPException\<close> or bytes: a text, a pickled object, or bytes that are neither.\<close>

datatype py_value = Py_bool bool | Py_dict "(string \<times> int) list" | Py_other

datatype body = Text string | Pickled py_value | Junk

datatype answer = Http_exception | Reply body

type_synonym history = "(lid \<times> request) list"
type_synonym network = "history \<Rightarrow> answer"

definition ask :: "network \<Rightarrow> lid \<Rightarrow> request \<Rightarrow> history \<Rightarrow> answer \<times> history" where
  "ask net i req h = (let h' = h @ [(i, req)] in (net h', h'))"

text \<open>\<^verbatim>\<open>deserialize\<close> raises on bytes that were not pickled.\<close>

definition deserialize :: "body \<Rightarrow> py_value option" where
  "deserialize b = (case b of Pickled v \<Rightarrow> Some v | _ \<Rightarrow> None)"

subsection \<open>The link\<close>

text \<open>A status brok keeps the attributes that change.\<close>

record link_status =
  ls_alive :: bool
  ls_reachable :: bool
  ls_attempt :: int
  ls_last_check :: int

text \<open>\<^verbatim>\<open>sl_conf\<close>, \<^verbatim>\<open>sl_push_flavor\<close> and \<^verbatim>\<open>sl_external_commands\<close> are attributes of a scheduler, \<^verbatim>\<open>sl_need_conf\<close> of a scheduler
  or a receiver. \<^verbatim>\<open>sl_con\<close> says that there is a connection object, which \<^verbatim>\<open>create_connection\<close> makes without asking
  the network.\<close>

record satlink =
  sl_type :: link_type
  sl_spare :: bool
  sl_manage_sub_realms :: bool
  sl_manage_arbiters :: bool
  sl_check_interval :: int
  sl_max_check_attempts :: int
  sl_broks_batch :: int
  sl_con :: bool
  sl_alive :: bool
  sl_reachable :: bool
  sl_attempt :: int
  sl_last_check :: int
  sl_managed_confs :: "(cid \<times> int) list"
  sl_broks :: "link_status list"
  sl_active :: bool
  sl_cfg :: sat_cfg
  sl_conf :: "cid option"
  sl_need_conf :: bool
  sl_push_flavor :: int
  sl_external_commands :: "string list"

definition get_update_status_brok :: "satlink \<Rightarrow> link_status" where
  "get_update_status_brok l =
     \<lparr>ls_alive = sl_alive l, ls_reachable = sl_reachable l, ls_attempt = sl_attempt l, ls_last_check = sl_last_check l\<rparr>"

definition raise_status_brok :: "satlink \<Rightarrow> satlink" where
  "raise_status_brok l = l\<lparr>sl_broks := sl_broks l @ [get_update_status_brok l]\<rparr>"

definition get_all_broks :: "satlink \<Rightarrow> link_status list \<times> satlink" where
  "get_all_broks l = (sl_broks l, l\<lparr>sl_broks := []\<rparr>)"

definition create_connection :: "satlink \<Rightarrow> satlink" where
  "create_connection l = l\<lparr>sl_con := True\<rparr>"

definition connected :: "satlink \<Rightarrow> satlink" where
  "connected l = (if sl_con l then l else create_connection l)"

definition drop_connection :: "satlink \<Rightarrow> satlink" where
  "drop_connection l = l\<lparr>sl_con := False\<rparr>"

definition set_alive :: "satlink \<Rightarrow> satlink" where
  "set_alive l =
     (let was_alive = sl_alive l;
          l = l\<lparr>sl_alive := True, sl_attempt := 0, sl_reachable := True\<rparr>
      in if was_alive then l else raise_status_brok l)"

definition set_dead :: "satlink \<Rightarrow> satlink" where
  "set_dead l =
     (let was_alive = sl_alive l;
          l = l\<lparr>sl_alive := False, sl_con := False\<rparr>
      in if was_alive then raise_status_brok l else l)"

definition add_failed_check_attempt :: "satlink \<Rightarrow> satlink" where
  "add_failed_check_attempt l =
     (let l = l\<lparr>sl_reachable := False, sl_attempt := min (sl_attempt l + 1) (sl_max_check_attempts l)\<rparr>
      in if sl_attempt l = sl_max_check_attempts l then set_dead l else l)"

definition known_conf_managed_push :: "cid \<Rightarrow> int \<Rightarrow> satlink \<Rightarrow> satlink" where
  "known_conf_managed_push c flavor l = l\<lparr>sl_managed_confs := AList.update c flavor (sl_managed_confs l)\<rparr>"

definition do_i_manage :: "satlink \<Rightarrow> cid \<Rightarrow> int \<Rightarrow> bool" where
  "do_i_manage l c flavor \<longleftrightarrow> map_of (sl_managed_confs l) c = Some flavor"

definition sched_give_satellite_cfg :: "lid \<Rightarrow> satlink \<Rightarrow> sched_cfg" where
  "sched_give_satellite_cfg i l =
     \<lparr>sg_instance_id = i, sg_active = (sl_conf l \<noteq> None), sg_push_flavor = sl_push_flavor l\<rparr>"

definition prepare_for_conf :: "satlink \<Rightarrow> satlink" where
  "prepare_for_conf l =
     l\<lparr>sl_cfg := \<lparr>sc_schedulers = [], sc_arbiters = [], sc_pollers = [], sc_reactionners = [], sc_receivers = []\<rparr>\<rparr>"

subsection \<open>Requests of a link\<close>

text \<open>\<^verbatim>\<open>put_conf\<close> catches every exception; the answers are not looked at.\<close>

definition put_conf :: "network \<Rightarrow> lid \<Rightarrow> request \<Rightarrow> satlink \<Rightarrow> history \<Rightarrow> bool \<times> satlink \<times> history" where
  "put_conf net i req l h =
     (let l = connected l; (a, h) = ask net i Ping h in
      if a = Http_exception then (False, drop_connection l, h)
      else let (a, h) = ask net i req h in
           if a = Http_exception then (False, drop_connection l, h) else (True, l, h))"

definition ping :: "network \<Rightarrow> lid \<Rightarrow> satlink \<Rightarrow> history \<Rightarrow> (satlink \<times> history) option" where
  "ping net i l h =
     (let l = connected l; (a, h) = ask net i Ping h in
      case a of
        Http_exception \<Rightarrow> Some (add_failed_check_attempt l, h)
      | Reply (Text t) \<Rightarrow> Some (if t = ''pong'' then set_alive l else add_failed_check_attempt l, h)
      | Reply _ \<Rightarrow> None)"

definition wait_new_conf :: "network \<Rightarrow> lid \<Rightarrow> satlink \<Rightarrow> history \<Rightarrow> bool \<times> satlink \<times> history" where
  "wait_new_conf net i l h =
     (let l = connected l; (a, h) = ask net i Wait_new_conf h in
      if a = Http_exception then (False, drop_connection l, h) else (True, l, h))"

text \<open>\<^verbatim>\<open>have_conf\<close> asks whether the answer is a \<^verbatim>\<open>bool\<close>. It is the bytes that \<^verbatim>\<open>con.get\<close> returns, which \<^verbatim>\<open>got_conf\<close> unpickles
  and this method does not, so the test fails on every answer.\<close>

definition have_conf :: "network \<Rightarrow> lid \<Rightarrow> bool \<Rightarrow> satlink \<Rightarrow> history \<Rightarrow> bool \<times> satlink \<times> history" where
  "have_conf net i with_magic_hash l h =
     (let l = connected l; (a, h) = ask net i (if with_magic_hash then Have_this_conf else Have_conf) h in
      case a of
        Http_exception \<Rightarrow> (False, drop_connection l, h)
      | Reply _ \<Rightarrow> (False, l, h))"

definition got_conf :: "network \<Rightarrow> lid \<Rightarrow> satlink \<Rightarrow> history \<Rightarrow> (bool \<times> satlink \<times> history) option" where
  "got_conf net i l h =
     (let l = connected l; (a, h) = ask net i Got_conf h in
      case a of
        Http_exception \<Rightarrow> Some (False, drop_connection l, h)
      | Reply r \<Rightarrow> map_option (\<lambda>v. (v = Py_bool True, l, h)) (deserialize r))"

definition remove_from_conf :: "network \<Rightarrow> lid \<Rightarrow> cid \<Rightarrow> satlink \<Rightarrow> history \<Rightarrow> bool \<times> satlink \<times> history" where
  "remove_from_conf net i c l h =
     (let l = connected l; (a, h) = ask net i (Remove_from_conf c) h in
      if a = Http_exception then (False, drop_connection l, h) else (True, l, h))"

text \<open>The keys of the answer are turned into numbers; a key that is no number is left out.\<close>

definition clean_managed :: "(string \<times> int) list \<Rightarrow> (cid \<times> int) list" where
  "clean_managed tab =
     fold (\<lambda>(k, v) t. case int_of_text k of None \<Rightarrow> t | Some c \<Rightarrow> AList.update c v t) tab []"

definition update_managed_list :: "network \<Rightarrow> lid \<Rightarrow> satlink \<Rightarrow> history \<Rightarrow> (satlink \<times> history) option" where
  "update_managed_list net i l h =
     (let l = connected l; (a, h) = ask net i What_i_managed h in
      case a of
        Http_exception \<Rightarrow> Some (drop_connection l\<lparr>sl_managed_confs := []\<rparr>, h)
      | Reply r \<Rightarrow> (case deserialize r of
            None \<Rightarrow> None
          | Some (Py_dict tab) \<Rightarrow> Some (l\<lparr>sl_managed_confs := clean_managed tab\<rparr>, h)
          | Some _ \<Rightarrow> Some (drop_connection l\<lparr>sl_managed_confs := []\<rparr>, h)))"

definition update_infos :: "network \<Rightarrow> clock \<Rightarrow> lid \<Rightarrow> satlink \<Rightarrow> history \<Rightarrow> (satlink \<times> history) option" where
  "update_infos net now i l h =
     (if now - sl_last_check l < sl_check_interval l then Some (l, h)
      else do {
        (l, h) \<leftarrow> ping net i (l\<lparr>sl_last_check := now\<rparr>) h;
        (l, h) \<leftarrow> update_managed_list net i l h;
        Some (raise_status_brok l, h)
      })"

definition push_broks :: "network \<Rightarrow> lid \<Rightarrow> string list \<Rightarrow> satlink \<Rightarrow> history \<Rightarrow> bool \<times> satlink \<times> history" where
  "push_broks net i broks = put_conf net i (Put_broks broks)"

text \<open>\<^verbatim>\<open>get_external_commands\<close> tests \<^verbatim>\<open>isinstance(tab, list)\<close> where no \<^verbatim>\<open>tab\<close> exists: the \<^verbatim>\<open>NameError\<close> is caught as any
  other exception is.\<close>

definition get_external_commands :: "network \<Rightarrow> lid \<Rightarrow> satlink \<Rightarrow> history \<Rightarrow> string list \<times> satlink \<times> history" where
  "get_external_commands net i l h =
     (let l = connected l; (a, h) = ask net i Ping h in
      if a = Http_exception then ([], drop_connection l, h)
      else let (a, h) = ask net i Get_external_commands h in
           case a of
             Http_exception \<Rightarrow> ([], drop_connection l, h)
           | Reply r \<Rightarrow> (case deserialize r of None \<Rightarrow> ([], drop_connection l, h) | Some _ \<Rightarrow> ([], drop_connection l, h)))"

definition do_not_run :: "network \<Rightarrow> lid \<Rightarrow> satlink \<Rightarrow> history \<Rightarrow> bool \<times> satlink \<times> history" where
  "do_not_run net i l h =
     (let l = connected l; (a, h) = ask net i Do_not_run h in
      if a = Http_exception then (False, drop_connection l, h) else (True, l, h))"

definition run_external_commands_of :: "network \<Rightarrow> lid \<Rightarrow> string list \<Rightarrow> satlink \<Rightarrow> history \<Rightarrow> satlink \<times> history" where
  "run_external_commands_of net i commands l h =
     (let l = connected l in
      if \<not> sl_alive l then (l, h)
      else let (a, h) = ask net i (Put_external_commands commands) h in
           (if a = Http_exception then drop_connection l else l, h))"

definition push_host_names :: "network \<Rightarrow> lid \<Rightarrow> cid \<Rightarrow> string list \<Rightarrow> satlink \<Rightarrow> history \<Rightarrow> satlink \<times> history" where
  "push_host_names net i c hnames l h =
     (let l = connected l; (a, h) = ask net i Ping h in
      if a = Http_exception then (add_failed_check_attempt l, h)
      else let (a, h) = ask net i (Put_host_names c hnames) h in
           (if a = Http_exception then add_failed_check_attempt l else l, h))"

end
