(* ===== verification/Dispatch.thy ===== *)
theory Dispatch
  imports Satellites
begin

text \<open>
  The dispatcher of the arbiter (\<^verbatim>\<open>shinken/dispatcher.py\<close>) and the realms it works in (\<^verbatim>\<open>shinken/objects/realm.py\<close>): the
  parts of the configuration are given to schedulers, and the satellites are told which schedulers to work for. All
  links, realms and parts are in one record, addressed by numbers; a \<^verbatim>\<open>KeyError\<close> or another exception that nobody
  catches is \<^term>\<open>None\<close>.
\<close>

subsection \<open>The state\<close>

type_synonym rid = nat

text \<open>The dictionaries \<^verbatim>\<open>to_satellites\<close>, \<^verbatim>\<open>to_satellites_need_dispatch\<close> and \<^verbatim>\<open>to_satellites_managed_by\<close> of a realm have the
  kind of the satellite and the part of the configuration as keys.\<close>

record realm =
  rl_schedulers :: "lid list"
  rl_satellites :: "link_type \<Rightarrow> lid list"
  rl_members :: "rid list"
  rl_higher :: "rid list"
  rl_broker_complete_links :: bool
  rl_confs :: "cid list"
  rl_potential :: "link_type \<Rightarrow> lid list"
  rl_nb :: "link_type \<Rightarrow> nat"
  rl_to_satellites :: "link_type \<Rightarrow> cid \<Rightarrow> sched_cfg option option"
  rl_need_dispatch :: "link_type \<Rightarrow> cid \<Rightarrow> bool option"
  rl_managed_by :: "link_type \<Rightarrow> cid \<Rightarrow> lid list option"

record conf_part =
  cp_is_assigned :: bool
  cp_assigned_to :: "lid option"
  cp_push_flavor :: int
  cp_hosts :: "string list"

text \<open>\<^verbatim>\<open>cl_whole_conf_pack\<close> says that the configuration has the attribute \<^verbatim>\<open>whole_conf_pack\<close>; \<^verbatim>\<open>cl_me\<close> is the link of this
  arbiter.\<close>

record cluster =
  cl_link :: "lid \<Rightarrow> satlink"
  cl_history :: history
  cl_realm :: "rid \<Rightarrow> realm"
  cl_conf :: "cid \<Rightarrow> conf_part"
  cl_realms :: "rid list"
  cl_confs :: "cid list"
  cl_arbiters :: "lid list"
  cl_schedulers :: "lid list"
  cl_reactionners :: "lid list"
  cl_pollers :: "lid list"
  cl_brokers :: "lid list"
  cl_receivers :: "lid list"
  cl_me :: "lid option"
  cl_whole_conf_pack :: bool
  cl_dispatch_ok :: bool
  cl_first_dispatch_done :: bool

text \<open>The network, the clock, the random flavor of a part that is sent, and the fuel for the tree of the realms.\<close>

record outside =
  ou_net :: network
  ou_now :: clock
  ou_flavor :: "history \<Rightarrow> int"
  ou_fuel :: nat

definition kinds :: "link_type list" where
  "kinds = [Reactionner_link, Poller_link, Broker_link, Receiver_link]"

definition on_link :: "lid \<Rightarrow> (satlink \<Rightarrow> satlink) \<Rightarrow> cluster \<Rightarrow> cluster" where
  "on_link i f cl = cl\<lparr>cl_link := (cl_link cl)(i := f (cl_link cl i))\<rparr>"

definition on_realm :: "rid \<Rightarrow> (realm \<Rightarrow> realm) \<Rightarrow> cluster \<Rightarrow> cluster" where
  "on_realm r f cl = cl\<lparr>cl_realm := (cl_realm cl)(r := f (cl_realm cl r))\<rparr>"

definition on_conf :: "cid \<Rightarrow> (conf_part \<Rightarrow> conf_part) \<Rightarrow> cluster \<Rightarrow> cluster" where
  "on_conf c f cl = cl\<lparr>cl_conf := (cl_conf cl)(c := f (cl_conf cl c))\<rparr>"

text \<open>A request of one link within the cluster: with no result, with a truth value, and one that may raise.\<close>

definition put_link :: "lid \<Rightarrow> satlink \<times> history \<Rightarrow> cluster \<Rightarrow> cluster" where
  "put_link i = (\<lambda>(l, h) cl. cl\<lparr>cl_link := (cl_link cl)(i := l), cl_history := h\<rparr>)"

definition with_link :: "(lid \<Rightarrow> satlink \<Rightarrow> history \<Rightarrow> satlink \<times> history) \<Rightarrow> lid \<Rightarrow> cluster \<Rightarrow> cluster" where
  "with_link f i cl = put_link i (f i (cl_link cl i) (cl_history cl)) cl"

definition asks_link ::
  "(lid \<Rightarrow> satlink \<Rightarrow> history \<Rightarrow> bool \<times> satlink \<times> history) \<Rightarrow> lid \<Rightarrow> cluster \<Rightarrow> bool \<times> cluster" where
  "asks_link f i cl = (let (b, lh) = f i (cl_link cl i) (cl_history cl) in (b, put_link i lh cl))"

definition with_link_opt ::
  "(lid \<Rightarrow> satlink \<Rightarrow> history \<Rightarrow> (satlink \<times> history) option) \<Rightarrow> lid \<Rightarrow> cluster \<Rightarrow> cluster option" where
  "with_link_opt f i cl = map_option (\<lambda>lh. put_link i lh cl) (f i (cl_link cl i) (cl_history cl))"

fun fold_raise :: "('a \<Rightarrow> 's \<Rightarrow> 's option) \<Rightarrow> 'a list \<Rightarrow> 's \<Rightarrow> 's option" where
  "fold_raise f [] s = Some s"
| "fold_raise f (x # xs) s = Option.bind (f x s) (fold_raise f xs)"

definition set_key :: "link_type \<Rightarrow> cid \<Rightarrow> 'v \<Rightarrow> (link_type \<Rightarrow> cid \<Rightarrow> 'v option) \<Rightarrow> link_type \<Rightarrow> cid \<Rightarrow> 'v option" where
  "set_key k c v d = d(k := (d k)(c := Some v))"

definition elements :: "cluster \<Rightarrow> lid list" where
  "elements cl = cl_schedulers cl @ cl_reactionners cl @ cl_pollers cl @ cl_brokers cl @ cl_receivers cl"

definition satellites :: "cluster \<Rightarrow> lid list" where
  "satellites cl = cl_reactionners cl @ cl_pollers cl @ cl_brokers cl @ cl_receivers cl"

subsection \<open>Realms\<close>

text \<open>\<^verbatim>\<open>recur_higer_realms\<close> adds a realm to the higher realms of its sons, their sons, and so on.\<close>

fun recur_higer_realms :: "nat \<Rightarrow> rid \<Rightarrow> rid list \<Rightarrow> cluster \<Rightarrow> cluster option" where
  "recur_higer_realms 0 r sons cl = (if sons = [] then Some cl else None)"
| "recur_higer_realms (Suc n) r sons cl =
     fold_raise (\<lambda>p cl. recur_higer_realms n r (rl_members (cl_realm cl p))
       (on_realm p (\<lambda>re. re\<lparr>rl_higher := rl_higher re @ [r]\<rparr>) cl)) sons cl"

definition link_higher_realms :: "nat \<Rightarrow> cluster \<Rightarrow> cluster option" where
  "link_higher_realms n cl =
     (let cl = fold (\<lambda>p. on_realm p (\<lambda>re. re\<lparr>rl_higher := []\<rparr>)) (cl_realms cl) cl
      in fold_raise (\<lambda>p cl. recur_higer_realms n p (rl_members (cl_realm cl p)) cl) (cl_realms cl) cl)"

text \<open>\<^verbatim>\<open>count_reactionners\<close>, \<^verbatim>\<open>count_pollers\<close>, \<^verbatim>\<open>count_brokers\<close>, \<^verbatim>\<open>count_receivers\<close>\<close>

definition count_satellites :: "link_type \<Rightarrow> rid \<Rightarrow> cluster \<Rightarrow> nat" where
  "count_satellites k r cl =
     length (filter (\<lambda>s. \<not> sl_spare (cl_link cl s)) (rl_satellites (cl_realm cl r) k)) +
     length (concat (map (\<lambda>p. filter (\<lambda>s. \<not> sl_spare (cl_link cl s) \<and> sl_manage_sub_realms (cl_link cl s))
       (rl_satellites (cl_realm cl p) k)) (rl_higher (cl_realm cl r))))"

definition fill_potential_satellites_by_type :: "link_type \<Rightarrow> rid \<Rightarrow> cluster \<Rightarrow> lid list" where
  "fill_potential_satellites_by_type k r cl =
     rl_satellites (cl_realm cl r) k @
     concat (map (\<lambda>p. filter (\<lambda>s. sl_manage_sub_realms (cl_link cl s)) (rl_satellites (cl_realm cl p) k))
       (rl_higher (cl_realm cl r)))"

definition prepare_for_satellites_conf :: "rid \<Rightarrow> cluster \<Rightarrow> cluster" where
  "prepare_for_satellites_conf r cl =
     on_realm r (\<lambda>re. re\<lparr>rl_to_satellites := \<lambda>_ _. None, rl_need_dispatch := \<lambda>_ _. None,
       rl_managed_by := \<lambda>_ _. None, rl_nb := \<lambda>k. count_satellites k r cl,
       rl_potential := \<lambda>k. fill_potential_satellites_by_type k r cl\<rparr>) cl"

fun get_all_subs_satellites_by_type :: "nat \<Rightarrow> link_type \<Rightarrow> rid \<Rightarrow> cluster \<Rightarrow> lid list option" where
  "get_all_subs_satellites_by_type 0 k r cl = None"
| "get_all_subs_satellites_by_type (Suc n) k r cl =
     map_option (\<lambda>subs. rl_satellites (cl_realm cl r) k @ concat subs)
       (those (map (\<lambda>p. get_all_subs_satellites_by_type n k p cl) (rl_members (cl_realm cl r))))"

text \<open>A dictionary from identifiers to what is told of a satellite is the list of the identifiers.\<close>

definition add_keys :: "lid list \<Rightarrow> lid list \<Rightarrow> lid list" where
  "add_keys = fold (\<lambda>p ps. if p \<in> set ps then ps else ps @ [p])"

definition broker_links :: "nat \<Rightarrow> rid \<Rightarrow> lid \<Rightarrow> link_type \<Rightarrow> cluster \<Rightarrow> lid list option" where
  "broker_links n r b k cl =
     (let own = add_keys (rl_satellites (cl_realm cl r) k) [] in
      if sl_manage_sub_realms (cl_link cl b)
      then map_option (\<lambda>subs. add_keys subs own) (get_all_subs_satellites_by_type n k r cl) else Some own)"

definition fill_broker_with_poller_reactionner_links :: "nat \<Rightarrow> rid \<Rightarrow> lid \<Rightarrow> cluster \<Rightarrow> cluster option" where
  "fill_broker_with_poller_reactionner_links n r b cl = do {
     ps \<leftarrow> broker_links n r b Poller_link cl;
     rs \<leftarrow> broker_links n r b Reactionner_link cl;
     vs \<leftarrow> broker_links n r b Receiver_link cl;
     Some (on_link b (\<lambda>l. l\<lparr>sl_cfg := (sl_cfg l)\<lparr>sc_pollers := ps, sc_reactionners := rs, sc_receivers := vs\<rparr>\<rparr>) cl)
   }"

text \<open>\<^verbatim>\<open>get_satellites_links_for_scheduler\<close>: the pollers and the reactionners of the realm.\<close>

definition get_satellites_links_for_scheduler :: "rid \<Rightarrow> cluster \<Rightarrow> lid list \<times> lid list" where
  "get_satellites_links_for_scheduler r cl =
     (add_keys (rl_satellites (cl_realm cl r) Poller_link) [], add_keys (rl_satellites (cl_realm cl r) Reactionner_link) [])"

subsection \<open>The creation of the dispatcher\<close>

definition new_dispatcher :: "cluster \<Rightarrow> cluster" where
  "new_dispatcher cl =
     (let cl = fold (\<lambda>c. on_conf c (\<lambda>cf. cf\<lparr>cp_is_assigned := False, cp_assigned_to := None, cp_push_flavor := 0\<rparr>))
                 (cl_confs cl) cl;
          cl = cl\<lparr>cl_dispatch_ok := False, cl_first_dispatch_done := False\<rparr>;
          cl = fold (\<lambda>s. on_link s prepare_for_conf) (satellites cl) cl
      in fold (\<lambda>s. on_link s (\<lambda>l. l\<lparr>sl_need_conf := True\<rparr>)) (cl_schedulers cl @ cl_receivers cl) cl)"

subsection \<open>Who is alive\<close>

definition check_element :: "outside \<Rightarrow> lid \<Rightarrow> cluster \<Rightarrow> cluster option" where
  "check_element ou i cl = do {
     cl \<leftarrow> with_link_opt (update_infos (ou_net ou) (ou_now ou)) i cl;
     let l = cl_link cl i;
     Some (if \<not> sl_alive l \<or> (sl_type l = Scheduler_link \<and> sl_conf l = None)
           then on_link i (\<lambda>l. l\<lparr>sl_need_conf := True\<rparr>) cl else cl)
   }"

definition check_alive :: "outside \<Rightarrow> cluster \<Rightarrow> cluster option" where
  "check_alive ou cl = do {
     cl \<leftarrow> fold_raise (check_element ou) (elements cl) cl;
     fold_raise (\<lambda>arb cl. if cl_me cl \<noteq> Some arb \<and> sl_spare (cl_link cl arb)
       then with_link_opt (update_infos (ou_net ou) (ou_now ou)) arb cl else Some cl) (cl_arbiters cl) cl
   }"

subsection \<open>Is everything dispatched\<close>

definition request_dispatch :: "cluster \<Rightarrow> cluster" where
  "request_dispatch cl = cl\<lparr>cl_dispatch_ok := False\<rparr>"

definition free_conf :: "cid \<Rightarrow> cluster \<Rightarrow> cluster" where
  "free_conf c = on_conf c (\<lambda>cf. cf\<lparr>cp_assigned_to := None, cp_is_assigned := False, cp_push_flavor := 0\<rparr>)"

text \<open>A master sends the whole configuration to the other arbiters that do not say they have it, and tells them not
  to run.\<close>

definition check_arbiter :: "outside \<Rightarrow> lid \<Rightarrow> cluster \<Rightarrow> cluster" where
  "check_arbiter ou arb cl =
     (case cl_me cl of
        None \<Rightarrow> cl
      | Some me \<Rightarrow>
          if arb = me \<or> sl_spare (cl_link cl me) then cl
          else let (b, cl) = asks_link (\<lambda>i. have_conf (ou_net ou) i True) arb cl in
               if b then snd (asks_link (do_not_run (ou_net ou)) arb cl)
               else if \<not> cl_whole_conf_pack cl then cl
               else snd (asks_link (do_not_run (ou_net ou)) arb
                      (snd (asks_link (\<lambda>i. put_conf (ou_net ou) i Put_whole_conf) arb cl))))"

text \<open>A part that has no scheduler, or whose scheduler is dead or does not manage it, asks for a dispatch. It is the
  part the scheduler knows (\<^verbatim>\<open>sched.conf\<close>) that is freed.\<close>

definition check_scheduled :: "cid \<Rightarrow> cluster \<Rightarrow> cluster option" where
  "check_scheduled c cl =
     (let flavor = cp_push_flavor (cl_conf cl c) in
      case cp_assigned_to (cl_conf cl c) of
        None \<Rightarrow> Some (request_dispatch cl)
      | Some s \<Rightarrow> do {
          cl \<leftarrow> (if sl_alive (cl_link cl s) then Some cl
                else map_option (\<lambda>c'. on_link s (\<lambda>l. l\<lparr>sl_push_flavor := 0, sl_conf := None\<rparr>)
                       (free_conf c' (request_dispatch cl))) (sl_conf (cl_link cl s)));
          Some (if do_i_manage (cl_link cl s) c flavor then cl
                else let cl = request_dispatch cl;
                         cl = (case sl_conf (cl_link cl s) of None \<Rightarrow> cl | Some c' \<Rightarrow> free_conf c' cl)
                     in on_link s (\<lambda>l. l\<lparr>sl_push_flavor := 0, sl_need_conf := True, sl_conf := None\<rparr>) cl)
        })"

definition redispatch_satellites :: "rid \<Rightarrow> cid \<Rightarrow> link_type \<Rightarrow> cluster \<Rightarrow> cluster" where
  "redispatch_satellites r c k cl =
     on_realm r (\<lambda>re. re\<lparr>rl_need_dispatch := set_key k c True (rl_need_dispatch re),
       rl_managed_by := set_key k c [] (rl_managed_by re)\<rparr>) (request_dispatch cl)"

definition check_managing :: "rid \<Rightarrow> cid \<Rightarrow> link_type \<Rightarrow> int \<Rightarrow> lid \<Rightarrow> cluster \<Rightarrow> cluster" where
  "check_managing r c k flavor s cl =
     (let l = cl_link cl s in
      if flavor = 0 \<and> sl_alive l then cl
      else if \<not> sl_alive l \<or> (sl_reachable l \<and> \<not> do_i_manage l c flavor) then redispatch_satellites r c k cl
      else cl)"

text \<open>The kinds of satellites of one part; the first \<^verbatim>\<open>KeyError\<close> ends the loop.\<close>

fun check_kinds :: "rid \<Rightarrow> cid \<Rightarrow> int \<Rightarrow> link_type list \<Rightarrow> cluster \<Rightarrow> cluster" where
  "check_kinds r c flavor [] cl = cl"
| "check_kinds r c flavor (k # ks) cl =
     (case rl_managed_by (cl_realm cl r) k c of
        None \<Rightarrow> cl
      | Some managed \<Rightarrow>
          let missing = length managed < rl_nb (cl_realm cl r) k;
              cl = (if missing then redispatch_satellites r c k cl else cl);
              cl = fold (check_managing r c k flavor) (if missing then [] else managed) cl
          in check_kinds r c flavor ks cl)"

definition check_satellites :: "rid \<Rightarrow> cid \<Rightarrow> cluster \<Rightarrow> cluster" where
  "check_satellites r c cl = check_kinds r c (cp_push_flavor (cl_conf cl c)) kinds cl"

definition check_receiver :: "outside \<Rightarrow> lid \<Rightarrow> cluster \<Rightarrow> cluster option" where
  "check_receiver ou s cl =
     (if \<not> sl_reachable (cl_link cl s) then Some cl
      else map_option (\<lambda>(b, lh). let cl = put_link s lh cl in
             if b then cl else on_link s (\<lambda>l. l\<lparr>sl_need_conf := True\<rparr>) (request_dispatch cl))
             (got_conf (ou_net ou) s (cl_link cl s) (cl_history cl)))"

definition realm_confs :: "cluster \<Rightarrow> (rid \<times> cid) list" where
  "realm_confs cl = concat (map (\<lambda>r. map (Pair r) (rl_confs (cl_realm cl r))) (cl_realms cl))"

definition realm_receivers :: "cluster \<Rightarrow> lid list" where
  "realm_receivers cl = concat (map (\<lambda>r. rl_satellites (cl_realm cl r) Receiver_link) (cl_realms cl))"

definition check_dispatch :: "outside \<Rightarrow> cluster \<Rightarrow> cluster option" where
  "check_dispatch ou cl = do {
     let cl = fold (check_arbiter ou) (cl_arbiters cl) cl;
     cl \<leftarrow> fold_raise (\<lambda>(r, c). check_scheduled c) (realm_confs cl) cl;
     let cl = fold (\<lambda>(r, c). check_satellites r c) (realm_confs cl) cl;
     fold_raise (check_receiver ou) (realm_receivers cl) cl
   }"

subsection \<open>Links that do what they should not\<close>

definition idle_element :: "outside \<Rightarrow> lid \<Rightarrow> cluster \<Rightarrow> cluster" where
  "idle_element ou i cl =
     (let l = cl_link cl i in
      if sl_type l = Scheduler_link \<and> sl_conf l = None \<and> sl_reachable l
      then let (b, cl) = asks_link (\<lambda>i. have_conf (ou_net ou) i False) i cl in
           if b then snd (asks_link (wait_new_conf (ou_net ou)) i (on_link i (\<lambda>l. l\<lparr>sl_active := False\<rparr>) cl)) else cl
      else cl)"

text \<open>The parts a satellite manages although no realm gave them to it; \<^term>\<open>None\<close> is the \<^verbatim>\<open>KeyError\<close> of a realm that was
  never dispatched.\<close>

definition unwanted_confs :: "lid \<Rightarrow> cluster \<Rightarrow> cid list option" where
  "unwanted_confs s cl =
     (let k = sl_type (cl_link cl s) in
      map_option concat (those (map (\<lambda>c. map_option concat (those (map (\<lambda>r.
        map_option (\<lambda>m. if s \<in> set m then [] else [c]) (rl_managed_by (cl_realm cl r) k c))
          (filter (\<lambda>r. c \<in> set (rl_confs (cl_realm cl r))) (cl_realms cl)))))
        (map fst (sl_managed_confs (cl_link cl s))))))"

definition idle_satellite :: "outside \<Rightarrow> lid \<Rightarrow> cluster \<Rightarrow> cluster option" where
  "idle_satellite ou s cl =
     (let l = cl_link cl s in
      if \<not> sl_reachable l \<or> sl_managed_confs l = [] then Some cl
      else map_option (\<lambda>id_to_delete.
             if length id_to_delete = length (sl_managed_confs l)
             then snd (asks_link (wait_new_conf (ou_net ou)) s (on_link s (\<lambda>l. l\<lparr>sl_active := False\<rparr>) cl))
             else fold (\<lambda>c cl. snd (asks_link (\<lambda>i. remove_from_conf (ou_net ou) i c) s cl)) id_to_delete cl)
             (unwanted_confs s cl))"

definition check_bad_dispatch :: "outside \<Rightarrow> cluster \<Rightarrow> cluster option" where
  "check_bad_dispatch ou cl =
     (let cl = fold (idle_element ou) (elements cl) cl in fold_raise (idle_satellite ou) (satellites cl) cl)"

subsection \<open>Dispatching the parts to the schedulers\<close>

definition alive_then_spare_then_deads :: "cluster \<Rightarrow> lid list \<Rightarrow> lid list" where
  "alive_then_spare_then_deads cl ss =
     filter (\<lambda>s. sl_alive (cl_link cl s) \<and> \<not> sl_spare (cl_link cl s)) ss @
     filter (\<lambda>s. sl_alive (cl_link cl s) \<and> sl_spare (cl_link cl s)) ss @
     filter (\<lambda>s. \<not> sl_alive (cl_link cl s)) ss"

text \<open>The code reverses the list to pop its end; here the next scheduler is the head.\<close>

definition get_scheduler_ordered_list :: "rid \<Rightarrow> cluster \<Rightarrow> lid list" where
  "get_scheduler_ordered_list r cl =
     alive_then_spare_then_deads cl (rl_schedulers (cl_realm cl r) @
       concat (map (\<lambda>p. filter (\<lambda>s. sl_spare (cl_link cl s)) (rl_schedulers (cl_realm cl p))) (rl_higher (cl_realm cl r))))"

definition no_scheduler_left :: "rid \<Rightarrow> cid \<Rightarrow> cluster \<Rightarrow> cluster" where
  "no_scheduler_left r c =
     fold (\<lambda>k. on_realm r (\<lambda>re. re\<lparr>rl_to_satellites := set_key k c None (rl_to_satellites re),
       rl_need_dispatch := set_key k c False (rl_need_dispatch re),
       rl_managed_by := set_key k c [] (rl_managed_by re)\<rparr>)) kinds"

definition give_conf :: "rid \<Rightarrow> cid \<Rightarrow> lid \<Rightarrow> cluster \<Rightarrow> cluster" where
  "give_conf r c s cl =
     (let flavor = cp_push_flavor (cl_conf cl c);
          cl = on_link s (\<lambda>l. l\<lparr>sl_conf := Some c, sl_push_flavor := flavor, sl_need_conf := False\<rparr>) cl;
          cl = on_conf c (\<lambda>cf. cf\<lparr>cp_is_assigned := True, cp_assigned_to := Some s\<rparr>) cl;
          cl = on_link s (\<lambda>l. l\<lparr>sl_managed_confs := [(c, flavor)]\<rparr>) cl
      in fold (\<lambda>k cl. on_realm r (\<lambda>re. re\<lparr>
           rl_to_satellites := set_key k c (Some (sched_give_satellite_cfg s (cl_link cl s))) (rl_to_satellites re),
           rl_need_dispatch := set_key k c True (rl_need_dispatch re),
           rl_managed_by := set_key k c [] (rl_managed_by re)\<rparr>) cl) kinds cl)"

text \<open>The schedulers are tried in turn until one takes the part; those that were tried are gone for the parts that
  follow.\<close>

fun place_conf :: "outside \<Rightarrow> rid \<Rightarrow> cid \<Rightarrow> lid list \<Rightarrow> cluster \<Rightarrow> lid list \<times> cluster" where
  "place_conf ou r c [] cl = ([], no_scheduler_left r c cl)"
| "place_conf ou r c (s # scheds) cl =
     (if \<not> sl_need_conf (cl_link cl s) then place_conf ou r c scheds cl
      else let flavor = ou_flavor ou (cl_history cl);
               cl = on_conf c (\<lambda>cf. cf\<lparr>cp_push_flavor := flavor\<rparr>) cl;
               (ps, rs) = get_satellites_links_for_scheduler r cl;
               (is_sent, cl) = asks_link (\<lambda>i. put_conf (ou_net ou) i (Put_conf_part c flavor ps rs)) s cl
           in if is_sent then (scheds, give_conf r c s cl) else place_conf ou r c scheds cl)"

fun place_confs :: "outside \<Rightarrow> rid \<Rightarrow> cid list \<Rightarrow> lid list \<Rightarrow> cluster \<Rightarrow> cluster" where
  "place_confs ou r [] scheds cl = cl"
| "place_confs ou r (c # cs) scheds cl =
     (let (scheds, cl) = place_conf ou r c scheds cl in place_confs ou r cs scheds cl)"

definition dispatch_realm :: "outside \<Rightarrow> rid \<Rightarrow> cluster \<Rightarrow> cluster" where
  "dispatch_realm ou r cl =
     place_confs ou r (filter (\<lambda>c. \<not> cp_is_assigned (cl_conf cl c)) (rl_confs (cl_realm cl r)))
       (filter (\<lambda>s. sl_alive (cl_link cl s)) (get_scheduler_ordered_list r cl)) cl"

definition all_assigned :: "cluster \<Rightarrow> bool" where
  "all_assigned cl \<longleftrightarrow> list_all (\<lambda>c. cp_is_assigned (cl_conf cl c)) (cl_confs cl)"

definition settle_schedulers :: "cluster \<Rightarrow> cluster" where
  "settle_schedulers cl =
     (let cl = (if all_assigned cl then cl\<lparr>cl_dispatch_ok := True\<rparr> else cl)
      in if cl_dispatch_ok cl
         then fold (\<lambda>s cl. if sl_conf (cl_link cl s) = None then on_link s (\<lambda>l. l\<lparr>sl_need_conf := False\<rparr>) cl else cl)
                (cl_schedulers cl) cl
         else cl)"

subsection \<open>Dispatching the schedulers to the satellites\<close>

text \<open>\<^verbatim>\<open>xs[:n]\<close> with a bound that may be negative, and the order in which the brokers of a realm are tried.\<close>

definition py_upto :: "int \<Rightarrow> 'a list \<Rightarrow> 'a list" where
  "py_upto n xs = take (if n < 0 then length xs - nat (- n) else nat n) xs"

definition turn_brokers :: "cid \<Rightarrow> lid list \<Rightarrow> lid list" where
  "turn_brokers c nospare =
     (let idx = c mod int (length nospare);
          new_satellites = drop (nat idx) nospare
      in fold (\<lambda>b bs. if b \<in> set bs then bs else bs @ [b]) (py_upto (- idx + 1) nospare) new_satellites)"

definition order_brokers :: "cluster \<Rightarrow> cid \<Rightarrow> lid list \<Rightarrow> lid list" where
  "order_brokers cl c ss =
     (let nospare = filter (\<lambda>s. \<not> sl_spare (cl_link cl s)) ss
      in if nospare = [] then ss
         else turn_brokers c nospare @ filter (\<lambda>s. sl_spare (cl_link cl s)) ss)"

definition satellites_in_order :: "rid \<Rightarrow> cid \<Rightarrow> link_type \<Rightarrow> cluster \<Rightarrow> lid list" where
  "satellites_in_order r c k cl =
     (let ss = filter (\<lambda>s. sl_alive (cl_link cl s) \<and> sl_reachable (cl_link cl s))
                 (alive_then_spare_then_deads cl (rl_potential (cl_realm cl r) k))
      in if k = Broker_link \<and> \<not> rl_broker_complete_links (cl_realm cl r) then order_brokers cl c ss else ss)"

definition prepare_sat_cfg :: "outside \<Rightarrow> rid \<Rightarrow> cid \<Rightarrow> link_type \<Rightarrow> sched_cfg option \<Rightarrow> lid \<Rightarrow> cluster \<Rightarrow> cluster option" where
  "prepare_sat_cfg ou r c k part s cl =
     (let cl = on_link s (\<lambda>l. l\<lparr>sl_cfg := (sl_cfg l)\<lparr>sc_schedulers := AList.update c part (sc_schedulers (sl_cfg l))\<rparr>\<rparr>) cl;
          cl = (if sl_manage_arbiters (cl_link cl s)
                then on_link s (\<lambda>l. l\<lparr>sl_cfg := (sl_cfg l)\<lparr>sc_arbiters := cl_arbiters cl\<rparr>\<rparr>) cl else cl)
      in if k = Broker_link then fill_broker_with_poller_reactionner_links (ou_fuel ou) r s cl else Some cl)"

definition send_sat_conf :: "outside \<Rightarrow> cid \<Rightarrow> int \<Rightarrow> lid \<Rightarrow> cluster \<Rightarrow> bool \<times> cluster" where
  "send_sat_conf ou c flavor s cl =
     (if do_i_manage (cl_link cl s) c flavor then (True, cl)
      else asks_link (\<lambda>i. put_conf (ou_net ou) i (Put_sat_conf (sl_cfg (cl_link cl s)))) s cl)"

definition note_managed :: "rid \<Rightarrow> cid \<Rightarrow> link_type \<Rightarrow> int \<Rightarrow> lid \<Rightarrow> cluster \<Rightarrow> cluster option" where
  "note_managed r c k flavor s cl =
     (let cl = on_link s (\<lambda>l. known_conf_managed_push c flavor (l\<lparr>sl_active := True\<rparr>)) cl
      in map_option (\<lambda>m. on_realm r (\<lambda>re. re\<lparr>rl_managed_by := set_key k c (m @ [s]) (rl_managed_by re)\<rparr>) cl)
           (rl_managed_by (cl_realm cl r) k c))"

fun send_to_satellites ::
  "outside \<Rightarrow> rid \<Rightarrow> cid \<Rightarrow> link_type \<Rightarrow> int \<Rightarrow> sched_cfg option \<Rightarrow> lid list \<Rightarrow> nat \<Rightarrow> cluster
     \<Rightarrow> (nat \<times> cluster) option" where
  "send_to_satellites ou r c k flavor part [] nb cl = Some (nb, cl)"
| "send_to_satellites ou r c k flavor part (s # ss) nb cl =
     (if nb < rl_nb (cl_realm cl r) k \<and> sl_alive (cl_link cl s)
      then do {
        cl \<leftarrow> prepare_sat_cfg ou r c k part s cl;
        let (is_sent, cl) = send_sat_conf ou c flavor s cl;
        if is_sent
        then do {
          cl \<leftarrow> note_managed r c k flavor s cl;
          if k = Broker_link \<and> \<not> rl_broker_complete_links (cl_realm cl r) then Some (Suc nb, cl)
          else let cl = (if k = Receiver_link
                         then with_link (\<lambda>i. push_host_names (ou_net ou) i c (cp_hosts (cl_conf cl c))) s cl else cl)
               in send_to_satellites ou r c k flavor part ss (Suc nb) cl
        }
        else send_to_satellites ou r c k flavor part ss nb cl
      }
      else send_to_satellites ou r c k flavor part ss nb cl)"

definition dispatch_kind :: "outside \<Rightarrow> rid \<Rightarrow> cid \<Rightarrow> link_type \<Rightarrow> cluster \<Rightarrow> cluster option" where
  "dispatch_kind ou r c k cl = do {
     needed \<leftarrow> rl_need_dispatch (cl_realm cl r) k c;
     if \<not> needed then Some cl
     else do {
       part \<leftarrow> rl_to_satellites (cl_realm cl r) k c;
       (nb, cl) \<leftarrow> send_to_satellites ou r c k (cp_push_flavor (cl_conf cl c)) part (satellites_in_order r c k cl) 0 cl;
       Some (if nb = rl_nb (cl_realm cl r) k
             then on_realm r (\<lambda>re. re\<lparr>rl_need_dispatch := set_key k c False (rl_need_dispatch re)\<rparr>) cl else cl)
     }
   }"

definition dispatch_satellites :: "outside \<Rightarrow> rid \<Rightarrow> cid \<Rightarrow> cluster \<Rightarrow> cluster option" where
  "dispatch_satellites ou r c = fold_raise (dispatch_kind ou r c) kinds"

text \<open>A receiver gets one configuration in its life.\<close>

definition dispatch_receiver :: "outside \<Rightarrow> lid \<Rightarrow> cluster \<Rightarrow> cluster" where
  "dispatch_receiver ou s cl =
     (if \<not> sl_need_conf (cl_link cl s) \<or> \<not> sl_reachable (cl_link cl s) then cl
      else let (is_sent, cl) = asks_link (\<lambda>i. put_conf (ou_net ou) i (Put_sat_conf (sl_cfg (cl_link cl s)))) s cl
           in if is_sent then on_link s (\<lambda>l. l\<lparr>sl_active := True, sl_need_conf := False\<rparr>) cl else cl)"

definition dispatch :: "outside \<Rightarrow> cluster \<Rightarrow> cluster option" where
  "dispatch ou cl =
     (let cl = cl\<lparr>cl_first_dispatch_done := True\<rparr> in
      if cl_dispatch_ok cl then Some cl
      else do {
        let cl = fold (dispatch_realm ou) (cl_realms cl) cl;
        let cl = settle_schedulers cl;
        cl \<leftarrow> fold_raise (\<lambda>(r, c). dispatch_satellites ou r c) (realm_confs cl) cl;
        Some (fold (dispatch_receiver ou) (realm_receivers cl) cl)
      })"

text \<open>A turn of the arbiter's loop, as far as the dispatcher is concerned.\<close>

definition dispatcher_turn :: "outside \<Rightarrow> cluster \<Rightarrow> cluster option" where
  "dispatcher_turn ou cl = do {
     cl \<leftarrow> check_alive ou cl;
     cl \<leftarrow> check_dispatch ou cl;
     cl \<leftarrow> dispatch ou cl;
     check_bad_dispatch ou cl
   }"

subsection \<open>Broks and commands of the arbiter\<close>

text \<open>\<^verbatim>\<open>get_external_commands_from_satellites\<close>\<close>

definition get_external_commands_from_satellites :: "outside \<Rightarrow> cluster \<Rightarrow> string list \<times> cluster" where
  "get_external_commands_from_satellites ou cl =
     fold (\<lambda>s (cmds, cl). if sl_alive (cl_link cl s)
          then let (new_cmds, lh) = get_external_commands (ou_net ou) s (cl_link cl s) (cl_history cl)
               in (cmds @ new_cmds, put_link s lh cl)
          else (cmds, cl))
       (cl_brokers cl @ cl_receivers cl @ cl_pollers cl @ cl_reactionners cl) ([], cl)"

text \<open>The loop of \<^verbatim>\<open>push_broks_to_broker\<close> for one broker: it goes on until all broks are sent. \<^term>\<open>None\<close> is the end of the
  fuel.\<close>

fun push_all_broks :: "nat \<Rightarrow> outside \<Rightarrow> lid \<Rightarrow> string list \<Rightarrow> cluster \<Rightarrow> (string list \<times> cluster) option" where
  "push_all_broks n ou b [] cl = Some ([], cl)"
| "push_all_broks 0 ou b broks cl = None"
| "push_all_broks (Suc n) ou b broks cl =
     (let batch = sl_broks_batch (cl_link cl b);
          count = (if batch = 0 then int (length broks) else min batch (int (length broks)));
          (is_send, cl) = asks_link (\<lambda>i. push_broks (ou_net ou) i (py_upto count broks)) b cl;
          gone = length (py_upto count broks)
      in push_all_broks n ou b (if is_send then drop gone broks else broks) cl)"

definition push_broks_to_broker :: "nat \<Rightarrow> outside \<Rightarrow> string list \<Rightarrow> cluster \<Rightarrow> (string list \<times> cluster) option" where
  "push_broks_to_broker n ou broks cl =
     fold_raise (\<lambda>b (broks, cl). push_all_broks n ou b broks cl)
       (filter (\<lambda>b. sl_manage_arbiters (cl_link cl b) \<and> sl_alive (cl_link cl b)) (cl_brokers cl)) (broks, cl)"

text \<open>\<^verbatim>\<open>push_external_commands_to_schedulers\<close>, once the commands have been given to the links.\<close>

definition push_external_commands_to_schedulers :: "outside \<Rightarrow> cluster \<Rightarrow> cluster" where
  "push_external_commands_to_schedulers ou cl =
     fold (\<lambda>s cl. let l = cl_link cl s;
                      cl = (if sl_external_commands l \<noteq> [] \<and> sl_alive l
                            then with_link (\<lambda>i. run_external_commands_of (ou_net ou) i (sl_external_commands l)) s cl else cl)
                  in on_link s (\<lambda>l. l\<lparr>sl_external_commands := []\<rparr>) cl) (cl_schedulers cl) cl"

subsection \<open>What the updates and the loops do\<close>

lemma fold_raise_keeps:
  assumes "\<And>x s s'. x \<in> set xs \<Longrightarrow> P s \<Longrightarrow> f x s = Some s' \<Longrightarrow> P s'"
    and "P s" "fold_raise f xs s = Some s'"
  shows "P s'"
  using assms
proof (induction xs arbitrary: s)
  case (Cons x xs)
  from Cons.prems(3) obtain t where t: "f x s = Some t" "fold_raise f xs t = Some s'"
    by (auto simp: bind_eq_Some_conv)
  have "P t" using Cons.prems(1)[of x s t] Cons.prems(2) t(1) by simp
  then show ?case using Cons.IH[of t] Cons.prems(1) t(2) by auto
qed simp

lemma fold_keeps:
  assumes "\<And>x s. x \<in> set xs \<Longrightarrow> P s \<Longrightarrow> P (f x s)" "P s"
  shows "P (fold f xs s)"
  using assms by (induction xs arbitrary: s) auto

lemma put_link_simps [simp]:
  "cl_link (put_link i (l, h) cl) = (cl_link cl)(i := l)" "cl_history (put_link i (l, h) cl) = h"
  "cl_conf (put_link i lh cl) = cl_conf cl" "cl_realm (put_link i lh cl) = cl_realm cl"
  "cl_realms (put_link i lh cl) = cl_realms cl" "elements (put_link i lh cl) = elements cl"
  "cl_arbiters (put_link i lh cl) = cl_arbiters cl" "cl_dispatch_ok (put_link i lh cl) = cl_dispatch_ok cl"
  by (simp_all add: elements_def put_link_def split: prod.split)

lemma on_link_simps [simp]:
  "cl_link (on_link i f cl) = (cl_link cl)(i := f (cl_link cl i))" "cl_history (on_link i f cl) = cl_history cl"
  "cl_conf (on_link i f cl) = cl_conf cl" "cl_realm (on_link i f cl) = cl_realm cl"
  "cl_realms (on_link i f cl) = cl_realms cl" "elements (on_link i f cl) = elements cl"
  "cl_arbiters (on_link i f cl) = cl_arbiters cl" "cl_dispatch_ok (on_link i f cl) = cl_dispatch_ok cl"
  by (simp_all add: elements_def on_link_def)

lemma on_conf_simps [simp]:
  "cl_link (on_conf c f cl) = cl_link cl" "cl_history (on_conf c f cl) = cl_history cl"
  "cl_conf (on_conf c f cl) = (cl_conf cl)(c := f (cl_conf cl c))" "cl_realm (on_conf c f cl) = cl_realm cl"
  "cl_realms (on_conf c f cl) = cl_realms cl" "elements (on_conf c f cl) = elements cl"
  "cl_arbiters (on_conf c f cl) = cl_arbiters cl" "cl_dispatch_ok (on_conf c f cl) = cl_dispatch_ok cl"
  by (simp_all add: elements_def on_conf_def)

lemma on_realm_simps [simp]:
  "cl_link (on_realm r f cl) = cl_link cl" "cl_history (on_realm r f cl) = cl_history cl"
  "cl_conf (on_realm r f cl) = cl_conf cl" "cl_realm (on_realm r f cl) = (cl_realm cl)(r := f (cl_realm cl r))"
  "cl_realms (on_realm r f cl) = cl_realms cl" "elements (on_realm r f cl) = elements cl"
  "cl_arbiters (on_realm r f cl) = cl_arbiters cl" "cl_dispatch_ok (on_realm r f cl) = cl_dispatch_ok cl"
  by (simp_all add: elements_def on_realm_def)

lemma request_dispatch_simps [simp]:
  "cl_link (request_dispatch cl) = cl_link cl" "cl_history (request_dispatch cl) = cl_history cl"
  "cl_conf (request_dispatch cl) = cl_conf cl" "cl_realm (request_dispatch cl) = cl_realm cl"
  "cl_realms (request_dispatch cl) = cl_realms cl" "elements (request_dispatch cl) = elements cl"
  "cl_arbiters (request_dispatch cl) = cl_arbiters cl" "cl_dispatch_ok (request_dispatch cl) = False"
  by (simp_all add: elements_def request_dispatch_def)

end
