(* ===== verification/Small_Cluster.thy ===== *)
theory Small_Cluster
  imports Dispatch
begin

text \<open>
  A small cluster and a network that answers every request: the input at which the theorems on the dispatcher are
  applied.
\<close>

text \<open>An arbiter with one realm, a scheduler (link 0) and a poller (link 1), and a network that answers everything.\<close>

definition small_link :: "link_type \<Rightarrow> satlink" where
  "small_link k = \<lparr>sl_type = k, sl_spare = False, sl_manage_sub_realms = True, sl_manage_arbiters = False,
     sl_check_interval = 60, sl_max_check_attempts = 3, sl_broks_batch = 0, sl_con = False, sl_alive = True,
     sl_reachable = False, sl_attempt = 0, sl_last_check = 0, sl_managed_confs = [], sl_broks = [], sl_active = False,
     sl_cfg = \<lparr>sc_schedulers = [], sc_arbiters = [], sc_pollers = [], sc_reactionners = [], sc_receivers = []\<rparr>,
     sl_conf = None, sl_need_conf = True, sl_push_flavor = 0, sl_external_commands = []\<rparr>"

definition small_realm :: realm where
  "small_realm = \<lparr>rl_schedulers = [0], rl_satellites = (\<lambda>k. if k = Poller_link then [1] else []), rl_members = [],
     rl_higher = [], rl_broker_complete_links = False, rl_confs = [7],
     rl_potential = (\<lambda>k. if k = Poller_link then [1] else []), rl_nb = (\<lambda>k. if k = Poller_link then 1 else 0),
     rl_to_satellites = (\<lambda>_ _. None), rl_need_dispatch = (\<lambda>_ _. None), rl_managed_by = (\<lambda>_ _. None)\<rparr>"

definition small_cluster :: cluster where
  "small_cluster = \<lparr>cl_link = (\<lambda>i. small_link (if i = 0 then Scheduler_link else Poller_link)), cl_history = [],
     cl_realm = (\<lambda>_. small_realm),
     cl_conf = (\<lambda>_. \<lparr>cp_is_assigned = False, cp_assigned_to = None, cp_push_flavor = 0, cp_hosts = [''srv'']\<rparr>),
     cl_realms = [0], cl_confs = [7], cl_arbiters = [], cl_schedulers = [0], cl_reactionners = [], cl_pollers = [1],
     cl_brokers = [], cl_receivers = [], cl_me = None, cl_whole_conf_pack = True, cl_dispatch_ok = False,
     cl_first_dispatch_done = False\<rparr>"

definition kind_network :: network where
  "kind_network h = (case snd (last h) of Ping \<Rightarrow> Reply (Text ''pong'') | What_i_managed \<Rightarrow> Reply (Pickled (Py_dict []))
     | _ \<Rightarrow> Reply Junk)"

definition small_outside :: outside where
  "small_outside = \<lparr>ou_net = kind_network, ou_now = 100, ou_flavor = (\<lambda>h. 5), ou_fuel = 3\<rparr>"

definition first_pass :: "outside \<Rightarrow> cluster \<Rightarrow> cluster option" where
  "first_pass ou cl = do { cl \<leftarrow> check_alive ou cl; cl \<leftarrow> check_dispatch ou cl; dispatch ou cl }"

lemmas small_eval = small_cluster_def elements_def satellites_def Let_def prepare_for_conf_def small_realm_def
  small_outside_def small_link_def connected_def create_connection_def set_alive_def put_link_def on_conf_def on_link_def
  kind_network_def ask_def deserialize_def with_link_opt_def with_link_def raise_status_brok_def get_update_status_brok_def
  clean_managed_def on_realm_def asks_link_def put_conf_def new_dispatcher_def check_element_def update_infos_def ping_def
  update_managed_list_def check_alive_def check_dispatch_def check_scheduled_def request_dispatch_def realm_confs_def
  realm_receivers_def check_satellites_def kinds_def redispatch_satellites_def check_managing_def set_key_def
  dispatch_def dispatch_realm_def get_scheduler_ordered_list_def alive_then_spare_then_deads_def
  get_satellites_links_for_scheduler_def add_keys_def give_conf_def settle_schedulers_def all_assigned_def
  dispatch_satellites_def dispatch_kind_def satellites_in_order_def send_sat_conf_def note_managed_def prepare_sat_cfg_def
  order_brokers_def check_bad_dispatch_def idle_element_def idle_satellite_def
  unwanted_confs_def dispatcher_turn_def do_i_manage_def known_conf_managed_push_def sched_give_satellite_cfg_def drop_connection_def

lemma small_first_pass:
  "map_option (\<lambda>cl. (cl_dispatch_ok cl, cp_assigned_to (cl_conf cl 7), sl_conf (cl_link cl 0),
     rl_managed_by (cl_realm cl 0) Poller_link 7)) (first_pass small_outside (new_dispatcher small_cluster)) =
   Some (True, Some 0, Some 7, Some [1])"
  by (simp add: first_pass_def small_eval)
end
