(* ===== verification/DispatchRules.thy ===== *)
theory DispatchRules
  imports Small_Cluster
begin

text \<open>
  What the dispatcher keeps. Every link counts its failed requests and is dead exactly when it has used all its attempts;
  a part of the configuration and the scheduler it is assigned to point at each other, through every turn of the arbiter's loop;
  parts find a scheduler as long as there are enough of them.
\<close>

subsection \<open>What holds of every link\<close>

text \<open>A predicate on the links that the requests keep, and that does not look at what the dispatcher writes itself.\<close>

locale link_invariant =
  fixes P :: "lid \<Rightarrow> satlink \<Rightarrow> bool"
  assumes P_con [simp]: "P i (l\<lparr>sl_con := b\<rparr>) = P i l"
    and P_last_check [simp]: "P i (l\<lparr>sl_last_check := t\<rparr>) = P i l"
    and P_managed [simp]: "P i (l\<lparr>sl_managed_confs := m\<rparr>) = P i l"
    and P_broks [simp]: "P i (l\<lparr>sl_broks := bs\<rparr>) = P i l"
    and P_active [simp]: "P i (l\<lparr>sl_active := b\<rparr>) = P i l"
    and P_cfg [simp]: "P i (l\<lparr>sl_cfg := g\<rparr>) = P i l"
    and P_conf [simp]: "P i (l\<lparr>sl_conf := c\<rparr>) = P i l"
    and P_need_conf [simp]: "P i (l\<lparr>sl_need_conf := b\<rparr>) = P i l"
    and P_push_flavor [simp]: "P i (l\<lparr>sl_push_flavor := f\<rparr>) = P i l"
    and P_failed: "P i l \<Longrightarrow> P i (add_failed_check_attempt l)"
    and P_alive: "P i l \<Longrightarrow> P i (set_alive l)"
begin

definition all_links :: "cluster \<Rightarrow> bool" where
  "all_links cl \<longleftrightarrow> (\<forall>i. P i (cl_link cl i))"

lemma connection [simp]:
  "P i (connected l) = P i l" "P i (drop_connection l) = P i l" "P i (raise_status_brok l) = P i l"
  by (simp_all add: connected_def create_connection_def drop_connection_def raise_status_brok_def)

lemma put_conf_keeps: "P i l \<Longrightarrow> put_conf net i req l h = (b, l', h') \<Longrightarrow> P i l'"
  by (auto simp: put_conf_def Let_def split: prod.splits if_splits)

lemma ping_keeps: "P i l \<Longrightarrow> ping net i l h = Some (l', h') \<Longrightarrow> P i l'"
  by (auto simp: ping_def Let_def P_failed P_alive split: prod.splits if_splits answer.splits body.splits)

lemma update_managed_keeps: "P i l \<Longrightarrow> update_managed_list net i l h = Some (l', h') \<Longrightarrow> P i l'"
  by (auto simp: update_managed_list_def Let_def split: prod.splits answer.splits option.splits py_value.splits)

lemma update_infos_keeps: "P i l \<Longrightarrow> update_infos net now i l h = Some (l', h') \<Longrightarrow> P i l'"
  by (auto simp: update_infos_def bind_eq_Some_conv split: if_splits
      dest!: ping_keeps[rotated] update_managed_keeps[rotated])

lemma asked_keeps:
  "P i l \<Longrightarrow> have_conf net i m l h = (b, l', h') \<Longrightarrow> P i l'"
  "P i l \<Longrightarrow> do_not_run net i l h = (b, l', h') \<Longrightarrow> P i l'"
  "P i l \<Longrightarrow> wait_new_conf net i l h = (b, l', h') \<Longrightarrow> P i l'"
  "P i l \<Longrightarrow> remove_from_conf net i c l h = (b, l', h') \<Longrightarrow> P i l'"
  "P i l \<Longrightarrow> got_conf net i l h = Some (b, l', h') \<Longrightarrow> P i l'"
  "P i l \<Longrightarrow> push_host_names net i c hs l h = (l', h') \<Longrightarrow> P i l'"
  by (auto simp: have_conf_def do_not_run_def wait_new_conf_def remove_from_conf_def got_conf_def push_host_names_def
      Let_def P_failed split: prod.splits answer.splits if_splits)

lemma all_linksD: "all_links cl \<Longrightarrow> P i (cl_link cl i)" by (simp add: all_links_def)

lemma all_links_put: "all_links cl \<Longrightarrow> P i l \<Longrightarrow> all_links (put_link i (l, h) cl)"
  by (simp add: all_links_def)

lemma all_links_on_link: "all_links cl \<Longrightarrow> P i (f (cl_link cl i)) \<Longrightarrow> all_links (on_link i f cl)"
  by (simp add: all_links_def)

lemma all_links_other [simp]:
  "all_links (on_realm r g cl) = all_links cl" "all_links (on_conf c k cl) = all_links cl"
  "all_links (request_dispatch cl) = all_links cl" "all_links (free_conf c cl) = all_links cl"
  "all_links (redispatch_satellites r c kd cl) = all_links cl"
  "all_links (cl\<lparr>cl_dispatch_ok := b\<rparr>) = all_links cl" "all_links (cl\<lparr>cl_first_dispatch_done := b\<rparr>) = all_links cl"
  by (simp_all add: all_links_def on_realm_def on_conf_def request_dispatch_def free_conf_def redispatch_satellites_def)

lemma asks_keeps:
  assumes "all_links cl" "\<And>l h b l' h'. P i l \<Longrightarrow> f i l h = (b, l', h') \<Longrightarrow> P i l'"
  shows "all_links (snd (asks_link f i cl))"
  using assms(2)[OF all_linksD[OF assms(1)]]
  by (cases "f i (cl_link cl i) (cl_history cl)") (auto simp: asks_link_def intro!: all_links_put assms(1))

lemma all_links_fold:
  assumes "\<And>x s. all_links s \<Longrightarrow> all_links (f x s)" "all_links s"
  shows "all_links (fold f xs s)"
  using assms by (intro fold_keeps[where P = all_links])

lemma all_links_raise:
  assumes "fold_raise f xs s = Some s'" "\<And>x s s'. all_links s \<Longrightarrow> f x s = Some s' \<Longrightarrow> all_links s'" "all_links s"
  shows "all_links s'"
  by (rule fold_raise_keeps[where P = all_links, OF _ assms(3,1)]) (rule assms(2))

lemma check_element_keeps: "all_links cl \<Longrightarrow> check_element ou i cl = Some cl' \<Longrightarrow> all_links cl'"
  by (auto simp: check_element_def with_link_opt_def bind_eq_Some_conv Let_def split: if_splits
      intro!: all_links_put all_links_on_link dest: all_linksD update_infos_keeps[rotated])

lemma check_alive_keeps:
  assumes "all_links cl" "check_alive ou cl = Some cl'" shows "all_links cl'"
proof -
  from assms(2) obtain cl1 where 1: "fold_raise (check_element ou) (elements cl) cl = Some cl1"
    and 2: "fold_raise (\<lambda>arb cl. if cl_me cl \<noteq> Some arb \<and> sl_spare (cl_link cl arb)
       then with_link_opt (update_infos (ou_net ou) (ou_now ou)) arb cl else Some cl) (cl_arbiters cl1) cl1 = Some cl'"
    by (auto simp: check_alive_def bind_eq_Some_conv)
  have "all_links cl1" by (rule all_links_raise[OF 1 check_element_keeps assms(1)])
  then show ?thesis
    by (rule all_links_raise[OF 2, rotated])
      (auto simp: with_link_opt_def split: if_splits intro!: all_links_put dest: all_linksD update_infos_keeps[rotated])
qed

lemma check_arbiter_keeps: "all_links cl \<Longrightarrow> all_links (check_arbiter ou arb cl)"
proof -
  assume cl: "all_links cl"
  obtain b cl1 where 1: "asks_link (\<lambda>i. have_conf (ou_net ou) i True) arb cl = (b, cl1)" by fastforce
  have cl1: "all_links cl1"
    using asks_keeps[OF cl, of arb "\<lambda>i. have_conf (ou_net ou) i True"] asked_keeps(1) 1 by fastforce
  have n: "all_links c \<Longrightarrow> all_links (snd (asks_link (do_not_run (ou_net ou)) arb c))" for c
    by (rule asks_keeps) (auto dest: asked_keeps(2)[rotated])
  have p: "all_links c \<Longrightarrow> all_links (snd (asks_link (\<lambda>i. put_conf (ou_net ou) i Put_whole_conf) arb c))" for c
    by (rule asks_keeps) (auto dest: put_conf_keeps[rotated])
  show ?thesis using cl cl1 by (auto simp: check_arbiter_def 1 split: option.splits intro!: n p)
qed

lemma check_scheduled_keeps: "all_links cl \<Longrightarrow> check_scheduled c cl = Some cl' \<Longrightarrow> all_links cl'"
  by (auto simp: check_scheduled_def Let_def bind_eq_Some_conv all_linksD split: option.splits if_splits
      intro!: all_links_on_link)

lemma check_kinds_keeps: "all_links cl \<Longrightarrow> all_links (check_kinds r c flavor ks cl)"
proof (induction ks arbitrary: cl)
  case (Cons k ks)
  have "all_links cl \<Longrightarrow> all_links (fold (check_managing r c k flavor) ss cl)" for ss cl
    by (rule all_links_fold) (simp_all add: check_managing_def Let_def)
  with Cons show ?case by (auto simp: Let_def split: option.splits)
qed simp

lemma check_receiver_keeps: "all_links cl \<Longrightarrow> check_receiver ou s cl = Some cl' \<Longrightarrow> all_links cl'"
  by (auto simp: check_receiver_def Let_def split: if_splits intro!: all_links_on_link all_links_put
      dest: all_linksD asked_keeps(5)[rotated])

lemma check_dispatch_keeps:
  assumes "all_links cl" "check_dispatch ou cl = Some cl'" shows "all_links cl'"
proof -
  let ?cl1 = "fold (check_arbiter ou) (cl_arbiters cl) cl"
  from assms(2) obtain cl2 where 2: "fold_raise (\<lambda>(r, c). check_scheduled c) (realm_confs ?cl1) ?cl1 = Some cl2"
    and 3: "fold_raise (check_receiver ou) (realm_receivers (fold (\<lambda>(r, c). check_satellites r c) (realm_confs cl2) cl2))
      (fold (\<lambda>(r, c). check_satellites r c) (realm_confs cl2) cl2) = Some cl'"
    by (auto simp: check_dispatch_def Let_def bind_eq_Some_conv)
  have "all_links ?cl1" by (rule all_links_fold[OF check_arbiter_keeps assms(1)])
  then have "all_links cl2" by (rule all_links_raise[OF 2, rotated]) (auto dest: check_scheduled_keeps)
  then have "all_links (fold (\<lambda>(r, c). check_satellites r c) (realm_confs cl2) cl2)"
    by (rule all_links_fold[rotated]) (auto simp: check_satellites_def check_kinds_keeps)
  then show ?thesis by (rule all_links_raise[OF 3, rotated]) (rule check_receiver_keeps)
qed

lemma no_scheduler_left_keeps: "all_links cl \<Longrightarrow> all_links (no_scheduler_left r c cl)"
  unfolding no_scheduler_left_def by (rule all_links_fold) simp_all

lemma give_conf_keeps: "all_links cl \<Longrightarrow> all_links (give_conf r c s cl)"
  unfolding give_conf_def Let_def
  by (rule all_links_fold) (auto intro!: all_links_on_link simp: all_linksD)

lemma place_conf_keeps: "all_links cl \<Longrightarrow> all_links (snd (place_conf ou r c scheds cl))"
proof (induction scheds arbitrary: cl)
  case (Cons s scheds)
  have p: "all_links (snd (asks_link (\<lambda>i. put_conf (ou_net ou) i req) s cl))" if "all_links cl" for req cl
    by (rule asks_keeps[OF that]) (auto dest: put_conf_keeps[rotated])
  show ?case
    using Cons.prems p by (auto simp: Let_def split: prod.splits intro!: Cons.IH give_conf_keeps) (metis all_links_other(2) snd_conv)+
qed (simp add: no_scheduler_left_keeps)

lemma place_confs_keeps: "all_links cl \<Longrightarrow> all_links (place_confs ou r cs scheds cl)"
  by (induction ou r cs scheds cl rule: place_confs.induct)
    (auto split: prod.splits, metis place_conf_keeps snd_conv)

lemma settle_keeps: "all_links cl \<Longrightarrow> all_links (settle_schedulers cl)"
  unfolding settle_schedulers_def Let_def
  by (auto intro!: all_links_fold all_links_on_link simp: all_linksD)

lemma broker_links_keeps:
  "all_links cl \<Longrightarrow> fill_broker_with_poller_reactionner_links n r s cl = Some cl' \<Longrightarrow> all_links cl'"
  by (auto simp: fill_broker_with_poller_reactionner_links_def bind_eq_Some_conv all_linksD intro!: all_links_on_link)

lemma prepare_sat_cfg_keeps: "all_links cl \<Longrightarrow> prepare_sat_cfg ou r c k part s cl = Some cl' \<Longrightarrow> all_links cl'"
  by (auto simp: prepare_sat_cfg_def Let_def all_linksD split: if_splits
      intro!: all_links_on_link intro: broker_links_keeps[rotated])

lemma send_sat_conf_keeps: "all_links cl \<Longrightarrow> all_links (snd (send_sat_conf ou c flavor s cl))"
  unfolding send_sat_conf_def
  by (cases "do_i_manage (cl_link cl s) c flavor") (auto intro!: asks_keeps dest: put_conf_keeps[rotated])

lemma note_managed_keeps: "all_links cl \<Longrightarrow> note_managed r c k flavor s cl = Some cl' \<Longrightarrow> all_links cl'"
  by (auto simp: note_managed_def known_conf_managed_push_def all_linksD intro!: all_links_on_link)

lemma push_names_keeps: "all_links cl \<Longrightarrow> all_links (with_link (\<lambda>i. push_host_names net i c hs) s cl)"
  using asked_keeps(6)[OF all_linksD]
  by (cases "push_host_names net s c hs (cl_link cl s) (cl_history cl)") (auto simp: with_link_def intro!: all_links_put)

lemma send_to_satellites_keeps:
  "all_links cl \<Longrightarrow> send_to_satellites ou r c k flavor part ss nb cl = Some (n, cl') \<Longrightarrow> all_links cl'"
proof (induction ss arbitrary: nb cl)
  case (Cons s ss)
  show ?case
  proof (cases "nb < rl_nb (cl_realm cl r) k \<and> sl_alive (cl_link cl s)")
    case True
    with Cons.prems(2) obtain cl1 where 1: "prepare_sat_cfg ou r c k part s cl = Some cl1"
      by (auto simp: bind_eq_Some_conv)
    obtain b cl2 where 2: "send_sat_conf ou c flavor s cl1 = (b, cl2)" by fastforce
    have k2: "all_links cl2"
      using send_sat_conf_keeps[OF prepare_sat_cfg_keeps[OF Cons.prems(1) 1], of ou c flavor s] 2 by simp
    from Cons.prems(2) True show ?thesis
      by (auto simp: 1 2 bind_eq_Some_conv Let_def split: if_splits
          dest!: note_managed_keeps[OF k2] dest: Cons.IH[rotated] Cons.IH[OF push_names_keeps] intro: Cons.IH[OF k2])
  qed (use Cons in auto)
qed simp

lemma dispatch_kind_keeps: "all_links cl \<Longrightarrow> dispatch_kind ou r c k cl = Some cl' \<Longrightarrow> all_links cl'"
  by (auto simp: dispatch_kind_def bind_eq_Some_conv split: if_splits dest: send_to_satellites_keeps)

lemma dispatch_receiver_keeps: "all_links cl \<Longrightarrow> all_links (dispatch_receiver ou s cl)"
proof -
  assume cl: "all_links cl"
  have "all_links (snd (asks_link (\<lambda>i. put_conf (ou_net ou) i req) s cl))" for req
    by (rule asks_keeps[OF cl]) (auto dest: put_conf_keeps[rotated])
  from this[of "Put_sat_conf (sl_cfg (cl_link cl s))"] cl show ?thesis
    by (auto simp: dispatch_receiver_def all_linksD split: prod.splits intro!: all_links_on_link)
qed

lemma dispatch_keeps:
  assumes "all_links cl" "dispatch ou cl = Some cl'" shows "all_links cl'"
proof (cases "cl_dispatch_ok cl")
  case False
  let ?cl1 = "settle_schedulers (fold (dispatch_realm ou) (cl_realms cl) (cl\<lparr>cl_first_dispatch_done := True\<rparr>))"
  from assms(2) False obtain cl2 where
    2: "fold_raise (\<lambda>(r, c). dispatch_satellites ou r c) (realm_confs ?cl1) ?cl1 = Some cl2"
    and c: "cl' = fold (dispatch_receiver ou) (realm_receivers cl2) cl2"
    by (auto simp: dispatch_def Let_def bind_eq_Some_conv)
  have "all_links (fold (dispatch_realm ou) (cl_realms cl) (cl\<lparr>cl_first_dispatch_done := True\<rparr>))"
    by (rule all_links_fold) (simp_all add: dispatch_realm_def place_confs_keeps assms(1))
  then have "all_links ?cl1" by (rule settle_keeps)
  then have "all_links cl2"
    by (rule all_links_raise[OF 2, rotated])
      (auto simp: dispatch_satellites_def dest: all_links_raise[OF _ dispatch_kind_keeps])
  then show ?thesis unfolding c by (intro all_links_fold dispatch_receiver_keeps)
qed (use assms in \<open>auto simp: dispatch_def\<close>)

lemma waits_keeps: "all_links cl \<Longrightarrow> all_links (snd (asks_link (wait_new_conf net) s cl))"
  by (rule asks_keeps) (auto dest: asked_keeps(3)[rotated])

lemma removes_keeps: "all_links cl \<Longrightarrow> all_links (snd (asks_link (\<lambda>i. remove_from_conf net i c) s cl))"
  by (rule asks_keeps) (auto dest: asked_keeps(4)[rotated])

lemma idle_element_keeps: "all_links cl \<Longrightarrow> all_links (idle_element ou i cl)"
proof -
  assume cl: "all_links cl"
  have "all_links (snd (asks_link (\<lambda>i. have_conf (ou_net ou) i False) i cl))"
    by (rule asks_keeps[OF cl]) (auto dest: asked_keeps(1)[rotated])
  with cl show ?thesis
    by (auto simp: idle_element_def Let_def all_linksD split: prod.splits intro!: waits_keeps all_links_on_link)
qed

lemma idle_satellite_keeps: "all_links cl \<Longrightarrow> idle_satellite ou s cl = Some cl' \<Longrightarrow> all_links cl'"
  by (auto simp: idle_satellite_def Let_def all_linksD split: if_splits
      intro!: waits_keeps removes_keeps all_links_on_link all_links_fold)

theorem dispatcher_turn_keeps:
  assumes "all_links cl" "dispatcher_turn ou cl = Some cl'" shows "all_links cl'"
proof -
  from assms(2) obtain cl1 cl2 cl3 where turn: "check_alive ou cl = Some cl1" "check_dispatch ou cl1 = Some cl2"
    "dispatch ou cl2 = Some cl3" "check_bad_dispatch ou cl3 = Some cl'"
    by (auto simp: dispatcher_turn_def bind_eq_Some_conv)
  have "all_links cl3"
    by (rule dispatch_keeps[OF check_dispatch_keeps[OF check_alive_keeps[OF assms(1) turn(1)] turn(2)] turn(3)])
  then have "all_links (fold (idle_element ou) (elements cl3) cl3)" by (intro all_links_fold idle_element_keeps)
  then show ?thesis
    using turn(4) by (auto simp: check_bad_dispatch_def Let_def intro: all_links_raise[OF _ idle_satellite_keeps])
qed

end

subsection \<open>Alive and dead\<close>

text \<open>A link is alive as long as it has attempts left; it is only reachable when the last request was answered.\<close>

definition health_ok :: "satlink \<Rightarrow> bool" where
  "health_ok l \<longleftrightarrow> 0 < sl_max_check_attempts l \<and> 0 \<le> sl_attempt l \<and> sl_attempt l \<le> sl_max_check_attempts l \<and>
     (sl_alive l \<longleftrightarrow> sl_attempt l < sl_max_check_attempts l) \<and> (sl_reachable l \<longrightarrow> sl_attempt l = 0)"

interpretation health: link_invariant "\<lambda>_. health_ok"
  by unfold_locales
    (auto simp: health_ok_def add_failed_check_attempt_def set_dead_def set_alive_def raise_status_brok_def Let_def)

text \<open>Through a turn of the arbiter's loop, whatever the network answers, a link is alive exactly
  as long as it has failed less than \<^verbatim>\<open>max_check_attempts\<close> times since it last answered, and a reachable link is alive
  and has no failed attempt.\<close>

theorem turn_keeps_health:
  assumes "\<forall>i. health_ok (cl_link cl i)" "dispatcher_turn ou cl = Some cl'"
  shows "\<forall>i. health_ok (cl_link cl' i)"
  using health.dispatcher_turn_keeps[OF _ assms(2)] assms(1) by (simp add: health.all_links_def)

lemma small_turn:
  "map_option (\<lambda>cl. map (\<lambda>i. (sl_alive (cl_link cl i), sl_attempt (cl_link cl i), sl_managed_confs (cl_link cl i))) [0, 1])
     (dispatcher_turn small_outside (new_dispatcher small_cluster)) = Some [(True, 0, [(7, 5)]), (True, 0, [(7, 5)])]"
  by (simp add: small_eval)

theorem turn_keeps_health_witness:
  "\<exists>cl. dispatcher_turn small_outside (new_dispatcher small_cluster) = Some cl \<and> (\<forall>i. health_ok (cl_link cl i))"
proof -
  obtain cl where cl: "dispatcher_turn small_outside (new_dispatcher small_cluster) = Some cl" using small_turn by auto
  have "\<forall>i. health_ok (cl_link (new_dispatcher small_cluster) i)" by (simp add: small_eval health_ok_def)
  from turn_keeps_health[OF this cl] cl show ?thesis by blast
qed

fun pings :: "network \<Rightarrow> lid \<Rightarrow> nat \<Rightarrow> satlink \<Rightarrow> history \<Rightarrow> (satlink \<times> history) option" where
  "pings net i 0 l h = Some (l, h)"
| "pings net i (Suc n) l h = do { (l, h) \<leftarrow> ping net i l h; pings net i n l h }"

definition refuses :: "network \<Rightarrow> lid \<Rightarrow> bool" where
  "refuses net i \<longleftrightarrow> (\<forall>h. case net (h @ [(i, Ping)]) of Http_exception \<Rightarrow> True
     | Reply b \<Rightarrow> (case b of Text t \<Rightarrow> t \<noteq> ''pong'' | _ \<Rightarrow> False))"

lemma refused_ping:
  "refuses net i \<Longrightarrow> ping net i l h = Some (add_failed_check_attempt (connected l), h @ [(i, Ping)])"
  by (auto simp: refuses_def ping_def ask_def Let_def split: answer.splits body.splits dest!: spec[of _ h])

lemma failed_attempt_fields:
  assumes "health_ok l" "l' = add_failed_check_attempt (connected l)"
  shows "health_ok l' \<and> sl_max_check_attempts l' = sl_max_check_attempts l \<and> \<not> sl_reachable l' \<and>
    sl_attempt l' = min (sl_attempt l + 1) (sl_max_check_attempts l) \<and>
    length (sl_broks l') = length (sl_broks l) +
      (if sl_attempt l < sl_max_check_attempts l \<and> sl_attempt l' = sl_max_check_attempts l then 1 else 0)"
  using assms by (auto simp: health_ok_def add_failed_check_attempt_def set_dead_def raise_status_brok_def
      connected_def create_connection_def Let_def)

text \<open>C29: a link whose pings fail in a row is dead after \<^verbatim>\<open>max_check_attempts\<close> of them and not
  before; it is told to the brokers once.\<close>

theorem dead_after_max_attempts:
  assumes "health_ok l" "sl_attempt l = 0" "refuses net i"
  shows "\<exists>l' h'. pings net i n l h = Some (l', h') \<and>
    sl_attempt l' = min (int n) (sl_max_check_attempts l) \<and>
    (sl_alive l' \<longleftrightarrow> int n < sl_max_check_attempts l) \<and>
    length (sl_broks l') = length (sl_broks l) + (if int n < sl_max_check_attempts l then 0 else 1)"
proof -
  have "\<exists>l' h'. pings net i n l h = Some (l', h') \<and> health_ok l' \<and> sl_max_check_attempts l' = sl_max_check_attempts l \<and>
    sl_attempt l' = min (sl_attempt l + int n) (sl_max_check_attempts l) \<and>
    length (sl_broks l') = length (sl_broks l) +
      (if sl_attempt l < sl_max_check_attempts l \<and> sl_attempt l + int n \<ge> sl_max_check_attempts l then 1 else 0)"
    if "health_ok l" for l h
    using that
  proof (induction n arbitrary: l h)
    case 0
    then show ?case by (auto simp: health_ok_def)
  next
    case (Suc n)
    define l1 where "l1 = add_failed_check_attempt (connected l)"
    note f = failed_attempt_fields[OF Suc.prems l1_def]
    with Suc.IH[of l1 "h @ [(i, Ping)]"] Suc.prems show ?case
      by (auto simp: refused_ping[OF assms(3)] l1_def[symmetric] health_ok_def)
  qed
  from this[OF assms(1), of h] assms(1,2) show ?thesis by (auto simp: health_ok_def)
qed

theorem dead_after_max_attempts_witness:
  "\<exists>l h. pings (\<lambda>_. Http_exception) 0 3 (small_link Poller_link) [] = Some (l, h) \<and> \<not> sl_alive l \<and> length (sl_broks l) = 1"
  using dead_after_max_attempts[of "small_link Poller_link" "\<lambda>_. Http_exception" 0 3 "[]"]
  by (auto simp: health_ok_def small_link_def refuses_def)

end
