(* ===== verification/Assignments.thy ===== *)
theory Assignments
  imports Small_Cluster
begin

text \<open>
  A part of the configuration and the scheduler it is assigned to point at each other, through every turn of the arbiter's
  loop and whatever the network answers. \<^verbatim>\<open>frame\<close> is what most of the loop leaves alone: who works on what, which
  schedulers are alive and wait for a part, and the shape of the realms.
\<close>

subsection \<open>The invariant\<close>

definition fixed_realm :: "realm \<Rightarrow> lid list \<times> (link_type \<Rightarrow> lid list) \<times> rid list \<times> (link_type \<Rightarrow> lid list) \<times> cid list" where
  "fixed_realm re = (rl_schedulers re, rl_satellites re, rl_higher re, rl_potential re, rl_confs re)"

definition frame :: "cluster \<Rightarrow> cluster \<Rightarrow> bool" where
  "frame cl cl' \<longleftrightarrow>
     cl_conf cl' = cl_conf cl \<and> cl_realms cl' = cl_realms cl \<and> elements cl' = elements cl \<and> cl_arbiters cl' = cl_arbiters cl \<and>
     (\<forall>r. fixed_realm (cl_realm cl' r) = fixed_realm (cl_realm cl r)) \<and>
     (\<forall>i. sl_type (cl_link cl' i) = sl_type (cl_link cl i) \<and> sl_conf (cl_link cl' i) = sl_conf (cl_link cl i) \<and>
       (sl_conf (cl_link cl i) \<noteq> None \<longrightarrow> sl_alive (cl_link cl' i) = sl_alive (cl_link cl i) \<and>
          sl_need_conf (cl_link cl' i) = sl_need_conf (cl_link cl i)))"

definition parts :: "cluster \<Rightarrow> cid set" where
  "parts cl = (\<Union>r \<in> set (cl_realms cl). set (rl_confs (cl_realm cl r)))"

text \<open>The shape of the cluster: the links of a realm have the types of their lists, nothing is listed twice.\<close>

definition well_formed :: "cluster \<Rightarrow> bool" where
  "well_formed cl \<longleftrightarrow> distinct (elements cl) \<and> (\<forall>r. distinct (rl_confs (cl_realm cl r))) \<and>
     (\<forall>i \<in> set (cl_arbiters cl). sl_type (cl_link cl i) = Arbiter_link) \<and>
     (\<forall>r. \<forall>i \<in> set (rl_schedulers (cl_realm cl r)). sl_type (cl_link cl i) = Scheduler_link) \<and>
     (\<forall>r k. \<forall>i \<in> set (rl_satellites (cl_realm cl r) k) \<union> set (rl_potential (cl_realm cl r) k). sl_type (cl_link cl i) = k)"

definition agreed :: "cluster \<Rightarrow> bool" where
  "agreed cl \<longleftrightarrow> well_formed cl \<and>
     (\<forall>i. sl_conf (cl_link cl i) \<noteq> None \<longrightarrow> sl_type (cl_link cl i) = Scheduler_link) \<and>
     (\<forall>c s. cp_assigned_to (cl_conf cl c) = Some s \<longleftrightarrow> sl_conf (cl_link cl s) = Some c) \<and>
     (\<forall>c. cp_is_assigned (cl_conf cl c) \<longleftrightarrow> cp_assigned_to (cl_conf cl c) \<noteq> None) \<and>
     (\<forall>c. cp_assigned_to (cl_conf cl c) \<noteq> None \<longrightarrow> c \<in> parts cl)"

text \<open>Who waits for a part has none; or only the dead do.\<close>

definition waiting :: "cluster \<Rightarrow> bool" where
  "waiting cl \<longleftrightarrow> (\<forall>i. sl_need_conf (cl_link cl i) \<longrightarrow> sl_conf (cl_link cl i) = None)"

definition dead_wait :: "cluster \<Rightarrow> bool" where
  "dead_wait cl \<longleftrightarrow> (\<forall>i. sl_need_conf (cl_link cl i) \<and> sl_conf (cl_link cl i) \<noteq> None \<longrightarrow> \<not> sl_alive (cl_link cl i))"

lemma frame_refl [simp]: "frame cl cl" by (simp add: frame_def)

lemma frame_trans: "frame a b \<Longrightarrow> frame b c \<Longrightarrow> frame a c"
  unfolding frame_def by (elim conjE, intro conjI) simp_all

lemma frame_parts: "frame cl cl' \<Longrightarrow> parts cl' = parts cl"
  by (simp add: frame_def parts_def fixed_realm_def)

lemma frame_confs: "frame cl cl' \<Longrightarrow> realm_confs cl' = realm_confs cl"
  by (simp add: frame_def realm_confs_def fixed_realm_def)

lemma frame_well_formed: "frame cl cl' \<Longrightarrow> well_formed cl \<Longrightarrow> well_formed cl'"
  unfolding frame_def well_formed_def fixed_realm_def by simp

lemma frame_agreed: "frame cl cl' \<Longrightarrow> agreed cl \<Longrightarrow> agreed cl'"
  using frame_well_formed[of cl cl'] frame_parts[of cl cl'] by (simp add: frame_def agreed_def)

lemma frame_waiting: "frame cl cl' \<Longrightarrow> waiting cl \<Longrightarrow> waiting cl'"
  unfolding frame_def waiting_def by (metis not_None_eq)

lemma frame_dead_wait: "frame cl cl' \<Longrightarrow> dead_wait cl \<Longrightarrow> dead_wait cl'"
  unfolding frame_def dead_wait_def by metis

definition same_work :: "satlink \<Rightarrow> satlink \<Rightarrow> bool" where
  "same_work l l' \<longleftrightarrow> sl_type l' = sl_type l \<and> sl_conf l' = sl_conf l \<and>
     (sl_conf l \<noteq> None \<longrightarrow> sl_alive l' = sl_alive l \<and> sl_need_conf l' = sl_need_conf l)"

lemma frame_put [simp]: "same_work (cl_link cl i) l \<Longrightarrow> frame cl (put_link i (l, h) cl)"
  by (simp add: frame_def same_work_def)

lemma frame_on_link [simp]: "same_work (cl_link cl i) (f (cl_link cl i)) \<Longrightarrow> frame cl (on_link i f cl)"
  by (simp add: frame_def same_work_def)

lemma frame_on_realm [simp]:
  "fixed_realm (f (cl_realm cl r)) = fixed_realm (cl_realm cl r) \<Longrightarrow> frame cl (on_realm r f cl)"
  by (simp add: frame_def)

lemma frame_request [simp]: "frame cl (request_dispatch cl)" by (simp add: frame_def)

lemma frame_fold:
  assumes "\<And>x s. x \<in> set xs \<Longrightarrow> frame cl s \<Longrightarrow> frame s (f x s)"
  shows "frame cl (fold f xs cl)"
  by (rule fold_keeps[where P = "frame cl"]) (auto intro: frame_trans assms)

lemma frame_raise:
  assumes "\<And>x s s'. x \<in> set xs \<Longrightarrow> frame cl s \<Longrightarrow> f x s = Some s' \<Longrightarrow> frame s s'" "fold_raise f xs cl = Some cl'"
  shows "frame cl cl'"
  by (rule fold_raise_keeps[where P = "frame cl", OF _ _ assms(2)]) (auto intro: frame_trans assms(1))

lemma agreed_iff: "agreed cl \<Longrightarrow> cp_assigned_to (cl_conf cl c) = Some s \<longleftrightarrow> sl_conf (cl_link cl s) = Some c"
  by (simp add: agreed_def)

lemma agreed_part: "agreed cl \<Longrightarrow> cp_assigned_to (cl_conf cl c) = Some s \<Longrightarrow> c \<in> parts cl"
  unfolding agreed_def by blast

lemma agreed_type: "agreed cl \<Longrightarrow> sl_conf (cl_link cl s) = Some c \<Longrightarrow> sl_type (cl_link cl s) = Scheduler_link"
  unfolding agreed_def by blast

lemma agreedI:
  assumes "well_formed cl" "\<And>c s. cp_assigned_to (cl_conf cl c) = Some s \<longleftrightarrow> sl_conf (cl_link cl s) = Some c"
    "\<And>c s. sl_conf (cl_link cl s) = Some c \<Longrightarrow> sl_type (cl_link cl s) = Scheduler_link"
    "\<And>c. cp_is_assigned (cl_conf cl c) \<longleftrightarrow> cp_assigned_to (cl_conf cl c) \<noteq> None"
    "\<And>c s. cp_assigned_to (cl_conf cl c) = Some s \<Longrightarrow> c \<in> parts cl"
  shows "agreed cl"
  unfolding agreed_def using assms(1,3,4,5) by (auto simp: assms(2))

lemma agreed_assigned: "agreed cl \<Longrightarrow> cp_is_assigned (cl_conf cl c) \<longleftrightarrow> cp_assigned_to (cl_conf cl c) \<noteq> None"
  unfolding agreed_def by blast

subsection \<open>Requests\<close>

lemma connected_fields [simp]:
  "sl_type (connected l) = sl_type l" "sl_conf (connected l) = sl_conf l" "sl_alive (connected l) = sl_alive l"
  "sl_need_conf (connected l) = sl_need_conf l" "sl_type (drop_connection l) = sl_type l"
  "sl_conf (drop_connection l) = sl_conf l" "sl_alive (drop_connection l) = sl_alive l"
  "sl_need_conf (drop_connection l) = sl_need_conf l"
  by (simp_all add: connected_def create_connection_def drop_connection_def)

lemma failed_fields [simp]:
  "sl_type (add_failed_check_attempt l) = sl_type l" "sl_conf (add_failed_check_attempt l) = sl_conf l"
  "sl_need_conf (add_failed_check_attempt l) = sl_need_conf l"
  "sl_type (set_alive l) = sl_type l" "sl_conf (set_alive l) = sl_conf l" "sl_need_conf (set_alive l) = sl_need_conf l"
  "sl_type (raise_status_brok l) = sl_type l" "sl_conf (raise_status_brok l) = sl_conf l"
  "sl_need_conf (raise_status_brok l) = sl_need_conf l" "sl_alive (raise_status_brok l) = sl_alive l"
  by (simp_all add: add_failed_check_attempt_def set_dead_def set_alive_def raise_status_brok_def Let_def)

lemma put_conf_work: "put_conf net i req l h = (b, l', h') \<Longrightarrow> same_work l l' \<and> sl_need_conf l' = sl_need_conf l \<and> sl_alive l' = sl_alive l"
  by (auto simp: put_conf_def same_work_def Let_def split: prod.splits if_splits)

lemma asked_work:
  "have_conf net i m l h = (b, l', h') \<Longrightarrow> same_work l l'"
  "do_not_run net i l h = (b, l', h') \<Longrightarrow> same_work l l'"
  "wait_new_conf net i l h = (b, l', h') \<Longrightarrow> same_work l l'"
  "remove_from_conf net i c l h = (b, l', h') \<Longrightarrow> same_work l l'"
  "got_conf net i l h = Some (b, l', h') \<Longrightarrow> same_work l l'"
  by (auto simp: have_conf_def do_not_run_def wait_new_conf_def remove_from_conf_def got_conf_def same_work_def
      Let_def split: prod.splits answer.splits if_splits)

lemma push_names_work: "push_host_names net i c hs l h = (l', h') \<Longrightarrow> sl_conf l = None \<Longrightarrow> same_work l l'"
  by (auto simp: push_host_names_def same_work_def Let_def split: prod.splits if_splits)

lemma ping_work:
  "ping net i l h = Some (l', h') \<Longrightarrow>
     sl_type l' = sl_type l \<and> sl_conf l' = sl_conf l \<and> sl_need_conf l' = sl_need_conf l"
  by (auto simp: ping_def Let_def split: if_splits prod.splits answer.splits body.splits)

lemma update_managed_work:
  "update_managed_list net i l h = Some (l', h') \<Longrightarrow>
     sl_type l' = sl_type l \<and> sl_conf l' = sl_conf l \<and> sl_need_conf l' = sl_need_conf l"
  by (auto simp: update_managed_list_def Let_def split: prod.splits answer.splits option.splits py_value.splits)

lemma update_infos_work:
  "update_infos net now i l h = Some (l', h') \<Longrightarrow>
     sl_type l' = sl_type l \<and> sl_conf l' = sl_conf l \<and> sl_need_conf l' = sl_need_conf l"
  by (auto simp: update_infos_def bind_eq_Some_conv split: if_splits dest!: ping_work update_managed_work)

lemma asks_frame:
  assumes "\<And>l h b l' h'. f i l h = (b, l', h') \<Longrightarrow> same_work l l'"
  shows "frame cl (snd (asks_link f i cl))"
  by (cases "f i (cl_link cl i) (cl_history cl)") (auto simp: asks_link_def dest: assms)

subsection \<open>Checking who is alive\<close>

lemma check_element_work:
  assumes "check_element ou i cl = Some cl'"
  shows "cl_conf cl' = cl_conf cl \<and> cl_realms cl' = cl_realms cl \<and> cl_realm cl' = cl_realm cl \<and>
    elements cl' = elements cl \<and> cl_arbiters cl' = cl_arbiters cl \<and> (\<forall>j. j \<noteq> i \<longrightarrow> cl_link cl' j = cl_link cl j) \<and>
    sl_type (cl_link cl' i) = sl_type (cl_link cl i) \<and> sl_conf (cl_link cl' i) = sl_conf (cl_link cl i) \<and>
    (sl_need_conf (cl_link cl' i) \<and> sl_conf (cl_link cl i) \<noteq> None \<longrightarrow>
       sl_need_conf (cl_link cl i) \<or> \<not> sl_alive (cl_link cl' i))"
proof -
  obtain l h where l: "update_infos (ou_net ou) (ou_now ou) i (cl_link cl i) (cl_history cl) = Some (l, h)"
    and cl': "cl' = (let cl = put_link i (l, h) cl in
      if \<not> sl_alive l \<or> (sl_type l = Scheduler_link \<and> sl_conf l = None)
      then on_link i (\<lambda>l. l\<lparr>sl_need_conf := True\<rparr>) cl else cl)"
    using assms by (auto simp: check_element_def with_link_opt_def bind_eq_Some_conv Let_def split: if_splits)
  from update_infos_work[OF l] show ?thesis by (auto simp: cl' Let_def)
qed

definition same_shape :: "cluster \<Rightarrow> cluster \<Rightarrow> bool" where
  "same_shape cl cl' \<longleftrightarrow> cl_conf cl' = cl_conf cl \<and> cl_realms cl' = cl_realms cl \<and> cl_realm cl' = cl_realm cl \<and>
     elements cl' = elements cl \<and> cl_arbiters cl' = cl_arbiters cl \<and>
     (\<forall>i. sl_type (cl_link cl' i) = sl_type (cl_link cl i) \<and> sl_conf (cl_link cl' i) = sl_conf (cl_link cl i))"

lemma same_shape_agreed: "same_shape cl cl' \<Longrightarrow> agreed cl \<Longrightarrow> agreed cl'"
  by (simp add: same_shape_def agreed_def well_formed_def parts_def)

lemma same_shape_trans: "same_shape a b \<Longrightarrow> same_shape b c \<Longrightarrow> same_shape a c"
  by (simp add: same_shape_def)

lemma check_element_shape:
  assumes "check_element ou i cl = Some cl'" shows "same_shape cl cl'"
  using check_element_work[OF assms] unfolding same_shape_def by metis

lemma check_elements:
  assumes "fold_raise (check_element ou) xs cl = Some cl'" "distinct xs"
    "\<forall>i. sl_need_conf (cl_link cl i) \<and> sl_conf (cl_link cl i) \<noteq> None \<longrightarrow> \<not> sl_alive (cl_link cl i) \<and> i \<notin> set xs"
  shows "same_shape cl cl' \<and> dead_wait cl'"
  using assms
proof (induction xs arbitrary: cl)
  case Nil
  then show ?case by (simp add: same_shape_def dead_wait_def)
next
  case (Cons x xs)
  from Cons.prems(1) obtain cl1 where 1: "check_element ou x cl = Some cl1" "fold_raise (check_element ou) xs cl1 = Some cl'"
    by (auto simp: bind_eq_Some_conv)
  note w = check_element_work[OF 1(1)]
  have "sl_need_conf (cl_link cl1 i) \<and> sl_conf (cl_link cl1 i) \<noteq> None \<longrightarrow> \<not> sl_alive (cl_link cl1 i) \<and> i \<notin> set xs" for i
    using w Cons.prems(2,3) by (cases "i = x") auto
  with Cons.IH[OF 1(2)] Cons.prems(2) check_element_shape[OF 1(1)] show ?case
    by (auto intro: same_shape_trans)
qed

lemma check_alive_agreed:
  assumes "check_alive ou cl = Some cl'" "agreed cl" "waiting cl"
  shows "agreed cl' \<and> dead_wait cl'"
proof -
  from assms(1) obtain cl1 where 1: "fold_raise (check_element ou) (elements cl) cl = Some cl1"
    and 2: "fold_raise (\<lambda>arb cl. if cl_me cl \<noteq> Some arb \<and> sl_spare (cl_link cl arb)
       then with_link_opt (update_infos (ou_net ou) (ou_now ou)) arb cl else Some cl) (cl_arbiters cl1) cl1 = Some cl'"
    by (auto simp: check_alive_def bind_eq_Some_conv)
  have "same_shape cl cl1 \<and> dead_wait cl1"
    by (rule check_elements[OF 1]) (use assms(2,3) in \<open>auto simp: agreed_def well_formed_def waiting_def\<close>)
  then have cl1: "agreed cl1" "dead_wait cl1" using same_shape_agreed assms(2) by auto
  have "frame cl1 cl'"
  proof (rule frame_raise[OF _ 2])
    fix arb s s'
    assume arb: "arb \<in> set (cl_arbiters cl1)" "frame cl1 s"
      and s': "(if cl_me s \<noteq> Some arb \<and> sl_spare (cl_link s arb)
       then with_link_opt (update_infos (ou_net ou) (ou_now ou)) arb s else Some s) = Some s'"
    have "sl_conf (cl_link s arb) = None"
      using frame_agreed[OF arb(2) cl1(1)] arb by (auto simp: agreed_def well_formed_def frame_def)
    with s' show "frame s s'"
      by (auto simp: with_link_opt_def same_work_def dest!: update_infos_work split: if_splits)
  qed
  with cl1 show ?thesis using frame_agreed frame_dead_wait by blast
qed

subsection \<open>Checking the dispatch\<close>

lemma check_arbiter_frame: "frame cl (check_arbiter ou arb cl)"
proof -
  obtain b cl1 where 1: "asks_link (\<lambda>i. have_conf (ou_net ou) i True) arb cl = (b, cl1)" by fastforce
  have f1: "frame cl cl1" using asks_frame[of "\<lambda>i. have_conf (ou_net ou) i True" arb cl] 1 asked_work(1) by fastforce
  have n: "frame c (snd (asks_link (do_not_run (ou_net ou)) arb c))" for c by (rule asks_frame) (rule asked_work(2))
  have p: "frame c (snd (asks_link (\<lambda>i. put_conf (ou_net ou) i Put_whole_conf) arb c))" for c
    by (rule asks_frame) (auto dest: put_conf_work)
  show ?thesis
    by (auto simp: check_arbiter_def 1 f1 split: option.splits intro: frame_trans[OF f1 n] frame_trans[OF frame_trans[OF f1 p] n])
qed

lemma free_conf_conf [simp]:
  "cl_conf (free_conf c cl) = (cl_conf cl)(c := (cl_conf cl c)\<lparr>cp_assigned_to := None, cp_is_assigned := False, cp_push_flavor := 0\<rparr>)"
  "cl_link (free_conf c cl) = cl_link cl" "cl_realms (free_conf c cl) = cl_realms cl" "cl_realm (free_conf c cl) = cl_realm cl"
  "elements (free_conf c cl) = elements cl" "cl_arbiters (free_conf c cl) = cl_arbiters cl"
  by (simp_all add: free_conf_def)

text \<open>A part that is checked keeps its scheduler, which is then alive, or both let go of each other.\<close>

lemma check_scheduled_effect:
  assumes "check_scheduled c cl = Some cl'" "agreed cl"
  shows "(frame cl cl' \<and> (\<forall>s. cp_assigned_to (cl_conf cl c) = Some s \<longrightarrow> sl_alive (cl_link cl s))) \<or>
    (\<exists>s. cp_assigned_to (cl_conf cl c) = Some s \<and> cl_realms cl' = cl_realms cl \<and> cl_realm cl' = cl_realm cl \<and>
      elements cl' = elements cl \<and> cl_arbiters cl' = cl_arbiters cl \<and>
      cl_conf cl' = (cl_conf cl)(c := (cl_conf cl c)\<lparr>cp_assigned_to := None, cp_is_assigned := False, cp_push_flavor := 0\<rparr>) \<and>
      (\<forall>i. i \<noteq> s \<longrightarrow> cl_link cl' i = cl_link cl i) \<and> sl_type (cl_link cl' s) = sl_type (cl_link cl s) \<and>
      sl_conf (cl_link cl' s) = None)"
proof (cases "cp_assigned_to (cl_conf cl c)")
  case None
  then show ?thesis using assms(1) by (auto simp: check_scheduled_def)
next
  case (Some s)
  with assms(2) have s: "sl_conf (cl_link cl s) = Some c" by (simp add: agreed_def)
  with Some assms(1) show ?thesis
    by (auto simp: check_scheduled_def Let_def do_i_manage_def split: if_splits)
qed

lemma agreed_release:
  assumes "agreed cl" "cp_assigned_to (cl_conf cl c) = Some s" "cl_realms cl' = cl_realms cl" "cl_realm cl' = cl_realm cl"
    "elements cl' = elements cl" "cl_arbiters cl' = cl_arbiters cl"
    "cl_conf cl' = (cl_conf cl)(c := (cl_conf cl c)\<lparr>cp_assigned_to := None, cp_is_assigned := False, cp_push_flavor := 0\<rparr>)"
    "\<forall>i. i \<noteq> s \<longrightarrow> cl_link cl' i = cl_link cl i" "sl_type (cl_link cl' s) = sl_type (cl_link cl s)"
    "sl_conf (cl_link cl' s) = None"
  shows "agreed cl'"
proof -
  have types: "sl_type (cl_link cl' i) = sl_type (cl_link cl i)" for i using assms(8,9) by (cases "i = s") auto
  then have "well_formed cl'" using assms(1,3-6) by (simp add: agreed_def well_formed_def)
  moreover have bij: "cp_assigned_to (cl_conf cl' d) = Some i \<longleftrightarrow> sl_conf (cl_link cl' i) = Some d" for d i
  proof -
    have "sl_conf (cl_link cl i) = Some c \<longleftrightarrow> i = s" using agreed_iff[OF assms(1), of c i] assms(2) by auto
    then show ?thesis
      using agreed_iff[OF assms(1), of d i] assms(7,8,10) by (cases "i = s"; cases "d = c") auto
  qed
  moreover have "sl_conf (cl_link cl' i) \<noteq> None \<longrightarrow> sl_type (cl_link cl' i) = Scheduler_link" for i
    using agreed_type[OF assms(1)] assms(8-10) by (cases "i = s") auto
  moreover have "cp_is_assigned (cl_conf cl' d) \<longleftrightarrow> cp_assigned_to (cl_conf cl' d) \<noteq> None" for d
    using agreed_assigned[OF assms(1), of d] assms(7) by (cases "d = c") auto
  moreover have "d \<in> parts cl'" if "cp_assigned_to (cl_conf cl' d) = Some i" for d i
    using agreed_part[OF assms(1), of d] that assms(3,4,7) by (cases "d = c") (auto simp: parts_def)
  ultimately show ?thesis by (intro agreedI) auto
qed

lemma check_scheduled_step:
  assumes "check_scheduled c cl = Some cl'" "agreed cl" "dead_wait cl"
  shows "agreed cl' \<and> dead_wait cl' \<and> realm_confs cl' = realm_confs cl \<and>
    (\<forall>d s. cp_assigned_to (cl_conf cl' d) = Some s \<longrightarrow>
       cp_assigned_to (cl_conf cl d) = Some s \<and> sl_alive (cl_link cl' s) = sl_alive (cl_link cl s) \<and>
       (d = c \<longrightarrow> sl_alive (cl_link cl' s)))"
proof -
  consider (same) "frame cl cl'" "\<forall>s. cp_assigned_to (cl_conf cl c) = Some s \<longrightarrow> sl_alive (cl_link cl s)"
    | (freed) s where "cp_assigned_to (cl_conf cl c) = Some s" "cl_realms cl' = cl_realms cl" "cl_realm cl' = cl_realm cl"
      "elements cl' = elements cl" "cl_arbiters cl' = cl_arbiters cl"
      "cl_conf cl' = (cl_conf cl)(c := (cl_conf cl c)\<lparr>cp_assigned_to := None, cp_is_assigned := False, cp_push_flavor := 0\<rparr>)"
      "\<forall>i. i \<noteq> s \<longrightarrow> cl_link cl' i = cl_link cl i" "sl_type (cl_link cl' s) = sl_type (cl_link cl s)"
      "sl_conf (cl_link cl' s) = None"
    using check_scheduled_effect[OF assms(1,2)] by blast
  then show ?thesis
  proof cases
    case same
    have "sl_alive (cl_link cl' s) = sl_alive (cl_link cl s)" if "cp_assigned_to (cl_conf cl d) = Some s" for d s
      using same(1) that assms(2) by (auto simp: frame_def agreed_def)
    with same show ?thesis
      using frame_agreed[OF same(1) assms(2)] frame_dead_wait[OF same(1) assms(3)] frame_confs[OF same(1)]
      by (auto simp: frame_def)
  next
    case (freed s)
    have "dead_wait cl'" using assms(3) freed(7,9) unfolding dead_wait_def by metis
    moreover have "cp_assigned_to (cl_conf cl d) = Some i \<and> sl_alive (cl_link cl' i) = sl_alive (cl_link cl i) \<and>
       (d = c \<longrightarrow> sl_alive (cl_link cl' i))" if "cp_assigned_to (cl_conf cl' d) = Some i" for d i
      using that freed(1,6,7) assms(2) by (cases "d = c"; cases "i = s") (auto simp: agreed_def)
    moreover have "realm_confs cl' = realm_confs cl" using freed(2,3) by (simp add: realm_confs_def)
    ultimately show ?thesis using agreed_release[OF assms(2) freed] by blast
  qed
qed

lemma check_all_scheduled:
  assumes "fold_raise (\<lambda>(r, c). check_scheduled c) xs cl = Some cl'" "agreed cl" "dead_wait cl"
  shows "agreed cl' \<and> dead_wait cl' \<and> realm_confs cl' = realm_confs cl \<and>
    (\<forall>d s. cp_assigned_to (cl_conf cl' d) = Some s \<longrightarrow>
       cp_assigned_to (cl_conf cl d) = Some s \<and> sl_alive (cl_link cl' s) = sl_alive (cl_link cl s) \<and>
       (d \<in> snd ` set xs \<longrightarrow> sl_alive (cl_link cl' s)))"
  using assms
proof (induction xs arbitrary: cl)
  case (Cons x xs)
  obtain r c where x: "x = (r, c)" by fastforce
  from Cons.prems(1) obtain cl1 where 1: "check_scheduled c cl = Some cl1"
      "fold_raise (\<lambda>(r, c). check_scheduled c) xs cl1 = Some cl'"
    by (auto simp: bind_eq_Some_conv x)
  note s = check_scheduled_step[OF 1(1) Cons.prems(2,3)]
  have rest: "agreed cl' \<and> dead_wait cl' \<and> realm_confs cl' = realm_confs cl1 \<and>
    (\<forall>d s. cp_assigned_to (cl_conf cl' d) = Some s \<longrightarrow>
       cp_assigned_to (cl_conf cl1 d) = Some s \<and> sl_alive (cl_link cl' s) = sl_alive (cl_link cl1 s) \<and>
       (d \<in> snd ` set xs \<longrightarrow> sl_alive (cl_link cl' s)))"
    using Cons.IH[OF 1(2)] s by blast
  have "cp_assigned_to (cl_conf cl d) = Some i \<and> sl_alive (cl_link cl' i) = sl_alive (cl_link cl i) \<and>
       (d \<in> snd ` set (x # xs) \<longrightarrow> sl_alive (cl_link cl' i))" if "cp_assigned_to (cl_conf cl' d) = Some i" for d i
  proof -
    have 2: "cp_assigned_to (cl_conf cl1 d) = Some i" "sl_alive (cl_link cl' i) = sl_alive (cl_link cl1 i)"
      "d \<in> snd ` set xs \<longrightarrow> sl_alive (cl_link cl' i)" using rest that by blast+
    then have "cp_assigned_to (cl_conf cl d) = Some i" "sl_alive (cl_link cl1 i) = sl_alive (cl_link cl i)"
      "d = c \<longrightarrow> sl_alive (cl_link cl1 i)" using s by blast+
    with 2 show ?thesis by (auto simp: x)
  qed
  with rest s show ?case by auto
qed simp

lemma realm_confs_parts: "snd ` set (realm_confs cl) = parts cl"
  by (auto simp: realm_confs_def parts_def image_UN image_image)

lemma settled_waiting:
  assumes "agreed cl" "dead_wait cl" "\<forall>d s. cp_assigned_to (cl_conf cl d) = Some s \<longrightarrow> sl_alive (cl_link cl s)"
  shows "waiting cl"
  unfolding waiting_def
proof (intro allI impI)
  fix i assume n: "sl_need_conf (cl_link cl i)"
  show "sl_conf (cl_link cl i) = None"
  proof (rule ccontr)
    assume "sl_conf (cl_link cl i) \<noteq> None"
    then obtain c where c: "sl_conf (cl_link cl i) = Some c" by blast
    then have "sl_alive (cl_link cl i)" using agreed_iff[OF assms(1)] assms(3) by blast
    with assms(2) n c show False by (auto simp: dead_wait_def)
  qed
qed

lemma redispatch_frame [simp]: "frame cl (redispatch_satellites r c k cl)"
  unfolding redispatch_satellites_def
  by (rule frame_trans[OF frame_request]) (simp add: fixed_realm_def)

lemma check_kinds_frame: "frame cl (check_kinds r c flavor ks cl)"
proof (induction ks arbitrary: cl)
  case (Cons k ks)
  have m: "frame s (check_managing r c k flavor x s)" for x s by (simp add: check_managing_def Let_def)
  have "frame cl (fold (check_managing r c k flavor) ss cl)" for ss cl by (rule frame_fold) (rule m)
  then show ?case
    by (auto simp: Let_def split: option.splits intro: frame_trans[OF redispatch_frame] frame_trans[OF _ Cons.IH]
        frame_trans[OF frame_trans[OF redispatch_frame] Cons.IH])
qed simp

lemma receiver_idle:
  assumes "agreed cl" "s \<in> set (rl_satellites (cl_realm cl r) Receiver_link) \<union> set (rl_potential (cl_realm cl r) Receiver_link)"
  shows "sl_conf (cl_link cl s) = None"
proof -
  have "sl_type (cl_link cl s) = Receiver_link" using assms by (auto simp: agreed_def well_formed_def)
  with assms(1) show ?thesis by (auto simp: agreed_def)
qed

lemma realm_receivers_idle: "agreed cl \<Longrightarrow> s \<in> set (realm_receivers cl) \<Longrightarrow> sl_conf (cl_link cl s) = None"
  by (auto simp: realm_receivers_def dest: receiver_idle)

lemma check_receiver_frame:
  assumes "check_receiver ou s cl = Some cl'" "sl_conf (cl_link cl s) = None" shows "frame cl cl'"
proof (cases "sl_reachable (cl_link cl s)")
  case True
  obtain b l h where g: "got_conf (ou_net ou) s (cl_link cl s) (cl_history cl) = Some (b, l, h)"
    using assms(1) True by (cases "got_conf (ou_net ou) s (cl_link cl s) (cl_history cl)") (auto simp: check_receiver_def)
  have cl': "cl' = (if b then put_link s (l, h) cl
      else on_link s (\<lambda>l. l\<lparr>sl_need_conf := True\<rparr>) (request_dispatch (put_link s (l, h) cl)))"
    using assms(1) True by (simp add: check_receiver_def g Let_def)
  have w: "same_work (cl_link cl s) l" by (rule asked_work(5)[OF g])
  then have f1: "frame cl (put_link s (l, h) cl)" by simp
  have f2: "frame (put_link s (l, h) cl) (on_link s (\<lambda>l. l\<lparr>sl_need_conf := True\<rparr>) (request_dispatch (put_link s (l, h) cl)))"
    by (rule frame_trans[OF frame_request frame_on_link]) (use w assms(2) in \<open>simp add: same_work_def\<close>)
  show ?thesis using f1 frame_trans[OF f1 f2] by (simp add: cl')
qed (use assms in \<open>simp add: check_receiver_def\<close>)

lemma frame_idle: "frame cl cl' \<Longrightarrow> sl_conf (cl_link cl' s) = sl_conf (cl_link cl s)" by (simp add: frame_def)

lemma check_dispatch_agreed:
  assumes "check_dispatch ou cl = Some cl'" "agreed cl" "dead_wait cl"
  shows "agreed cl' \<and> waiting cl'"
proof -
  let ?cl1 = "fold (check_arbiter ou) (cl_arbiters cl) cl"
  from assms(1) obtain cl2 where 2: "fold_raise (\<lambda>(r, c). check_scheduled c) (realm_confs ?cl1) ?cl1 = Some cl2"
    and 3: "fold_raise (check_receiver ou) (realm_receivers (fold (\<lambda>(r, c). check_satellites r c) (realm_confs cl2) cl2))
      (fold (\<lambda>(r, c). check_satellites r c) (realm_confs cl2) cl2) = Some cl'"
    by (auto simp: check_dispatch_def Let_def bind_eq_Some_conv)
  have "frame cl ?cl1" by (rule frame_fold) (rule check_arbiter_frame)
  then have 1: "agreed ?cl1" "dead_wait ?cl1" using frame_agreed frame_dead_wait assms(2,3) by blast+
  note all = check_all_scheduled[OF 2 1]
  have "\<forall>d s. cp_assigned_to (cl_conf cl2 d) = Some s \<longrightarrow> sl_alive (cl_link cl2 s)"
  proof (intro allI impI)
    fix d s assume d: "cp_assigned_to (cl_conf cl2 d) = Some s"
    then have "d \<in> parts cl2" using all agreed_part by blast
    then have "d \<in> snd ` set (realm_confs ?cl1)" using realm_confs_parts[of cl2] all by simp
    with all d show "sl_alive (cl_link cl2 s)" by blast
  qed
  with all have w: "agreed cl2" "waiting cl2" using settled_waiting by blast+
  let ?cl3 = "fold (\<lambda>(r, c). check_satellites r c) (realm_confs cl2) cl2"
  have "frame cl2 ?cl3"
    by (rule frame_fold) (auto simp: check_satellites_def check_kinds_frame)
  then have w3: "agreed ?cl3" "waiting ?cl3" using frame_agreed frame_waiting w by blast+
  have "frame ?cl3 cl'"
    by (rule frame_raise[OF _ 3]) (metis check_receiver_frame frame_idle realm_receivers_idle[OF w3(1)])
  with w3 show ?thesis using frame_agreed frame_waiting by blast
qed

subsection \<open>Dispatching\<close>

lemma no_scheduler_left_frame: "frame cl (no_scheduler_left r c cl)"
  unfolding no_scheduler_left_def by (rule frame_fold) (simp add: fixed_realm_def)

lemma give_keys_frame:
  "frame cl (fold (\<lambda>k cl. on_realm r (\<lambda>re. re\<lparr>
           rl_to_satellites := set_key k c (f cl) (rl_to_satellites re),
           rl_need_dispatch := set_key k c True (rl_need_dispatch re),
           rl_managed_by := set_key k c [] (rl_managed_by re)\<rparr>) cl) ks cl)"
  by (rule frame_fold) (simp add: fixed_realm_def)

lemma give_keys_realms:
  "cl_realms (fold (\<lambda>k cl. on_realm r (\<lambda>re. re\<lparr>
           rl_to_satellites := set_key k c (f cl) (rl_to_satellites re),
           rl_need_dispatch := set_key k c True (rl_need_dispatch re),
           rl_managed_by := set_key k c [] (rl_managed_by re)\<rparr>) cl) ks cl) = cl_realms cl"
  by (rule fold_keeps[where P = "\<lambda>s. cl_realms s = cl_realms cl"]) simp_all

lemma give_conf_realms: "cl_realms (give_conf r c s cl) = cl_realms cl"
  unfolding give_conf_def Let_def give_keys_realms by simp

text \<open>A part that nobody has is given to a scheduler that has none.\<close>

lemma give_conf_agreed:
  assumes "agreed cl" "waiting cl" "cp_assigned_to (cl_conf cl c) = None" "c \<in> parts cl"
    "sl_conf (cl_link cl s) = None" "sl_type (cl_link cl s) = Scheduler_link"
  shows "agreed (give_conf r c s cl) \<and> waiting (give_conf r c s cl) \<and> parts (give_conf r c s cl) = parts cl \<and>
    fixed_realm (cl_realm (give_conf r c s cl) q) = fixed_realm (cl_realm cl q) \<and>
    (\<forall>i. sl_type (cl_link (give_conf r c s cl) i) = sl_type (cl_link cl i)) \<and>
    (\<forall>d. cp_assigned_to (cl_conf (give_conf r c s cl) d) = (if d = c then Some s else cp_assigned_to (cl_conf cl d)))"
proof -
  let ?flavor = "cp_push_flavor (cl_conf cl c)"
  define cl1 where "cl1 = on_link s (\<lambda>l. l\<lparr>sl_managed_confs := [(c, ?flavor)]\<rparr>)
    (on_conf c (\<lambda>cf. cf\<lparr>cp_is_assigned := True, cp_assigned_to := Some s\<rparr>)
      (on_link s (\<lambda>l. l\<lparr>sl_conf := Some c, sl_push_flavor := ?flavor, sl_need_conf := False\<rparr>) cl))"
  have f: "frame cl1 (give_conf r c s cl)"
    unfolding give_conf_def Let_def cl1_def[symmetric] by (rule give_keys_frame)
  have p: "parts cl1 = parts cl" by (simp add: parts_def cl1_def)
  have nobody: "sl_conf (cl_link cl i) \<noteq> Some c" for i using agreed_iff[OF assms(1), of c i] assms(3) by auto
  have free: "cp_assigned_to (cl_conf cl d) \<noteq> Some s" for d using agreed_iff[OF assms(1), of d s] assms(5) by auto
  have "well_formed cl1" using assms(1) by (auto simp: agreed_def well_formed_def cl1_def)
  moreover have "cp_assigned_to (cl_conf cl1 d) = Some i \<longleftrightarrow> sl_conf (cl_link cl1 i) = Some d" for d i
    using agreed_iff[OF assms(1), of d i] nobody free by (auto simp: cl1_def)
  moreover have "sl_type (cl_link cl1 i) = Scheduler_link" if "sl_conf (cl_link cl1 i) = Some d" for d i
    using agreed_type[OF assms(1), of i d] assms(6) that by (auto simp: cl1_def split: if_splits)
  moreover have "cp_is_assigned (cl_conf cl1 d) \<longleftrightarrow> cp_assigned_to (cl_conf cl1 d) \<noteq> None" for d
    using agreed_assigned[OF assms(1), of d] by (simp add: cl1_def)
  moreover have "d \<in> parts cl1" if "cp_assigned_to (cl_conf cl1 d) = Some i" for d i
    using agreed_part[OF assms(1), of d i] assms(4) that unfolding p by (auto simp: cl1_def split: if_splits)
  ultimately have "agreed cl1" by (intro agreedI)
  moreover have "waiting cl1" using assms(2) by (simp add: waiting_def cl1_def)
  ultimately show ?thesis
    using frame_agreed[OF f] frame_waiting[OF f] frame_parts[OF f] p f by (auto simp: frame_def cl1_def)
qed

lemma asks_put_frame:
  "frame cl (snd (asks_link (\<lambda>i. put_conf net i req) s cl)) \<and>
   sl_need_conf (cl_link (snd (asks_link (\<lambda>i. put_conf net i req) s cl)) i) = sl_need_conf (cl_link cl i) \<and>
   sl_alive (cl_link (snd (asks_link (\<lambda>i. put_conf net i req) s cl)) i) = sl_alive (cl_link cl i)"
  by (cases "put_conf net s req (cl_link cl s) (cl_history cl)") (auto simp: asks_link_def dest: put_conf_work)

lemma on_conf_flavor_agreed:
  "agreed (on_conf c (\<lambda>cf. cf\<lparr>cp_push_flavor := f\<rparr>) cl) = agreed cl"
  by (simp add: agreed_def well_formed_def parts_def) (intro conj_cong refl iffI allI; metis)

text \<open>\<^verbatim>\<open>moves\<close>: only the parts of a set may change hands, the shape stays.\<close>

definition moves :: "cid set \<Rightarrow> cluster \<Rightarrow> cluster \<Rightarrow> bool" where
  "moves C cl cl' \<longleftrightarrow> cl_realms cl' = cl_realms cl \<and>
     (\<forall>q. fixed_realm (cl_realm cl' q) = fixed_realm (cl_realm cl q)) \<and>
     (\<forall>i. sl_type (cl_link cl' i) = sl_type (cl_link cl i)) \<and>
     (\<forall>d. d \<notin> C \<longrightarrow> cp_assigned_to (cl_conf cl' d) = cp_assigned_to (cl_conf cl d))"

lemma moves_refl [simp]: "moves C cl cl" by (simp add: moves_def)

lemma moves_trans: "moves C a b \<Longrightarrow> moves C b c \<Longrightarrow> moves C a c" by (simp add: moves_def)

lemma moves_mono: "moves C a b \<Longrightarrow> C \<subseteq> D \<Longrightarrow> moves D a b" by (auto simp: moves_def)

lemma frame_moves: "frame a b \<Longrightarrow> moves C a b" by (simp add: moves_def frame_def)

lemma moves_parts: "moves C a b \<Longrightarrow> parts b = parts a" by (simp add: moves_def parts_def fixed_realm_def)

lemma place_conf_moves:
  assumes "agreed cl" "waiting cl" "cp_assigned_to (cl_conf cl c) = None" "c \<in> parts cl"
    "\<forall>s \<in> set scheds. sl_type (cl_link cl s) = Scheduler_link" "place_conf ou r c scheds cl = (rest, cl')"
  shows "agreed cl' \<and> waiting cl' \<and> moves {c} cl cl' \<and> set rest \<subseteq> set scheds"
  using assms
proof (induction scheds arbitrary: cl)
  case Nil
  then have f: "frame cl cl'" using no_scheduler_left_frame by auto
  with Nil show ?case using frame_agreed frame_waiting frame_moves by auto
next
  case (Cons s scheds)
  show ?case
  proof (cases "sl_need_conf (cl_link cl s)")
    case False
    with Cons.prems Cons.IH[of cl] show ?thesis by auto
  next
    case True
    define cl1 where "cl1 = on_conf c (\<lambda>cf. cf\<lparr>cp_push_flavor := ou_flavor ou (cl_history cl)\<rparr>) cl"
    obtain ps rs where l: "get_satellites_links_for_scheduler r cl1 = (ps, rs)" by fastforce
    define req where "req = Put_conf_part c (ou_flavor ou (cl_history cl)) ps rs"
    obtain b cl2 where a: "asks_link (\<lambda>i. put_conf (ou_net ou) i req) s cl1 = (b, cl2)" by fastforce
    have f: "frame cl1 cl2" using asks_put_frame[of cl1 "ou_net ou" req s] a by simp
    have cl1: "agreed cl1" "waiting cl1" "moves {c} cl cl1" "cp_assigned_to (cl_conf cl1 c) = None"
      "sl_conf (cl_link cl1 s) = None"
      using Cons.prems(1-3) True on_conf_flavor_agreed by (auto simp: cl1_def moves_def waiting_def)
    have cl2: "agreed cl2" "waiting cl2" "moves {c} cl cl2" "cp_assigned_to (cl_conf cl2 c) = None"
      "sl_conf (cl_link cl2 s) = None"
      using frame_agreed[OF f cl1(1)] frame_waiting[OF f cl1(2)] moves_trans[OF cl1(3) frame_moves[OF f]] cl1(4,5) f
      by (auto simp: frame_def)
    have types: "sl_type (cl_link cl2 i) = sl_type (cl_link cl i)" for i using cl2(3) by (simp add: moves_def)
    have part: "c \<in> parts cl2" using moves_parts[OF cl2(3)] Cons.prems(4) by simp
    show ?thesis
    proof (cases b)
      case True
      then have r: "cl' = give_conf r c s cl2" "rest = scheds"
        using Cons.prems(6) \<open>sl_need_conf (cl_link cl s)\<close> l a by (simp_all add: Let_def cl1_def req_def)
      have "sl_type (cl_link cl2 s) = Scheduler_link" using Cons.prems(5) types by simp
      note g = give_conf_agreed[OF cl2(1,2,4) part cl2(5) this, of r]
      have "cl_realms cl' = cl_realms cl2" unfolding r
        by (rule give_conf_realms)
      with g have "moves {c} cl2 cl'" by (simp add: moves_def r)
      with g r moves_trans[OF cl2(3)] show ?thesis by auto
    next
      case False
      then have "place_conf ou r c scheds cl2 = (rest, cl')"
        using Cons.prems(6) \<open>sl_need_conf (cl_link cl s)\<close> l a by (simp add: Let_def cl1_def req_def)
      with Cons.IH[OF cl2(1,2,4) part] Cons.prems(5) types moves_trans[OF cl2(3)] show ?thesis by auto
    qed
  qed
qed

lemma place_confs_moves:
  assumes "agreed cl" "waiting cl" "distinct cs" "\<forall>c \<in> set cs. cp_assigned_to (cl_conf cl c) = None \<and> c \<in> parts cl"
    "\<forall>s \<in> set scheds. sl_type (cl_link cl s) = Scheduler_link"
  shows "agreed (place_confs ou r cs scheds cl) \<and> waiting (place_confs ou r cs scheds cl) \<and>
    moves (set cs) cl (place_confs ou r cs scheds cl)"
  using assms
proof (induction cs arbitrary: scheds cl)
  case (Cons c cs)
  obtain rest cl1 where p: "place_conf ou r c scheds cl = (rest, cl1)" by fastforce
  have 1: "agreed cl1" "waiting cl1" "moves {c} cl cl1" "set rest \<subseteq> set scheds"
    using place_conf_moves[OF Cons.prems(1,2) _ _ Cons.prems(5) p] Cons.prems(4) by auto
  have "\<forall>d \<in> set cs. cp_assigned_to (cl_conf cl1 d) = None \<and> d \<in> parts cl1"
    using Cons.prems(3,4) 1(3) moves_parts[OF 1(3)] by (auto simp: moves_def)
  moreover have "\<forall>s \<in> set rest. sl_type (cl_link cl1 s) = Scheduler_link"
    using Cons.prems(5) 1(3,4) by (auto simp: moves_def)
  ultimately have 2: "agreed (place_confs ou r cs rest cl1) \<and> waiting (place_confs ou r cs rest cl1) \<and>
      moves (set cs) cl1 (place_confs ou r cs rest cl1)"
    using Cons.IH[OF 1(1,2), of rest] Cons.prems(3) by simp
  have "moves (set (c # cs)) cl1 (place_confs ou r cs rest cl1)" by (rule moves_mono) (use 2 in auto)
  moreover have "moves (set (c # cs)) cl cl1" by (rule moves_mono[OF 1(3)]) simp
  ultimately have "moves (set (c # cs)) cl (place_confs ou r cs rest cl1)" by (rule moves_trans[rotated])
  with 2 show ?case by (simp add: p)
qed simp

lemma ordered_schedulers:
  "s \<in> set (get_scheduler_ordered_list r cl) \<Longrightarrow> \<exists>q. s \<in> set (rl_schedulers (cl_realm cl q))"
  by (auto simp: get_scheduler_ordered_list_def alive_then_spare_then_deads_def)

lemma dispatch_realm_agreed:
  assumes "agreed cl" "waiting cl" "r \<in> set (cl_realms cl)"
  shows "agreed (dispatch_realm ou r cl) \<and> waiting (dispatch_realm ou r cl) \<and>
    cl_realms (dispatch_realm ou r cl) = cl_realms cl"
proof -
  let ?cs = "filter (\<lambda>c. \<not> cp_is_assigned (cl_conf cl c)) (rl_confs (cl_realm cl r))"
    and ?ss = "filter (\<lambda>s. sl_alive (cl_link cl s)) (get_scheduler_ordered_list r cl)"
  have "\<forall>s \<in> set ?ss. sl_type (cl_link cl s) = Scheduler_link"
  proof
    fix s assume "s \<in> set ?ss"
    then have "s \<in> set (get_scheduler_ordered_list r cl)" by simp
    from ordered_schedulers[OF this] obtain q where "s \<in> set (rl_schedulers (cl_realm cl q))" by blast
    then show "sl_type (cl_link cl s) = Scheduler_link" using assms(1) unfolding agreed_def well_formed_def by blast
  qed
  moreover have "\<forall>c \<in> set ?cs. cp_assigned_to (cl_conf cl c) = None \<and> c \<in> parts cl"
    using assms(1,3) agreed_assigned[OF assms(1)] by (auto simp: parts_def)
  moreover have "distinct ?cs" using assms(1) by (simp add: agreed_def well_formed_def)
  ultimately show ?thesis
    using place_confs_moves[OF assms(1,2), of ?cs ?ss ou r] by (simp add: dispatch_realm_def moves_def)
qed

lemma settle_frame: "frame cl (settle_schedulers cl)"
proof -
  have ok: "frame cl (cl\<lparr>cl_dispatch_ok := b\<rparr>)" for b by (simp add: frame_def elements_def)
  have "frame c (fold (\<lambda>s cl. if sl_conf (cl_link cl s) = None then on_link s (\<lambda>l. l\<lparr>sl_need_conf := False\<rparr>) cl else cl)
    ss c)" for ss c by (rule frame_fold) (simp add: same_work_def)
  from this[of "cl\<lparr>cl_dispatch_ok := True\<rparr>"] this[of cl] show ?thesis
    using frame_trans[OF ok[of True]] by (simp add: settle_schedulers_def Let_def)
qed

subsection \<open>Telling the satellites\<close>

lemma broker_links_frame: "fill_broker_with_poller_reactionner_links n r b cl = Some cl' \<Longrightarrow> frame cl cl'"
  by (auto simp: fill_broker_with_poller_reactionner_links_def bind_eq_Some_conv same_work_def)

lemma prepare_sat_cfg_frame:
  assumes "prepare_sat_cfg ou r c k part s cl = Some cl'" shows "frame cl cl'"
proof -
  define cl1 where "cl1 = on_link s (\<lambda>l. l\<lparr>sl_cfg := (sl_cfg l)\<lparr>sc_schedulers := AList.update c part (sc_schedulers (sl_cfg l))\<rparr>\<rparr>) cl"
  define cl2 where "cl2 = (if sl_manage_arbiters (cl_link cl1 s)
    then on_link s (\<lambda>l. l\<lparr>sl_cfg := (sl_cfg l)\<lparr>sc_arbiters := cl_arbiters cl1\<rparr>\<rparr>) cl1 else cl1)"
  have "frame cl cl1" by (simp add: cl1_def same_work_def)
  moreover have "frame cl1 cl2" by (simp add: cl2_def same_work_def)
  moreover have "frame cl2 cl'"
    using assms broker_links_frame by (auto simp: prepare_sat_cfg_def Let_def cl1_def[symmetric] cl2_def[symmetric] split: if_splits)
  ultimately show ?thesis using frame_trans by blast
qed

lemma send_sat_conf_frame: "frame cl (snd (send_sat_conf ou c flavor s cl))"
  using asks_put_frame by (simp add: send_sat_conf_def)

lemma note_managed_frame:
  assumes "note_managed r c k flavor s cl = Some cl'" shows "frame cl cl'"
proof -
  define cl1 where "cl1 = on_link s (\<lambda>l. known_conf_managed_push c flavor (l\<lparr>sl_active := True\<rparr>)) cl"
  have "frame cl cl1" by (simp add: cl1_def same_work_def known_conf_managed_push_def)
  moreover have "frame cl1 cl'"
    using assms by (auto simp: note_managed_def Let_def cl1_def[symmetric] fixed_realm_def)
  ultimately show ?thesis by (rule frame_trans)
qed

lemma push_names_frame:
  "sl_conf (cl_link cl s) = None \<Longrightarrow> frame cl (with_link (\<lambda>i. push_host_names net i c hs) s cl)"
  by (cases "push_host_names net s c hs (cl_link cl s) (cl_history cl)")
    (auto simp: with_link_def dest: push_names_work)

lemma send_to_satellites_frame:
  assumes "send_to_satellites ou r c k flavor part ss nb cl = Some (n, cl')"
    "k = Receiver_link \<longrightarrow> (\<forall>s \<in> set ss. sl_conf (cl_link cl s) = None)"
  shows "frame cl cl'"
  using assms
proof (induction ss arbitrary: nb cl)
  case (Cons s ss)
  show ?case
  proof (cases "nb < rl_nb (cl_realm cl r) k \<and> sl_alive (cl_link cl s)")
    case False
    with Cons show ?thesis by auto
  next
    case True
    with Cons.prems(1) obtain cl1 where 1: "prepare_sat_cfg ou r c k part s cl = Some cl1"
      by (auto simp: bind_eq_Some_conv)
    obtain b cl2 where 2: "send_sat_conf ou c flavor s cl1 = (b, cl2)" by fastforce
    have f2: "frame cl cl2"
      using frame_trans[OF prepare_sat_cfg_frame[OF 1]] send_sat_conf_frame[of cl1 ou c flavor s] 2 by simp
    have idle: "k = Receiver_link \<longrightarrow> (\<forall>t \<in> set ss. sl_conf (cl_link cl' t) = None)" if "frame cl cl'" for cl'
      using Cons.prems(2) frame_idle[OF that] by simp
    show ?thesis
    proof (cases b)
      case False
      then have "send_to_satellites ou r c k flavor part ss nb cl2 = Some (n, cl')"
        using Cons.prems(1) True by (simp add: 1 2)
      then show ?thesis using Cons.IH idle[OF f2] frame_trans[OF f2] by blast
    next
      case sent: True
      with Cons.prems(1) True obtain cl3 where 3: "note_managed r c k flavor s cl2 = Some cl3"
        by (auto simp: 1 2 bind_eq_Some_conv)
      have f3: "frame cl cl3" by (rule frame_trans[OF f2 note_managed_frame[OF 3]])
      show ?thesis
      proof (cases "k = Broker_link \<and> \<not> rl_broker_complete_links (cl_realm cl3 r)")
        case stop: True
        have "cl' = cl3" using Cons.prems(1) True sent by (simp add: 1 2 3 if_P[OF stop])
        with f3 show ?thesis by simp
      next
        case False
        define cl4 where "cl4 = (if k = Receiver_link
          then with_link (\<lambda>i. push_host_names (ou_net ou) i c (cp_hosts (cl_conf cl3 c))) s cl3 else cl3)"
        have "k = Receiver_link \<longrightarrow> sl_conf (cl_link cl3 s) = None" using Cons.prems(2) frame_idle[OF f3] by simp
        then have f4: "frame cl cl4" using frame_trans[OF f3] push_names_frame f3 by (simp add: cl4_def)
        have "send_to_satellites ou r c k flavor part ss (Suc nb) cl4 = Some (n, cl')"
          using Cons.prems(1) True sent False by (auto simp: 1 2 3 cl4_def Let_def)
        then show ?thesis using Cons.IH idle[OF f4] frame_trans[OF f4] by blast
      qed
    qed
  qed
qed simp

lemma fold_add_keys: "set (fold (\<lambda>b bs. if b \<in> set bs then bs else bs @ [b]) xs ys) = set xs \<union> set ys"
  by (induction xs arbitrary: ys) (simp, simp, blast)

lemma turned_brokers: "set (turn_brokers c ss) \<subseteq> set ss"
  unfolding turn_brokers_def Let_def fold_add_keys py_upto_def
  by (intro Un_least set_take_subset set_drop_subset)

lemma satellites_in_order_potential: "set (satellites_in_order r c k cl) \<subseteq> set (rl_potential (cl_realm cl r) k)"
proof -
  let ?ss = "filter (\<lambda>s. sl_alive (cl_link cl s) \<and> sl_reachable (cl_link cl s))
    (alive_then_spare_then_deads cl (rl_potential (cl_realm cl r) k))"
  have "set (order_brokers cl c ss) \<subseteq> set ss" for ss
    using turned_brokers[of c "filter (\<lambda>s. \<not> sl_spare (cl_link cl s)) ss"] by (auto simp: order_brokers_def Let_def)
  then have "set (satellites_in_order r c k cl) \<subseteq> set ?ss"
    unfolding satellites_in_order_def Let_def by (split if_split) (intro conjI impI order_refl)
  also have "set ?ss \<subseteq> set (rl_potential (cl_realm cl r) k)" by (auto simp: alive_then_spare_then_deads_def)
  finally show ?thesis .
qed

lemma dispatch_kind_frame:
  assumes "dispatch_kind ou r c k cl = Some cl'" "agreed cl" shows "frame cl cl'"
proof -
  have idle: "k = Receiver_link \<longrightarrow> (\<forall>s \<in> set (satellites_in_order r c k cl). sl_conf (cl_link cl s) = None)"
    using receiver_idle[OF assms(2)] satellites_in_order_potential by blast
  from assms(1) consider "cl' = cl"
    | part nb cl1 where "send_to_satellites ou r c k (cp_push_flavor (cl_conf cl c)) part (satellites_in_order r c k cl) 0 cl
        = Some (nb, cl1)" "cl' = (if nb = rl_nb (cl_realm cl1 r) k
        then on_realm r (\<lambda>re. re\<lparr>rl_need_dispatch := set_key k c False (rl_need_dispatch re)\<rparr>) cl1 else cl1)"
    by (auto simp: dispatch_kind_def bind_eq_Some_conv split: if_splits)
  then show ?thesis
  proof cases
    case 2
    from send_to_satellites_frame[OF 2(1) idle] have f: "frame cl cl1" .
    have "frame cl1 cl'" by (simp add: 2(2) fixed_realm_def)
    with f show ?thesis by (rule frame_trans)
  qed simp
qed

lemma dispatch_satellites_frame:
  assumes "dispatch_satellites ou r c cl = Some cl'" "agreed cl" shows "frame cl cl'"
  using assms(1) unfolding dispatch_satellites_def
  by (rule frame_raise[rotated]) (auto dest!: dispatch_kind_frame intro: frame_agreed assms(2))

lemma dispatch_receiver_frame:
  assumes "sl_conf (cl_link cl s) = None" shows "frame cl (dispatch_receiver ou s cl)"
proof (cases "\<not> sl_need_conf (cl_link cl s) \<or> \<not> sl_reachable (cl_link cl s)")
  case False
  obtain b cl1 where 1: "asks_link (\<lambda>i. put_conf (ou_net ou) i (Put_sat_conf (sl_cfg (cl_link cl s)))) s cl = (b, cl1)"
    by fastforce
  have f: "frame cl cl1" using asks_put_frame[of cl "ou_net ou" "Put_sat_conf (sl_cfg (cl_link cl s))" s] 1 by simp
  have "frame cl1 (on_link s (\<lambda>l. l\<lparr>sl_active := True, sl_need_conf := False\<rparr>) cl1)"
    using frame_idle[OF f, of s] assms by (simp add: same_work_def)
  with f frame_trans[OF f] False 1 show ?thesis by (auto simp: dispatch_receiver_def)
qed (simp add: dispatch_receiver_def)

lemma dispatch_agreed:
  assumes "dispatch ou cl = Some cl'" "agreed cl" "waiting cl"
  shows "agreed cl' \<and> waiting cl'"
proof (cases "cl_dispatch_ok cl")
  case False
  define cl0 where "cl0 = cl\<lparr>cl_first_dispatch_done := True\<rparr>"
  define cl1 where "cl1 = fold (dispatch_realm ou) (cl_realms cl) cl0"
  define cl2 where "cl2 = settle_schedulers cl1"
  from assms(1) False obtain cl3 where
    3: "fold_raise (\<lambda>(r, c). dispatch_satellites ou r c) (realm_confs cl2) cl2 = Some cl3"
    and cl': "cl' = fold (dispatch_receiver ou) (realm_receivers cl3) cl3"
    by (auto simp: dispatch_def Let_def bind_eq_Some_conv cl0_def cl1_def cl2_def)
  have f0: "frame cl cl0" by (simp add: frame_def elements_def cl0_def)
  have "agreed cl1 \<and> waiting cl1 \<and> cl_realms cl1 = cl_realms cl" unfolding cl1_def
    by (rule fold_keeps[where P = "\<lambda>s. agreed s \<and> waiting s \<and> cl_realms s = cl_realms cl"])
      (use dispatch_realm_agreed frame_agreed[OF f0 assms(2)] frame_waiting[OF f0 assms(3)] in \<open>auto simp: cl0_def\<close>)
  then have 2: "agreed cl2" "waiting cl2" using frame_agreed frame_waiting settle_frame unfolding cl2_def by blast+
  have "frame cl2 cl3"
    by (rule frame_raise[OF _ 3]) (auto dest!: dispatch_satellites_frame intro: frame_agreed[OF _ 2(1)])
  then have c3: "agreed cl3" "waiting cl3" using frame_agreed frame_waiting 2 by blast+
  have "frame cl3 cl'" unfolding cl'
    by (rule frame_fold) (metis dispatch_receiver_frame frame_idle realm_receivers_idle[OF c3(1)])
  then show ?thesis using frame_agreed frame_waiting c3 by blast
next
  case True
  then have "frame cl cl'" using assms(1) by (auto simp: dispatch_def frame_def elements_def)
  with assms(2,3) show ?thesis using frame_agreed frame_waiting by blast
qed

subsection \<open>Telling links to idle\<close>

lemma idle_element_frame: "frame cl (idle_element ou i cl)"
proof -
  obtain b cl1 where 1: "asks_link (\<lambda>i. have_conf (ou_net ou) i False) i cl = (b, cl1)" by fastforce
  have f1: "frame cl cl1" using asks_frame[of "\<lambda>i. have_conf (ou_net ou) i False" i cl] 1 asked_work(1) by fastforce
  let ?cl2 = "on_link i (\<lambda>l. l\<lparr>sl_active := False\<rparr>) cl1"
  have f2: "frame cl1 ?cl2" by (simp add: same_work_def)
  have f3: "frame ?cl2 (snd (asks_link (wait_new_conf (ou_net ou)) i ?cl2))" by (rule asks_frame) (rule asked_work(3))
  show ?thesis using f1 frame_trans[OF f1 frame_trans[OF f2 f3]] by (simp add: idle_element_def 1 Let_def)
qed

lemma idle_satellite_frame:
  assumes "idle_satellite ou s cl = Some cl'" shows "frame cl cl'"
proof -
  let ?cl1 = "on_link s (\<lambda>l. l\<lparr>sl_active := False\<rparr>) cl"
  have "frame cl ?cl1" by (simp add: same_work_def)
  moreover have "frame ?cl1 (snd (asks_link (wait_new_conf (ou_net ou)) s ?cl1))" by (rule asks_frame) (rule asked_work(3))
  ultimately have w: "frame cl (snd (asks_link (wait_new_conf (ou_net ou)) s ?cl1))" by (rule frame_trans)
  have r: "frame c (snd (asks_link (\<lambda>i. remove_from_conf (ou_net ou) i d) s c))" for c d
    by (rule asks_frame) (rule asked_work(4))
  have "frame cl (fold (\<lambda>c cl. snd (asks_link (\<lambda>i. remove_from_conf (ou_net ou) i c) s cl)) ds cl)" for ds
    by (rule frame_fold) (rule r)
  with assms w show ?thesis by (auto simp: idle_satellite_def Let_def split: if_splits)
qed

lemma check_bad_dispatch_frame:
  assumes "check_bad_dispatch ou cl = Some cl'" shows "frame cl cl'"
proof -
  let ?cl1 = "fold (idle_element ou) (elements cl) cl"
  have "frame cl ?cl1" by (rule frame_fold) (rule idle_element_frame)
  moreover have "frame ?cl1 cl'"
    using assms unfolding check_bad_dispatch_def Let_def by (rule frame_raise[rotated]) (rule idle_satellite_frame)
  ultimately show ?thesis by (rule frame_trans)
qed

lemma turn_agreed:
  assumes "dispatcher_turn ou cl = Some cl'" "agreed cl" "waiting cl"
  shows "agreed cl' \<and> waiting cl'"
proof -
  from assms(1) obtain cl1 cl2 cl3 where turn: "check_alive ou cl = Some cl1" "check_dispatch ou cl1 = Some cl2"
    "dispatch ou cl2 = Some cl3" "check_bad_dispatch ou cl3 = Some cl'"
    by (auto simp: dispatcher_turn_def bind_eq_Some_conv)
  have "agreed cl3 \<and> waiting cl3"
    using check_alive_agreed[OF turn(1) assms(2,3)] check_dispatch_agreed[OF turn(2)] dispatch_agreed[OF turn(3)] by blast
  then show ?thesis using frame_agreed frame_waiting check_bad_dispatch_frame[OF turn(4)] by blast
qed

subsection \<open>The run of an arbiter\<close>

text \<open>A new dispatcher starts with the links as they are made from the configuration. Before its loop the arbiter checks
  and dispatches once; every turn may meet another network.\<close>

definition fresh_cluster :: "cluster \<Rightarrow> bool" where
  "fresh_cluster cl \<longleftrightarrow> well_formed cl \<and> (\<forall>i. sl_conf (cl_link cl i) = None) \<and>
     (\<forall>c. c \<notin> set (cl_confs cl) \<longrightarrow> cp_assigned_to (cl_conf cl c) = None \<and> \<not> cp_is_assigned (cl_conf cl c))"

inductive arbiter_run :: "cluster \<Rightarrow> bool" where
  start: "fresh_cluster cl \<Longrightarrow> arbiter_run (new_dispatcher cl)"
| first: "arbiter_run cl \<Longrightarrow> check_alive ou cl = Some cl1 \<Longrightarrow> check_dispatch ou cl1 = Some cl2 \<Longrightarrow>
    dispatch ou cl2 = Some cl3 \<Longrightarrow> arbiter_run cl3"
| turn: "arbiter_run cl \<Longrightarrow> dispatcher_turn ou cl = Some cl' \<Longrightarrow> arbiter_run cl'"

lemma new_dispatcher_agreed:
  assumes "fresh_cluster cl" shows "agreed (new_dispatcher cl) \<and> waiting (new_dispatcher cl)"
proof -
  define f where "f = (\<lambda>c. on_conf c (\<lambda>cf. cf\<lparr>cp_is_assigned := False, cp_assigned_to := None, cp_push_flavor := 0\<rparr>))"
  define cl1 where "cl1 = (fold f (cl_confs cl) cl)\<lparr>cl_dispatch_ok := False, cl_first_dispatch_done := False\<rparr>"
  have keep: "cl_link (fold f cs x) = cl_link x \<and> cl_realm (fold f cs x) = cl_realm x \<and> cl_realms (fold f cs x) = cl_realms x \<and>
    elements (fold f cs x) = elements x \<and> cl_arbiters (fold f cs x) = cl_arbiters x" for cs x
    by (induction cs arbitrary: x) (auto simp: f_def)
  have conf: "cp_assigned_to (cl_conf (fold f cs x) c) = (if c \<in> set cs then None else cp_assigned_to (cl_conf x c)) \<and>
    (cp_is_assigned (cl_conf (fold f cs x) c) \<longleftrightarrow> c \<notin> set cs \<and> cp_is_assigned (cl_conf x c))" for cs x c
    by (induction cs arbitrary: x) (auto simp: f_def)
  have "elements cl1 = elements cl" "cl_link cl1 = cl_link cl" "cl_realm cl1 = cl_realm cl" "cl_arbiters cl1 = cl_arbiters cl"
    using keep by (simp_all add: cl1_def elements_def)
  with assms have "well_formed cl1" "\<And>i. sl_conf (cl_link cl1 i) = None" by (auto simp: fresh_cluster_def well_formed_def)
  moreover have "cp_assigned_to (cl_conf cl1 c) = None \<and> \<not> cp_is_assigned (cl_conf cl1 c)" for c
    using assms conf[of "cl_confs cl" cl c] by (auto simp: cl1_def fresh_cluster_def)
  ultimately have 1: "agreed cl1" "waiting cl1" by (auto simp: waiting_def intro!: agreedI)
  have c1: "\<And>i. sl_conf (cl_link cl1 i) = None" by fact
  define cl2 where "cl2 = fold (\<lambda>s. on_link s prepare_for_conf) (satellites cl1) cl1"
  have f2: "frame cl1 cl2" unfolding cl2_def
    by (rule frame_fold) (simp add: same_work_def prepare_for_conf_def)
  have "frame cl2 (fold (\<lambda>s. on_link s (\<lambda>l. l\<lparr>sl_need_conf := True\<rparr>)) (cl_schedulers cl2 @ cl_receivers cl2) cl2)"
    by (rule frame_fold) (use frame_idle[OF f2] c1 frame_idle in \<open>auto simp: same_work_def\<close>)
  then have "frame cl1 (new_dispatcher cl)"
    using frame_trans[OF f2] by (simp add: new_dispatcher_def Let_def cl1_def cl2_def f_def)
  with 1 show ?thesis using frame_agreed frame_waiting by blast
qed

lemma run_agreed: "arbiter_run cl \<Longrightarrow> agreed cl \<and> waiting cl"
proof (induction rule: arbiter_run.induct)
  case (start cl)
  then show ?case by (rule new_dispatcher_agreed)
next
  case (first cl ou cl1 cl2 cl3)
  then show ?case using check_alive_agreed check_dispatch_agreed dispatch_agreed by blast
next
  case (turn cl ou cl')
  then show ?case using turn_agreed by blast
qed

text \<open>C27: in the run of an arbiter, whatever the network answers in every turn, a part of the
  configuration is assigned to a scheduler exactly when the scheduler's link holds that part; so no scheduler has two
  parts and no part two schedulers, and a scheduler that waits for a part has none.\<close>

theorem one_scheduler_per_part:
  assumes "arbiter_run cl"
  shows "(cp_assigned_to (cl_conf cl c) = Some s \<longleftrightarrow> sl_conf (cl_link cl s) = Some c) \<and>
    (cp_is_assigned (cl_conf cl c) \<longleftrightarrow> cp_assigned_to (cl_conf cl c) \<noteq> None) \<and>
    \<not> (sl_need_conf (cl_link cl s) \<and> sl_conf (cl_link cl s) \<noteq> None)"
proof -
  from run_agreed[OF assms] have "agreed cl" "waiting cl" by auto
  then show ?thesis using agreed_iff[of cl c s] agreed_assigned[of cl c] by (auto simp: waiting_def)
qed

lemma small_fresh: "fresh_cluster small_cluster"
  by (auto simp: fresh_cluster_def well_formed_def elements_def small_cluster_def small_realm_def small_link_def)

lemma first_pass_run: "arbiter_run cl \<Longrightarrow> first_pass ou cl = Some cl' \<Longrightarrow> arbiter_run cl'"
  by (auto simp: first_pass_def bind_eq_Some_conv intro: arbiter_run.first)

theorem one_scheduler_per_part_witness:
  "\<exists>cl. arbiter_run cl \<and> cp_assigned_to (cl_conf cl 7) = Some 0 \<and> sl_conf (cl_link cl 0) = Some 7"
proof -
  obtain cl where cl: "first_pass small_outside (new_dispatcher small_cluster) = Some cl"
    and a: "cp_assigned_to (cl_conf cl 7) = Some 0"
    using small_first_pass by auto
  have run: "arbiter_run cl" by (rule first_pass_run[OF arbiter_run.start[OF small_fresh] cl])
  then show ?thesis using one_scheduler_per_part[OF run, of 7 0] a by blast
qed

end
