(* ===== verification/Dispatching.thy ===== *)
theory Dispatching
  imports Small_Cluster
begin

text \<open>
  What the dispatcher does when the network answers, and where it does not come to an end: the parts of a realm go to the
  waiting schedulers in order, brokers are lost in the rotation of a realm, a realm with two brokers is dispatched
  again in every turn, and the broks of the arbiter are pushed until a broker takes them.
\<close>

subsection \<open>Parts and schedulers\<close>

definition answers :: "outside \<Rightarrow> bool" where
  "answers ou \<longleftrightarrow> (\<forall>h. ou_net ou h \<noteq> Http_exception)"

lemma put_conf_answered: "answers ou \<Longrightarrow> put_conf (ou_net ou) i req l h = (True, connected l, h @ [(i, Ping), (i, req)])"
  by (simp add: answers_def put_conf_def ask_def Let_def)

lemma asks_put_conf:
  "answers ou \<Longrightarrow> asks_link (\<lambda>i. put_conf (ou_net ou) i req) s cl =
     (True, put_link s (connected (cl_link cl s), cl_history cl @ [(s, Ping), (s, req)]) cl)"
  by (simp add: asks_link_def put_conf_answered)

lemma connected_need [simp]: "sl_need_conf (connected l) = sl_need_conf l" "sl_broks_batch (connected l) = sl_broks_batch l"
  by (simp_all add: connected_def create_connection_def)

lemma no_scheduler_left_conf [simp]: "cl_conf (no_scheduler_left r c cl) = cl_conf cl"
  unfolding no_scheduler_left_def by (rule fold_keeps[where P = "\<lambda>s. cl_conf s = cl_conf cl"]) simp_all

lemma give_conf_fields [simp]:
  "cl_conf (give_conf r c s cl) = (cl_conf cl)(c := (cl_conf cl c)\<lparr>cp_is_assigned := True, cp_assigned_to := Some s\<rparr>)"
  "sl_need_conf (cl_link (give_conf r c s cl) i) \<longleftrightarrow> i \<noteq> s \<and> sl_need_conf (cl_link cl i)"
proof -
  let ?f = "\<lambda>s0 k cl. on_realm r (\<lambda>re. re\<lparr>
    rl_to_satellites := set_key k c (Some (sched_give_satellite_cfg s (cl_link cl s))) (rl_to_satellites re),
    rl_need_dispatch := set_key k c True (rl_need_dispatch re), rl_managed_by := set_key k c [] (rl_managed_by re)\<rparr>) cl"
  have "cl_conf (fold (?f ()) ks x) = cl_conf x \<and> cl_link (fold (?f ()) ks x) = cl_link x" for ks x
    by (induction ks arbitrary: x) simp_all
  then show "cl_conf (give_conf r c s cl) =
      (cl_conf cl)(c := (cl_conf cl c)\<lparr>cp_is_assigned := True, cp_assigned_to := Some s\<rparr>)"
    "sl_need_conf (cl_link (give_conf r c s cl) i) \<longleftrightarrow> i \<noteq> s \<and> sl_need_conf (cl_link cl i)"
    by (simp_all add: give_conf_def Let_def)
qed

definition assigned :: "cluster \<Rightarrow> cid \<Rightarrow> bool \<times> lid option" where
  "assigned cl c = (cp_is_assigned (cl_conf cl c), cp_assigned_to (cl_conf cl c))"

abbreviation needing :: "cluster \<Rightarrow> lid list \<Rightarrow> lid list" where
  "needing cl \<equiv> filter (\<lambda>s. sl_need_conf (cl_link cl s))"

lemma place_conf_in_order:
  assumes "answers ou" "distinct scheds" "place_conf ou r c scheds cl = (scheds', cl')"
  shows "distinct scheds' \<and> needing cl' scheds' = tl (needing cl scheds) \<and>
    assigned cl' = (case needing cl scheds of [] \<Rightarrow> assigned cl | s # _ \<Rightarrow> (assigned cl)(c := (True, Some s)))"
  using assms(2,3)
proof (induction scheds)
  case Nil
  then show ?case by (auto simp: assigned_def)
next
  case (Cons s scheds)
  show ?case
  proof (cases "sl_need_conf (cl_link cl s)")
    case True
    have "filter (\<lambda>i. i \<noteq> s \<and> sl_need_conf (cl_link cl i)) scheds = needing cl scheds"
      using Cons.prems(1) by (auto intro: filter_cong)
    moreover have "filter (\<lambda>i. i \<noteq> s \<and> sl_need_conf (((cl_link cl)(s := l)) i)) scheds =
        filter (\<lambda>i. i \<noteq> s \<and> sl_need_conf (cl_link cl i)) scheds" for l
      by (rule filter_cong) auto
    ultimately show ?thesis
      using Cons.prems True
      by (auto simp: Let_def asks_put_conf[OF assms(1)] get_satellites_links_for_scheduler_def assigned_def fun_eq_iff)
  qed (use Cons in auto)
qed

lemma place_confs_in_order:
  assumes "answers ou" "distinct scheds" "distinct cs"
  shows "assigned (place_confs ou r cs scheds cl) c =
    (case map_of (zip cs (needing cl scheds)) c of None \<Rightarrow> assigned cl c | Some s \<Rightarrow> (True, Some s))"
  using assms(2,3)
proof (induction cs arbitrary: scheds cl)
  case (Cons d cs)
  obtain scheds' cl' where p: "place_conf ou r d scheds cl = (scheds', cl')" by fastforce
  note o = place_conf_in_order[OF assms(1) Cons.prems(1) p]
  have d: "map_of (zip cs xs) d = None" for xs :: "lid list"
    using Cons.prems(2) by (auto simp: map_of_eq_None_iff dest: set_zip_leftD)
  from Cons.IH[of scheds' cl'] Cons.prems(2) o show ?case
    by (cases "needing cl scheds") (auto simp: p d split: option.split)
qed simp

text \<open>C28: when the network answers, the k-th part of a realm that has no scheduler goes to the
  k-th scheduler that is alive and waits for one, in the order spares last; the other parts stay as they are, and with
  enough schedulers no part of the realm is left.\<close>

theorem dispatch_realm_in_order:
  fixes cl r
  defines "cs \<equiv> filter (\<lambda>c. \<not> cp_is_assigned (cl_conf cl c)) (rl_confs (cl_realm cl r))"
    and "ss \<equiv> filter (\<lambda>s. sl_alive (cl_link cl s) \<and> sl_need_conf (cl_link cl s)) (get_scheduler_ordered_list r cl)"
  assumes "answers ou" "distinct (rl_confs (cl_realm cl r))" "distinct (get_scheduler_ordered_list r cl)"
  shows "(\<forall>c. assigned (dispatch_realm ou r cl) c =
      (case map_of (zip cs ss) c of None \<Rightarrow> assigned cl c | Some s \<Rightarrow> (True, Some s))) \<and>
    (length cs \<le> length ss \<longrightarrow> (\<forall>c \<in> set (rl_confs (cl_realm cl r)). cp_is_assigned (cl_conf (dispatch_realm ou r cl) c)))"
proof -
  have a: "assigned (dispatch_realm ou r cl) c =
      (case map_of (zip cs ss) c of None \<Rightarrow> assigned cl c | Some s \<Rightarrow> (True, Some s))" for c
    using place_confs_in_order[OF assms(3), of "filter (\<lambda>s. sl_alive (cl_link cl s)) (get_scheduler_ordered_list r cl)" cs r cl c]
      assms(4,5) by (simp add: dispatch_realm_def cs_def ss_def conj_commute)
  moreover have "cp_is_assigned (cl_conf (dispatch_realm ou r cl) c)"
    if "length cs \<le> length ss" "c \<in> set (rl_confs (cl_realm cl r))" for c
  proof (cases "c \<in> set cs")
    case True
    with that(1) obtain s where "map_of (zip cs ss) c = Some s"
      using map_of_eq_None_iff[of "zip cs ss" c] by (cases "map_of (zip cs ss) c") (auto simp flip: set_map simp: map_fst_zip_take)
    then show ?thesis using a[of c] by (simp add: assigned_def)
  next
    case False
    then have "cp_is_assigned (cl_conf cl c)" "map_of (zip cs ss) c = None"
      using that(2) by (auto simp: cs_def map_of_eq_None_iff dest: set_zip_leftD)
    then show ?thesis using a[of c] by (simp add: assigned_def)
  qed
  ultimately show ?thesis by blast
qed

lemma small_answers: "answers small_outside"
  by (auto simp: answers_def small_outside_def kind_network_def split: request.split)

theorem dispatch_realm_in_order_witness:
  "assigned (dispatch_realm small_outside 0 (new_dispatcher small_cluster)) 7 = (True, Some 0)"
  using dispatch_realm_in_order[OF small_answers, of "new_dispatcher small_cluster" 0]
  by (simp add: small_eval)

subsection \<open>The rotation of the brokers\<close>

lemma fold_add_set: "set (fold (\<lambda>b bs. if b \<in> set bs then bs else bs @ [b]) xs ys) = set ys \<union> set xs"
  by (induction xs arbitrary: ys) auto

lemma fold_add_prefix: "\<exists>zs. fold (\<lambda>b bs. if b \<in> set bs then bs else bs @ [b]) xs ys = ys @ zs"
  by (induction xs arbitrary: ys) (auto, metis append.assoc)

lemma fold_add_distinct: "distinct ys \<Longrightarrow> distinct (fold (\<lambda>b bs. if b \<in> set bs then bs else bs @ [b]) xs ys)"
  by (induction xs arbitrary: ys) auto

text \<open>C30: the rotation of the brokers of a realm starts with the broker of the part and repeats
  none, but it only has all brokers when the part number modulo their number is 0, or at least 2 and at most half of
  one more than their number; otherwise the rotation forgets brokers.\<close>

theorem turn_brokers_complete:
  fixes c nospare
  defines "idx \<equiv> nat (c mod int (length nospare))"
  assumes "distinct nospare" "nospare \<noteq> []"
  shows "(set (turn_brokers c nospare) = set nospare \<longleftrightarrow> idx = 0 \<or> (2 \<le> idx \<and> 2 * idx \<le> length nospare + 1)) \<and>
    set (turn_brokers c nospare) \<subseteq> set nospare \<and> distinct (turn_brokers c nospare) \<and>
    hd (turn_brokers c nospare) = nospare ! idx"
proof -
  let ?n = "length nospare"
  have idx: "idx < ?n" "c mod int ?n = int idx" using assms(3) by (auto simp: idx_def nat_less_iff)
  define m where "m = (if idx = 0 then 1 else if idx = 1 then 0 else ?n + 1 - idx)"
  have up: "py_upto (- int idx + 1) nospare = take m nospare"
    using idx by (auto simp: py_upto_def m_def nat_diff_distrib' intro: arg_cong2[where f = take])
  have t: "turn_brokers c nospare = fold (\<lambda>b bs. if b \<in> set bs then bs else bs @ [b]) (take m nospare) (drop idx nospare)"
    using idx up by (simp add: turn_brokers_def Let_def)
  have set: "set (turn_brokers c nospare) = set (drop idx nospare) \<union> set (take m nospare)"
    by (simp add: t fold_add_set)
  have full: "set (drop idx nospare) \<union> set (take m nospare) = set nospare \<longleftrightarrow> idx \<le> m"
  proof
    assume "idx \<le> m"
    then have "set (take idx nospare) \<subseteq> set (take m nospare)" by (rule set_take_subset_set_take)
    then show "set (drop idx nospare) \<union> set (take m nospare) = set nospare"
      using set_append[of "take idx nospare" "drop idx nospare"] set_take_subset[of m nospare] by auto
  next
    assume s: "set (drop idx nospare) \<union> set (take m nospare) = set nospare"
    show "idx \<le> m"
    proof (rule ccontr)
      assume n: "\<not> idx \<le> m"
      then have "nospare ! m \<in> set nospare" using idx by simp
      moreover have "nospare ! m \<notin> set (take m nospare)" "nospare ! m \<notin> set (drop idx nospare)"
        using n idx assms(2) by (auto simp: in_set_conv_nth nth_eq_iff_index_eq)
      ultimately show False using s by blast
    qed
  qed
  have "idx \<le> m \<longleftrightarrow> idx = 0 \<or> (2 \<le> idx \<and> 2 * idx \<le> ?n + 1)" using idx by (auto simp: m_def)
  with full set have "set (turn_brokers c nospare) = set nospare \<longleftrightarrow> idx = 0 \<or> (2 \<le> idx \<and> 2 * idx \<le> ?n + 1)" by simp
  moreover have "set (turn_brokers c nospare) \<subseteq> set nospare" unfolding set by (auto dest: in_set_takeD in_set_dropD)
  moreover have "distinct (turn_brokers c nospare)" unfolding t using assms(2) by (intro fold_add_distinct) simp
  moreover have "hd (turn_brokers c nospare) = nospare ! idx"
    using fold_add_prefix[of "take m nospare" "drop idx nospare"] idx by (auto simp: t hd_append hd_drop_conv_nth)
  ultimately show ?thesis by blast
qed

theorem turn_brokers_complete_witness:
  "set (turn_brokers 7 [0, 1]) \<noteq> set [0, 1 :: lid] \<and> set (turn_brokers 5 [0, 1, 2]) = set [0, 1, 2 :: lid]"
  using turn_brokers_complete[of "[0, 1]" 7] turn_brokers_complete[of "[0, 1, 2]" 5] by simp

subsection \<open>Two brokers in a realm\<close>

lemma keyed_other: "k \<noteq> k' \<Longrightarrow> set_key k c v d k' c' = d k' c'" by (simp add: set_key_def)

lemma keyed_same [simp]: "set_key k c v d k c = Some v" by (simp add: set_key_def)

lemma set_key_id: "d k c = Some v \<Longrightarrow> set_key k c v d = d"
  by (auto simp: set_key_def fun_eq_iff)

lemma prepare_sat_cfg_realm: "prepare_sat_cfg ou r c k part s cl = Some cl' \<Longrightarrow> cl_realm cl' = cl_realm cl"
  by (auto simp: prepare_sat_cfg_def fill_broker_with_poller_reactionner_links_def Let_def bind_eq_Some_conv split: if_splits)

lemma send_sat_conf_realm: "send_sat_conf ou c flavor s cl = (b, cl') \<Longrightarrow> cl_realm cl' = cl_realm cl"
  by (auto simp: send_sat_conf_def asks_link_def split: if_splits prod.splits)

lemma one_broker_sent:
  assumes "\<not> rl_broker_complete_links (cl_realm cl r)" "rl_managed_by (cl_realm cl r) Broker_link c = Some m"
    and "send_to_satellites ou r c Broker_link flavor part ss nb cl = Some (n, cl')"
  shows "\<exists>m'. cl_realm cl' r = (cl_realm cl r)\<lparr>rl_managed_by := set_key Broker_link c m' (rl_managed_by (cl_realm cl r))\<rparr> \<and>
    length m' \<le> Suc (length m)"
  using assms
proof (induction ss arbitrary: cl)
  case Nil
  then show ?case by (auto intro!: exI[of _ m] simp: set_key_id)
next
  case (Cons s ss)
  show ?case
  proof (cases "nb < rl_nb (cl_realm cl r) Broker_link \<and> sl_alive (cl_link cl s)")
    case True
    with Cons.prems(3) obtain cl1 where 1: "prepare_sat_cfg ou r c Broker_link part s cl = Some cl1"
      by (auto simp: bind_eq_Some_conv)
    obtain b cl2 where 2: "send_sat_conf ou c flavor s cl1 = (b, cl2)" by fastforce
    have r: "cl_realm cl2 = cl_realm cl" using prepare_sat_cfg_realm[OF 1] send_sat_conf_realm[OF 2] by simp
    show ?thesis
    proof (cases b)
      case True
      with \<open>nb < _ \<and> _\<close> Cons.prems r show ?thesis
        by (auto simp: 1 2 bind_eq_Some_conv note_managed_def Let_def intro!: exI[of _ "m @ [s]"])
    next
      case False
      with \<open>nb < _ \<and> _\<close> Cons.prems have "send_to_satellites ou r c Broker_link flavor part ss nb cl2 = Some (n, cl')"
        by (auto simp: 1 2)
      from Cons.IH[OF _ _ this] Cons.prems(1,2) show ?thesis by (simp add: r)
    qed
  qed (use Cons in auto)
qed

text \<open>A part whose satellites of one kind were thrown away stays so; a look only adds keys to what is managed.\<close>

definition thrown_away :: "rid \<Rightarrow> cid \<Rightarrow> link_type \<Rightarrow> cluster \<Rightarrow> bool" where
  "thrown_away r c k cl \<longleftrightarrow> \<not> cl_dispatch_ok cl \<and> rl_managed_by (cl_realm cl r) k c = Some [] \<and>
     rl_need_dispatch (cl_realm cl r) k c = Some True"

definition short_of :: "rid \<Rightarrow> cid \<Rightarrow> link_type \<Rightarrow> cluster \<Rightarrow> bool" where
  "short_of r c k cl \<longleftrightarrow> (\<forall>k \<in> set kinds. rl_managed_by (cl_realm cl r) k c \<noteq> None) \<and>
     length (the (rl_managed_by (cl_realm cl r) k c)) < rl_nb (cl_realm cl r) k"

lemma redispatch_thrown: "thrown_away r c k (redispatch_satellites r c k cl)"
  by (simp add: thrown_away_def redispatch_satellites_def)

lemma redispatch_keeps_thrown: "thrown_away r c k cl \<Longrightarrow> thrown_away r c k (redispatch_satellites r c k' cl)"
  by (auto simp: thrown_away_def redispatch_satellites_def set_key_def)

lemma redispatch_keeps_short: "k' \<noteq> k \<Longrightarrow> short_of r c k cl \<Longrightarrow> short_of r c k (redispatch_satellites r c k' cl)"
  by (auto simp: short_of_def redispatch_satellites_def set_key_def)

lemma managing_keeps_thrown: "thrown_away r c k cl \<Longrightarrow> thrown_away r c k (fold (check_managing r c k' flavor) ss cl)"
  by (rule fold_keeps[where P = "thrown_away r c k"]) (simp_all add: check_managing_def Let_def redispatch_keeps_thrown)

lemma managing_keeps_short:
  assumes "k' \<noteq> k" "short_of r c k cl" shows "short_of r c k (fold (check_managing r c k' flavor) ss cl)"
  by (rule fold_keeps[where P = "short_of r c k"])
    (simp_all add: check_managing_def Let_def redispatch_keeps_short assms)

lemma check_kinds_keeps_thrown: "thrown_away r c k cl \<Longrightarrow> thrown_away r c k (check_kinds r c flavor ks cl)"
  by (induction ks arbitrary: cl)
    (auto simp: Let_def managing_keeps_thrown redispatch_keeps_thrown split: option.split)

lemma check_kinds_throws:
  "k \<in> set ks \<Longrightarrow> set ks \<subseteq> set kinds \<Longrightarrow> short_of r c k cl \<Longrightarrow> thrown_away r c k (check_kinds r c flavor ks cl)"
proof (induction ks arbitrary: cl)
  case (Cons k' ks)
  obtain m where m: "rl_managed_by (cl_realm cl r) k' c = Some m" using Cons.prems(2,3) by (auto simp: short_of_def)
  show ?case
  proof (cases "k' = k")
    case True
    with m Cons.prems(3) show ?thesis
      by (simp add: short_of_def Let_def check_kinds_keeps_thrown redispatch_thrown)
  next
    case False
    with m Cons show ?thesis
      by (auto simp: Let_def intro!: Cons.IH managing_keeps_short redispatch_keeps_short)
  qed
qed simp

text \<open>C31: in a realm whose brokers do not all link to everything, a part goes to one broker.
  When the realm must have two, the next look at the satellites of the part finds one missing, whatever the brokers
  do: the part is taken from its broker and another dispatch is asked for.\<close>

theorem two_brokers_always_redispatched:
  assumes "\<not> rl_broker_complete_links (cl_realm cl r)" "2 \<le> rl_nb (cl_realm cl r) Broker_link"
    and "\<forall>k \<in> set kinds. rl_managed_by (cl_realm cl r) k c = Some (old k)" "old Broker_link = []"
    and "dispatch_kind ou r c Broker_link cl = Some cl'"
  shows "\<not> cl_dispatch_ok (check_satellites r c cl') \<and>
    rl_managed_by (cl_realm (check_satellites r c cl') r) Broker_link c = Some [] \<and>
    rl_need_dispatch (cl_realm (check_satellites r c cl') r) Broker_link c = Some True"
proof -
  have b: "rl_managed_by (cl_realm cl r) Broker_link c = Some []" using assms(3,4) by (simp add: kinds_def)
  have "short_of r c Broker_link cl'"
  proof (cases "rl_need_dispatch (cl_realm cl r) Broker_link c = Some True")
    case True
    with assms(5) obtain part n cl1 where
      1: "send_to_satellites ou r c Broker_link (cp_push_flavor (cl_conf cl c)) part
        (satellites_in_order r c Broker_link cl) 0 cl = Some (n, cl1)"
      and cl': "cl' = (if n = rl_nb (cl_realm cl1 r) Broker_link then on_realm r (\<lambda>re. re\<lparr>rl_need_dispatch :=
        set_key Broker_link c False (rl_need_dispatch re)\<rparr>) cl1 else cl1)"
      by (auto simp: dispatch_kind_def bind_eq_Some_conv)
    from one_broker_sent[OF assms(1) _ 1, of "[]"] b obtain m' where
      "cl_realm cl1 r = (cl_realm cl r)\<lparr>rl_managed_by := set_key Broker_link c m' (rl_managed_by (cl_realm cl r))\<rparr>"
      "length m' \<le> 1" by auto
    with cl' assms(2,3) b show ?thesis by (auto simp: short_of_def set_key_def)
  next
    case False
    with assms(5) have "cl' = cl" by (auto simp: dispatch_kind_def bind_eq_Some_conv)
    with assms(2,3) b show ?thesis by (simp add: short_of_def)
  qed
  then show ?thesis
    using check_kinds_throws[of Broker_link kinds r c cl'] by (simp add: check_satellites_def thrown_away_def kinds_def)
qed

definition two_brokers :: cluster where
  "two_brokers = small_cluster\<lparr>cl_link := (\<lambda>i. (small_link Broker_link)\<lparr>sl_reachable := True\<rparr>), cl_brokers := [2, 3],
     cl_realm := (\<lambda>_. small_realm\<lparr>rl_potential := (\<lambda>k. if k = Broker_link then [2, 3] else []),
       rl_nb := (\<lambda>k. if k = Broker_link then 2 else 0), rl_to_satellites := (\<lambda>_ _. Some None),
       rl_need_dispatch := (\<lambda>_ _. Some True), rl_managed_by := (\<lambda>_ _. Some [])\<rparr>)\<rparr>"

lemma two_brokers_kind:
  "map_option (\<lambda>cl. rl_managed_by (cl_realm cl 0) Broker_link 7) (dispatch_kind small_outside 0 7 Broker_link two_brokers) =
   Some (Some [3])"
  by (simp add: two_brokers_def small_eval turn_brokers_def py_upto_def fill_broker_with_poller_reactionner_links_def
      broker_links_def numeral_3_eq_3)

theorem two_brokers_always_redispatched_witness:
  "\<exists>cl. dispatch_kind small_outside 0 7 Broker_link two_brokers = Some cl \<and>
     rl_managed_by (cl_realm cl 0) Broker_link 7 = Some [3] \<and> \<not> cl_dispatch_ok (check_satellites 0 7 cl)"
proof -
  obtain cl where cl: "dispatch_kind small_outside 0 7 Broker_link two_brokers = Some cl"
    "rl_managed_by (cl_realm cl 0) Broker_link 7 = Some [3]"
    using two_brokers_kind by auto
  have "\<not> cl_dispatch_ok (check_satellites 0 7 cl)"
    using two_brokers_always_redispatched[OF _ _ _ _ cl(1), of "\<lambda>_. []"] by (simp add: two_brokers_def small_realm_def)
  with cl show ?thesis by blast
qed

subsection \<open>Commands and broks of the arbiter\<close>

text \<open>Whatever the satellites have, and whatever the network answers, the arbiter gets no
  external command from them.\<close>

theorem external_commands_lost: "fst (get_external_commands_from_satellites ou cl) = []"
proof -
  have none: "fst (fold (\<lambda>s (cmds, cl). if sl_alive (cl_link cl s)
      then let (new_cmds, lh) = get_external_commands (ou_net ou) s (cl_link cl s) (cl_history cl)
           in (cmds @ new_cmds, put_link s lh cl) else (cmds, cl)) ss (cmds, cl)) = cmds" for ss cmds and cl :: cluster
    by (induction ss arbitrary: cl)
      (auto simp: get_external_commands_def Let_def split: prod.split answer.split option.split)
  show ?thesis unfolding get_external_commands_from_satellites_def by (rule none)
qed

definition broks_pushed :: "lid \<Rightarrow> history \<Rightarrow> string list" where
  "broks_pushed b h = concat (map (\<lambda>(i, req). case req of Put_broks bs \<Rightarrow> if i = b then bs else [] | _ \<Rightarrow> []) h)"

lemma push_step:
  assumes "broks \<noteq> []"
  shows "push_all_broks (Suc n) ou b broks cl =
     (let batch = sl_broks_batch (cl_link cl b);
          count = (if batch = 0 then int (length broks) else min batch (int (length broks)));
          (is_send, cl) = asks_link (\<lambda>i. push_broks (ou_net ou) i (py_upto count broks)) b cl;
          gone = length (py_upto count broks)
      in push_all_broks n ou b (if is_send then drop gone broks else broks) cl)"
proof -
  from assms obtain x xs where "broks = x # xs" by (cases broks) auto
  then show ?thesis by (simp only: push_all_broks.simps)
qed

text \<open>C32: when the network answers, the broks of the arbiter all go to the broker, in order and each
  once, in at most as many requests as there are broks.\<close>

theorem broks_pushed_in_order:
  assumes "answers ou" "0 \<le> sl_broks_batch (cl_link cl b)" "length broks \<le> n"
  shows "\<exists>cl'. push_all_broks n ou b broks cl = Some ([], cl') \<and>
    broks_pushed b (cl_history cl') = broks_pushed b (cl_history cl) @ broks"
  using assms(2,3)
proof (induction n arbitrary: broks cl)
  case (Suc n)
  show ?case
  proof (cases "broks = []")
    case False
    let ?len = "int (length broks)" and ?batch = "sl_broks_batch (cl_link cl b)"
    define count where "count = (if ?batch = 0 then ?len else min ?batch ?len)"
    define cl1 where "cl1 = put_link b (connected (cl_link cl b),
      cl_history cl @ [(b, Ping), (b, Put_broks (take (nat count) broks))]) cl"
    have count: "0 < count" "count \<le> ?len" using False Suc.prems(1) by (auto simp: count_def)
    then have up: "py_upto count broks = take (nat count) broks" and gone: "length (take (nat count) broks) = nat count"
      by (auto simp: py_upto_def)
    have step: "push_all_broks (Suc n) ou b broks cl = push_all_broks n ou b (drop (nat count) broks) cl1"
      unfolding push_step[OF False] count_def[symmetric] Let_def up gone push_broks_def asks_put_conf[OF assms(1)]
      by (simp add: cl1_def)
    have "0 \<le> sl_broks_batch (cl_link cl1 b)" "length (drop (nat count) broks) \<le> n"
      using Suc.prems count by (simp_all add: cl1_def)
    from Suc.IH[OF this] show ?thesis by (auto simp: step cl1_def broks_pushed_def)
  qed (auto simp: broks_pushed_def)
qed auto

lemma push_refused:
  assumes "\<forall>h. ou_net ou h = Http_exception"
  shows "asks_link (\<lambda>i. push_broks (ou_net ou) i bs) b cl =
    (False, put_link b (drop_connection (connected (cl_link cl b)), cl_history cl @ [(b, Ping)]) cl)"
  using assms by (simp add: asks_link_def push_broks_def put_conf_def ask_def Let_def)

text \<open>When the broker does not answer, the loop of the arbiter does not end: no number of turns
  is enough.\<close>

theorem broks_pushed_for_ever:
  assumes "\<forall>h. ou_net ou h = Http_exception" "broks \<noteq> []"
  shows "push_all_broks n ou b broks cl = None"
  using assms(2)
proof (induction n arbitrary: cl)
  case 0
  then show ?case by (cases broks) auto
next
  case (Suc n)
  then show ?case by (cases broks) (simp_all add: push_refused[OF assms(1)] Let_def)
qed

theorem broks_pushed_in_order_witness:
  "\<exists>cl. push_all_broks 2 small_outside 1 [''a'', ''b''] small_cluster = Some ([], cl) \<and> broks_pushed 1 (cl_history cl) = [''a'', ''b'']"
  using broks_pushed_in_order[OF small_answers, of small_cluster 1 "[''a'', ''b'']" 2]
  by (simp add: small_cluster_def small_link_def broks_pushed_def)

theorem broks_pushed_for_ever_witness:
  "push_all_broks 5 (small_outside\<lparr>ou_net := \<lambda>_. Http_exception\<rparr>) 1 [''a''] small_cluster = None"
  using broks_pushed_for_ever[of "small_outside\<lparr>ou_net := \<lambda>_. Http_exception\<rparr>" "[''a'']" 5 1 small_cluster] by simp

end
