(* ===== verification/Packs.thy ===== *)
theory Packs
  imports Graph BusinessRules Dispatch
begin

text \<open>
  How the arbiter cuts the configuration into parts (\<^verbatim>\<open>create_packs\<close> and \<^verbatim>\<open>cut_into_parts\<close> of
  \<^verbatim>\<open>shinken/objects/config.py\<close>): hosts that depend on each other are connected components of a graph, a component goes
  to the realm of its hosts, the components of a realm are spread over its schedulers, and every scheduler makes one part.

  Hosts and services are numbers; the errors that \<^verbatim>\<open>add_error\<close> collects are a list. What Python or chance decides is the record
  \<^verbatim>\<open>chance\<close>: the order in which a set is walked, and \<^verbatim>\<open>random.choice\<close>. Exceptions are \<^term>\<open>None\<close>.
\<close>

subsection \<open>The configuration\<close>

record conf_elem =
  el_name :: string
  el_host :: "nat option"
  el_parents :: "nat option list"
  el_act_depend_of :: "nat list"
  el_chk_depend_of :: "nat list"
  el_rule :: "dnode option"
  el_realm :: "rid option"
  el_services :: "nat list"

record config =
  pc_elem :: "nat \<Rightarrow> conf_elem"
  pc_hosts :: "nat list"
  pc_services :: "nat list"
  pc_default :: "rid \<Rightarrow> bool"
  pc_weight :: "lid \<Rightarrow> int"
  pc_hostgroups :: "(string \<times> nat option list) list"
  pc_servicegroups :: "(string \<times> nat option list) list"

text \<open>\<^verbatim>\<open>ch_choice\<close> has the number of the call as its first argument.\<close>

record chance =
  ch_links :: "(nat \<times> nat) list \<Rightarrow> (nat \<times> nat) list"
  ch_pack :: "nat set \<Rightarrow> nat list"
  ch_ids :: "nat list \<Rightarrow> nat list"
  ch_choice :: "nat \<Rightarrow> nat list \<Rightarrow> nat"

datatype pack_error =
  Many_realms | Host_without_realm string | Host_in_realm string rid | No_default_realm | Impacted_host string
  | Realm_without_scheduler rid | Hosts_ignored nat nat

subsection \<open>The graph of the hosts\<close>

text \<open>A service has the attribute \<^verbatim>\<open>host\<close>, a host has not.\<close>

definition host_links :: "config \<Rightarrow> nat \<Rightarrow> (nat \<times> nat) list" where
  "host_links cg h =
     (let el = pc_elem cg h in
      map (\<lambda>p. (p, h)) (List.map_filter id (el_parents el) @ el_act_depend_of el @ el_chk_depend_of el))"

definition service_links :: "config \<Rightarrow> nat \<Rightarrow> (nat \<times> nat) list option" where
  "service_links cg s =
     (let el = pc_elem cg s in do {
        me \<leftarrow> el_host el;
        let act = List.map_filter (\<lambda>d. el_host (pc_elem cg d)) (el_act_depend_of el);
        chk \<leftarrow> those (map (\<lambda>d. el_host (pc_elem cg d)) (el_chk_depend_of el));
        Some (map (\<lambda>h. (h, me)) (act @ chk))
      })"

definition rule_links :: "config \<Rightarrow> nat \<Rightarrow> nat \<Rightarrow> (nat \<times> nat) list option" where
  "rule_links cg me x =
     (case el_rule (pc_elem cg x) of
        None \<Rightarrow> Some []
      | Some rule \<Rightarrow>
          map_option (\<lambda>es. map (\<lambda>h. (h, me))
            (filter (\<lambda>h. h \<noteq> me) (map (\<lambda>e. case el_host (pc_elem cg e) of Some h \<Rightarrow> h | None \<Rightarrow> e) es)))
            (list_all_elements rule))"

definition conf_links :: "config \<Rightarrow> (nat \<times> nat) list option" where
  "conf_links cg = do {
     svcs \<leftarrow> those (map (service_links cg) (pc_services cg));
     srules \<leftarrow> those (map (\<lambda>s. Option.bind (el_host (pc_elem cg s)) (\<lambda>h. rule_links cg h s)) (pc_services cg));
     hrules \<leftarrow> those (map (\<lambda>h. rule_links cg h h) (pc_hosts cg));
     Some (concat (map (host_links cg) (pc_hosts cg)) @ concat svcs @ concat srules @ concat hrules)
   }"

definition hosts_graph :: "chance \<Rightarrow> config \<Rightarrow> (nat \<times> nat) list \<Rightarrow> nat graph" where
  "hosts_graph ch cg links =
     fold (\<lambda>(dep, h) g. add_edge h dep (add_edge dep h g)) (ch_links ch (remdups links)) (add_nodes (pc_hosts cg) [])"

definition linked_packs :: "chance \<Rightarrow> config \<Rightarrow> nat list list option" where
  "linked_packs ch cg = do {
     links \<leftarrow> conf_links cg;
     let g = hosts_graph ch cg links;
     map_option (map (ch_pack ch)) (get_accessibility_packs (length g) g)
   }"

subsection \<open>The realm of a pack\<close>

definition realms_of :: "config \<Rightarrow> nat list \<Rightarrow> rid list" where
  "realms_of cg pack = remdups (List.map_filter (\<lambda>h. el_realm (pc_elem cg h)) pack)"

definition many_realms_errors :: "config \<Rightarrow> nat list \<Rightarrow> pack_error list" where
  "many_realms_errors cg pack =
     Many_realms # map (\<lambda>h. case el_realm (pc_elem cg h) of
         None \<Rightarrow> Host_without_realm (el_name (pc_elem cg h)) | Some r \<Rightarrow> Host_in_realm (el_name (pc_elem cg h)) r) pack"

definition default_realm :: "config \<Rightarrow> rid list \<Rightarrow> rid option" where
  "default_realm cg realms = fold (\<lambda>r d. if pc_default cg r then Some r else d) realms None"

definition place_pack ::
  "config \<Rightarrow> rid option \<Rightarrow> nat list \<Rightarrow> (rid \<Rightarrow> nat list list) \<times> pack_error list \<Rightarrow> (rid \<Rightarrow> nat list list) \<times> pack_error list" where
  "place_pack cg std pack = (\<lambda>(packs, errors).
     (case realms_of cg pack of
        [] \<Rightarrow> (case std of
            Some r \<Rightarrow> (packs(r := packs r @ [pack]), errors)
          | None \<Rightarrow> (packs, errors @ No_default_realm # map (\<lambda>h. Impacted_host (el_name (pc_elem cg h))) pack))
      | [r] \<Rightarrow> (packs(r := packs r @ [pack]), errors)
      | _ \<Rightarrow> (packs, errors @ many_realms_errors cg pack)))"

subsection \<open>The packs of a realm and its schedulers\<close>

text \<open>\<^verbatim>\<open>distribution\<close> maps the names of hosts and services to identifiers. The dictionary from counts to identifiers has a
  later one in the place of an earlier one with the same count.\<close>

definition get_least_loaded_scheduler_id :: "chance \<Rightarrow> nat \<Rightarrow> nat list \<Rightarrow> (string \<times> nat) list \<Rightarrow> nat option" where
  "get_least_loaded_scheduler_id ch n scheduler_ids distribution =
     (let distribution_ids = map snd distribution;
          no_conf = filter (\<lambda>i. i \<notin> set distribution_ids) scheduler_ids
      in if no_conf \<noteq> [] then Some (ch_choice ch n no_conf)
         else let weighted_ids = fold (\<lambda>i. AList.update (count_list distribution_ids i) i)
                    (ch_ids ch (remdups distribution_ids)) []
              in Option.bind (list_min (map fst weighted_ids)) (map_of weighted_ids))"

definition packindices :: "lid list \<Rightarrow> (lid \<times> nat) list" where
  "packindices scheds = fold (\<lambda>(i, s). AList.update s i) (enumerate 0 scheds) []"

definition weight_scheduler_ids :: "config \<Rightarrow> lid list \<Rightarrow> lid list" where
  "weight_scheduler_ids cg scheds = concat (map (\<lambda>s. replicate (nat (pc_weight cg s)) s) scheds)"

text \<open>The elements of a pack are noted under \<^verbatim>\<open>i\<close>, which is not the scheduler that was chosen but what the loop before has
  left in the variable: the last index.\<close>

definition note_pack :: "config \<Rightarrow> nat \<Rightarrow> nat list \<Rightarrow> (string \<times> nat) list \<Rightarrow> (string \<times> nat) list" where
  "note_pack cg i pack assoc =
     fold (\<lambda>h. fold (\<lambda>s. AList.update (el_name (pc_elem cg s)) i) (el_services (pc_elem cg h)) \<circ>
       AList.update (el_name (pc_elem cg h)) i) pack assoc"

fun spread_packs ::
  "chance \<Rightarrow> config \<Rightarrow> lid list \<Rightarrow> lid list \<Rightarrow> nat \<Rightarrow> nat list list \<Rightarrow> (string \<times> nat) list \<Rightarrow> nat list list \<Rightarrow> nat list list option" where
  "spread_packs ch cg scheds ids n [] assoc packs = Some packs"
| "spread_packs ch cg scheds ids n (pack # todo) assoc packs = do {
     s \<leftarrow> get_least_loaded_scheduler_id ch n ids assoc;
     k \<leftarrow> map_of (packindices scheds) s;
     spread_packs ch cg scheds ids (Suc n) todo (note_pack cg (length scheds - 1) pack assoc) (packs[k := packs ! k @ pack])
   }"

definition no_spare_schedulers :: "cluster \<Rightarrow> rid \<Rightarrow> lid list" where
  "no_spare_schedulers cl r = filter (\<lambda>s. \<not> sl_spare (cl_link cl s)) (rl_schedulers (cl_realm cl r))"

text \<open>The dictionary of the packs of a realm, from 0 on, is a list.\<close>

definition balance_realm ::
  "chance \<Rightarrow> config \<Rightarrow> cluster \<Rightarrow> rid \<Rightarrow> (rid \<Rightarrow> nat list list) \<times> pack_error list \<Rightarrow>
     ((rid \<Rightarrow> nat list list) \<times> pack_error list) option" where
  "balance_realm ch cg cl r = (\<lambda>(packs, errors).
     (let scheds = no_spare_schedulers cl r in
      if scheds = [] \<and> concat (packs r) \<noteq> []
      then Some (packs(r := []), errors @ [Realm_without_scheduler r])
      else map_option (\<lambda>ps. (packs(r := ps), errors))
             (spread_packs ch cg scheds (weight_scheduler_ids cg scheds) 0 (packs r) [] (replicate (length scheds) []))))"

definition create_packs :: "chance \<Rightarrow> config \<Rightarrow> cluster \<Rightarrow> ((rid \<Rightarrow> nat list list) \<times> pack_error list) option" where
  "create_packs ch cg cl = do {
     tmp_packs \<leftarrow> linked_packs ch cg;
     let (packs, errors) = fold (place_pack cg (default_realm cg (cl_realms cl))) tmp_packs (\<lambda>_. [], []);
     (balanced, errors) \<leftarrow> fold_raise (balance_realm ch cg cl) (cl_realms cl) (packs, errors);
     let nb = length (concat (concat (map packs (cl_realms cl))));
     Some (balanced, if length (pc_hosts cg) \<noteq> nb then errors @ [Hosts_ignored (length (pc_hosts cg)) nb] else errors)
   }"

subsection \<open>The parts\<close>

record parts =
  pt_hosts :: "nat list list"
  pt_services :: "nat list list"
  pt_pack_id :: "nat \<Rightarrow> nat option"

definition add_pack :: "config \<Rightarrow> nat \<Rightarrow> nat \<Rightarrow> nat list \<Rightarrow> parts \<Rightarrow> parts" where
  "add_pack cg i k pack pt =
     pt\<lparr>pt_hosts := (pt_hosts pt)[k := pt_hosts pt ! k @ pack],
        pt_services := (pt_services pt)[k := pt_services pt ! k @ concat (map (\<lambda>h. el_services (pc_elem cg h)) pack)],
        pt_pack_id := fold (\<lambda>h f. f(h := Some i)) pack (pt_pack_id pt)\<rparr>"

text \<open>The packs of one realm from the part \<^verbatim>\<open>offset\<close> on; a part that does not exist is a \<^verbatim>\<open>KeyError\<close>.\<close>

fun fill_parts :: "config \<Rightarrow> rid \<Rightarrow> nat \<Rightarrow> nat \<Rightarrow> nat list list \<Rightarrow> parts \<times> cluster \<Rightarrow> (parts \<times> cluster) option" where
  "fill_parts cg r offset i [] s = Some s"
| "fill_parts cg r offset i (pack # packs) (pt, cl) =
     (if length (pt_hosts pt) \<le> i + offset then None
      else fill_parts cg r offset (Suc i) packs (add_pack cg i (i + offset) pack pt,
             on_realm r (\<lambda>re. re\<lparr>rl_confs := rl_confs re @ [int (i + offset)]\<rparr>) cl))"

fun fill_realms :: "config \<Rightarrow> (rid \<Rightarrow> nat list list) \<Rightarrow> nat \<Rightarrow> rid list \<Rightarrow> parts \<times> cluster \<Rightarrow> (parts \<times> cluster) option" where
  "fill_realms cg packs offset [] s = Some s"
| "fill_realms cg packs offset (r # rs) s =
     Option.bind (fill_parts cg r offset 0 (packs r) s) (fill_realms cg packs (offset + length (packs r)) rs)"

definition nb_parts :: "cluster \<Rightarrow> nat" where
  "nb_parts cl = (let n = length (filter (\<lambda>s. \<not> sl_spare (cl_link cl s)) (cl_schedulers cl)) in if n = 0 then 1 else n)"

definition new_conf :: "config \<Rightarrow> nat list \<Rightarrow> conf_part" where
  "new_conf cg hosts = \<lparr>cp_is_assigned = False, cp_assigned_to = None, cp_push_flavor = 0,
     cp_hosts = map (\<lambda>h. el_name (pc_elem cg h)) hosts\<rparr>"

definition cut_into_parts :: "chance \<Rightarrow> config \<Rightarrow> cluster \<Rightarrow> (parts \<times> pack_error list \<times> cluster) option" where
  "cut_into_parts ch cg cl = do {
     let n = nb_parts cl;
     (packs, errors) \<leftarrow> create_packs ch cg cl;
     (pt, cl) \<leftarrow> fill_realms cg packs 0 (cl_realms cl)
       (\<lparr>pt_hosts = replicate n [], pt_services = replicate n [], pt_pack_id = (\<lambda>_. None)\<rparr>, cl);
     Some (pt, errors, cl\<lparr>cl_confs := map int [0..<n], cl_conf := (\<lambda>c. new_conf cg (pt_hosts pt ! nat c))\<rparr>)
   }"

text \<open>The groups of a part keep those members that are in the part; a group is found again by its name. The names of the hosts of a part
  are noted in its own \<^verbatim>\<open>other_elements\<close>, once there is another part.\<close>

definition part_groups :: "(string \<times> nat option list) list \<Rightarrow> nat list \<Rightarrow> string \<Rightarrow> nat list" where
  "part_groups groups elems =
     fold (\<lambda>(name, mbrs) members. members(name := members name @ filter (\<lambda>h. Some h \<in> set mbrs) elems)) groups (\<lambda>_. [])"

definition other_elements :: "config \<Rightarrow> parts \<Rightarrow> nat \<Rightarrow> (string \<times> nat) list" where
  "other_elements cg pt i =
     (if length (pt_hosts pt) \<le> 1 then []
      else fold (\<lambda>h. AList.update (el_name (pc_elem cg h)) i) (pt_hosts pt ! i) [])"

end
