(* ===== verification/PackRules.thy ===== *)
theory PackRules
  imports Packs Assignments "HOL-Library.Multiset"
begin

text \<open>
  The cut of the configuration: hosts that depend on each other stay together, every host is in one part, and what the
  spreading of the packs over the schedulers does instead of balancing their load.
\<close>

subsection \<open>The graph\<close>

definition chance_ok :: "chance \<Rightarrow> bool" where
  "chance_ok ch \<longleftrightarrow> (\<forall>ls. set (ch_links ch ls) = set ls) \<and>
     (\<forall>p. finite p \<longrightarrow> set (ch_pack ch p) = p \<and> distinct (ch_pack ch p)) \<and>
     (\<forall>ids. set (ch_ids ch ids) = set ids) \<and> (\<forall>n ids. ids \<noteq> [] \<longrightarrow> ch_choice ch n ids \<in> set ids)"

lemma add_nodes_graph:
  assumes "graph_wf g" "edges g = {}"
  shows "graph_wf (add_nodes ns g) \<and> edges (add_nodes ns g) = {} \<and> fst ` set (add_nodes ns g) = set ns \<union> fst ` set g"
  using assms
proof (induction ns arbitrary: g)
  case (Cons n ns)
  have "edges (add_node n g) = {}" using Cons.prems(2) by (auto simp: edges_def sons_of_add_node split: if_splits)
  from Cons.IH[OF add_node_wf[OF Cons.prems(1)] this] show ?case by simp
qed simp

lemma add_links_graph:
  assumes "graph_wf g"
  shows "graph_wf (fold (\<lambda>(dep, h) g. add_edge h dep (add_edge dep h g)) ls g) \<and>
    edges (fold (\<lambda>(dep, h) g. add_edge h dep (add_edge dep h g)) ls g) = edges g \<union> set ls \<union> (set ls)\<inverse> \<and>
    fst ` set (fold (\<lambda>(dep, h) g. add_edge h dep (add_edge dep h g)) ls g) = fst ` set g \<union> fst ` set ls \<union> snd ` set ls"
  using assms
proof (induction ls arbitrary: g)
  case (Cons l ls)
  obtain dep h where l: "l = (dep, h)" by fastforce
  let ?g = "add_edge h dep (add_edge dep h g)"
  have "edges ?g \<union> set ls \<union> (set ls)\<inverse> = edges g \<union> set (l # ls) \<union> (set (l # ls))\<inverse>"
    by (auto simp: l edges_add_edge)
  moreover have "fst ` set ?g \<union> fst ` set ls \<union> snd ` set ls = fst ` set g \<union> fst ` set (l # ls) \<union> snd ` set (l # ls)"
    by (simp add: l) blast
  moreover have "graph_wf ?g" using Cons.prems by (intro add_edge_wf)
  ultimately show ?case using Cons.IH[of ?g] by (simp add: l)
qed simp

lemma hosts_graph_edges:
  assumes "chance_ok ch" and g: "g = hosts_graph ch cg ls"
  shows "graph_wf g \<and> edges g = set ls \<union> (set ls)\<inverse> \<and> fst ` set g = set (pc_hosts cg) \<union> fst ` set ls \<union> snd ` set ls"
proof -
  have "graph_wf ([] :: nat graph) \<and> edges ([] :: nat graph) = {}" by (simp add: graph_wf_def edges_def)
  then have 1: "graph_wf (add_nodes (pc_hosts cg) [])" "edges (add_nodes (pc_hosts cg) []) = {}"
    "fst ` set (add_nodes (pc_hosts cg) []) = set (pc_hosts cg)"
    using add_nodes_graph[of "[]" "pc_hosts cg"] by auto
  have "set (ch_links ch (remdups ls)) = set ls" using assms(1) by (simp add: chance_ok_def)
  with add_links_graph[OF 1(1), of "ch_links ch (remdups ls)"] 1 show ?thesis
    unfolding g hosts_graph_def by auto
qed

text \<open>The packs are disjoint, they cover the hosts, and a link lies in one of them.\<close>

definition packs_ok :: "config \<Rightarrow> (nat \<times> nat) list \<Rightarrow> nat list list \<Rightarrow> bool" where
  "packs_ok cg ls tps \<longleftrightarrow> distinct (concat tps) \<and> [] \<notin> set tps \<and>
     set (concat tps) = set (pc_hosts cg) \<union> fst ` set ls \<union> snd ` set ls \<and>
     (\<forall>p \<in> set tps. \<forall>(a, b) \<in> set ls. a \<in> set p \<longleftrightarrow> b \<in> set p)"

lemma components_cover:
  assumes "\<And>n. n \<in> N \<Longrightarrow> E\<^sup>* `` {n} \<subseteq> N" shows "\<Union> {E\<^sup>* `` {n} | n. n \<in> N} = N"
  using assms by auto

lemma linked_packs_ok:
  assumes "chance_ok ch" "conf_links cg = Some ls"
  shows "\<exists>tps. linked_packs ch cg = Some tps \<and> packs_ok cg ls tps"
proof -
  define g where "g = hosts_graph ch cg ls"
  note g = hosts_graph_edges[OF assms(1) g_def]
  have ge: "edges g = set ls \<union> (set ls)\<inverse>" and gn: "fst ` set g = set (pc_hosts cg) \<union> fst ` set ls \<union> snd ` set ls"
    by (fact conjunct1[OF conjunct2[OF g]], fact conjunct2[OF conjunct2[OF g]])
  have sym: "sym (edges g)" unfolding ge by (auto simp: sym_def)
  have "seen (\<lambda>_ :: nat. DFS_UNCHECKED) = {}" by (simp add: seen_def)
  with accessibility_packs_nodes_spec[OF conjunct1[OF g] sym, of "map fst g" "length g" "\<lambda>_. DFS_UNCHECKED"]
  have "\<exists>Ps. get_accessibility_packs (length g) g = Some Ps \<and> set Ps = {(edges g)\<^sup>* `` {n} | n. n \<in> fst ` set g} \<and>
      pairwise disjnt (set Ps) \<and> distinct Ps"
    by (simp add: get_accessibility_packs_def)
  then obtain Ps where
    P: "get_accessibility_packs (length g) g = Some Ps" "set Ps = {(edges g)\<^sup>* `` {n} | n. n \<in> fst ` set g}"
      "pairwise disjnt (set Ps)" "distinct Ps"
    by blast
  have nodes: "edges g \<subseteq> fst ` set g \<times> fst ` set g" unfolding ge gn by force
  have within: "(edges g)\<^sup>* `` {n} \<subseteq> fst ` set g" if "n \<in> fst ` set g" for n
  proof
    fix x assume "x \<in> (edges g)\<^sup>* `` {n}"
    then have "(n, x) \<in> (edges g)\<^sup>*" by simp
    then show "x \<in> fst ` set g" by (induction rule: rtrancl_induct) (use that nodes in auto)
  qed
  have fin: "finite p" if "p \<in> set Ps" for p
  proof -
    from that obtain n where "n \<in> fst ` set g" "p = (edges g)\<^sup>* `` {n}" unfolding P(2) by blast
    then show ?thesis using finite_subset[OF within] by blast
  qed
  have ch: "set (ch_pack ch p) = p" "distinct (ch_pack ch p)" if "p \<in> set Ps" for p
    using assms(1) fin[OF that] unfolding chance_ok_def by blast+
  let ?tps = "map (ch_pack ch) Ps"
  have inj: "inj_on (ch_pack ch) (set Ps)" by (rule inj_onI) (metis ch(1))
  have "distinct (concat ?tps)"
  proof (rule distinct_concat)
    show "distinct ?tps" using P(4) inj by (simp add: distinct_map)
    show "distinct ys" if "ys \<in> set ?tps" for ys using that ch(2) by auto
    show "set ys \<inter> set zs = {}" if "ys \<in> set ?tps" "zs \<in> set ?tps" "ys \<noteq> zs" for ys zs
      using that P(3) ch(1) by (auto simp: pairwise_def disjnt_iff) (metis disjnt_iff)
  qed
  moreover have "set (concat ?tps) = \<Union> (set Ps)" by (auto simp: ch(1))
  then have "set (concat ?tps) = fst ` set g"
    by (simp only: P(2) components_cover[of "fst ` set g" "edges g", OF within])
  moreover have "{} \<notin> set Ps" unfolding P(2) by blast
  then have "[] \<notin> set ?tps" using ch(1) by force
  moreover have "a \<in> p \<longleftrightarrow> b \<in> p" if "p \<in> set Ps" "(a, b) \<in> set ls" for p a b
  proof -
    have "(a, b) \<in> edges g" "(b, a) \<in> edges g" using that(2) unfolding ge by auto
    moreover from that(1) obtain n where "p = (edges g)\<^sup>* `` {n}" unfolding P(2) by blast
    ultimately show ?thesis by (auto intro: rtrancl_into_rtrancl)
  qed
  ultimately have "packs_ok cg ls ?tps" unfolding packs_ok_def gn[symmetric] by (auto simp: ch(1))
  then show ?thesis using assms(2) P(1) by (auto simp: linked_packs_def g_def[symmetric] Let_def)
qed

subsection \<open>Packs in realms\<close>

abbreviation hosts_in :: "(rid \<Rightarrow> nat list list) \<Rightarrow> rid list \<Rightarrow> nat multiset" where
  "hosts_in packs rs \<equiv> mset (concat (concat (map packs rs)))"

lemma hosts_in_sum: "hosts_in packs rs = (\<Sum>r\<leftarrow>rs. mset (concat (packs r)))"
  by (induction rs) auto

lemma hosts_in_none: "hosts_in (\<lambda>_. []) rs = {#}" by (induction rs) auto

lemma hosts_in_upd:
  "distinct rs \<Longrightarrow> hosts_in (packs(r := packs r @ [p])) rs = hosts_in packs rs + (if r \<in> set rs then mset p else {#})"
proof (induction rs)
  case (Cons x rs)
  have "hosts_in (packs(r := packs r @ [p])) rs = hosts_in packs rs" if "r \<notin> set rs"
    using that by (simp add: map_fun_upd)
  with Cons show ?case by (cases "x = r") auto
qed simp

lemma place_packs:
  assumes "distinct rs" "fold (place_pack cg std) todo (packs, errs) = (packs', errs')"
  shows "hosts_in packs' rs \<subseteq># hosts_in packs rs + mset (concat todo) \<and>
    (\<forall>r. set (packs' r) \<subseteq> set (packs r) \<union> set todo)"
  using assms(2)
proof (induction todo arbitrary: packs errs)
  case (Cons p todo)
  obtain packs1 errs1 where 1: "place_pack cg std p (packs, errs) = (packs1, errs1)" by fastforce
  have "packs1 = packs \<or> (\<exists>r. packs1 = packs(r := packs r @ [p]))"
    using 1 by (auto simp: place_pack_def split: list.splits option.splits)
  then have "hosts_in packs1 rs \<subseteq># hosts_in packs rs + mset p \<and> (\<forall>r. set (packs1 r) \<subseteq> set (packs r) \<union> {p})"
    using hosts_in_upd[OF assms(1), of packs _ p] by (auto simp del: mset_concat split: if_splits)
  moreover have "hosts_in packs' rs \<subseteq># hosts_in packs1 rs + mset (concat todo) \<and>
      (\<forall>r. set (packs' r) \<subseteq> set (packs1 r) \<union> set todo)"
    using Cons.IH[of packs1 errs1] Cons.prems 1 by simp
  ultimately show ?case
    by (auto simp del: mset_concat simp: add.assoc elim!: subset_mset.order_trans intro: subset_mset.add_right_mono
      subset_mset.add_mono)
qed simp

subsection \<open>Packs over schedulers\<close>

lemma packindices_append: "packindices (scheds @ [s]) = AList.update s (length scheds) (packindices scheds)"
  by (simp add: packindices_def enumerate_append_eq)

lemma packindices_range: "map_of (packindices scheds) s = Some k \<Longrightarrow> k < length scheds \<and> scheds ! k = s"
proof (induction scheds arbitrary: k rule: rev_induct)
  case Nil
  then show ?case by (simp add: packindices_def)
next
  case (snoc x scheds)
  then show ?case
    by (fastforce simp: packindices_append update_conv' nth_append split: if_splits)
qed

lemma mset_append_at: "k < length xs \<Longrightarrow> mset (concat (xs[k := xs ! k @ p])) = mset (concat xs) + mset p"
  by (induction xs arbitrary: k) (auto split: nat.split)

lemma spread_packs_hosts:
  assumes "spread_packs ch cg scheds ids n todo assoc packs = Some ps" "length packs = length scheds"
  shows "length ps = length scheds \<and> mset (concat ps) = mset (concat packs) + mset (concat todo)"
  using assms
proof (induction todo arbitrary: n assoc packs)
  case (Cons p todo)
  from Cons.prems(1) obtain s k where
    k: "map_of (packindices scheds) s = Some k"
    and rest: "spread_packs ch cg scheds ids (Suc n) todo (note_pack cg (length scheds - 1) p assoc) (packs[k := packs ! k @ p]) = Some ps"
    by (auto simp: bind_eq_Some_conv)
  have len: "k < length packs" using packindices_range[OF k] Cons.prems(2) by simp
  have "mset (concat (packs[k := packs ! k @ p])) = mset (concat packs) + mset p"
    using len by (rule mset_append_at)
  with Cons.IH[OF rest] Cons.prems(2) show ?case by (simp del: mset_concat)
qed simp

text \<open>A list of hosts is made of packs.\<close>

definition made_of :: "nat list list \<Rightarrow> nat list \<Rightarrow> bool" where
  "made_of tps xs \<longleftrightarrow> (\<exists>ps. set ps \<subseteq> set tps \<and> set xs = set (concat ps))"

lemma made_of_Nil [simp]: "made_of tps []" by (auto simp: made_of_def intro: exI[of _ "[]"])

lemma made_of_pack: "p \<in> set tps \<Longrightarrow> made_of tps p" by (auto simp: made_of_def intro: exI[of _ "[p]"])

lemma made_of_append: "made_of tps xs \<Longrightarrow> made_of tps ys \<Longrightarrow> made_of tps (xs @ ys)"
  unfolding made_of_def by (metis concat_append le_sup_iff set_append)

lemma made_of_together:
  assumes "made_of tps xs" "\<forall>p \<in> set tps. a \<in> set p \<longleftrightarrow> b \<in> set p"
  shows "a \<in> set xs \<longleftrightarrow> b \<in> set xs"
proof -
  from assms(1) obtain ps where ps: "set ps \<subseteq> set tps" "set xs = set (concat ps)" by (auto simp: made_of_def)
  have "x \<in> set xs \<longleftrightarrow> (\<exists>p \<in> set ps. x \<in> set p)" for x by (simp add: ps(2))
  with assms(2) ps(1) show ?thesis by blast
qed

lemma spread_packs_made:
  assumes "spread_packs ch cg scheds ids n todo assoc packs = Some ps" "length packs = length scheds"
    "set todo \<subseteq> set tps" "\<forall>p \<in> set packs. made_of tps p"
  shows "\<forall>p \<in> set ps. made_of tps p"
  using assms
proof (induction todo arbitrary: n assoc packs)
  case (Cons p todo)
  from Cons.prems(1) obtain s k where
    k: "map_of (packindices scheds) s = Some k"
    and rest: "spread_packs ch cg scheds ids (Suc n) todo (note_pack cg (length scheds - 1) p assoc) (packs[k := packs ! k @ p]) = Some ps"
    by (auto simp: bind_eq_Some_conv)
  have "made_of tps (packs ! k)" "made_of tps p"
    using packindices_range[OF k] Cons.prems(2-4) by (simp_all add: made_of_pack)
  then have "made_of tps (packs ! k @ p)" by (rule made_of_append)
  then have "\<forall>p \<in> set (packs[k := packs ! k @ p]). made_of tps p"
    using Cons.prems(4) by (auto dest!: subsetD[OF set_update_subset_insert])
  with Cons.IH[OF rest] Cons.prems(2,3) show ?case by simp
qed simp

lemma balance_realm_effect:
  assumes "balance_realm ch cg cl r (packs, errs) = Some (packs', errs')"
  shows "(\<forall>r'. r' \<noteq> r \<longrightarrow> packs' r' = packs r') \<and> (errs' = [] \<longrightarrow> errs = []) \<and>
    (errs' = [] \<longrightarrow> mset (concat (packs' r)) = mset (concat (packs r))) \<and>
    (set (packs r) \<subseteq> set tps \<longrightarrow> (\<forall>p \<in> set (packs' r). made_of tps p))"
proof (cases "no_spare_schedulers cl r = [] \<and> concat (packs r) \<noteq> []")
  case True
  with assms show ?thesis by (auto simp: balance_realm_def Let_def)
next
  case False
  with assms obtain ps where
    ps: "spread_packs ch cg (no_spare_schedulers cl r) (weight_scheduler_ids cg (no_spare_schedulers cl r)) 0 (packs r) []
      (replicate (length (no_spare_schedulers cl r)) []) = Some ps" "packs' = packs(r := ps)" "errs' = errs"
    by (auto simp: balance_realm_def Let_def)
  from spread_packs_hosts[OF ps(1)] spread_packs_made[OF ps(1), of tps] ps(2,3) show ?thesis
    by (auto simp del: mset_concat)
qed

lemma balance_realms_effect:
  assumes "fold_raise (balance_realm ch cg cl) rs (packs, errs) = Some (packs', errs')" "distinct rs"
    "\<forall>r \<in> set rs. set (packs r) \<subseteq> set tps"
  shows "(errs' = [] \<longrightarrow> errs = [] \<and> hosts_in packs' rs = hosts_in packs rs) \<and>
    (\<forall>r \<in> set rs. \<forall>p \<in> set (packs' r). made_of tps p) \<and> (\<forall>r. r \<notin> set rs \<longrightarrow> packs' r = packs r)"
  using assms
proof (induction rs arbitrary: packs errs)
  case (Cons r rs)
  from Cons.prems(1) obtain packs1 errs1 where
    1: "balance_realm ch cg cl r (packs, errs) = Some (packs1, errs1)"
    and rest: "fold_raise (balance_realm ch cg cl) rs (packs1, errs1) = Some (packs', errs')"
    by (auto simp: bind_eq_Some_conv)
  note b = balance_realm_effect[OF 1, of tps]
  have other: "packs1 x = packs x" if "x \<in> set rs" for x using b Cons.prems(2) that by (cases "x = r") simp_all
  have same: "map packs1 rs = map packs rs" using other by (rule map_cong[OF refl])
  have "\<forall>r \<in> set rs. set (packs1 r) \<subseteq> set tps" using Cons.prems(3) by (simp add: other)
  note IH = Cons.IH[OF rest _ this]
  have r: "packs' r = packs1 r" using IH Cons.prems(2) by auto
  have "hosts_in packs' (r # rs) = mset (concat (packs1 r)) + hosts_in packs' rs" using r by (simp del: mset_concat)
  moreover have "hosts_in packs (r # rs) = mset (concat (packs r)) + hosts_in packs1 rs"
    unfolding same by (simp del: mset_concat)
  ultimately have "errs' = [] \<Longrightarrow> errs = [] \<and> hosts_in packs' (r # rs) = hosts_in packs (r # rs)"
    using b IH Cons.prems(2) by (simp del: mset_concat)
  then show ?case using b IH r Cons.prems(2,3) by (auto simp del: mset_concat)
qed simp

subsection \<open>Packs in parts\<close>

definition services_follow :: "config \<Rightarrow> parts \<Rightarrow> bool" where
  "services_follow cg pt \<longleftrightarrow> pt_services pt = map (concat \<circ> map (\<lambda>h. el_services (pc_elem cg h))) (pt_hosts pt)"

definition all_made :: "nat list list \<Rightarrow> parts \<Rightarrow> bool" where
  "all_made tps pt \<longleftrightarrow> (\<forall>p \<in> set (pt_hosts pt). made_of tps p)"

definition filled :: "config \<Rightarrow> nat list list \<Rightarrow> nat multiset \<Rightarrow> parts \<Rightarrow> parts \<Rightarrow> bool" where
  "filled cg tps hosts pt pt' \<longleftrightarrow> mset (concat (pt_hosts pt')) = mset (concat (pt_hosts pt)) + hosts \<and>
     (all_made tps pt \<longrightarrow> all_made tps pt') \<and> (services_follow cg pt \<longrightarrow> services_follow cg pt')"

lemma filled_trans: "filled cg tps m a b \<Longrightarrow> filled cg tps n b c \<Longrightarrow> filled cg tps (m + n) a c"
  by (simp add: filled_def del: mset_concat)

lemma filled_none: "filled cg tps {#} pt pt" by (simp add: filled_def)

lemma add_pack_filled:
  assumes "k < length (pt_hosts pt)" "made_of tps p"
  shows "filled cg tps (mset p) pt (add_pack cg i k p pt)"
proof -
  have "all_made tps pt \<Longrightarrow> all_made tps (add_pack cg i k p pt)"
    using assms by (auto simp: all_made_def add_pack_def made_of_append dest!: subsetD[OF set_update_subset_insert])
  moreover have "services_follow cg pt \<Longrightarrow> services_follow cg (add_pack cg i k p pt)"
    using assms(1) by (simp add: services_follow_def add_pack_def map_update)
  ultimately show ?thesis using mset_append_at[OF assms(1), of p] by (simp add: filled_def add_pack_def del: mset_concat)
qed

lemma fill_parts_filled:
  assumes "fill_parts cg r offset i packs (pt, cl) = Some (pt', cl')" "\<forall>p \<in> set packs. made_of tps p"
  shows "filled cg tps (mset (concat packs)) pt pt'"
  using assms
proof (induction packs arbitrary: i pt cl)
  case (Cons p packs)
  let ?k = "i + offset" and ?cl = "on_realm r (\<lambda>re. re\<lparr>rl_confs := rl_confs re @ [int (i + offset)]\<rparr>) cl"
  from Cons.prems(1) have "?k < length (pt_hosts pt)"
    and rest: "fill_parts cg r offset (Suc i) packs (add_pack cg i ?k p pt, ?cl) = Some (pt', cl')"
    by (auto split: if_splits)
  then have "filled cg tps (mset p) pt (add_pack cg i ?k p pt)" using Cons.prems(2) by (intro add_pack_filled) simp_all
  from filled_trans[OF this Cons.IH[OF rest]] Cons.prems(2) show ?case by simp
qed (simp add: filled_none)

lemma fill_realms_filled:
  assumes "fill_realms cg packs offset rs (pt, cl) = Some (pt', cl')" "\<forall>r \<in> set rs. \<forall>p \<in> set (packs r). made_of tps p"
  shows "filled cg tps (hosts_in packs rs) pt pt'"
  using assms
proof (induction rs arbitrary: offset pt cl)
  case (Cons r rs)
  from Cons.prems obtain pt1 cl1 where
    1: "fill_parts cg r offset 0 (packs r) (pt, cl) = Some (pt1, cl1)"
    and rest: "fill_realms cg packs (offset + length (packs r)) rs (pt1, cl1) = Some (pt', cl')"
    by (auto simp: bind_eq_Some_conv)
  from filled_trans[OF fill_parts_filled[OF 1] Cons.IH[OF rest]] Cons.prems(2) show ?case by simp
qed (simp add: filled_none)

lemma cut_effect:
  assumes "chance_ok ch" "conf_links cg = Some ls" "distinct (cl_realms cl)"
    and "cut_into_parts ch cg cl = Some (pt, errs, cl')"
  shows "\<exists>tps. packs_ok cg ls tps \<and> all_made tps pt \<and> services_follow cg pt \<and>
    (errs = [] \<longrightarrow> mset (concat (pt_hosts pt)) \<subseteq># mset (concat tps) \<and>
       size (mset (concat (pt_hosts pt))) = length (pc_hosts cg))"
proof -
  obtain tps where tps: "linked_packs ch cg = Some tps" "packs_ok cg ls tps" using linked_packs_ok[OF assms(1,2)] by blast
  obtain packs errs0 where 0: "fold (place_pack cg (default_realm cg (cl_realms cl))) tps (\<lambda>_. [], []) = (packs, errs0)"
    by fastforce
  note placed = place_packs[OF assms(3) 0]
  from assms(4) obtain balanced errs1 where
    b: "fold_raise (balance_realm ch cg cl) (cl_realms cl) (packs, errs0) = Some (balanced, errs1)"
    and errs: "errs = (if length (pc_hosts cg) \<noteq> length (concat (concat (map packs (cl_realms cl))))
      then errs1 @ [Hosts_ignored (length (pc_hosts cg)) (length (concat (concat (map packs (cl_realms cl)))))] else errs1)"
    and fill: "\<exists>cl1. fill_realms cg balanced 0 (cl_realms cl)
      (\<lparr>pt_hosts = replicate (nb_parts cl) [], pt_services = replicate (nb_parts cl) [], pt_pack_id = (\<lambda>_. None)\<rparr>, cl) = Some (pt, cl1)"
    by (auto simp: cut_into_parts_def create_packs_def tps(1) 0 bind_eq_Some_conv Let_def)
  have "\<forall>r \<in> set (cl_realms cl). set (packs r) \<subseteq> set tps" using placed by simp
  note bal = balance_realms_effect[OF b assms(3) this]
  from fill obtain cl1 where "fill_realms cg balanced 0 (cl_realms cl)
      (\<lparr>pt_hosts = replicate (nb_parts cl) [], pt_services = replicate (nb_parts cl) [], pt_pack_id = (\<lambda>_. None)\<rparr>, cl) = Some (pt, cl1)"
    by blast
  from fill_realms_filled[OF this, of tps] bal
  have f: "mset (concat (pt_hosts pt)) = hosts_in balanced (cl_realms cl)" "all_made tps pt" "services_follow cg pt"
    by (simp_all add: filled_def all_made_def services_follow_def concat_replicate_trivial del: mset_concat)
  have "mset (concat (pt_hosts pt)) \<subseteq># mset (concat tps) \<and> size (mset (concat (pt_hosts pt))) = length (pc_hosts cg)"
    if "errs = []"
  proof -
    from that errs have e: "errs1 = []" "length (pc_hosts cg) = length (concat (concat (map packs (cl_realms cl))))"
      by (auto split: if_splits)
    from f(1) bal e(1) have "mset (concat (pt_hosts pt)) = hosts_in packs (cl_realms cl)" by (simp del: mset_concat)
    with placed e(2) show ?thesis by (simp del: mset_concat add: hosts_in_none)
  qed
  with f tps(2) show ?thesis by blast
qed

text \<open>C33: when every link is between hosts of the configuration and the cut reports no error, every host is in
  exactly one part, once, and its services are in the same part.\<close>

theorem parts_partition:
  assumes "chance_ok ch" "conf_links cg = Some ls" "set ls \<subseteq> set (pc_hosts cg) \<times> set (pc_hosts cg)"
    and "distinct (pc_hosts cg)" "distinct (cl_realms cl)" "cut_into_parts ch cg cl = Some (pt, [], cl')"
  shows "mset (concat (pt_hosts pt)) = mset (pc_hosts cg) \<and>
    pt_services pt = map (\<lambda>hs. concat (map (\<lambda>h. el_services (pc_elem cg h)) hs)) (pt_hosts pt)"
proof -
  obtain tps where tps: "packs_ok cg ls tps" "services_follow cg pt" "mset (concat (pt_hosts pt)) \<subseteq># mset (concat tps)"
    "size (mset (concat (pt_hosts pt))) = length (pc_hosts cg)"
    using cut_effect[OF assms(1,2,5,6)] by blast
  have "set (concat tps) = set (pc_hosts cg)" "distinct (concat tps)"
    using tps(1) assms(3) unfolding packs_ok_def by fastforce+
  then have "mset (concat tps) = mset (pc_hosts cg)" using assms(4) set_eq_iff_mset_eq_distinct by blast
  with tps(3,4) have "mset (concat (pt_hosts pt)) = mset (pc_hosts cg)"
    by (metis less_irrefl mset_subset_size size_mset subset_mset.le_less)
  with tps(2) show ?thesis by (simp add: services_follow_def comp_def)
qed


subsection \<open>The load of the schedulers\<close>

lemma note_pack_values:
  assumes "pack \<noteq> []" "set (map snd assoc) \<subseteq> {i}"
  shows "set (map snd (note_pack cg i pack assoc)) = {i}"
proof -
  have upd: "set (map snd (AList.update k i xs)) = {i}" if "set (map snd xs) \<subseteq> {i}" for k :: string and xs
    using that by (induction xs) auto
  have svc: "set (map snd (fold (\<lambda>s. AList.update (el_name (pc_elem cg s)) i) ss xs)) = {i}"
    if "set (map snd xs) = {i}" for ss xs
    using that
  proof (induction ss arbitrary: xs)
    case (Cons s ss)
    from Cons.IH[OF upd, of xs] Cons.prems show ?case by simp
  qed simp
  have one: "set (map snd (note_pack cg i [h] xs)) = {i}" if "set (map snd xs) \<subseteq> {i}" for h xs
    using svc[OF upd[OF that]] by (simp add: note_pack_def)
  have more: "set (map snd (note_pack cg i hs xs)) = {i}" if "set (map snd xs) = {i}" for hs xs
    using that
  proof (induction hs arbitrary: xs)
    case (Cons h hs)
    have "note_pack cg i (h # hs) xs = note_pack cg i hs (note_pack cg i [h] xs)" by (simp add: note_pack_def)
    with Cons.IH[of "note_pack cg i [h] xs"] one[of xs h] Cons.prems show ?case by simp
  qed (simp add: note_pack_def)
  obtain h hs where "pack = h # hs" using assms(1) by (cases pack) auto
  moreover have "note_pack cg i (h # hs) assoc = note_pack cg i hs (note_pack cg i [h] assoc)" by (simp add: note_pack_def)
  ultimately show ?thesis using more[OF one[OF assms(2)]] by simp
qed

lemma least_loaded_other:
  assumes "chance_ok ch" "get_least_loaded_scheduler_id ch n ids assoc = Some s" "set (map snd assoc) = {i}"
    "\<exists>s \<in> set ids. s \<noteq> i"
  shows "s \<noteq> i"
proof -
  let ?free = "filter (\<lambda>j. j \<notin> set (map snd assoc)) ids"
  have free: "?free \<noteq> []" using assms(3,4) by (metis filter_empty_conv singletonD)
  then have "s = ch_choice ch n ?free" using assms(2) by (simp add: get_least_loaded_scheduler_id_def Let_def)
  moreover have "ch_choice ch n ?free \<in> set ?free" using assms(1) free unfolding chance_ok_def by blast
  ultimately have "s \<in> set ?free" by simp
  then have "s \<notin> set (map snd assoc)" unfolding set_filter by blast
  with assms(3) show ?thesis by blast
qed

lemma spread_avoids:
  assumes "chance_ok ch" "spread_packs ch cg scheds ids n todo assoc packs = Some ps"
    "set (map snd assoc) = {length scheds - 1}" "[] \<notin> set todo" "\<exists>s \<in> set ids. s \<noteq> length scheds - 1"
    "k < length scheds" "scheds ! k = length scheds - 1" "length packs = length scheds"
  shows "ps ! k = packs ! k"
  using assms(2-)
proof (induction todo arbitrary: n assoc packs)
  case (Cons p todo)
  let ?i = "length scheds - 1"
  from Cons.prems(1) obtain s j where
    s: "get_least_loaded_scheduler_id ch n ids assoc = Some s" and j: "map_of (packindices scheds) s = Some j"
    and rest: "spread_packs ch cg scheds ids (Suc n) todo (note_pack cg ?i p assoc) (packs[j := packs ! j @ p]) = Some ps"
    by (auto simp: bind_eq_Some_conv)
  have "s \<noteq> ?i" by (rule least_loaded_other[OF assms(1) s Cons.prems(2,4)])
  with packindices_range[OF j] Cons.prems(6) have jk: "j \<noteq> k" by auto
  have "ps ! k = packs[j := packs ! j @ p] ! k"
  proof (rule Cons.IH[OF rest])
    show "set (map snd (note_pack cg ?i p assoc)) = {?i}"
      using note_pack_values[of p assoc ?i cg] Cons.prems(2,3) by auto
  qed (use Cons.prems(3-) in simp_all)
  with jk show ?case by simp
qed simp

text \<open>C35: the code notes the wrong scheduler for a pack, so that the load is not balanced: in a realm with other schedulers,
  the one whose number is the number of its schedulers less one gets no pack but the first.\<close>

theorem scheduler_starves:
  assumes "chance_ok ch" "spread_packs ch cg scheds ids 0 (first # todo) [] (replicate (length scheds) []) = Some ps"
    and "[] \<notin> set (first # todo)" "\<exists>s \<in> set ids. s \<noteq> length scheds - 1"
    and "k < length scheds" "scheds ! k = length scheds - 1"
  shows "ps ! k = [] \<or> ps ! k = first"
proof -
  let ?i = "length scheds - 1" and ?packs = "replicate (length scheds) []"
  from assms(2) obtain j where rest:
    "spread_packs ch cg scheds ids 1 todo (note_pack cg ?i first []) (?packs[j := ?packs ! j @ first]) = Some ps"
    by (auto simp: bind_eq_Some_conv)
  have "ps ! k = ?packs[j := ?packs ! j @ first] ! k"
  proof (rule spread_avoids[OF assms(1) rest])
    show "set (map snd (note_pack cg ?i first [])) = {?i}"
      using note_pack_values[of first "[]" ?i cg] assms(3) by auto
  qed (use assms(3-) in simp_all)
  then show ?thesis using assms(5) by (cases "j = k") auto
qed

subsection \<open>The parts are ready for the dispatcher\<close>

text \<open>Cutting only gives the realms the numbers of their parts.\<close>

definition more_confs :: "cluster \<Rightarrow> cluster \<Rightarrow> bool" where
  "more_confs cl cl' \<longleftrightarrow> cl_link cl' = cl_link cl \<and> cl_realms cl' = cl_realms cl \<and> elements cl' = elements cl \<and>
     cl_arbiters cl' = cl_arbiters cl \<and>
     (\<forall>r. rl_schedulers (cl_realm cl' r) = rl_schedulers (cl_realm cl r) \<and>
          rl_satellites (cl_realm cl' r) = rl_satellites (cl_realm cl r) \<and>
          rl_potential (cl_realm cl' r) = rl_potential (cl_realm cl r))"

lemma more_confs_trans: "more_confs a b \<Longrightarrow> more_confs b c \<Longrightarrow> more_confs a c"
  by (simp add: more_confs_def)

lemma fill_parts_confs:
  assumes "fill_parts cg r offset i packs (pt, cl) = Some (pt', cl')"
  shows "more_confs cl cl' \<and> length (pt_hosts pt') = length (pt_hosts pt) \<and>
    (packs \<noteq> [] \<longrightarrow> i + offset + length packs \<le> length (pt_hosts pt)) \<and>
    rl_confs (cl_realm cl' r) = rl_confs (cl_realm cl r) @ map int [i + offset..<i + offset + length packs] \<and>
    (\<forall>r'. r' \<noteq> r \<longrightarrow> rl_confs (cl_realm cl' r') = rl_confs (cl_realm cl r'))"
  using assms
proof (induction packs arbitrary: i pt cl)
  case (Cons p packs)
  let ?k = "i + offset" and ?cl = "on_realm r (\<lambda>re. re\<lparr>rl_confs := rl_confs re @ [int (i + offset)]\<rparr>) cl"
  from Cons.prems(1) have k: "?k < length (pt_hosts pt)"
    and rest: "fill_parts cg r offset (Suc i) packs (add_pack cg i ?k p pt, ?cl) = Some (pt', cl')"
    by (auto split: if_splits)
  have "more_confs cl ?cl" by (simp add: more_confs_def)
  moreover have "[?k..<?k + length (p # packs)] = ?k # [Suc i + offset..<Suc i + offset + length packs]"
    by (simp add: upt_conv_Cons del: upt_Suc)
  moreover have "length (pt_hosts (add_pack cg i ?k p pt)) = length (pt_hosts pt)" by (simp add: add_pack_def)
  ultimately show ?case using Cons.IH[OF rest] k more_confs_trans[of cl ?cl cl'] by (cases packs) (auto simp: Suc_le_eq)
qed (simp add: more_confs_def)

lemma fill_realms_confs:
  assumes "fill_realms cg packs offset rs (pt, cl) = Some (pt', cl')" "distinct rs"
    "\<forall>r \<in> set rs. rl_confs (cl_realm cl r) = []" "offset \<le> length (pt_hosts pt)"
  shows "more_confs cl cl' \<and> (\<forall>r'. r' \<notin> set rs \<longrightarrow> rl_confs (cl_realm cl' r') = rl_confs (cl_realm cl r')) \<and>
    (\<exists>n. concat (map (\<lambda>r. rl_confs (cl_realm cl' r)) rs) = map int [offset..<n] \<and> offset \<le> n \<and> n \<le> length (pt_hosts pt))"
  using assms
proof (induction rs arbitrary: offset pt cl)
  case Nil
  then show ?case by (auto simp: more_confs_def)
next
  case (Cons r rs)
  from Cons.prems(1) obtain pt1 cl1 where
    1: "fill_parts cg r offset 0 (packs r) (pt, cl) = Some (pt1, cl1)"
    and rest: "fill_realms cg packs (offset + length (packs r)) rs (pt1, cl1) = Some (pt', cl')"
    by (auto simp: bind_eq_Some_conv)
  note f = fill_parts_confs[OF 1]
  have len: "offset + length (packs r) \<le> length (pt_hosts pt1)" using f Cons.prems(4) by (cases "packs r = []") auto
  have "\<forall>x \<in> set rs. rl_confs (cl_realm cl1 x) = []" using f Cons.prems(2,3) by auto
  note IH = Cons.IH[OF rest _ this len]
  from IH Cons.prems(2) obtain n where
    n: "concat (map (\<lambda>r. rl_confs (cl_realm cl' r)) rs) = map int [offset + length (packs r)..<n]"
      "offset + length (packs r) \<le> n" "n \<le> length (pt_hosts pt1)" by auto
  have "rl_confs (cl_realm cl' r) = map int [offset..<offset + length (packs r)]" using IH f Cons.prems(2,3) by simp
  moreover have "[offset..<n] = [offset..<offset + length (packs r)] @ [offset + length (packs r)..<n]"
    using n(2) by (metis le_Suc_ex le_add1 upt_add_eq_append)
  ultimately have "concat (map (\<lambda>r. rl_confs (cl_realm cl' r)) (r # rs)) = map int [offset..<n]" using n(1) by simp
  with n f IH Cons.prems(2) more_confs_trans[of cl cl1 cl'] show ?case by (auto intro!: exI[of _ n])
qed

lemma fill_realms_length:
  "fill_realms cg packs offset rs (pt, cl) = Some (pt', cl') \<Longrightarrow> length (pt_hosts pt') = length (pt_hosts pt)"
proof (induction rs arbitrary: offset pt cl)
  case (Cons r rs)
  then obtain pt1 cl1 where "fill_parts cg r offset 0 (packs r) (pt, cl) = Some (pt1, cl1)"
    "fill_realms cg packs (offset + length (packs r)) rs (pt1, cl1) = Some (pt', cl')"
    by (auto simp: bind_eq_Some_conv)
  with Cons.IH fill_parts_confs show ?case by metis
qed simp


subsection \<open>An example\<close>

text \<open>Three hosts, the first the parent of the second, and two schedulers in one realm.\<close>

definition small_chance :: chance where
  "small_chance = \<lparr>ch_links = (\<lambda>ls. ls), ch_pack = sorted_list_of_set, ch_ids = (\<lambda>ids. ids), ch_choice = (\<lambda>n ids. hd ids)\<rparr>"

definition small_config :: config where
  "small_config = \<lparr>pc_elem = (\<lambda>i. \<lparr>el_name = [CHR ''h'', char_of i], el_host = None,
       el_parents = (if i = 1 then [Some 0] else []), el_act_depend_of = [], el_chk_depend_of = [], el_rule = None,
       el_realm = Some 0, el_services = []\<rparr>),
     pc_hosts = [0, 1, 2], pc_services = [], pc_default = (\<lambda>_. False), pc_weight = (\<lambda>_. 1),
     pc_hostgroups = [], pc_servicegroups = []\<rparr>"

definition two_schedulers :: cluster where
  "two_schedulers = small_cluster\<lparr>cl_link := (\<lambda>_. small_link Scheduler_link), cl_schedulers := [0, 1], cl_pollers := [],
     cl_realm := (\<lambda>_. small_realm\<lparr>rl_schedulers := [0, 1], rl_satellites := (\<lambda>_. []), rl_potential := (\<lambda>_. []),
       rl_confs := []\<rparr>)\<rparr>"

lemma small_chance_ok: "chance_ok small_chance"
  by (auto simp: chance_ok_def small_chance_def)

lemma small_links: "conf_links small_config = Some [(0, 1)]"
  by (simp add: conf_links_def small_config_def host_links_def rule_links_def List.map_filter_def)

lemma small_packs: "linked_packs small_chance small_config = Some [[0, 1], [2]]"
  by (simp add: linked_packs_def small_links hosts_graph_def) (simp add: small_config_def small_chance_def add_edge_def add_node_def
      get_accessibility_packs_def insert_commute)

lemma small_cut:
  "map_option (\<lambda>(pt, errs, cl). (pt_hosts pt, errs, rl_confs (cl_realm cl 0)))
     (cut_into_parts small_chance small_config two_schedulers) = Some ([[0, 1, 2], []], [], [0, 1])"
  by (simp add: cut_into_parts_def create_packs_def small_packs)
    (simp add: small_config_def small_chance_def two_schedulers_def small_cluster_def small_realm_def small_link_def
      place_pack_def realms_of_def List.map_filter_def balance_realm_def no_spare_schedulers_def weight_scheduler_ids_def
      get_least_loaded_scheduler_id_def packindices_def note_pack_def nb_parts_def add_pack_def on_realm_def Let_def)

theorem parts_partition_witness:
  "\<exists>pt cl. cut_into_parts small_chance small_config two_schedulers = Some (pt, [], cl) \<and> mset (concat (pt_hosts pt)) = {#0, 1, 2#}"
proof -
  obtain pt cl where cut: "cut_into_parts small_chance small_config two_schedulers = Some (pt, [], cl)"
    using small_cut by auto
  with parts_partition[OF small_chance_ok small_links _ _ _ cut] show ?thesis
    by (auto simp: small_config_def two_schedulers_def small_cluster_def)
qed


theorem scheduler_starves_witness:
  "\<exists>ps. spread_packs small_chance small_config [0, 1] [0, 1] 0 [[0, 1], [2]] [] [[], []] = Some ps \<and>
     (ps ! 1 = [] \<or> ps ! 1 = [0, 1])"
proof -
  have "spread_packs small_chance small_config [0, 1] [0, 1] 0 [[0, 1], [2]] [] (replicate (length [0, 1 :: nat]) []) = Some [[0, 1, 2], []]"
    by (simp add: small_config_def small_chance_def get_least_loaded_scheduler_id_def packindices_def note_pack_def Let_def)
  from scheduler_starves[OF small_chance_ok this, of 1] this show ?thesis by simp
qed


end
