(* ===== verification/Templates.thy ===== *)
theory Templates
  imports Graph Texts "HOL-Library.AList"
begin

text \<open>
  The objects of the configuration before they are linked (\<^verbatim>\<open>shinken/objects/item.py\<close>, \<^verbatim>\<open>shinken/property.py\<close>): how a definition
  is read, which of two definitions with one name is kept, and how properties are inherited from templates.

  The attributes of an object are a dictionary from names to values. Objects are numbers in the store of their container, the
  record \<^verbatim>\<open>objs\<close>. Lists are values: that an object and its template may share one list object is not modelled, because the code
  copies before it changes a list, except in the branch of \<^verbatim>\<open>get_property_by_inheritance\<close> for an object that has both the value and an
  addition, which a definition cannot have. Texts of errors are reduced to their kind. An exception that is not caught is \<^term>\<open>None\<close>.
\<close>

subsection \<open>Values\<close>

datatype pv = Str string | Num int | Truth bool | Lst "pv list"

fun truthy :: "pv \<Rightarrow> bool" where
  "truthy (Str s) \<longleftrightarrow> s \<noteq> []"
| "truthy (Num n) \<longleftrightarrow> n \<noteq> 0"
| "truthy (Truth b) \<longleftrightarrow> b"
| "truthy (Lst xs) \<longleftrightarrow> xs \<noteq> []"

text \<open>\<^verbatim>\<open>list(value)\<close>: a text becomes the list of its characters, a number raises.\<close>

fun py_list :: "pv \<Rightarrow> pv list option" where
  "py_list (Lst xs) = Some xs"
| "py_list (Str s) = Some (map (\<lambda>c. Str [c]) s)"
| "py_list _ = None"

definition unique_value :: "pv \<Rightarrow> pv" where
  "unique_value v = (case v of Lst xs \<Rightarrow> if xs = [] then Str [] else last xs | _ \<Rightarrow> v)"

fun the_text :: "pv \<Rightarrow> string option" where
  "the_text (Str s) = Some s"
| "the_text _ = None"

definition to_split :: "string \<Rightarrow> bool \<Rightarrow> string list" where
  "to_split val split_on_coma =
     (if \<not> split_on_coma then [val] else let vs = split_on (CHR '','') val in if vs = [[]] then [] else vs)"

definition list_split :: "string list \<Rightarrow> bool \<Rightarrow> string list" where
  "list_split val split_on_coma = (if \<not> split_on_coma then val else concat (map (split_on (CHR '','')) val))"

subsection \<open>Properties\<close>

datatype prop_kind = P_bool | P_integer | P_char | P_string | P_list bool | P_guess

text \<open>What \<^verbatim>\<open>pythonize\<close> makes of the value in a file: a value, an error that the reader notes, or an exception that it does
  not catch (\<^term>\<open>None\<close>).\<close>

definition boolean_states :: "(string \<times> bool) list" where
  "boolean_states = [(''1'', True), (''yes'', True), (''true'', True), (''on'', True),
     (''0'', False), (''no'', False), (''false'', False), (''off'', False)]"

definition pythonize :: "prop_kind \<Rightarrow> pv \<Rightarrow> (unit + pv) option" where
  "pythonize kind val =
     (case kind of
        P_bool \<Rightarrow> (case val of Truth b \<Rightarrow> Some (Inr val)
          | _ \<Rightarrow> map_option (\<lambda>s. case map_of boolean_states (map lower s) of None \<Rightarrow> Inl () | Some b \<Rightarrow> Inr (Truth b))
                   (the_text (unique_value val)))
      | P_integer \<Rightarrow> Option.bind (the_text (unique_value val)) (\<lambda>s. case to_int s of
            Inl OverflowError \<Rightarrow> None | Inl ValueError \<Rightarrow> Some (Inl ()) | Inr n \<Rightarrow> Some (Inr (Num n)))
      | P_char \<Rightarrow> Option.bind (the_text (unique_value val)) (\<lambda>s. case s of [] \<Rightarrow> None | c # _ \<Rightarrow> Some (Inr (Str [c])))
      | P_string \<Rightarrow> Some (Inr (unique_value val))
      | P_list split_on_coma \<Rightarrow> (case val of
            Lst xs \<Rightarrow> map_option (\<lambda>ts. Inr (Lst (map (Str \<circ> strip) (list_split ts split_on_coma)))) (those (map the_text xs))
          | _ \<Rightarrow> map_option (\<lambda>t. Inr (Lst (map (Str \<circ> strip) (to_split t split_on_coma)))) (the_text val))
      | P_guess \<Rightarrow> Some (Inr (case val of Lst xs \<Rightarrow> if length (remdups xs) = 1 then hd xs else val | _ \<Rightarrow> val)))"

record obj_class =
  oc_properties :: "(string \<times> prop_kind) list"
  oc_running_properties :: "(string \<times> prop_kind) list"
  oc_old_properties :: "(string \<times> string) list"
  oc_name_property :: string

datatype obj_error =
  Running_property string | Guessed_property string | Pythonizing string | Plus_on_text string | List_as_custom string
  | Without_name | Duplicate string

record obj =
  ob_attrs :: "(string \<times> pv) list"
  ob_plus :: "(string \<times> pv list) list"
  ob_customs :: "(string \<times> pv) list"
  ob_templates :: "nat list"
  ob_tags :: "string list"
  ob_warnings :: "obj_error list"
  ob_errors :: "obj_error list"

subsection \<open>Reading a definition\<close>

definition upper :: "char \<Rightarrow> char" where
  "upper c = (let n = (of_char c :: int) in if 97 \<le> n \<and> n \<le> 122 then char_of (n - 32) else c)"

text \<open>The value of a parameter, with the warning it gives.\<close>

definition param_value :: "obj_class \<Rightarrow> string \<Rightarrow> pv \<Rightarrow> obj_error list \<times> (unit + pv) option" where
  "param_value oc key val =
     (case map_of (oc_properties oc) key of
        Some kind \<Rightarrow> ([], pythonize kind val)
      | None \<Rightarrow> (case map_of (oc_running_properties oc) key of
          Some kind \<Rightarrow> ([Running_property key], pythonize kind val)
        | None \<Rightarrow> (case map_of (oc_old_properties oc) key of
            Some new \<Rightarrow> ([], Option.bind (map_of (oc_properties oc) new) (\<lambda>kind. pythonize kind val))
          | None \<Rightarrow>
              if has_prefix ''_'' key
              then ([], Some (Inr (case val of Str s \<Rightarrow> val | Lst (x # _) \<Rightarrow> x | _ \<Rightarrow> Str [])))
              else ([Guessed_property key], pythonize P_guess val))))"

definition lstrip_plus :: "string \<Rightarrow> string" where
  "lstrip_plus = dropWhile (\<lambda>c. c = CHR ''+'')"

definition read_param :: "obj_class \<Rightarrow> string \<times> pv \<Rightarrow> obj \<Rightarrow> obj option" where
  "read_param oc = (\<lambda>(key, raw) ob. (case param_value oc key raw of (warns, result) \<Rightarrow>
     let ob = ob\<lparr>ob_warnings := ob_warnings ob @ warns\<rparr>; custom = has_prefix ''_'' key in
     map_option (\<lambda>r. case r of
         Inl _ \<Rightarrow> ob\<lparr>ob_errors := ob_errors ob @ [Pythonizing key]\<rparr>
       | Inr (Str (CHR ''+'' # s)) \<Rightarrow> ob\<lparr>ob_errors := ob_errors ob @ [Plus_on_text key]\<rparr>
       | Inr (Lst (Str (CHR ''+'' # s) # xs)) \<Rightarrow>
           ob\<lparr>ob_plus := AList.update (if custom then map upper key else key) (Str (lstrip_plus s) # xs) (ob_plus ob)\<rparr>
       | Inr v \<Rightarrow>
           if custom
           then (case v of Lst _ \<Rightarrow> ob\<lparr>ob_errors := ob_errors ob @ [List_as_custom key]\<rparr>
                 | _ \<Rightarrow> ob\<lparr>ob_customs := AList.update (map upper key) v (ob_customs ob)\<rparr>)
           else ob\<lparr>ob_attrs := AList.update key v (ob_attrs ob)\<rparr>) result))"

definition empty_obj :: obj where
  "empty_obj = \<lparr>ob_attrs = [], ob_plus = [], ob_customs = [], ob_templates = [], ob_tags = [], ob_warnings = [], ob_errors = []\<rparr>"

fun read_params :: "obj_class \<Rightarrow> (string \<times> pv) list \<Rightarrow> obj \<Rightarrow> obj option" where
  "read_params oc [] ob = Some ob"
| "read_params oc (p # ps) ob = Option.bind (read_param oc p ob) (read_params oc ps)"

definition new_obj :: "obj_class \<Rightarrow> (string \<times> pv) list \<Rightarrow> obj option" where
  "new_obj oc params = read_params oc params empty_obj"

definition attr :: "string \<Rightarrow> obj \<Rightarrow> pv option" where
  "attr prop ob = map_of (ob_attrs ob) prop"

definition set_attr :: "string \<Rightarrow> pv \<Rightarrow> obj \<Rightarrow> obj" where
  "set_attr prop v ob = ob\<lparr>ob_attrs := AList.update prop v (ob_attrs ob)\<rparr>"

definition del_attr :: "string \<Rightarrow> obj \<Rightarrow> obj" where
  "del_attr prop ob = ob\<lparr>ob_attrs := AList.delete prop (ob_attrs ob)\<rparr>"

definition is_tpl :: "obj \<Rightarrow> bool" where
  "is_tpl ob \<longleftrightarrow> (case attr ''register'' ob of None \<Rightarrow> False | Some v \<Rightarrow> \<not> truthy v)"

definition text_attr :: "string \<Rightarrow> obj \<Rightarrow> string" where
  "text_attr prop ob = (case attr prop ob of Some (Str s) \<Rightarrow> s | _ \<Rightarrow> [])"

definition get_templates :: "obj \<Rightarrow> string list" where
  "get_templates ob =
     (let names = (case attr ''use'' ob of
            Some (Lst xs) \<Rightarrow> List.map_filter the_text xs
          | Some (Str s) \<Rightarrow> split_on (CHR '','') s
          | _ \<Rightarrow> [])
      in filter (\<lambda>n. n \<noteq> []) (map strip names))"

subsection \<open>The container\<close>

text \<open>\<^verbatim>\<open>Items\<close>: the objects and the templates by number, in the order of their dictionaries, and by name.\<close>

record objs =
  it_class :: obj_class
  it_strict :: bool
  it_obj :: "nat \<Rightarrow> obj"
  it_items :: "nat list"
  it_templates :: "nat list"
  it_name_to_item :: "string \<rightharpoonup> nat"
  it_name_to_template :: "string \<rightharpoonup> nat"
  it_warnings :: "string list"
  it_errors :: "string list"

definition upd_obj :: "nat \<Rightarrow> (obj \<Rightarrow> obj) \<Rightarrow> objs \<Rightarrow> objs" where
  "upd_obj i f st = st\<lparr>it_obj := (it_obj st)(i := f (it_obj st i))\<rparr>"

definition item_name :: "objs \<Rightarrow> nat \<Rightarrow> string" where
  "item_name st i = text_attr (oc_name_property (it_class st)) (it_obj st i)"

definition tpl_name :: "objs \<Rightarrow> nat \<Rightarrow> string" where
  "tpl_name st i = text_attr ''name'' (it_obj st i)"

definition definition_order :: "objs \<Rightarrow> nat \<Rightarrow> int" where
  "definition_order st i = (case attr ''definition_order'' (it_obj st i) of Some (Num n) \<Rightarrow> n | _ \<Rightarrow> 100)"

definition remove_template :: "nat \<Rightarrow> objs \<Rightarrow> objs" where
  "remove_template i st = st\<lparr>it_templates := filter (\<lambda>j. j \<noteq> i) (it_templates st),
     it_name_to_template := (it_name_to_template st)(tpl_name st i := None)\<rparr>"

definition remove_item :: "nat \<Rightarrow> objs \<Rightarrow> objs" where
  "remove_item i st = st\<lparr>it_items := filter (\<lambda>j. j \<noteq> i) (it_items st),
     it_name_to_item := (it_name_to_item st)(item_name st i := None)\<rparr>"

text \<open>\<^verbatim>\<open>manage_conflict\<close>: the one with the lower order is kept, the later one when they have the same.\<close>

definition manage_conflict :: "nat \<Rightarrow> nat \<Rightarrow> string \<Rightarrow> objs \<Rightarrow> nat \<times> objs" where
  "manage_conflict item existing name st =
     (if definition_order st existing < definition_order st item then (existing, st)
      else let st = (if definition_order st existing > definition_order st item then st
                     else if it_strict st then upd_obj item (\<lambda>ob. ob\<lparr>ob_errors := ob_errors ob @ [Duplicate name]\<rparr>) st
                     else upd_obj item (\<lambda>ob. ob\<lparr>ob_warnings := ob_warnings ob @ [Duplicate name]\<rparr>) st)
           in (item, if is_tpl (it_obj st item) then remove_template existing st else remove_item existing st))"

definition note_nameless :: "nat \<Rightarrow> objs \<Rightarrow> objs" where
  "note_nameless i = upd_obj i (\<lambda>ob. ob\<lparr>ob_errors := ob_errors ob @ [Without_name]\<rparr>)"

definition index_template :: "nat \<Rightarrow> objs \<Rightarrow> nat \<times> objs" where
  "index_template tpl st =
     (let name = tpl_name st tpl;
          (tpl, st) = (if name = [] then (tpl, note_nameless tpl st)
                       else case it_name_to_template st name of
                           Some existing \<Rightarrow> manage_conflict tpl existing name st
                         | None \<Rightarrow> (tpl, st))
      in (tpl, st\<lparr>it_name_to_template := (it_name_to_template st)(name \<mapsto> tpl)\<rparr>))"

definition index_item :: "nat \<Rightarrow> objs \<Rightarrow> nat \<times> objs" where
  "index_item i st =
     (let name = item_name st i;
          (i, st) = (if name = [] then (i, note_nameless i st)
                     else case it_name_to_item st name of
                         Some existing \<Rightarrow> if i \<noteq> existing then manage_conflict i existing name st else (i, st)
                       | None \<Rightarrow> (i, st))
      in (i, st\<lparr>it_name_to_item := (it_name_to_item st)(name \<mapsto> i)\<rparr>))"

definition set_key_in :: "nat \<Rightarrow> nat list \<Rightarrow> nat list" where
  "set_key_in i xs = (if i \<in> set xs then xs else xs @ [i])"

definition add_template :: "nat \<Rightarrow> objs \<Rightarrow> objs" where
  "add_template tpl st = (let (tpl, st) = index_template tpl st in st\<lparr>it_templates := set_key_in tpl (it_templates st)\<rparr>)"

definition add_item :: "nat \<Rightarrow> objs \<Rightarrow> objs" where
  "add_item i st = (let (i, st) = index_item i st in st\<lparr>it_items := set_key_in i (it_items st)\<rparr>)"

definition add_items :: "nat list \<Rightarrow> objs \<Rightarrow> objs" where
  "add_items = fold (\<lambda>i st. if is_tpl (it_obj st i) then add_template i st else add_item i st)"

definition all_objects :: "objs \<Rightarrow> nat list" where
  "all_objects st = it_items st @ it_templates st"

subsection \<open>Templates\<close>

definition linkify_item_templates :: "nat \<Rightarrow> objs \<Rightarrow> objs" where
  "linkify_item_templates i st =
     (let found = map (\<lambda>n. (n, it_name_to_template st n)) (get_templates (it_obj st i));
          tpls = List.map_filter (\<lambda>(n, t). if t = Some i then None else t) found
      in upd_obj i (\<lambda>ob. ob\<lparr>ob_templates := tpls\<rparr>)
           (st\<lparr>it_warnings := it_warnings st @ map fst (filter (\<lambda>(n, t). t = None) found),
              it_errors := it_errors st @ map fst (filter (\<lambda>(n, t). t = Some i) found)\<rparr>))"

text \<open>\<^verbatim>\<open>get_all_tags\<close> has no guard against loops: the end of the fuel is the \<^verbatim>\<open>RecursionError\<close>. It returns a set as a list; the
  order is that of the last occurrences here.\<close>

fun get_all_tags :: "nat \<Rightarrow> objs \<Rightarrow> nat \<Rightarrow> string list option" where
  "get_all_tags 0 st i = None"
| "get_all_tags (Suc n) st i =
     map_option (\<lambda>tags. remdups (get_templates (it_obj st i) @ concat tags))
       (those (map (\<lambda>t. map_option (\<lambda>tags. tpl_name st t # tags) (get_all_tags n st t)) (ob_templates (it_obj st i))))"

text \<open>\<^verbatim>\<open>no_loop_in_parents("self", "templates", templates=True)\<close>\<close>

definition template_graph :: "objs \<Rightarrow> nat graph" where
  "template_graph st =
     fold (\<lambda>i g. fold (\<lambda>t. add_edge i t) (ob_templates (it_obj st i)) g) (it_templates st) (add_nodes (it_templates st) [])"

definition templates_without_loop :: "objs \<Rightarrow> bool option" where
  "templates_without_loop st =
     (let g = template_graph st in map_option (\<lambda>in_loops. in_loops = []) (loop_check (length g) g))"

fun set_tags :: "nat \<Rightarrow> nat list \<Rightarrow> objs \<Rightarrow> objs option" where
  "set_tags n [] st = Some st"
| "set_tags n (i # is) st =
     Option.bind (get_all_tags n st i) (\<lambda>tags. set_tags n is (upd_obj i (\<lambda>ob. ob\<lparr>ob_tags := tags\<rparr>) st))"

definition linkify_templates :: "nat \<Rightarrow> objs \<Rightarrow> objs option" where
  "linkify_templates n st = do {
     let st = fold linkify_item_templates (all_objects st) st;
     st \<leftarrow> set_tags n (it_items st) st;
     no_loop \<leftarrow> templates_without_loop st;
     Some (if no_loop then st else st\<lparr>it_errors := it_errors st @ [''loops in templates'']\<rparr>)
   }"

subsection \<open>Inheritance\<close>

definition has_plus :: "string \<Rightarrow> obj \<Rightarrow> bool" where
  "has_plus prop ob \<longleftrightarrow> map_of (ob_plus ob) prop \<noteq> None"

definition plus_of :: "string \<Rightarrow> obj \<Rightarrow> pv list" where
  "plus_of prop ob = (case map_of (ob_plus ob) prop of Some xs \<Rightarrow> xs | None \<Rightarrow> [])"

definition del_plus :: "string \<Rightarrow> obj \<Rightarrow> obj" where
  "del_plus prop ob = ob\<lparr>ob_plus := AList.delete prop (ob_plus ob)\<rparr>"

definition plus_mark :: pv where
  "plus_mark = Str ''+''"

definition marked :: "pv \<Rightarrow> bool" where
  "marked v \<longleftrightarrow> (case v of Lst (x # _) \<Rightarrow> x = plus_mark | _ \<Rightarrow> False)"

text \<open>A template puts the mark in front of a list of additions that has none.\<close>

definition mark :: "obj \<Rightarrow> pv list \<Rightarrow> pv list" where
  "mark ob xs = (if is_tpl ob \<and> xs \<noteq> [] \<and> hd xs \<noteq> plus_mark then plus_mark # xs else xs)"

text \<open>The value an object has, with its own additions; in the code they go into the list as one element.\<close>

definition own_value :: "string \<Rightarrow> nat \<Rightarrow> pv \<Rightarrow> objs \<Rightarrow> (pv \<times> objs) option" where
  "own_value prop i v st =
     (let ob = it_obj st i in
      if \<not> has_plus prop ob then Some (v, st)
      else case v of
          Lst xs \<Rightarrow>
            let xs = Lst (plus_of prop ob) # xs;
                st = upd_obj i (set_attr prop (Lst xs) \<circ> del_plus prop) st
            in Some (Lst (if is_tpl ob then plus_mark # xs else xs), st)
        | _ \<Rightarrow> None)"

text \<open>The value of a template joins what the object got from the templates before.\<close>

definition join_value :: "string \<Rightarrow> nat \<Rightarrow> pv \<Rightarrow> objs \<Rightarrow> pv option" where
  "join_value prop i v st =
     (let v = (case v of Lst xs \<Rightarrow> if marked v \<and> \<not> is_tpl (it_obj st i) then Lst (filter (\<lambda>x. x \<noteq> plus_mark) xs) else v | _ \<Rightarrow> v)
      in case attr prop (it_obj st i) of
           None \<Rightarrow> Some v
         | Some cur \<Rightarrow> (case v of
               Lst xs \<Rightarrow> map_option (\<lambda>ys. Lst (ys @ xs)) (py_list cur)
             | Str (c # s) \<Rightarrow> map_option (\<lambda>ys. Lst (ys @ map (\<lambda>c. Str [c]) (if c = CHR ''+'' then s else c # s))) (py_list cur)
             | _ \<Rightarrow> None))"

definition final_value :: "string \<Rightarrow> nat \<Rightarrow> pv \<Rightarrow> objs \<Rightarrow> (pv \<times> objs) option" where
  "final_value prop i v st =
     (let ob = it_obj st i in
      if \<not> has_plus prop ob then Some (v, st)
      else map_option (\<lambda>xs. let v = Lst (mark ob (xs @ plus_of prop ob)) in (v, upd_obj i (set_attr prop v \<circ> del_plus prop) st))
             (py_list v))"

definition only_additions :: "string \<Rightarrow> nat \<Rightarrow> objs \<Rightarrow> (pv option \<times> objs) option" where
  "only_additions prop i st =
     (let ob = it_obj st i in
      if \<not> has_plus prop ob then Some (attr prop ob, st)
      else map_option (\<lambda>xs. let v = Lst (mark ob (xs @ plus_of prop ob)) in (Some v, upd_obj i (set_attr prop v \<circ> del_plus prop) st))
             (case attr prop ob of None \<Rightarrow> Some [] | Some v \<Rightarrow> py_list v))"

fun get_property_by_inheritance :: "nat \<Rightarrow> string \<Rightarrow> nat \<Rightarrow> objs \<Rightarrow> (pv option \<times> objs) option"
and inherit_from :: "nat \<Rightarrow> string \<Rightarrow> nat \<Rightarrow> nat list \<Rightarrow> objs \<Rightarrow> (pv option \<times> objs) option" where
  "get_property_by_inheritance 0 prop i st = Some (None, st)"
| "get_property_by_inheritance (Suc n) prop i st =
     (if prop = ''register'' then Some (None, st)
      else case attr prop (it_obj st i) of
          Some v \<Rightarrow> map_option (map_prod Some id) (own_value prop i v st)
        | None \<Rightarrow> inherit_from n prop i (ob_templates (it_obj st i)) st)"
| "inherit_from n prop i [] st = only_additions prop i st"
| "inherit_from n prop i (t # ts) st =
     (case get_property_by_inheritance n prop t st of
        None \<Rightarrow> None
      | Some (None, st) \<Rightarrow> inherit_from n prop i ts st
      | Some (Some v, st) \<Rightarrow>
          if \<not> truthy v then inherit_from n prop i ts st
          else (case join_value prop i v st of
              None \<Rightarrow> None
            | Some w \<Rightarrow>
                let st = upd_obj i (set_attr prop w) st in
                if marked v then inherit_from n prop i ts st
                else map_option (map_prod Some id) (final_value prop i w st)))"

definition INHERITANCE_DEEP_LIMIT :: nat where
  "INHERITANCE_DEEP_LIMIT = 32"

text \<open>An inherited \<^verbatim>\<open>null\<close> is deleted.\<close>

fun apply_partial_inheritance :: "string \<Rightarrow> nat list \<Rightarrow> objs \<Rightarrow> objs option" where
  "apply_partial_inheritance prop [] st = Some st"
| "apply_partial_inheritance prop (i # is) st = do {
     (_, st) \<leftarrow> get_property_by_inheritance (Suc INHERITANCE_DEEP_LIMIT) prop i st;
     apply_partial_inheritance prop is
       (if attr prop (it_obj st i) = Some (Str ''null'') then upd_obj i (del_attr prop) st else st)
   }"

text \<open>The variables of the user. Their values are texts, so an addition that is left raises: \<^verbatim>\<open>insert\<close> on a text, or the
  change of the dictionary that \<^verbatim>\<open>get_all_plus_and_delete\<close> walks over.\<close>

fun get_customs_properties_by_inheritance :: "nat \<Rightarrow> nat \<Rightarrow> objs \<Rightarrow> ((string \<times> pv) list \<times> objs) option"
and customs_from :: "nat \<Rightarrow> nat \<Rightarrow> nat list \<Rightarrow> objs \<Rightarrow> objs option" where
  "get_customs_properties_by_inheritance 0 i st = Some (ob_customs (it_obj st i), st)"
| "get_customs_properties_by_inheritance (Suc n) i st = do {
     st \<leftarrow> customs_from n i (ob_templates (it_obj st i)) st;
     if ob_plus (it_obj st i) \<noteq> [] then None else Some (ob_customs (it_obj st i), st)
   }"
| "customs_from n i [] st = Some st"
| "customs_from n i (t # ts) st = do {
     (cv, st) \<leftarrow> get_customs_properties_by_inheritance n t st;
     customs_from n i ts (upd_obj i (\<lambda>ob. ob\<lparr>ob_customs :=
       ob_customs ob @ filter (\<lambda>(k, v). map_of (ob_customs ob) k = None) cv\<rparr>) st)
   }"

fun apply_customs :: "nat list \<Rightarrow> objs \<Rightarrow> objs option" where
  "apply_customs [] st = Some st"
| "apply_customs (i # is) st =
     Option.bind (get_customs_properties_by_inheritance (Suc INHERITANCE_DEEP_LIMIT) i st) (\<lambda>(_, st). apply_customs is st)"

fun apply_properties :: "string list \<Rightarrow> objs \<Rightarrow> objs option" where
  "apply_properties [] st = Some st"
| "apply_properties (p # ps) st = Option.bind (apply_partial_inheritance p (all_objects st) st) (apply_properties ps)"

definition apply_inheritance :: "objs \<Rightarrow> objs option" where
  "apply_inheritance st = do {
     st \<leftarrow> apply_properties (map fst (oc_properties (it_class st))) st;
     apply_customs (all_objects st) st
   }"

end
