(* ===== verification/TemplateRules.thy ===== *)
theory TemplateRules
  imports Templates
begin

text \<open>
  One definition is kept per name, inheritance is a search through the templates, additions are collected along a chain of
  templates, and the search for tags ends exactly when the templates have no loop.
\<close>

subsection \<open>The definition that is kept\<close>

definition same_attrs :: "objs \<Rightarrow> objs \<Rightarrow> bool" where
  "same_attrs st st' \<longleftrightarrow> it_class st' = it_class st \<and> (\<forall>i. ob_attrs (it_obj st' i) = ob_attrs (it_obj st i))"

lemma same_attrs_refl [simp]: "same_attrs st st" by (simp add: same_attrs_def)

lemma same_attrs_trans: "same_attrs a b \<Longrightarrow> same_attrs b c \<Longrightarrow> same_attrs a c" by (simp add: same_attrs_def)

lemma same_attrs_reads:
  assumes "same_attrs st st'"
  shows "item_name st' i = item_name st i" "definition_order st' i = definition_order st i"
    "is_tpl (it_obj st' i) \<longleftrightarrow> is_tpl (it_obj st i)"
  using assms by (simp_all add: same_attrs_def item_name_def definition_order_def is_tpl_def text_attr_def attr_def)

definition noted :: "objs \<Rightarrow> objs \<Rightarrow> bool" where
  "noted st st' \<longleftrightarrow> same_attrs st st' \<and> it_items st' = it_items st \<and> it_name_to_item st' = it_name_to_item st"

lemma noted_reads: "noted st st' \<Longrightarrow> item_name st' i = item_name st i"
  by (simp add: noted_def same_attrs_reads)

lemma note_nameless_noted: "noted st (note_nameless i st)"
  by (simp add: noted_def same_attrs_def note_nameless_def upd_obj_def)

lemma duplicate_noted:
  "noted st (upd_obj i (\<lambda>ob. ob\<lparr>ob_errors := xs ob\<rparr>) st)" "noted st (upd_obj i (\<lambda>ob. ob\<lparr>ob_warnings := xs ob\<rparr>) st)"
  by (simp_all add: noted_def same_attrs_def upd_obj_def)

lemma noted_remove_template: "noted st st' \<Longrightarrow> noted st (remove_template j st')"
  by (simp add: noted_def remove_template_def same_attrs_def)

lemma add_template_noted:
  assumes "is_tpl (it_obj st i)" shows "noted st (add_template i st)"
proof -
  have m: "noted st st'" if "manage_conflict i e n st = (k, st')" for e n k st'
    using that assms
    by (auto simp: manage_conflict_def noted_def same_attrs_def upd_obj_def remove_template_def is_tpl_def attr_def
      Let_def split: if_splits)
  have "noted st st'" if "index_template i st = (k, st')" for k st'
  proof (cases "tpl_name st i = [] \<or> it_name_to_template st (tpl_name st i) = None")
    case True
    with that show ?thesis
      by (auto simp: index_template_def Let_def noted_def same_attrs_def note_nameless_def upd_obj_def split: if_splits)
  next
    case False
    then obtain e where e: "it_name_to_template st (tpl_name st i) = Some e" by auto
    obtain k1 st1 where "manage_conflict i e (tpl_name st i) st = (k1, st1)" by fastforce
    with m[OF this] that False e show ?thesis by (auto simp: index_template_def noted_def same_attrs_def)
  qed
  then show ?thesis
    by (cases "index_template i st") (auto simp: add_template_def noted_def same_attrs_def)
qed

text \<open>What adding an object does to the index.\<close>

lemma add_item_effect:
  assumes "\<not> is_tpl (it_obj st i)" and n: "n = item_name st i"
  shows "same_attrs st (add_item i st)"
    "n = [] \<or> it_name_to_item st n = None \<Longrightarrow> it_items (add_item i st) = set_key_in i (it_items st) \<and>
       it_name_to_item (add_item i st) = (it_name_to_item st)(n \<mapsto> i)"
    "n \<noteq> [] \<Longrightarrow> it_name_to_item st n = Some e \<Longrightarrow> e \<noteq> i \<Longrightarrow> definition_order st e < definition_order st i \<Longrightarrow>
       it_items (add_item i st) = set_key_in e (it_items st) \<and> it_name_to_item (add_item i st) = (it_name_to_item st)(n \<mapsto> e)"
    "n \<noteq> [] \<Longrightarrow> it_name_to_item st n = Some e \<Longrightarrow> e \<noteq> i \<Longrightarrow> \<not> definition_order st e < definition_order st i \<Longrightarrow>
       it_items (add_item i st) = set_key_in i (filter (\<lambda>j. j \<noteq> e) (it_items st)) \<and>
       it_name_to_item (add_item i st) = (it_name_to_item st)(item_name st e := None, n \<mapsto> i)"
proof -
  have m: "same_attrs st st' \<and>
      (if definition_order st e < definition_order st i then k = e \<and> it_items st' = it_items st \<and> it_name_to_item st' = it_name_to_item st
       else k = i \<and> it_items st' = filter (\<lambda>j. j \<noteq> e) (it_items st) \<and>
         it_name_to_item st' = (it_name_to_item st)(item_name st e := None))"
    if "manage_conflict i e n st = (k, st')" for e k st'
    using that assms(1)
    by (auto simp: manage_conflict_def same_attrs_def upd_obj_def remove_item_def is_tpl_def attr_def item_name_def text_attr_def
      Let_def split: if_splits)
  have quiet: "it_items (add_item i st) = set_key_in i (it_items st) \<and> same_attrs st (add_item i st) \<and>
      it_name_to_item (add_item i st) = (it_name_to_item st)(n \<mapsto> i)" if "n = [] \<or> it_name_to_item st n \<in> {None, Some i}"
    using that by (auto simp: add_item_def index_item_def n[symmetric] Let_def same_attrs_def note_nameless_def upd_obj_def)
  have conflict: "\<exists>k st1. manage_conflict i e n st = (k, st1) \<and> it_items (add_item i st) = set_key_in k (it_items st1) \<and>
      same_attrs st1 (add_item i st) \<and> it_name_to_item (add_item i st) = (it_name_to_item st1)(n \<mapsto> k)"
    if "n \<noteq> []" "it_name_to_item st n = Some e" "e \<noteq> i" for e
    using that by (cases "manage_conflict i e n st")
      (simp add: add_item_def index_item_def n[symmetric] same_attrs_def)
  show "same_attrs st (add_item i st)"
  proof (cases "n = [] \<or> it_name_to_item st n \<in> {None, Some i}")
    case False
    then obtain e where "n \<noteq> []" "it_name_to_item st n = Some e" "e \<noteq> i" by auto
    from conflict[OF this] m show ?thesis by (metis same_attrs_trans)
  qed (use quiet in blast)
  show "it_items (add_item i st) = set_key_in i (it_items st) \<and> it_name_to_item (add_item i st) = (it_name_to_item st)(n \<mapsto> i)"
    if "n = [] \<or> it_name_to_item st n = None" using quiet that by blast
  show "it_items (add_item i st) = set_key_in e (it_items st) \<and> it_name_to_item (add_item i st) = (it_name_to_item st)(n \<mapsto> e)"
    if h: "n \<noteq> []" "it_name_to_item st n = Some e" "e \<noteq> i" "definition_order st e < definition_order st i"
  proof -
    obtain k st1 where c: "manage_conflict i e n st = (k, st1)" "it_items (add_item i st) = set_key_in k (it_items st1)"
      "it_name_to_item (add_item i st) = (it_name_to_item st1)(n \<mapsto> k)"
      using conflict[OF h(1-3)] by blast
    from m[OF c(1)] h(4) c(2,3) show ?thesis by simp
  qed
  show "it_items (add_item i st) = set_key_in i (filter (\<lambda>j. j \<noteq> e) (it_items st)) \<and>
      it_name_to_item (add_item i st) = (it_name_to_item st)(item_name st e := None, n \<mapsto> i)"
    if h: "n \<noteq> []" "it_name_to_item st n = Some e" "e \<noteq> i" "\<not> definition_order st e < definition_order st i"
  proof -
    obtain k st1 where c: "manage_conflict i e n st = (k, st1)" "it_items (add_item i st) = set_key_in k (it_items st1)"
      "it_name_to_item (add_item i st) = (it_name_to_item st1)(n \<mapsto> k)"
      using conflict[OF h(1-3)] by blast
    from m[OF c(1)] h(4) c(2,3) show ?thesis by simp
  qed
qed

text \<open>The reference: of the definitions of one name the last of the lowest order.\<close>

definition better :: "(nat \<Rightarrow> int) \<Rightarrow> nat \<Rightarrow> nat option \<Rightarrow> nat option" where
  "better order i b = (case b of None \<Rightarrow> Some i | Some e \<Rightarrow> if order e < order i then Some e else Some i)"

lemma fold_better:
  "fold (better order) xs None = (case fold (better order) xs None of None \<Rightarrow> None | Some k \<Rightarrow> Some k)"
  by (simp split: option.split)

lemma best_is_last_lowest:
  assumes "xs \<noteq> []"
  shows "\<exists>k ys zs. fold (better order) xs None = Some k \<and> xs = ys @ k # zs \<and>
    (\<forall>j \<in> set ys. order k \<le> order j) \<and> (\<forall>j \<in> set zs. order k < order j)"
  using assms
proof (induction xs rule: rev_induct)
  case (snoc x xs)
  show ?case
  proof (cases "xs = []")
    case True
    then show ?thesis by (auto simp: better_def intro!: exI[of _ "[]"])
  next
    case False
    with snoc.IH obtain k ys zs where IH: "fold (better order) xs None = Some k" "xs = ys @ k # zs"
      "\<forall>j \<in> set ys. order k \<le> order j" "\<forall>j \<in> set zs. order k < order j" by blast
    show ?thesis
    proof (cases "order k < order x")
      case True
      with IH have "fold (better order) (xs @ [x]) None = Some k \<and> xs @ [x] = ys @ k # (zs @ [x]) \<and>
          (\<forall>j \<in> set ys. order k \<le> order j) \<and> (\<forall>j \<in> set (zs @ [x]). order k < order j)"
        by (auto simp: better_def)
      then show ?thesis by blast
    next
      case False
      with IH have "fold (better order) (xs @ [x]) None = Some x \<and> xs @ [x] = xs @ x # [] \<and>
          (\<forall>j \<in> set xs. order x \<le> order j) \<and> (\<forall>j \<in> set []. order x < order j)"
        by (auto simp: better_def)
      then show ?thesis by blast
    qed
  qed
qed simp

definition named :: "objs \<Rightarrow> string \<Rightarrow> nat list \<Rightarrow> nat list" where
  "named st n = filter (\<lambda>i. \<not> is_tpl (it_obj st i) \<and> item_name st i = n)"

definition index_ok :: "objs \<Rightarrow> nat list \<Rightarrow> objs \<Rightarrow> bool" where
  "index_ok st0 ids st \<longleftrightarrow> same_attrs st0 st \<and> set (it_items st) \<subseteq> set ids \<and>
     (\<forall>n. n \<noteq> [] \<longrightarrow> it_name_to_item st n = fold (better (definition_order st0)) (named st0 n ids) None) \<and>
     (\<forall>n k. n \<noteq> [] \<and> it_name_to_item st n = Some k \<longrightarrow> k \<in> set (it_items st) \<and> item_name st0 k = n) \<and>
     (\<forall>i \<in> set (it_items st). item_name st0 i \<noteq> [] \<longrightarrow> it_name_to_item st (item_name st0 i) = Some i)"

lemma add_item_ok:
  assumes ok: "index_ok st0 ids st" and i: "i \<notin> set ids" "\<not> is_tpl (it_obj st0 i)"
  shows "index_ok st0 (ids @ [i]) (add_item i st)"
proof -
  define n where "n = item_name st0 i"
  have attrs: "same_attrs st0 st" and sub: "set (it_items st) \<subseteq> set ids"
    and best: "\<And>n. n \<noteq> [] \<Longrightarrow> it_name_to_item st n = fold (better (definition_order st0)) (named st0 n ids) None"
    and kept: "\<And>n k. n \<noteq> [] \<Longrightarrow> it_name_to_item st n = Some k \<Longrightarrow> k \<in> set (it_items st) \<and> item_name st0 k = n"
    and uniq: "\<And>i. i \<in> set (it_items st) \<Longrightarrow> item_name st0 i \<noteq> [] \<Longrightarrow> it_name_to_item st (item_name st0 i) = Some i"
    using ok by (auto simp: index_ok_def)
  note reads = same_attrs_reads[OF attrs]
  have tpl: "\<not> is_tpl (it_obj st i)" and name: "n = item_name st i" using i(2) by (simp_all add: reads n_def)
  have named: "named st0 m (ids @ [i]) = named st0 m ids @ (if m = n then [i] else [])" for m
    using i(2) by (simp add: named_def n_def)
  note eff = add_item_effect[OF tpl name]
  have same: "same_attrs st0 (add_item i st)" by (rule same_attrs_trans[OF attrs eff(1)])
  consider (quiet) "n = [] \<or> it_name_to_item st n = None" | (conflict) e where "n \<noteq> []" "it_name_to_item st n = Some e"
    by (cases "it_name_to_item st n") auto
  then show ?thesis
  proof cases
    case quiet
    note e = eff(2)[OF quiet]
    have new: "it_name_to_item st n = None" if "n \<noteq> []" using quiet that by blast
    show ?thesis unfolding index_ok_def
    proof (intro conjI allI impI ballI)
      show "set (it_items (add_item i st)) \<subseteq> set (ids @ [i])" using sub e by (auto simp: set_key_in_def)
      show "it_name_to_item (add_item i st) m = fold (better (definition_order st0)) (named st0 m (ids @ [i])) None"
        if "m \<noteq> []" for m
        using best[OF that] new that e by (auto simp: named better_def)
      show "k \<in> set (it_items (add_item i st))" "item_name st0 k = m"
        if "m \<noteq> [] \<and> it_name_to_item (add_item i st) m = Some k" for m k
        using kept[of m k] that e by (auto simp: set_key_in_def n_def split: if_splits)
      show "it_name_to_item (add_item i st) (item_name st0 j) = Some j"
        if "j \<in> set (it_items (add_item i st))" "item_name st0 j \<noteq> []" for j
        using uniq[of j] new that e by (auto simp: set_key_in_def n_def split: if_splits)
    qed (rule same)
  next
    case (conflict e)
    have e: "e \<in> set (it_items st)" "item_name st0 e = n" "e \<noteq> i" using kept[OF conflict] sub i(1) by auto
    have b: "fold (better (definition_order st0)) (named st0 n ids) None = Some e" using best[OF conflict(1)] conflict(2) by simp
    have only: "j = e" if "j \<in> set (it_items st)" "item_name st0 j = n" for j
      using uniq[OF that(1)] that(2) conflict by auto
    show ?thesis
    proof (cases "definition_order st0 e < definition_order st0 i")
      case True
      with eff(3)[OF conflict e(3)] e(1) have st': "it_items (add_item i st) = it_items st"
        "it_name_to_item (add_item i st) = (it_name_to_item st)(n \<mapsto> e)"
        by (auto simp: reads set_key_in_def)
      from conflict(2) have "(it_name_to_item st)(n \<mapsto> e) = it_name_to_item st" by (rule fun_upd_idem)
      note st' = st'[unfolded this]
      show ?thesis unfolding index_ok_def st'
      proof (intro conjI allI impI ballI)
        show "it_name_to_item st m = fold (better (definition_order st0)) (named st0 m (ids @ [i])) None" if "m \<noteq> []" for m
          using best[OF that] b True by (auto simp: named better_def)
        show "k \<in> set (it_items st)" "item_name st0 k = m" if "m \<noteq> [] \<and> it_name_to_item st m = Some k" for m k
          using kept[of m k] that by auto
      qed (use same sub uniq in auto)
    next
      case False
      with eff(4)[OF conflict e(3)] i(1) sub have st':
        "it_items (add_item i st) = filter (\<lambda>j. j \<noteq> e) (it_items st) @ [i]"
        "it_name_to_item (add_item i st) = (it_name_to_item st)(n \<mapsto> i)"
        by (auto simp: reads set_key_in_def e(2))
      show ?thesis unfolding index_ok_def
      proof (intro conjI allI impI ballI)
        show "set (it_items (add_item i st)) \<subseteq> set (ids @ [i])" using sub st' by auto
        show "it_name_to_item (add_item i st) m = fold (better (definition_order st0)) (named st0 m (ids @ [i])) None"
          if "m \<noteq> []" for m
          using best[OF that] b False st' by (auto simp: named better_def)
        show "k \<in> set (it_items (add_item i st))" "item_name st0 k = m"
          if "m \<noteq> [] \<and> it_name_to_item (add_item i st) m = Some k" for m k
          using kept[of m k] that st' e(2) by (auto simp: n_def split: if_splits)
        show "it_name_to_item (add_item i st) (item_name st0 j) = Some j"
          if "j \<in> set (it_items (add_item i st))" "item_name st0 j \<noteq> []" for j
          using uniq[of j] only[of j] that st' by (auto simp: n_def)
      qed (rule same)
    qed
  qed
qed

lemma add_items_ok:
  assumes "index_ok st0 ids st" "distinct (ids @ new)"
  shows "index_ok st0 (ids @ new) (add_items new st)"
  using assms
proof (induction new arbitrary: ids st)
  case Nil
  then show ?case by (simp add: add_items_def)
next
  case (Cons i new)
  have attrs: "same_attrs st0 st" using Cons.prems(1) by (simp add: index_ok_def)
  let ?st = "if is_tpl (it_obj st i) then add_template i st else add_item i st"
  have "index_ok st0 (ids @ [i]) ?st"
  proof (cases "is_tpl (it_obj st i)")
    case True
    have "named st0 n (ids @ [i]) = named st0 n ids" for n using True by (simp add: named_def same_attrs_reads[OF attrs])
    with add_template_noted[OF True] Cons.prems(1) True show ?thesis
      by (auto simp: index_ok_def noted_def intro: same_attrs_trans)
  next
    case False
    with add_item_ok[OF Cons.prems(1), of i] Cons.prems(2) show ?thesis by (simp add: same_attrs_reads[OF attrs])
  qed
  from Cons.IH[OF this] Cons.prems(2) show ?case by (simp add: add_items_def)
qed

text \<open>C37: of the definitions with one name exactly one is kept and found by the name: the last among those
  of the lowest definition order.\<close>

theorem kept_definition:
  fixes st ids n
  defines "st' \<equiv> add_items ids st"
    and "ds \<equiv> filter (\<lambda>i. \<not> is_tpl (it_obj st i) \<and> item_name st i = n) ids"
  assumes "distinct ids" "it_items st = []" "it_name_to_item st = Map.empty" "n \<noteq> []" "ds \<noteq> []"
  shows "\<exists>k ys zs. it_name_to_item st' n = Some k \<and> ds = ys @ k # zs \<and>
    (\<forall>j \<in> set ys. definition_order st k \<le> definition_order st j) \<and>
    (\<forall>j \<in> set zs. definition_order st k < definition_order st j) \<and>
    (\<forall>j. j \<in> set (it_items st') \<and> item_name st' j = n \<longleftrightarrow> j = k)"
proof -
  have "index_ok st [] st" using assms(4,5) by (auto simp: index_ok_def named_def)
  from add_items_ok[OF this] assms(3) have ok: "index_ok st ids st'" by (simp add: st'_def)
  obtain k ys zs where k: "fold (better (definition_order st)) ds None = Some k" "ds = ys @ k # zs"
    "\<forall>j \<in> set ys. definition_order st k \<le> definition_order st j"
    "\<forall>j \<in> set zs. definition_order st k < definition_order st j"
    using best_is_last_lowest[OF assms(7)] by blast
  have "it_name_to_item st' n = fold (better (definition_order st)) (named st n ids) None"
    using ok assms(6) unfolding index_ok_def by blast
  then have found: "it_name_to_item st' n = Some k" using k(1) by (simp only: named_def ds_def)
  have "same_attrs st st'" using ok by (simp add: index_ok_def)
  note reads = same_attrs_reads[OF this]
  have "j \<in> set (it_items st') \<and> item_name st j = n \<longleftrightarrow> j = k" for j
  proof
    assume j: "j \<in> set (it_items st') \<and> item_name st j = n"
    then have "it_name_to_item st' (item_name st j) = Some j" using ok assms(6) unfolding index_ok_def by blast
    with j found show "j = k" by simp
  next
    assume "j = k"
    with found assms(6) ok show "j \<in> set (it_items st') \<and> item_name st j = n" unfolding index_ok_def by blast
  qed
  then show ?thesis using k found by (auto simp: reads)
qed

subsection \<open>Inheritance is a search\<close>

text \<open>The reference: the own value, or the first value of a template that is not false.\<close>

fun inherited :: "nat \<Rightarrow> string \<Rightarrow> objs \<Rightarrow> nat \<Rightarrow> pv option" where
  "inherited 0 p st i = None"
| "inherited (Suc n) p st i =
     (case attr p (it_obj st i) of
        Some v \<Rightarrow> Some v
      | None \<Rightarrow> (case filter truthy (List.map_filter (inherited n p st) (ob_templates (it_obj st i))) of
          [] \<Rightarrow> None | v # _ \<Rightarrow> Some v))"

text \<open>Nobody adds to the property, nobody sets it to \<^verbatim>\<open>null\<close>, and templates are linked without loops.\<close>

definition plain :: "string \<Rightarrow> objs \<Rightarrow> bool" where
  "plain p st \<longleftrightarrow> p \<noteq> ''register'' \<and> (\<forall>i. \<not> has_plus p (it_obj st i)) \<and>
     (\<forall>i v. attr p (it_obj st i) = Some v \<longrightarrow> \<not> marked v \<and> v \<noteq> Str ''null'')"

definition ranked :: "(nat \<Rightarrow> nat) \<Rightarrow> objs \<Rightarrow> bool" where
  "ranked rank st \<longleftrightarrow> (\<forall>i. \<forall>t \<in> set (ob_templates (it_obj st i)). rank t < rank i)"

lemma inherited_stable:
  assumes "ranked rank st" "rank i < n" "rank i < m"
  shows "inherited n p st i = inherited m p st i"
  using assms(2,3)
proof (induction n arbitrary: i m)
  case (Suc n)
  then obtain m' where m: "m = Suc m'" by (cases m) auto
  have "inherited n p st t = inherited m' p st t" if "t \<in> set (ob_templates (it_obj st i))" for t
    using Suc.IH[of t m'] Suc.prems that assms(1) by (fastforce simp: m ranked_def)
  then have "List.map_filter (inherited n p st) (ob_templates (it_obj st i)) =
      List.map_filter (inherited m' p st) (ob_templates (it_obj st i))"
    by (auto simp: List.map_filter_def intro!: map_cong filter_cong)
  then show ?case by (simp only: m inherited.simps)
qed simp

text \<open>What a search leaves behind: objects that had no value may have got the one that they inherit.\<close>

definition memoized :: "(nat \<Rightarrow> nat) \<Rightarrow> string \<Rightarrow> objs \<Rightarrow> objs \<Rightarrow> bool" where
  "memoized rank p st st' \<longleftrightarrow> it_class st' = it_class st \<and> it_items st' = it_items st \<and> it_templates st' = it_templates st \<and>
     (\<forall>i. ob_templates (it_obj st' i) = ob_templates (it_obj st i) \<and> ob_plus (it_obj st' i) = ob_plus (it_obj st i) \<and>
       (attr p (it_obj st' i) = attr p (it_obj st i) \<or>
        (attr p (it_obj st i) = None \<and> attr p (it_obj st' i) = inherited (Suc (rank i)) p st i)))"

lemma memoized_refl [simp]: "memoized rank p st st" by (simp add: memoized_def)

lemma memoized_ranked: "memoized rank p st st' \<Longrightarrow> ranked rank st \<Longrightarrow> ranked rank st'"
  by (simp add: memoized_def ranked_def)

lemma filter_map_Some: "filter P (List.map_filter f xs) = List.map_filter (\<lambda>x. case f x of None \<Rightarrow> None | Some v \<Rightarrow> if P v then Some v else None) xs"
  by (induction xs) (auto simp: List.map_filter_def split: option.splits)

lemma memoized_inherited:
  assumes "memoized rank p st st'" "ranked rank st"
  shows "rank i < n \<Longrightarrow> inherited n p st' i = inherited n p st i"
proof (induction n arbitrary: i)
  case (Suc n)
  have sub: "inherited n p st' t = inherited n p st t" if "t \<in> set (ob_templates (it_obj st i))" for t
    using Suc.IH[of t] Suc.prems that assms(2) by (fastforce simp: ranked_def)
  have tpls: "ob_templates (it_obj st' i) = ob_templates (it_obj st i)" using assms(1) by (simp add: memoized_def)
  have eq: "List.map_filter (inherited n p st') (ob_templates (it_obj st i)) =
      List.map_filter (inherited n p st) (ob_templates (it_obj st i))"
    using sub by (auto simp: List.map_filter_def intro!: map_cong filter_cong)
  have "attr p (it_obj st' i) = attr p (it_obj st i) \<or>
      (attr p (it_obj st i) = None \<and> attr p (it_obj st' i) = inherited (Suc n) p st i)"
    using assms(1) inherited_stable[OF assms(2), of i "Suc (rank i)" "Suc n"] Suc.prems
    unfolding memoized_def by (metis lessI)
  then show ?case
  proof
    assume "attr p (it_obj st' i) = attr p (it_obj st i)"
    then show ?thesis by (simp only: inherited.simps tpls eq)
  next
    assume a: "attr p (it_obj st i) = None \<and> attr p (it_obj st' i) = inherited (Suc n) p st i"
    show ?thesis
    proof (cases "inherited (Suc n) p st i")
      case None
      with a have "attr p (it_obj st' i) = attr p (it_obj st i)" by simp
      then show ?thesis by (simp only: inherited.simps tpls eq)
    next
      case (Some v)
      with a show ?thesis by simp
    qed
  qed
qed simp

lemma memoized_trans:
  assumes "memoized rank p a b" "memoized rank p b c" "ranked rank a"
  shows "memoized rank p a c"
  using assms memoized_inherited[OF assms(1,3)] unfolding memoized_def by (metis lessI)

lemma inherited_source: "inherited n p st i = Some v \<Longrightarrow> \<exists>j. attr p (it_obj st j) = Some v"
proof (induction n arbitrary: i)
  case (Suc n)
  show ?case
  proof (cases "attr p (it_obj st i)")
    case None
    let ?vs = "List.map_filter (inherited n p st) (ob_templates (it_obj st i))"
    from None Suc.prems obtain vs where "filter truthy ?vs = v # vs" by (auto split: list.splits)
    then have "v \<in> set (filter truthy ?vs)" by (simp only: list.set_intros(1))
    then have "v \<in> set ?vs" by (meson filter_is_subset subsetD)
    then obtain t where "inherited n p st t = Some v" by (auto simp: List.map_filter_def)
    then show ?thesis by (rule Suc.IH)
  qed (use Suc.prems in auto)
qed simp

lemma memoized_plain:
  assumes "memoized rank p st st'" "plain p st"
  shows "plain p st'"
proof -
  have "\<exists>j. attr p (it_obj st j) = Some v" if "attr p (it_obj st' i) = Some v" for i v
    using assms(1) that inherited_source unfolding memoized_def by metis
  moreover have "has_plus p (it_obj st' i) = has_plus p (it_obj st i)" for i
    using assms(1) by (simp add: memoized_def has_plus_def)
  ultimately show ?thesis using assms(2) unfolding plain_def by metis
qed

definition first_value :: "nat \<Rightarrow> string \<Rightarrow> objs \<Rightarrow> nat list \<Rightarrow> pv option" where
  "first_value n p st ts = (case filter truthy (List.map_filter (inherited n p st) ts) of [] \<Rightarrow> None | v # _ \<Rightarrow> Some v)"

lemma inherited_templates:
  "attr p (it_obj st i) = None \<Longrightarrow> inherited (Suc n) p st i = first_value n p st (ob_templates (it_obj st i))"
  by (simp add: first_value_def)

lemma first_value_simps:
  "first_value n p st [] = None"
  "first_value n p st (t # ts) = (case inherited n p st t of
     Some v \<Rightarrow> if truthy v then Some v else first_value n p st ts | None \<Rightarrow> first_value n p st ts)"
  by (auto simp: first_value_def List.map_filter_def split: option.split)

definition searched :: "(nat \<Rightarrow> nat) \<Rightarrow> string \<Rightarrow> nat \<Rightarrow> objs \<Rightarrow> objs \<Rightarrow> bool" where
  "searched rank p i st st' \<longleftrightarrow> memoized rank p st st' \<and>
     (\<forall>j. j \<noteq> i \<and> rank i \<le> rank j \<longrightarrow> it_obj st' j = it_obj st j)"

definition finds :: "(nat \<Rightarrow> nat) \<Rightarrow> string \<Rightarrow> nat \<Rightarrow> bool" where
  "finds rank p n \<longleftrightarrow> (\<forall>st i. ranked rank st \<and> plain p st \<and> rank i < n \<longrightarrow>
     (\<exists>st'. get_property_by_inheritance n p i st = Some (inherited n p st i, st') \<and> searched rank p i st st' \<and>
       attr p (it_obj st' i) = inherited n p st i))"

lemma join_plain: "attr p (it_obj st i) = None \<Longrightarrow> \<not> marked v \<Longrightarrow> join_value p i v st = Some v"
  by (cases v) (simp_all add: join_value_def)

lemma first_value_cong:
  assumes "memoized rank p st st'" "ranked rank st" "\<forall>t \<in> set ts. rank t < n"
  shows "first_value n p st' ts = first_value n p st ts"
  using assms(3) by (induction ts) (auto simp: first_value_simps memoized_inherited[OF assms(1,2)] split: option.split)

lemma inherit_from_search:
  assumes "finds rank p n" "ranked rank st" "plain p st" "\<forall>t \<in> set ts. rank t < n \<and> rank t < rank i"
    "attr p (it_obj st i) = None" "inherited (Suc n) p st i = first_value n p st ts" "rank i < Suc n"
  shows "\<exists>st'. inherit_from n p i ts st = Some (inherited (Suc n) p st i, st') \<and> searched rank p i st st' \<and>
    attr p (it_obj st' i) = inherited (Suc n) p st i"
  using assms(2-6)
proof (induction ts arbitrary: st)
  case Nil
  then show ?case by (simp add: only_additions_def plain_def first_value_simps searched_def)
next
  case (Cons t ts)
  obtain st1 where 1: "get_property_by_inheritance n p t st = Some (inherited n p st t, st1)" "searched rank p t st st1"
    using assms(1) Cons.prems unfolding finds_def by fastforce
  have memo: "memoized rank p st st1" and ti: "t \<noteq> i" "rank t \<le> rank i" using 1(2) Cons.prems(3) by (auto simp: searched_def)
  have same: "it_obj st1 j = it_obj st j" if "rank i \<le> rank j" for j
    using 1(2) Cons.prems(3) that by (cases "j = t") (auto simp: searched_def)
  have none: "attr p (it_obj st1 i) = None" using 1(2) ti Cons.prems(4) by (simp add: searched_def)
  note inh = memoized_inherited[OF memo Cons.prems(1)]
  show ?case
  proof (cases "inherited n p st t = None \<or> \<not> truthy (the (inherited n p st t))")
    case True
    then have skip: "inherit_from n p i (t # ts) st = inherit_from n p i ts st1" and
      first: "first_value n p st (t # ts) = first_value n p st ts"
      using 1(1) by (auto simp: first_value_simps split: option.split)
    have "inherited (Suc n) p st1 i = first_value n p st1 ts"
      using inh[OF assms(7)] first Cons.prems(3,5) first_value_cong[OF memo Cons.prems(1)] by simp
    from Cons.IH[OF memoized_ranked[OF memo Cons.prems(1)] memoized_plain[OF memo Cons.prems(2)] _ none this] Cons.prems(3)
    obtain st' where st': "inherit_from n p i ts st1 = Some (inherited (Suc n) p st1 i, st')" "searched rank p i st1 st'"
      "attr p (it_obj st' i) = inherited (Suc n) p st1 i" by auto
    moreover have "searched rank p i st st'"
      using st'(2) same memoized_trans[OF memo _ Cons.prems(1)] by (simp add: searched_def)
    ultimately show ?thesis by (simp only: skip inh[OF assms(7)]) blast
  next
    case False
    then obtain v where v: "inherited n p st t = Some v" "truthy v" by auto
    obtain j where "attr p (it_obj st j) = Some v" using inherited_source[OF v(1)] by blast
    then have m: "\<not> marked v" using Cons.prems(2) by (auto simp: plain_def)
    have val: "inherited (Suc n) p st i = Some v" using Cons.prems(5) v by (simp add: first_value_simps)
    let ?st2 = "upd_obj i (set_attr p v) st1"
    have plus: "\<not> has_plus p (it_obj st1 i)" using memoized_plain[OF memo Cons.prems(2)] by (simp add: plain_def)
    have "inherit_from n p i (t # ts) st = Some (Some v, ?st2)"
      using 1(1) v m plus by (simp add: join_plain[OF none m] final_value_def upd_obj_def set_attr_def has_plus_def)
    moreover have "attr p (it_obj ?st2 i) = Some v" by (simp add: upd_obj_def set_attr_def attr_def update_Some_unfold)
    moreover have "searched rank p i st ?st2"
    proof -
      have "inherited (Suc (rank i)) p st i = Some v"
        using inherited_stable[OF Cons.prems(1), of i "Suc (rank i)" "Suc n"] assms(7) val by simp
      then show ?thesis
        using memo same Cons.prems(4) none
        by (auto simp: searched_def memoized_def upd_obj_def set_attr_def attr_def update_Some_unfold)
    qed
    ultimately show ?thesis by (simp only: val) blast
  qed
qed

lemma finds_all: "finds rank p n"
proof (induction n)
  case 0
  then show ?case by (simp add: finds_def)
next
  case (Suc n)
  show ?case unfolding finds_def
  proof (intro allI impI)
    fix st i assume a: "ranked rank st \<and> plain p st \<and> rank i < Suc n"
    then have reg: "p \<noteq> ''register''" and plus: "\<not> has_plus p (it_obj st i)" by (simp_all add: plain_def)
    show "\<exists>st'. get_property_by_inheritance (Suc n) p i st = Some (inherited (Suc n) p st i, st') \<and>
        searched rank p i st st' \<and> attr p (it_obj st' i) = inherited (Suc n) p st i"
    proof (cases "attr p (it_obj st i)")
      case (Some v)
      with reg plus show ?thesis by (auto simp: own_value_def searched_def)
    next
      case None
      have "\<forall>t \<in> set (ob_templates (it_obj st i)). rank t < n \<and> rank t < rank i"
        using a by (fastforce simp: ranked_def)
      from inherit_from_search[OF Suc.IH _ _ this None inherited_templates[of p st i n, OF None]] a
      show ?thesis using None reg by simp
    qed
  qed
qed

lemma apply_searches:
  assumes "ranked rank st" "plain p st" "\<forall>i \<in> set is. rank i \<le> INHERITANCE_DEEP_LIMIT"
  shows "\<exists>st'. apply_partial_inheritance p is st = Some st' \<and> memoized rank p st st' \<and>
    (\<forall>i \<in> set is. attr p (it_obj st' i) = inherited (Suc INHERITANCE_DEEP_LIMIT) p st i)"
  using assms
proof (induction "is" arbitrary: st)
  case (Cons i "is")
  let ?n = "Suc INHERITANCE_DEEP_LIMIT"
  have i: "rank i < ?n" using Cons.prems(3) by simp
  obtain st1 where 1: "get_property_by_inheritance ?n p i st = Some (inherited ?n p st i, st1)" "searched rank p i st st1"
    "attr p (it_obj st1 i) = inherited ?n p st i"
    using finds_all[of rank p ?n] Cons.prems(1,2) i unfolding finds_def by blast
  have memo: "memoized rank p st st1" using 1(2) by (simp add: searched_def)
  note ranked = memoized_ranked[OF memo Cons.prems(1)] and plain = memoized_plain[OF memo Cons.prems(2)]
  have nonull: "attr p (it_obj st1 i) \<noteq> Some (Str ''null'')" using plain by (auto simp: plain_def)
  obtain st' where st': "apply_partial_inheritance p is st1 = Some st'" "memoized rank p st1 st'"
    "\<forall>j \<in> set is. attr p (it_obj st' j) = inherited ?n p st1 j"
    using Cons.IH[OF ranked plain] Cons.prems(3) by auto
  have inh: "inherited ?n p st1 j = inherited ?n p st j" if "j = i \<or> j \<in> set is" for j
    using memoized_inherited[OF memo Cons.prems(1), of j ?n] Cons.prems(3) that by auto
  have "attr p (it_obj st' i) = inherited ?n p st i"
  proof -
    have "inherited (Suc (rank i)) p st1 i = inherited ?n p st i"
      using inherited_stable[OF ranked, of i "Suc (rank i)" ?n] i inh by simp
    with st'(2) 1(3) show ?thesis unfolding memoized_def by metis
  qed
  with st' inh 1(1) nonull memoized_trans[OF memo st'(2) Cons.prems(1)] show ?case by (auto simp: bind_eq_Some_conv)
qed simp


subsection \<open>Additions along a chain of templates\<close>

definition unmarked :: "pv list \<Rightarrow> pv list" where
  "unmarked = filter (\<lambda>x. x \<noteq> plus_mark)"

text \<open>A chain: every object has the next one as its only template, the last one has the value, the others may add.\<close>

fun chain :: "string \<Rightarrow> objs \<Rightarrow> nat list \<Rightarrow> bool" where
  "chain p st [] \<longleftrightarrow> False"
| "chain p st [i] \<longleftrightarrow> (\<exists>xs. attr p (it_obj st i) = Some (Lst xs) \<and> xs \<noteq> [] \<and> plus_mark \<notin> set xs) \<and>
     \<not> has_plus p (it_obj st i)"
| "chain p st (i # j # ks) \<longleftrightarrow> attr p (it_obj st i) = None \<and> ob_templates (it_obj st i) = [j] \<and>
     plus_mark \<notin> set (plus_of p (it_obj st i)) \<and> is_tpl (it_obj st j) \<and> chain p st (j # ks)"

fun collected :: "string \<Rightarrow> objs \<Rightarrow> nat list \<Rightarrow> pv list" where
  "collected p st [] = []"
| "collected p st [i] = (case attr p (it_obj st i) of Some (Lst xs) \<Rightarrow> xs | _ \<Rightarrow> [])"
| "collected p st (i # j # ks) = collected p st (j # ks) @ plus_of p (it_obj st i)"

lemma chain_cong:
  assumes "\<forall>i \<in> set ks. it_obj st' i = it_obj st i"
  shows "chain p st' ks = chain p st ks" "collected p st' ks = collected p st ks"
  using assms by (induction p st ks rule: chain.induct) simp_all

lemma additions_join:
  fixes xs as p ob
  defines "ys \<equiv> if marked (Lst xs) \<and> \<not> is_tpl ob then filter (\<lambda>x. x \<noteq> plus_mark) xs else xs"
  defines "zs \<equiv> if has_plus p ob then mark ob (ys @ plus_of p ob) else ys"
  assumes "unmarked xs \<noteq> []" "plus_mark \<in> set xs \<longrightarrow> hd xs = plus_mark" "plus_mark \<notin> set (plus_of p ob)"
  shows "zs \<noteq> []" "unmarked zs = unmarked xs @ plus_of p ob" "plus_mark \<in> set zs \<longrightarrow> is_tpl ob \<and> hd zs = plus_mark"
proof -
  have m: "marked (Lst xs) \<longleftrightarrow> plus_mark \<in> set xs" using assms(4) by (cases xs) (auto simp: marked_def)
  have ys: "unmarked ys = unmarked xs" "plus_mark \<in> set ys \<longrightarrow> is_tpl ob \<and> hd ys = plus_mark" "ys \<noteq> []"
    using assms(3,4) m by (auto simp: ys_def unmarked_def filter_empty_conv)
  have plus: "unmarked (plus_of p ob) = plus_of p ob" "\<not> has_plus p ob \<Longrightarrow> plus_of p ob = []"
    using assms(5) by (auto simp: unmarked_def filter_id_conv has_plus_def plus_of_def)
  have split: "unmarked (a @ b) = unmarked a @ unmarked b" "unmarked (plus_mark # a) = unmarked a" for a b
    by (simp_all add: unmarked_def)
  show "zs \<noteq> []" using ys(3) by (simp add: zs_def mark_def)
  show "unmarked zs = unmarked xs @ plus_of p ob" using ys(1) plus by (simp add: zs_def mark_def split)
  show "plus_mark \<in> set zs \<longrightarrow> is_tpl ob \<and> hd zs = plus_mark"
    using ys(2,3) assms(5) by (auto simp: zs_def mark_def)
qed

lemma chain_step:
  assumes get: "get_property_by_inheritance m p j st = Some (Some (Lst xs), st1)"
    and xs: "xs \<noteq> []" "unmarked xs \<noteq> []" "plus_mark \<in> set xs \<longrightarrow> hd xs = plus_mark"
    and i: "attr p (it_obj st i) = None" "it_obj st1 i = it_obj st i" "ob_templates (it_obj st i) = [j]"
      "plus_mark \<notin> set (plus_of p (it_obj st i))" "p \<noteq> ''register''"
  shows "\<exists>zs st'. get_property_by_inheritance (Suc m) p i st = Some (Some (Lst zs), st') \<and> zs \<noteq> [] \<and>
    unmarked zs = unmarked xs @ plus_of p (it_obj st i) \<and> (\<forall>k. k \<noteq> i \<longrightarrow> it_obj st' k = it_obj st1 k) \<and>
    attr p (it_obj st' i) = Some (Lst zs) \<and> (plus_mark \<in> set zs \<longrightarrow> is_tpl (it_obj st i) \<and> hd zs = plus_mark)"
proof -
  let ?ob = "it_obj st i"
  define ys where "ys = (if marked (Lst xs) \<and> \<not> is_tpl ?ob then filter (\<lambda>x. x \<noteq> plus_mark) xs else xs)"
  define zs where "zs = (if has_plus p ?ob then mark ?ob (ys @ plus_of p ?ob) else ys)"
  define st2 where "st2 = upd_obj i (set_attr p (Lst ys)) st1"
  define st3 where "st3 = (if has_plus p ?ob then upd_obj i (set_attr p (Lst zs) \<circ> del_plus p) st2 else st2)"
  note facts = additions_join[OF xs(2,3) i(4), folded ys_def, folded zs_def]
  have join: "join_value p i (Lst xs) st1 = Some (Lst ys)" using i(1,2) by (simp add: join_value_def ys_def)
  have ob2: "attr p (it_obj st2 i) = Some (Lst ys)" "has_plus p (it_obj st2 i) = has_plus p ?ob"
    "plus_of p (it_obj st2 i) = plus_of p ?ob" "mark (it_obj st2 i) = mark ?ob"
    using i(2,5) by (auto simp: st2_def upd_obj_def set_attr_def attr_def has_plus_def plus_of_def mark_def is_tpl_def
      update_Some_unfold update_conv' fun_eq_iff split: option.split)
  have "only_additions p i st2 = Some (Some (Lst zs), st3)" "final_value p i (Lst ys) st2 = Some (Lst zs, st3)"
    using ob2 by (simp_all add: only_additions_def final_value_def zs_def st3_def Let_def)
  then have "get_property_by_inheritance (Suc m) p i st = Some (Some (Lst zs), st3)"
    using get xs(1) i(1,3,5) join by (simp add: st2_def[symmetric])
  moreover have "attr p (it_obj st3 i) = Some (Lst zs)"
    using ob2(1) by (auto simp: st3_def zs_def upd_obj_def set_attr_def attr_def update_conv')
  moreover have "\<forall>k. k \<noteq> i \<longrightarrow> it_obj st3 k = it_obj st1 k" by (simp add: st3_def st2_def upd_obj_def)
  ultimately show ?thesis using facts by blast
qed

lemma collected_nonempty: "chain p st ks \<Longrightarrow> collected p st ks \<noteq> []"
  by (induction p st ks rule: chain.induct) auto

lemma chain_collects:
  assumes "chain p st ks" "distinct ks" "length ks \<le> n" "p \<noteq> ''register''"
  shows "\<exists>xs st'. get_property_by_inheritance n p (hd ks) st = Some (Some (Lst xs), st') \<and> xs \<noteq> [] \<and>
    unmarked xs = collected p st ks \<and> (\<forall>i. i \<notin> set ks \<longrightarrow> it_obj st' i = it_obj st i) \<and>
    attr p (it_obj st' (hd ks)) = Some (Lst xs) \<and> (plus_mark \<in> set xs \<longrightarrow> is_tpl (it_obj st (hd ks)) \<and> hd xs = plus_mark)"
  using assms
proof (induction p st ks arbitrary: n rule: chain.induct)
  case (2 p st i)
  then obtain m where "n = Suc m" by (cases n) auto
  with 2 show ?case by (auto simp: own_value_def unmarked_def filter_id_conv)
next
  case (3 p st i j ks)
  then obtain m where n: "n = Suc m" by (cases n) auto
  obtain xs st1 where IH: "get_property_by_inheritance m p j st = Some (Some (Lst xs), st1)" "xs \<noteq> []"
    "unmarked xs = collected p st (j # ks)" "\<forall>k. k \<notin> set (j # ks) \<longrightarrow> it_obj st1 k = it_obj st k"
    "plus_mark \<in> set xs \<longrightarrow> hd xs = plus_mark"
    using 3 n by fastforce
  from 3 have c: "chain p st (j # ks)" and i: "attr p (it_obj st i) = None" "ob_templates (it_obj st i) = [j]"
    "plus_mark \<notin> set (plus_of p (it_obj st i))" "p \<noteq> ''register''" "i \<notin> set (j # ks)" by auto
  have "unmarked xs \<noteq> []" using collected_nonempty[OF c] IH(3) by simp
  from chain_step[OF IH(1,2) this IH(5) i(1) _ i(2,3,4)] IH(4) i(5)
  obtain zs st' where "get_property_by_inheritance (Suc m) p i st = Some (Some (Lst zs), st') \<and> zs \<noteq> [] \<and>
    unmarked zs = unmarked xs @ plus_of p (it_obj st i) \<and> (\<forall>k. k \<noteq> i \<longrightarrow> it_obj st' k = it_obj st1 k) \<and>
    attr p (it_obj st' i) = Some (Lst zs) \<and> (plus_mark \<in> set zs \<longrightarrow> is_tpl (it_obj st i) \<and> hd zs = plus_mark)" by blast
  with IH(3,4) show ?case by (auto simp: n)
qed simp

text \<open>C39: an object that has no value of its own gets the list of the template at the end of its chain, followed by what
  the templates between them and the object itself add, from the end of the chain to the object; the \<^verbatim>\<open>+\<close> by which
  templates tell their sons that there is more to search does not get into the value of an object that is no template.\<close>

theorem chain_adds:
  assumes "chain p st (i # ks)" "distinct (i # ks)" "length (i # ks) \<le> Suc INHERITANCE_DEEP_LIMIT"
    "p \<noteq> ''register''" "\<not> is_tpl (it_obj st i)" "ks \<noteq> []"
  shows "\<exists>st'. apply_partial_inheritance p [i] st = Some st' \<and>
    attr p (it_obj st' i) = Some (Lst (collected p st (i # ks)))"
proof -
  from chain_collects[OF assms(1-4)] assms(5) obtain xs st' where
    "get_property_by_inheritance (Suc INHERITANCE_DEEP_LIMIT) p i st = Some (Some (Lst xs), st')"
    "unmarked xs = collected p st (i # ks)" "attr p (it_obj st' i) = Some (Lst xs)" "plus_mark \<notin> set xs" by auto
  moreover from this(4) have "unmarked xs = xs" by (auto simp: unmarked_def filter_id_conv)
  ultimately show ?thesis by auto
qed

subsection \<open>The search for tags\<close>

lemma those_defined: "those xs \<noteq> None \<longleftrightarrow> None \<notin> set xs"
  by (induction xs) (auto split: option.split)

lemma tags_defined:
  "get_all_tags (Suc n) st i \<noteq> None \<longleftrightarrow> (\<forall>t \<in> set (ob_templates (it_obj st i)). get_all_tags n st t \<noteq> None)"
  by (auto simp: those_defined image_iff simp del: not_None_eq)

lemma tags_more_fuel: "get_all_tags n st i \<noteq> None \<Longrightarrow> n \<le> m \<Longrightarrow> get_all_tags m st i \<noteq> None"
proof (induction n arbitrary: i m)
  case (Suc n)
  then obtain m' where "m = Suc m'" "n \<le> m'" by (cases m) auto
  with Suc show ?case by (simp only: tags_defined) blast
qed simp

lemma endless_template:
  assumes "\<forall>n. get_all_tags n st i = None"
  shows "\<exists>t \<in> set (ob_templates (it_obj st i)). \<forall>n. get_all_tags n st t = None"
proof (rule ccontr)
  assume "\<not> ?thesis"
  then have "\<forall>t \<in> set (ob_templates (it_obj st i)). \<exists>n. get_all_tags n st t \<noteq> None" by blast
  then obtain fuel where fuel: "\<forall>t \<in> set (ob_templates (it_obj st i)). get_all_tags (fuel t) st t \<noteq> None" by metis
  let ?n = "Max (fuel ` set (ob_templates (it_obj st i)))"
  have "get_all_tags (Suc ?n) st i \<noteq> None"
    using fuel tags_more_fuel by (simp only: tags_defined) (meson Max_ge finite_imageI finite_set imageI)
  with spec[OF assms, of "Suc ?n"] show False by (simp only: simp_thms)
qed

text \<open>C40: the search for the tags of an object runs into the limit of the recursion exactly when an endless path of
  templates starts at the object.\<close>

theorem tags_need_no_loop:
  "(\<forall>n. get_all_tags n st i = None) \<longleftrightarrow>
    (\<exists>f. f 0 = i \<and> (\<forall>k. f (Suc k) \<in> set (ob_templates (it_obj st (f k)))))"
proof
  assume i: "\<forall>n. get_all_tags n st i = None"
  have "\<exists>f. \<forall>k. ((\<forall>n. get_all_tags n st (f k) = None) \<and> (k = 0 \<longrightarrow> f k = i)) \<and>
      f (Suc k) \<in> set (ob_templates (it_obj st (f k)))"
    by (rule dependent_nat_choice) (use i endless_template in blast)+
  then show "\<exists>f. f 0 = i \<and> (\<forall>k. f (Suc k) \<in> set (ob_templates (it_obj st (f k))))" by blast
next
  assume "\<exists>f. f 0 = i \<and> (\<forall>k. f (Suc k) \<in> set (ob_templates (it_obj st (f k))))"
  then obtain f where f: "f 0 = i" "\<And>k. f (Suc k) \<in> set (ob_templates (it_obj st (f k)))" by blast
  have "get_all_tags n st (f k) = None" for n k
  proof (induction n arbitrary: k)
    case (Suc n)
    then show ?case using f(2) tags_defined by blast
  qed simp
  from this[of _ 0] f(1) show "\<forall>n. get_all_tags n st i = None" by simp
qed

lemma set_tags_reads:
  assumes "\<forall>n. get_all_tags n st i = None" "i \<in> set ks"
  shows "set_tags n ks st = None"
  using assms
proof (induction ks arbitrary: st)
  case (Cons k ks)
  have same: "get_all_tags m (upd_obj k (\<lambda>ob. ob\<lparr>ob_tags := tags\<rparr>) st) j = get_all_tags m st j" for m j tags
  proof (induction m arbitrary: j)
    case (Suc m)
    have u: "ob_templates (it_obj (upd_obj k (\<lambda>ob. ob\<lparr>ob_tags := tags\<rparr>) st) j) = ob_templates (it_obj st j)"
      "get_templates (it_obj (upd_obj k (\<lambda>ob. ob\<lparr>ob_tags := tags\<rparr>) st) j) = get_templates (it_obj st j)"
      "tpl_name (upd_obj k (\<lambda>ob. ob\<lparr>ob_tags := tags\<rparr>) st) j = tpl_name st j" for j
      by (simp_all add: upd_obj_def get_templates_def tpl_name_def text_attr_def attr_def)
    show ?case by (simp only: get_all_tags.simps u Suc)
  qed simp
  show ?case
  proof (cases "k = i")
    case False
    with Cons.prems Cons.IH[of "upd_obj k (\<lambda>ob. ob\<lparr>ob_tags := tags\<rparr>) st" for tags] show ?thesis
      by (auto simp: same bind_eq_None_conv split: option.split)
  qed (use Cons.prems in simp)
qed simp

text \<open>The loop is not reported then: the check for loops comes after the tags.\<close>

lemma loop_raises_before_its_check:
  assumes "i \<in> set (it_items st)" "\<forall>n. get_all_tags n (fold linkify_item_templates (all_objects st) st) i = None"
  shows "linkify_templates n st = None"
proof -
  have "it_items (fold linkify_item_templates ks st) = it_items st" for ks
    by (induction ks arbitrary: st) (simp_all add: linkify_item_templates_def upd_obj_def Let_def)
  with assms show ?thesis by (simp add: linkify_templates_def set_tags_reads)
qed

subsection \<open>Instances\<close>

definition a_class :: obj_class where
  "a_class = \<lparr>oc_properties = [(''contact_groups'', P_list True), (''check_interval'', P_integer)], oc_running_properties = [],
     oc_old_properties = [], oc_name_property = ''host_name''\<rparr>"

definition templated :: "(string \<times> pv) list \<Rightarrow> (string \<times> pv list) list \<Rightarrow> nat list \<Rightarrow> obj" where
  "templated attrs adds tpls = empty_obj\<lparr>ob_attrs := attrs, ob_plus := adds, ob_templates := tpls\<rparr>"

definition some_objs :: "(nat \<Rightarrow> obj) \<Rightarrow> nat list \<Rightarrow> nat list \<Rightarrow> objs" where
  "some_objs obj items tpls = \<lparr>it_class = a_class, it_strict = False, it_obj = obj, it_items = items, it_templates = tpls,
     it_name_to_item = Map.empty, it_name_to_template = Map.empty, it_warnings = [], it_errors = []\<rparr>"

text \<open>Three definitions of one host: the second and the third have the lower order.\<close>

definition three_definitions :: objs where
  "three_definitions = some_objs (\<lambda>i. templated ((''host_name'', Str ''web'') #
     (if i = 0 then [] else [(''definition_order'', Num 50)])) [] []) [] []"

theorem kept_definition_witness:
  "\<exists>k ys zs. it_name_to_item (add_items [0, 1, 2] three_definitions) ''web'' = Some k \<and> [0, 1, 2] = ys @ k # zs \<and>
    (\<forall>j \<in> set ys. definition_order three_definitions k \<le> definition_order three_definitions j) \<and>
    (\<forall>j \<in> set zs. definition_order three_definitions k < definition_order three_definitions j) \<and>
    (\<forall>j. j \<in> set (it_items (add_items [0, 1, 2] three_definitions)) \<and>
      item_name (add_items [0, 1, 2] three_definitions) j = ''web'' \<longleftrightarrow> j = k)"
proof -
  have ds: "filter (\<lambda>i. \<not> is_tpl (it_obj three_definitions i) \<and> item_name three_definitions i = ''web'') [0, 1, 2] = [0, 1, 2]"
    by (simp add: three_definitions_def some_objs_def templated_def a_class_def is_tpl_def item_name_def text_attr_def attr_def)
  show ?thesis
    using kept_definition[of "[0, 1, 2]" three_definitions "''web''", unfolded ds]
    by (simp add: three_definitions_def some_objs_def)
qed

text \<open>A host with two templates: the interval of the first is 0 and is passed over.\<close>

definition zero_first :: objs where
  "zero_first = some_objs (\<lambda>i. if i = 0 then templated [(''host_name'', Str ''web'')] [] [1, 2]
     else if i = 1 then templated [(''register'', Num 0), (''check_interval'', Num 0)] [] []
     else if i = 2 then templated [(''register'', Num 0), (''check_interval'', Num 5)] [] [] else templated [] [] []) [0] [1, 2]"


text \<open>A host that adds to a template that adds to a template.\<close>

definition three_groups :: objs where
  "three_groups = some_objs (\<lambda>i. if i = 0 then templated [(''host_name'', Str ''web'')] [(''contact_groups'', [Str ''web'']) ] [1]
     else if i = 1 then templated [(''register'', Num 0)] [(''contact_groups'', [Str ''linux''])] [2]
     else templated [(''register'', Num 0), (''contact_groups'', Lst [Str ''admins''])] [] []) [0] [1, 2]"

theorem chain_adds_witness:
  "\<exists>st'. apply_partial_inheritance ''contact_groups'' [0] three_groups = Some st' \<and>
    attr ''contact_groups'' (it_obj st' 0) = Some (Lst [Str ''admins'', Str ''linux'', Str ''web''])"
proof -
  note defs = three_groups_def some_objs_def templated_def empty_obj_def attr_def has_plus_def plus_of_def is_tpl_def plus_mark_def
  have "chain ''contact_groups'' three_groups [0, 1, 2]" "\<not> is_tpl (it_obj three_groups 0)"
    "collected ''contact_groups'' three_groups [0, 1, 2] = [Str ''admins'', Str ''linux'', Str ''web'']"
    by (simp_all add: defs)
  then show ?thesis
    using chain_adds[of "''contact_groups''" three_groups 0 "[1, 2]"] by (simp add: INHERITANCE_DEEP_LIMIT_def)
qed

end
