(* ===== verification/Spec2Isabelle.thy ===== *)
theory Spec2Isabelle
  imports Graph NotificationRules Scheduling Flapping DowntimeRules Queues CommandRules BusinessRules DispatchRules
    Assignments Dispatching PackRules TemplateRules
begin

text \<open>
  Shinken monitors hosts and services. An \<^emph>\<open>arbiter\<close> reads the configuration, cuts it into parts and gives a part to
  every \<^emph>\<open>scheduler\<close>; a scheduler plans the checks of its hosts and services, hands them to \<^emph>\<open>pollers\<close>, consumes
  the results, and tells \<^emph>\<open>reactionners\<close> to notify contacts and run event handlers; \<^emph>\<open>brokers\<close> get the trace of all of
  it, and \<^emph>\<open>receivers\<close> take commands and passive results from outside. This library models the scheduler with the
  objects it works on, the external commands that reach it, the business rules, how the definitions inherit from templates,
  the cut of the configuration, and the dispatcher with which the arbiter gives the parts to the daemons and looks after
  them, as the Python code under \<^verbatim>\<open>src/shinken/\<close> has them.

  \<^bold>\<open>Conventions.\<close> A method is a definition with the name of the method. Objects that the code shares and mutates live in
  one store, the record \<^verbatim>\<open>world\<close>: hosts and services (\<^verbatim>\<open>items\<close>), checks, notifications, event handlers, comments,
  downtimes, contacts, each under its identifier, so that aliasing is equality of identifiers; a method takes the store
  and returns it changed. Python's integers are \<^typ>\<open>int\<close>, the clock is a whole number of seconds, floats are exact
  rationals (\<^typ>\<open>rat\<close>), texts are strings of characters. An exception ends an operation with \<^term>\<open>None\<close>; where the
  kind of the exception is caught somewhere, it is a value of a sum type. What the code asks the operating system, the
  network, a random generator or a module for is a parameter: the clock \<^verbatim>\<open>now\<close>, the record \<^verbatim>\<open>env\<close> of the scheduler,
  the record \<^verbatim>\<open>surroundings\<close> of the external commands, the record \<^verbatim>\<open>catalog\<close> of the business rules,
  the record \<^verbatim>\<open>chance\<close> of the cut (the order of sets and the random choice), the record \<^verbatim>\<open>outside\<close> of the dispatcher. Its network is a function from everything that was asked so far to an answer, so a
  theorem over all networks is one over every behaviour of the daemons.

  \<^bold>\<open>The theories and the code.\<close>
  \<^item> \<^verbatim>\<open>Prelude\<close>: vocabulary, collections of rewrite rules, generic lemmas.
  \<^item> \<^verbatim>\<open>Graph\<close> (\<^verbatim>\<open>graph.py\<close>): the graph of dependencies. The loop search is the depth first search of the code with its
    marks; its correctness is an invariant over the marks, and the accessibility packs are the connected components.
  \<^item> \<^verbatim>\<open>Calendar\<close>, \<^verbatim>\<open>Daterange\<close>, \<^verbatim>\<open>Timeperiod\<close> (\<^verbatim>\<open>util.py\<close>, \<^verbatim>\<open>daterange.py\<close>, \<^verbatim>\<open>objects/timeperiod.py\<close>): civil dates, time
    ranges, date ranges of six kinds, and the searches for the next valid and invalid second with their caches.
  \<^item> \<^verbatim>\<open>World\<close>, \<^verbatim>\<open>Defaults\<close>, \<^verbatim>\<open>Logs\<close>, \<^verbatim>\<open>Contacts\<close>, \<^verbatim>\<open>Notifications\<close>, \<^verbatim>\<open>Downtimes\<close>, \<^verbatim>\<open>Problems\<close>, \<^verbatim>\<open>Checks\<close>, \<^verbatim>\<open>Consume\<close>
    (\<^verbatim>\<open>objects/schedulingitem.py\<close>, \<^verbatim>\<open>objects/host.py\<close>, \<^verbatim>\<open>objects/service.py\<close>, \<^verbatim>\<open>objects/item.py\<close>, \<^verbatim>\<open>objects/contact.py\<close>,
    \<^verbatim>\<open>objects/notificationway.py\<close>, \<^verbatim>\<open>objects/escalation.py\<close>, \<^verbatim>\<open>check.py\<close>, \<^verbatim>\<open>notification.py\<close>, \<^verbatim>\<open>eventhandler.py\<close>, \<^verbatim>\<open>downtime.py\<close>,
    \<^verbatim>\<open>comment.py\<close>, \<^verbatim>\<open>acknowledge.py\<close>, \<^verbatim>\<open>contactdowntime.py\<close>): the store and the operations on hosts and services up to
    \<^verbatim>\<open>consume_result\<close>, which turns the result of a check into states, notifications, downtimes, problems and impacts.
  \<^item> \<^verbatim>\<open>Frames\<close>, \<^verbatim>\<open>Results\<close>: what these operations leave alone. The locale \<^verbatim>\<open>item_view\<close> derives from the effect on one
    attribute view that an operation keeps it through all the loops; it is interpreted for the SOFT/HARD machine and for
    the states.
  \<^item> \<^verbatim>\<open>Machine\<close>, \<^verbatim>\<open>NotificationRules\<close>, \<^verbatim>\<open>Scheduling\<close>, \<^verbatim>\<open>Flapping\<close>, \<^verbatim>\<open>DowntimeRules\<close>: the properties of the objects. \<^verbatim>\<open>hs_step\<close> is
    an abstract SOFT/HARD machine that \<^verbatim>\<open>consume_state_result\<close> refines; reachability is the step relation \<^verbatim>\<open>world_step\<close>.
    The locale \<^verbatim>\<open>period_provider\<close> is what scheduling expects of a time period, interpreted on weekly periods.
  \<^item> \<^verbatim>\<open>Scheduler\<close>, \<^verbatim>\<open>Queues\<close> (\<^verbatim>\<open>scheduler.py\<close>, \<^verbatim>\<open>daemons/schedulerdaemon.py\<close>, \<^verbatim>\<open>daemon.py\<close>): the queues of a scheduler, what a
    satellite gets and returns, and one turn of the main loop. The locale \<^verbatim>\<open>dispatcher\<close> is the loop that hands out
    actions, interpreted for the checks of pollers and for the actions of reactionners.
  \<^item> \<^verbatim>\<open>Texts\<close> (\<^verbatim>\<open>util.py\<close>, \<^verbatim>\<open>commandcall.py\<close>, \<^verbatim>\<open>action.py\<close>): the parsers of command lines, numbers and plugin outputs.
  \<^item> \<^verbatim>\<open>Handlers\<close>, \<^verbatim>\<open>Commands\<close>, \<^verbatim>\<open>CommandRules\<close> (\<^verbatim>\<open>external_command.py\<close>): the methods of the external commands, the table and
    the parser that calls them, and their properties.
  \<^item> \<^verbatim>\<open>BusinessRules\<close> (\<^verbatim>\<open>dependencynode.py\<close>): the tree of a business rule, its state and its parser.
  \<^item> \<^verbatim>\<open>Satellites\<close> (\<^verbatim>\<open>objects/satellitelink.py\<close>, \<^verbatim>\<open>schedulerlink.py\<close>, \<^verbatim>\<open>receiverlink.py\<close>, \<^verbatim>\<open>arbiterlink.py\<close>): the link of the arbiter
    to a daemon, when it is alive, and its requests. \<^verbatim>\<open>Dispatch\<close> (\<^verbatim>\<open>dispatcher.py\<close>, \<^verbatim>\<open>objects/realm.py\<close>,
    \<^verbatim>\<open>daemons/arbiterdaemon.py\<close>): links, realms and parts of the configuration in the record \<^verbatim>\<open>cluster\<close>, and the operations of
    the dispatcher on it. \<^verbatim>\<open>Small_Cluster\<close> is the example at which the theorems are tried.
  \<^item> \<^verbatim>\<open>DispatchRules\<close>: the locale \<^verbatim>\<open>link_invariant\<close> carries what the requests keep of one link through a turn of the arbiter;
    it is interpreted for the health of the links. \<^verbatim>\<open>Assignments\<close>: parts and schedulers point at each other in every run
    of the arbiter (the step relation \<^verbatim>\<open>arbiter_run\<close>). \<^verbatim>\<open>Dispatching\<close>: the parts go to the schedulers in order, and where the
    dispatcher does not come to rest.
  \<^item> \<^verbatim>\<open>Packs\<close>, \<^verbatim>\<open>PackRules\<close> (\<^verbatim>\<open>objects/config.py\<close>): the packs of linked hosts, from the components of \<^verbatim>\<open>Graph\<close>, and their spread over
    the schedulers of a realm. Linked hosts stay together, every host is in one part, the load is not what the code means it
    to be, and the parts are a state in which the run of the arbiter of \<^verbatim>\<open>Assignments\<close> can start.
  \<^item> \<^verbatim>\<open>Templates\<close>, \<^verbatim>\<open>TemplateRules\<close> (\<^verbatim>\<open>objects/item.py\<close>, \<^verbatim>\<open>property.py\<close>): how a definition is read, which of two of one name is
    kept, and what is inherited from templates: a search without additions, a concatenation along a chain with them.

  \<^bold>\<open>Fuel.\<close> Recursion over the graph of objects (problems and impacts, dependencies, downtimes that trigger others) and the
  day by day searches of the time periods take a bound. The searches need one step per day of the year that the code
  itself stops after, so they carry that bound and no other. The recursions over objects end in the code when no
  dependency loop exists, which \<^verbatim>\<open>Graph.loop_check\<close> tests; they take the fuel \<^verbatim>\<open>env_fuel\<close>, and when it runs out the result is
  \<^term>\<open>None\<close>. So do the walks down the tree of the realms (\<^verbatim>\<open>ou_fuel\<close>) and the loop that pushes the broks of the arbiter, which ends
  within as many turns as there are broks when the broker answers, and never when it does not. The tags of an object are searched
  through its templates with no guard, so that the end of the fuel is the error of Python's recursion; inheritance stops at a
  depth that the code itself fixes. The loop search of \<^verbatim>\<open>Graph\<close> and the parsers end by measures, with no bound.

  \<^bold>\<open>Not modelled.\<close> Time zones are a fixed offset from UTC. A host or service has the attributes that the modelled methods
  read or write. Triggers and modulations by macros are parameters or kept symbolic: resolving macros in command lines is
  not part of the model, and neither are the output templates of business rules. Reading the files of the configuration, the links
  of the objects by their names and the checks of the whole configuration, retention and statistics, the sockets, the processes
  and the modules of the daemons, and the web interface are not modelled; \<^verbatim>\<open>ADD_SIMPLE_POLLER\<close> is a parameter.
\<close>

end
